(* ===== verification/Prelude.thy ===== *)
theory Prelude
  imports Complex_Main "HOL-Library.Word" "HOL-Library.Multiset"
    "HOL-Library.List_Lexorder" "HOL-Library.Char_ord" "HOL-Library.Product_Lexorder"
begin

text \<open>
  What every component of the gateway shares: the conventions of the model, the
  collections of rewrite rules the component proofs draw on, and generic lemmas on
  lists, sorting and association lists.

  Conventions. A Go function that returns only an \<open>error\<close> is a function into an
  \<open>option\<close> (\<open>None\<close> is \<open>nil\<close>); one that returns \<open>(value, error)\<close> is a function into
  a sum whose left part is the error. A Go string is its byte list (theory Go_Strings).
  A Go \<open>int\<close> is a HOL \<open>int\<close>; where a product or a sum could leave 64 bits the
  wrap-around is written out with \<open>wrap64\<close>. A \<open>time.Time\<close> is an \<open>int\<close> of
  microseconds (the resolution of a database timestamp), a \<open>time.Duration\<close> an \<open>int\<close> of
  nanoseconds.
\<close>

named_theorems ledger_simps \<open>unfoldings of the durable job ledger\<close>
named_theorems store_simps \<open>unfoldings of the task stores\<close>
named_theorems config_simps \<open>unfoldings of the configuration checks\<close>
named_theorems dispatch_simps \<open>unfoldings of the dispatcher\<close>

type_synonym go_time = int
type_synonym go_duration = int
type_synonym bytes = string

text \<open>The errors of a \<open>context.Context\<close>.\<close>

datatype ctx_error = Canceled | DeadlineExceeded

section \<open>Machine integers\<close>

text \<open>Two's complement reduction of an integer result to Go's 64-bit \<open>int\<close>.\<close>

definition wrap64 :: "int \<Rightarrow> int" where
  "wrap64 x = (x + 2 ^ 63) mod 2 ^ 64 - 2 ^ 63"

lemma wrap64_id: "- (2 ^ 63) \<le> x \<Longrightarrow> x < 2 ^ 63 \<Longrightarrow> wrap64 x = x"
  by (simp add: wrap64_def)

text \<open>Go's integer division truncates towards zero.\<close>

definition go_div :: "int \<Rightarrow> int \<Rightarrow> int" where
  "go_div a b = sgn a * sgn b * (\<bar>a\<bar> div \<bar>b\<bar>)"

lemma go_div_nonneg: "0 \<le> a \<Longrightarrow> 0 < b \<Longrightarrow> go_div a b = a div b"
  by (cases "a = 0") (simp_all add: go_div_def)

text \<open>\<open>time.Duration.Milliseconds\<close>: whole milliseconds of a duration in nanoseconds.\<close>

definition duration_ms :: "go_duration \<Rightarrow> int" where
  "duration_ms d = go_div d 1000000"

definition millisecond :: go_duration where "millisecond = 1000000"
definition second :: go_duration where "second = 1000000000"
definition hour :: go_duration where "hour = 3600 * second"

lemma duration_ms_nonneg: "0 \<le> d \<Longrightarrow> 0 \<le> duration_ms d"
  by (simp add: duration_ms_def go_div_nonneg)

lemma duration_ms_pos: "millisecond \<le> d \<Longrightarrow> 0 < duration_ms d"
  by (simp add: duration_ms_def go_div_nonneg millisecond_def pos_imp_zdiv_pos_iff)

section \<open>Invariants of step relations\<close>

text \<open>
  A property that every step of a transition system keeps, and so every history. The
  ledger, the memory store and the worker pool are instances.
\<close>

locale preserved =
  fixes step :: "'a \<Rightarrow> 'a \<Rightarrow> bool" and inv :: "'a \<Rightarrow> bool"
  assumes inv_step: "step s s' \<Longrightarrow> inv s \<Longrightarrow> inv s'"
begin

lemma inv_star: "step\<^sup>*\<^sup>* s s' \<Longrightarrow> inv s \<Longrightarrow> inv s'"
  by (induction rule: rtranclp_induct) (simp_all add: inv_step)

end

section \<open>Lists\<close>

text \<open>A loop over a slice that returns at the first element a test selects is \<open>find\<close>.\<close>

lemma find_SomeD: "find P xs = Some x \<Longrightarrow> x \<in> set xs \<and> P x"
  by (auto simp: find_Some_iff)

lemma find_None_list_all: "find P xs = None \<longleftrightarrow> (\<forall>x\<in>set xs. \<not> P x)"
  by (auto simp: find_None_iff)

lemma find_map_same:
  "(\<And>x. P (f x) = P x) \<Longrightarrow> find P (map f xs) = map_option f (find P xs)"
  by (induction xs) auto

lemma length_dropWhile_less_Suc [simp]: "length (dropWhile P xs) < Suc (length xs)"
  by (simp add: le_imp_less_Suc length_dropWhile_le)

lemma dropWhile_rev_empty: "dropWhile P (rev xs) = [] \<longleftrightarrow> (\<forall>x\<in>set xs. P x)"
  by simp

lemma sum_list_map_member_le:
  fixes f :: "'a \<Rightarrow> nat"
  shows "x \<in> set xs \<Longrightarrow> f x \<le> sum_list (map f xs)"
  by (induction xs) auto

lemma distinct_map_find_eq:
  assumes "distinct (map k xs)" and "x \<in> set xs"
  shows "find (\<lambda>y. k y = k x) xs = Some x"
  using assms by (induction xs) auto

lemma map_ext_key:
  "(\<And>x. x \<in> set xs \<Longrightarrow> k (f x) = k x) \<Longrightarrow> map k (map f xs) = map k xs"
  by (induction xs) auto

section \<open>Sorting\<close>

text \<open>\<open>sort.Slice\<close> and \<open>ORDER BY\<close> are \<open>sort_key\<close> with the comparison's key.\<close>

lemma set_take_sort_key: "x \<in> set (take n (sort_key f xs)) \<Longrightarrow> x \<in> set xs"
  by (metis in_set_takeD set_sort)

lemma distinct_take_sort_key: "distinct xs \<Longrightarrow> distinct (take n (sort_key f xs))"
  by (simp add: distinct_take)

lemma take_sort_key_min:
  assumes "x \<in> set (take n (sort_key f xs))"
    and "y \<in> set xs" and "y \<notin> set (take n (sort_key f xs))"
  shows "f x \<le> f y"
proof -
  let ?ys = "sort_key f xs"
  from assms(2,3) have y: "y \<in> set (drop n ?ys)"
    by (metis Un_iff append_take_drop_id set_append set_sort)
  have "sorted (map f (take n ?ys) @ map f (drop n ?ys))"
    by (metis append_take_drop_id map_append sorted_sort_key)
  then show ?thesis using assms(1) y by (auto simp: sorted_append)
qed

end
