(* ===== verification/Go_Strings.thy ===== *)
theory Go_Strings
  imports Prelude
begin

text \<open>
  Go strings. A Go string is a sequence of bytes; \<open>utf8.RuneCountInString\<close>,
  \<open>strings.TrimSpace\<close>, \<open>strings.EqualFold\<close> and the conversions to and from \<open>[]rune\<close>
  read it as UTF-8, an ill-formed byte being one replacement rune U+FFFD of width one.
  This theory defines that reading (\<open>decode_rune\<close>, \<open>segs\<close>, \<open>runes\<close>, \<open>encode_rune\<close>) and
  the string functions the gateway calls, and shows that encoding and decoding are
  inverse and that trimming never adds runes. The case tables of Unicode beyond ASCII
  are data of the Go library and stay parameters (\<open>unicode_tables\<close>).
\<close>

section \<open>UTF-8\<close>

abbreviation byte :: "char \<Rightarrow> nat" where
  "byte c \<equiv> of_char c"

definition rune_error :: nat where "rune_error = 65533"

definition is_cont :: "char \<Rightarrow> bool" where
  "is_cont c \<longleftrightarrow> 128 \<le> byte c \<and> byte c \<le> 191"

text \<open>The accepted range of the second byte depends on the first.\<close>

definition second_lo :: "nat \<Rightarrow> nat" where
  "second_lo b = (if b = 224 then 160 else if b = 240 then 144 else 128)"

definition second_hi :: "nat \<Rightarrow> nat" where
  "second_hi b = (if b = 237 then 159 else if b = 244 then 143 else 191)"

definition is_second :: "nat \<Rightarrow> char \<Rightarrow> bool" where
  "is_second b c \<longleftrightarrow> second_lo b \<le> byte c \<and> byte c \<le> second_hi b"

text \<open>\<open>utf8.DecodeRuneInString\<close> on a non-empty string: the rune and its width.\<close>

fun decode_rune :: "string \<Rightarrow> nat \<times> nat" where
  "decode_rune [] = (rune_error, 0)"
| "decode_rune (c0 # s) =
     (let b = byte c0 in
      if b < 128 then (b, 1)
      else if 194 \<le> b \<and> b \<le> 223 then
        (case s of
           c1 # _ \<Rightarrow> if is_second b c1 then ((b - 192) * 64 + (byte c1 - 128), 2) else (rune_error, 1)
         | [] \<Rightarrow> (rune_error, 1))
      else if 224 \<le> b \<and> b \<le> 239 then
        (case s of
           c1 # c2 # _ \<Rightarrow> if is_second b c1 \<and> is_cont c2
             then ((b - 224) * 4096 + (byte c1 - 128) * 64 + (byte c2 - 128), 3)
             else (rune_error, 1)
         | _ \<Rightarrow> (rune_error, 1))
      else if 240 \<le> b \<and> b \<le> 244 then
        (case s of
           c1 # c2 # c3 # _ \<Rightarrow> if is_second b c1 \<and> is_cont c2 \<and> is_cont c3
             then ((b - 240) * 262144 + (byte c1 - 128) * 4096 + (byte c2 - 128) * 64
                   + (byte c3 - 128), 4)
             else (rune_error, 1)
         | _ \<Rightarrow> (rune_error, 1))
      else (rune_error, 1))"

text \<open>The segmentation of a string into runes, each with the bytes it was read from.\<close>

fun segs :: "string \<Rightarrow> (nat \<times> string) list" where
  "segs [] = []"
| "segs (c # s) =
     (let rw = decode_rune (c # s)
      in (fst rw, c # take (snd rw - 1) s) # segs (drop (snd rw - 1) s))"

definition runes :: "string \<Rightarrow> nat list" where
  "runes s = map fst (segs s)"

text \<open>\<open>utf8.RuneCountInString\<close>.\<close>

definition rune_count :: "string \<Rightarrow> nat" where
  "rune_count s = length (segs s)"

definition valid_rune :: "nat \<Rightarrow> bool" where
  "valid_rune r \<longleftrightarrow> r < 55296 \<or> 57344 \<le> r \<and> r \<le> 1114111"

text \<open>\<open>utf8.AppendRune\<close>: an invalid rune is written as U+FFFD.\<close>

definition encode_valid :: "nat \<Rightarrow> string" where
  "encode_valid r =
     (if r < 128 then [char_of r]
      else if r < 2048 then [char_of (192 + r div 64), char_of (128 + r mod 64)]
      else if r < 65536 then
        [char_of (224 + r div 4096), char_of (128 + r div 64 mod 64), char_of (128 + r mod 64)]
      else
        [char_of (240 + r div 262144), char_of (128 + r div 4096 mod 64),
         char_of (128 + r div 64 mod 64), char_of (128 + r mod 64)])"

definition encode_rune :: "nat \<Rightarrow> string" where
  "encode_rune r = encode_valid (if valid_rune r then r else rune_error)"

text \<open>The conversion \<open>string([]rune)\<close>.\<close>

definition of_runes :: "nat list \<Rightarrow> string" where
  "of_runes rs = concat (map encode_rune rs)"

lemma decode_rune_width: "s \<noteq> [] \<Longrightarrow> 1 \<le> snd (decode_rune s) \<and> snd (decode_rune s) \<le> length s"
  by (cases s) (auto simp: Let_def split: list.splits)

lemma concat_segs [simp]: "concat (map snd (segs s)) = s"
  by (induction s rule: segs.induct) (auto simp: Let_def)

lemma segs_nonempty: "(r, b) \<in> set (segs s) \<Longrightarrow> b \<noteq> []"
  by (induction s rule: segs.induct) (auto simp: Let_def)

lemma segs_eq_Nil [simp]: "segs s = [] \<longleftrightarrow> s = []"
  by (cases s) (auto simp: Let_def)

lemma rune_count_Nil [simp]: "rune_count [] = 0"
  by (simp add: rune_count_def)

lemma rune_count_eq_0 [simp]: "rune_count s = 0 \<longleftrightarrow> s = []"
  by (simp add: rune_count_def)

lemma rune_count_le_length: "rune_count s \<le> length s"
  unfolding rune_count_def
  by (induction s rule: segs.induct) (auto simp: Let_def)

lemma length_runes [simp]: "length (runes s) = rune_count s"
  by (simp add: runes_def rune_count_def)

subsection \<open>Decoding what was encoded\<close>

lemma byte_char_of: "n < 256 \<Longrightarrow> byte (char_of n) = n"
  by simp

text \<open>A rune is put together again from its base-64 digits.\<close>

lemma digits2: "(r::nat) div 64 * 64 + r mod 64 = r"
  by simp

lemma digits3: "(r::nat) div 4096 * 4096 + r div 64 mod 64 * 64 + r mod 64 = r"
proof -
  have d: "r div 4096 = r div 64 div 64" by (simp add: div_mult2_eq [symmetric])
  show ?thesis unfolding d using digits2 [of r] digits2 [of "r div 64"] by linarith
qed

lemma digits4:
  "(r::nat) div 262144 * 262144 + r div 4096 mod 64 * 4096 + r div 64 mod 64 * 64 + r mod 64 = r"
proof -
  have d: "r div 262144 = r div 64 div 4096" "r div 4096 = r div 64 div 64"
    by (simp_all add: div_mult2_eq [symmetric])
  show ?thesis unfolding d using digits3 [of "r div 64"] digits2 [of r] by linarith
qed

lemma decode_two:
  assumes "2 \<le> a" "a < 32" "b < 64"
  shows "decode_rune (char_of (192 + a) # char_of (128 + b) # s) = (a * 64 + b, 2)"
  using assms by (simp add: Let_def is_second_def second_lo_def second_hi_def)

lemma decode_three:
  assumes "a < 16" "b < 64" "c < 64" "a = 0 \<Longrightarrow> 32 \<le> b" "a = 13 \<Longrightarrow> b < 32"
  shows "decode_rune (char_of (224 + a) # char_of (128 + b) # char_of (128 + c) # s)
    = (a * 4096 + b * 64 + c, 3)"
  using assms
  by (auto simp: Let_def is_second_def second_lo_def second_hi_def is_cont_def)

lemma decode_four:
  assumes "a < 5" "b < 64" "c < 64" "d < 64" "a = 0 \<Longrightarrow> 16 \<le> b" "a = 4 \<Longrightarrow> b < 16"
  shows "decode_rune (char_of (240 + a) # char_of (128 + b) # char_of (128 + c) # char_of (128 + d) # s)
    = (a * 262144 + b * 4096 + c * 64 + d, 4)"
  using assms
  by (auto simp: Let_def is_second_def second_lo_def second_hi_def is_cont_def)

lemma decode_encode_valid:
  assumes "valid_rune r"
  shows "decode_rune (encode_valid r @ s) = (r, length (encode_valid r))"
proof -
  consider "r < 128" | "128 \<le> r" "r < 2048" | "2048 \<le> r" "r < 65536" | "65536 \<le> r"
    by linarith
  then show ?thesis
  proof cases
    case 1
    then show ?thesis by (simp add: encode_valid_def Let_def)
  next
    case 2
    then have "2 \<le> r div 64" "r div 64 < 32" "\<not> r < 128" by auto
    with decode_two [of "r div 64" "r mod 64" s] 2 digits2 [of r] show ?thesis
      by (simp add: encode_valid_def del: decode_rune.simps)
  next
    case 3
    have d: "r div 4096 = r div 64 div 64" by (simp add: div_mult2_eq [symmetric])
    have b: "r div 64 < 1024" "32 \<le> r div 64" using 3 by auto
    have lo: "r div 4096 = 0 \<Longrightarrow> 32 \<le> r div 64 mod 64" using b unfolding d by simp
    have hi: "r div 4096 = 13 \<Longrightarrow> r div 64 mod 64 < 32"
    proof -
      assume a: "r div 4096 = 13"
      then have "r < 57344" by auto
      then have "r < 55296" using assms by (auto simp: valid_rune_def)
      then have "r div 64 < 864" by auto
      moreover have "r div 64 = 13 * 64 + r div 64 mod 64"
        using a digits2 [of "r div 64"] unfolding d by simp
      ultimately show ?thesis by simp
    qed
    from b have "r div 4096 < 16" unfolding d by auto
    with decode_three [of "r div 4096" "r div 64 mod 64" "r mod 64" s] lo hi 3 digits3 [of r]
    show ?thesis by (simp add: encode_valid_def del: decode_rune.simps)
  next
    case 4
    with assms have r: "r \<le> 1114111" by (auto simp: valid_rune_def)
    have d: "r div 262144 = r div 4096 div 64" by (simp add: div_mult2_eq [symmetric])
    have b: "r div 4096 < 272" "16 \<le> r div 4096" using 4 r by auto
    have lo: "r div 262144 = 0 \<Longrightarrow> 16 \<le> r div 4096 mod 64" using b unfolding d by simp
    have hi: "r div 262144 = 4 \<Longrightarrow> r div 4096 mod 64 < 16"
      using b digits2 [of "r div 4096"] unfolding d by simp
    from b have "r div 262144 < 5" unfolding d by auto
    with decode_four [of "r div 262144" "r div 4096 mod 64" "r div 64 mod 64" "r mod 64" s]
      lo hi 4 digits4 [of r]
    show ?thesis by (simp add: encode_valid_def del: decode_rune.simps)
  qed
qed

lemma encode_valid_nonempty: "encode_valid r \<noteq> []"
  by (simp add: encode_valid_def)

lemma segs_Cons_append:
  assumes "decode_rune (c # u @ t) = (r, Suc (length u))"
  shows "segs (c # u @ t) = (r, c # u) # segs t"
  using assms by (simp add: Let_def del: decode_rune.simps)

lemma segs_encode_append:
  assumes "valid_rune r"
  shows "segs (encode_valid r @ s) = (r, encode_valid r) # segs s"
proof -
  obtain c cs where c: "encode_valid r = c # cs"
    using encode_valid_nonempty [of r] by (cases "encode_valid r") auto
  with decode_encode_valid [OF assms, of s]
  have "decode_rune (c # cs @ s) = (r, Suc (length cs))" by simp
  then show ?thesis using c segs_Cons_append by simp
qed

definition norm_rune :: "nat \<Rightarrow> nat" where
  "norm_rune r = (if valid_rune r then r else rune_error)"

lemma valid_norm_rune [simp]: "valid_rune (norm_rune r)"
  by (simp add: norm_rune_def valid_rune_def rune_error_def)

lemma runes_of_runes: "runes (of_runes rs) = map norm_rune rs"
  by (induction rs)
    (simp_all add: runes_def of_runes_def encode_rune_def segs_encode_append
      flip: norm_rune_def)

lemma rune_count_of_runes [simp]: "rune_count (of_runes rs) = length rs"
  using arg_cong [OF runes_of_runes, of length] by simp

subsection \<open>Segmentation and concatenation\<close>

text \<open>Cutting a string at the end of a segment does not change the segments before the cut.\<close>

lemma decode_rune_prefix:
  assumes "s \<noteq> []" and "snd (decode_rune (s @ t)) \<le> length s"
  shows "decode_rune s = decode_rune (s @ t)"
proof -
  obtain c0 s1 where s: "s = c0 # s1" using assms(1) by (cases s) auto
  consider "s1 = []" | c1 where "s1 = [c1]" | c1 c2 where "s1 = [c1, c2]"
    | c1 c2 c3 u where "s1 = c1 # c2 # c3 # u"
    by (metis neq_Nil_conv)
  then show ?thesis
    using assms(2) unfolding s
    by cases (auto simp: Let_def split: list.splits if_splits)
qed

lemma segs_concat_take: "segs (concat (map snd (take n (segs s)))) = take n (segs s)"
proof (induction s arbitrary: n rule: segs.induct)
  case 1
  then show ?case by simp
next
  case (2 c s)
  show ?case
  proof (cases n)
    case 0
    then show ?thesis by simp
  next
    case (Suc m)
    define w where "w = snd (decode_rune (c # s))"
    define R where "R = concat (map snd (take m (segs (drop (w - 1) s))))"
    have w: "1 \<le> w" "w - 1 \<le> length s"
      using decode_rune_width [of "c # s"] by (auto simp: w_def)
    have "drop (w - 1) s = R @ concat (map snd (drop m (segs (drop (w - 1) s))))"
      unfolding R_def by (metis append_take_drop_id concat_append concat_segs map_append)
    then have s: "c # s = (c # take (w - 1) s @ R) @ concat (map snd (drop m (segs (drop (w - 1) s))))"
      by (metis append_Cons append_assoc append_take_drop_id)
    then have d: "decode_rune (c # take (w - 1) s @ R) = decode_rune (c # s)"
      by (metis decode_rune_prefix append_Cons length_Cons length_append length_take list.distinct(1)
          min.absorb2 Suc_diff_1 less_eq_Suc_le w w_def One_nat_def le_add1 add_Suc)
    have IH: "segs R = take m (segs (drop (w - 1) s))"
      unfolding R_def using 2 [of "decode_rune (c # s)" m] by (simp add: w_def)
    have "segs (c # take (w - 1) s @ R) = (fst (decode_rune (c # s)), c # take (w - 1) s) # segs R"
      using d w by (intro segs_Cons_append) (simp add: prod_eq_iff w_def del: decode_rune.simps)
    then show ?thesis
      using Suc IH
      by (simp add: Let_def w_def [symmetric] R_def [symmetric] del: decode_rune.simps segs.simps(2))
        (simp add: Let_def w_def R_def del: decode_rune.simps)
  qed
qed

lemma segs_concat_drop: "segs (concat (map snd (drop n (segs s)))) = drop n (segs s)"
proof (induction s arbitrary: n rule: segs.induct)
  case 1
  then show ?case by simp
next
  case (2 c s)
  show ?case
  proof (cases n)
    case 0
    then show ?thesis by (simp add: Let_def del: decode_rune.simps)
  next
    case (Suc m)
    then show ?thesis using 2 by (simp add: Let_def del: decode_rune.simps)
  qed
qed

section \<open>Trimming\<close>

text \<open>\<open>unicode.IsSpace\<close>.\<close>

definition is_space :: "nat \<Rightarrow> bool" where
  "is_space r \<longleftrightarrow> 9 \<le> r \<and> r \<le> 13 \<or> r = 32 \<or> r = 133 \<or> r = 160 \<or> r = 5760
     \<or> 8192 \<le> r \<and> r \<le> 8202 \<or> r = 8232 \<or> r = 8233 \<or> r = 8239 \<or> r = 8287 \<or> r = 12288"

definition strip :: "('a \<Rightarrow> bool) \<Rightarrow> 'a list \<Rightarrow> 'a list" where
  "strip P xs = rev (dropWhile P (rev (dropWhile P xs)))"

text \<open>\<open>strings.TrimSpace\<close>.\<close>

definition trim_space :: "string \<Rightarrow> string" where
  "trim_space s = concat (map snd (strip (is_space \<circ> fst) (segs s)))"

text \<open>\<open>trim\<close> of SQL: blanks only.\<close>

definition sql_trim :: "string \<Rightarrow> string" where
  "sql_trim s = strip (\<lambda>c. c = CHR '' '') s"

lemma strip_eq_Nil [simp]: "strip P xs = [] \<longleftrightarrow> (\<forall>x\<in>set xs. P x)"
proof -
  have "strip P xs = [] \<longleftrightarrow> (\<forall>x\<in>set (dropWhile P xs). P x)"
    by (simp add: strip_def)
  also have "\<dots> \<longleftrightarrow> dropWhile P xs = []"
    by (metis hd_dropWhile hd_in_set list.set_cases empty_iff list.set(1))
  finally show ?thesis by simp
qed

lemma strip_take_drop: "\<exists>m n. strip P xs = take m (drop n xs)"
proof -
  have "dropWhile P xs = drop (length (takeWhile P xs)) xs"
    by (rule dropWhile_eq_drop)
  moreover have "rev (dropWhile P (rev ys)) = take (length ys - length (takeWhile P (rev ys))) ys" for ys
    by (metis dropWhile_eq_drop rev_drop rev_rev_ident length_rev)
  ultimately show ?thesis unfolding strip_def by metis
qed

lemma segs_trim_space: "segs (trim_space s) = strip (is_space \<circ> fst) (segs s)"
proof -
  obtain m n where mn: "strip (is_space \<circ> fst) (segs s) = take m (drop n (segs s))"
    using strip_take_drop by blast
  have "segs (concat (map snd (take m (segs (concat (map snd (drop n (segs s))))))))
      = take m (segs (concat (map snd (drop n (segs s)))))"
    by (rule segs_concat_take)
  then show ?thesis by (simp add: trim_space_def mn segs_concat_drop)
qed

lemma length_strip_le: "length (strip P xs) \<le> length xs"
proof -
  obtain m n where "strip P xs = take m (drop n xs)" using strip_take_drop by blast
  then show ?thesis by simp
qed

lemma rune_count_trim_space_le: "rune_count (trim_space s) \<le> rune_count s"
  by (simp add: rune_count_def segs_trim_space length_strip_le)

lemma trim_space_eq_Nil: "trim_space s = [] \<longleftrightarrow> (\<forall>r\<in>set (runes s). is_space r)"
proof -
  have "trim_space s = [] \<longleftrightarrow> segs (trim_space s) = []" by simp
  then show ?thesis by (simp only: segs_trim_space strip_eq_Nil) (simp add: runes_def)
qed

lemma strip_idem: "strip P (strip P xs) = strip P xs"
proof (cases "strip P xs = []")
  case True
  then show ?thesis by (simp only: True) (simp add: strip_def)
next
  case False
  let ?d = "dropWhile P xs"
  from False have d: "?d \<noteq> []" by simp
  then have hd: "\<not> P (hd ?d)" by (rule hd_dropWhile)
  have "rev (dropWhile P (rev ?d)) \<noteq> []" using False unfolding strip_def .
  moreover have "?d = rev (dropWhile P (rev ?d)) @ rev (takeWhile P (rev ?d))"
    by (metis rev_append rev_rev_ident takeWhile_dropWhile_id)
  ultimately have "hd (strip P xs) = hd ?d"
    unfolding strip_def by (metis hd_append2)
  then have "dropWhile P (strip P xs) = strip P xs"
    using hd by (simp add: dropWhile_eq_self_iff)
  moreover have "dropWhile P (rev (strip P xs)) = rev (strip P xs)"
    by (simp add: strip_def dropWhile_idem)
  ultimately show ?thesis by (simp add: strip_def)
qed

lemma trim_space_idem: "trim_space (trim_space s) = trim_space s"
  by (simp add: trim_space_def segs_trim_space [unfolded trim_space_def] strip_idem)

text \<open>Blanks at either end of a string are segments of their own.\<close>

lemma segs_blank_Cons [simp]: "segs (CHR '' '' # s) = (32, '' '') # segs s"
  by (simp add: Let_def)

lemma blank_not_cont: "\<not> is_cont CHR '' ''" "\<not> is_second b CHR '' ''"
  by (simp_all add: is_cont_def is_second_def second_lo_def)

lemma decode_rune_snoc_blank:
  assumes "s \<noteq> []"
  shows "decode_rune (s @ '' '') = decode_rune s"
proof -
  obtain c0 s1 where s: "s = c0 # s1" using assms by (cases s) auto
  consider "s1 = []" | c1 where "s1 = [c1]" | c1 c2 where "s1 = [c1, c2]"
    | c1 c2 c3 u where "s1 = c1 # c2 # c3 # u"
    by (metis neq_Nil_conv)
  then show ?thesis
    unfolding s by cases (auto simp: Let_def blank_not_cont)
qed

lemma segs_snoc_blank: "segs (s @ '' '') = segs s @ [(32, '' '')]"
proof (induction s rule: segs.induct)
  case 1
  then show ?case by simp
next
  case (2 c s)
  define w where "w = snd (decode_rune (c # s))"
  have d: "decode_rune (c # s @ '' '') = decode_rune (c # s)"
    using decode_rune_snoc_blank [of "c # s"] by simp
  have w: "w - 1 \<le> length s"
    using decode_rune_width [of "c # s"] by (auto simp: w_def)
  then show ?case
    using 2 [OF refl] d by (simp add: Let_def w_def del: decode_rune.simps)
qed

lemma rune_count_dropWhile_blank_le:
  "rune_count (dropWhile (\<lambda>c. c = CHR '' '') s) \<le> rune_count s"
  by (induction s) (auto simp: rune_count_def simp del: segs.simps(2))

lemma rune_count_sql_trim_le: "rune_count (sql_trim s) \<le> rune_count s"
proof -
  have r: "rune_count (rev (dropWhile (\<lambda>c. c = CHR '' '') (rev t))) \<le> rune_count t" for t
    by (induction t rule: rev_induct) (auto simp: rune_count_def segs_snoc_blank)
  show ?thesis
    unfolding sql_trim_def strip_def
    using r rune_count_dropWhile_blank_le order_trans by blast
qed

lemma sql_trim_empty_imp_blank: "sql_trim s = [] \<Longrightarrow> trim_space s = []"
proof -
  assume "sql_trim s = []"
  then have "\<forall>c\<in>set s. c = CHR '' ''" by (simp add: sql_trim_def)
  then have "\<forall>r\<in>set (runes s). r = 32"
    by (induction s) (auto simp: runes_def simp del: segs.simps(2))
  then show ?thesis by (simp add: trim_space_eq_Nil is_space_def)
qed

lemma sql_trim_idem: "sql_trim (sql_trim s) = sql_trim s"
  by (simp add: sql_trim_def strip_idem)

section \<open>Case, prefixes, substrings\<close>

text \<open>Case mapping and folding of runes beyond ASCII come from Go's Unicode tables.\<close>

record unicode_tables =
  uni_lower :: "nat \<Rightarrow> nat"
  uni_upper :: "nat \<Rightarrow> nat"
  uni_fold :: "nat \<Rightarrow> nat"

definition ascii_tables :: unicode_tables where
  "ascii_tables = \<lparr>uni_lower = (\<lambda>r. r), uni_upper = (\<lambda>r. r), uni_fold = (\<lambda>r. r)\<rparr>"

definition lower_rune :: "unicode_tables \<Rightarrow> nat \<Rightarrow> nat" where
  "lower_rune U r = (if r < 128 then (if 65 \<le> r \<and> r \<le> 90 then r + 32 else r) else uni_lower U r)"

definition upper_rune :: "unicode_tables \<Rightarrow> nat \<Rightarrow> nat" where
  "upper_rune U r = (if r < 128 then (if 97 \<le> r \<and> r \<le> 122 then r - 32 else r) else uni_upper U r)"

definition fold_rune :: "unicode_tables \<Rightarrow> nat \<Rightarrow> nat" where
  "fold_rune U r = (if r < 128 then (if 65 \<le> r \<and> r \<le> 90 then r + 32 else r) else uni_fold U r)"

text \<open>\<open>strings.ToLower\<close>, \<open>strings.ToUpper\<close> and \<open>strings.EqualFold\<close>.\<close>

definition to_lower :: "unicode_tables \<Rightarrow> string \<Rightarrow> string" where
  "to_lower U s = of_runes (map (lower_rune U) (runes s))"

definition to_upper :: "unicode_tables \<Rightarrow> string \<Rightarrow> string" where
  "to_upper U s = of_runes (map (upper_rune U) (runes s))"

definition equal_fold :: "unicode_tables \<Rightarrow> string \<Rightarrow> string \<Rightarrow> bool" where
  "equal_fold U s t \<longleftrightarrow> map (fold_rune U) (runes s) = map (fold_rune U) (runes t)"

lemma equal_fold_refl [simp]: "equal_fold U s s"
  by (simp add: equal_fold_def)

lemma equal_fold_sym: "equal_fold U s t \<longleftrightarrow> equal_fold U t s"
  by (auto simp: equal_fold_def)

lemma equal_fold_trans: "equal_fold U s t \<Longrightarrow> equal_fold U t u \<Longrightarrow> equal_fold U s u"
  by (simp add: equal_fold_def)

text \<open>\<open>strings.HasPrefix\<close>, \<open>strings.TrimPrefix\<close>, \<open>strings.HasSuffix\<close>.\<close>

definition has_prefix :: "string \<Rightarrow> string \<Rightarrow> bool" where
  "has_prefix s p \<longleftrightarrow> take (length p) s = p"

definition trim_prefix :: "string \<Rightarrow> string \<Rightarrow> string" where
  "trim_prefix s p = (if has_prefix s p then drop (length p) s else s)"

definition has_suffix :: "string \<Rightarrow> string \<Rightarrow> bool" where
  "has_suffix s p \<longleftrightarrow> length p \<le> length s \<and> drop (length s - length p) s = p"

lemma has_prefix_iff: "has_prefix s p \<longleftrightarrow> (\<exists>t. s = p @ t)"
  by (metis append_eq_conv_conj append_take_drop_id has_prefix_def)

text \<open>\<open>strings.Contains\<close>.\<close>

fun contains :: "string \<Rightarrow> string \<Rightarrow> bool" where
  "contains [] p = (p = [])"
| "contains (c # s) p = (has_prefix (c # s) p \<or> contains s p)"

lemma contains_iff: "contains s p \<longleftrightarrow> (\<exists>u v. s = u @ p @ v)"
proof (induction s)
  case Nil
  then show ?case by auto
next
  case (Cons c s)
  have "(\<exists>u v. c # s = u @ p @ v) \<longleftrightarrow> (\<exists>v. c # s = p @ v) \<or> (\<exists>u v. s = u @ p @ v)"
    by (metis append_Cons append_Nil list.sel(3) neq_Nil_conv)
  then show ?case using Cons by (simp add: has_prefix_iff)
qed

end
