(* ===== verification/Job_Model.thy ===== *)
theory Job_Model
  imports Go_Strings
begin

text \<open>
  The data model of durable jobs, pkg/model/job.go: the lifecycle states, the job
  snapshot, the lease fence that guards every mutation of a leased job, and the inputs of
  job creation and failure with their validation. Limits count runes, so the rune reading
  of Go_Strings is used throughout. \<open>ComputeRequestHash\<close> takes SHA-256 as a parameter.
\<close>

section \<open>Job states\<close>

text \<open>
  \<open>JobState\<close> is a string type with seven named values; \<open>OtherState\<close> is any other string.
\<close>

datatype JobState =
    JobStateQueued | JobStateLeased | JobStateRunning | JobStateSucceeded
  | JobStateFailed | JobStateCanceled | JobStateDeadLetter | OtherState string

definition JobState_of_string :: "string \<Rightarrow> JobState" where
  "JobState_of_string s =
     (if s = ''queued'' then JobStateQueued
      else if s = ''leased'' then JobStateLeased
      else if s = ''running'' then JobStateRunning
      else if s = ''succeeded'' then JobStateSucceeded
      else if s = ''failed'' then JobStateFailed
      else if s = ''canceled'' then JobStateCanceled
      else if s = ''dead_letter'' then JobStateDeadLetter
      else OtherState s)"

fun JobState_to_string :: "JobState \<Rightarrow> string" where
  "JobState_to_string JobStateQueued = ''queued''"
| "JobState_to_string JobStateLeased = ''leased''"
| "JobState_to_string JobStateRunning = ''running''"
| "JobState_to_string JobStateSucceeded = ''succeeded''"
| "JobState_to_string JobStateFailed = ''failed''"
| "JobState_to_string JobStateCanceled = ''canceled''"
| "JobState_to_string JobStateDeadLetter = ''dead_letter''"
| "JobState_to_string (OtherState s) = s"

fun IsTerminal :: "JobState \<Rightarrow> bool" where
  "IsTerminal JobStateSucceeded = True"
| "IsTerminal JobStateFailed = True"
| "IsTerminal JobStateCanceled = True"
| "IsTerminal JobStateDeadLetter = True"
| "IsTerminal _ = False"

fun Valid :: "JobState \<Rightarrow> bool" where
  "Valid (OtherState s) = False"
| "Valid _ = True"

definition holds_lease :: "JobState \<Rightarrow> bool" where
  "holds_lease s \<longleftrightarrow> s = JobStateLeased \<or> s = JobStateRunning"

lemma JobState_string_roundtrip [simp]: "JobState_to_string (JobState_of_string s) = s"
  by (simp add: JobState_of_string_def)

lemma JobState_of_to_string: "Valid st \<Longrightarrow> JobState_of_string (JobState_to_string st) = st"
  by (cases st) (simp_all add: JobState_of_string_def)

lemma Valid_cases:
  "Valid st \<longleftrightarrow> st = JobStateQueued \<or> holds_lease st \<or> IsTerminal st"
  by (cases st) (simp_all add: holds_lease_def)

lemma IsTerminal_not_active [simp]:
  "IsTerminal st \<Longrightarrow> st \<noteq> JobStateQueued" "IsTerminal st \<Longrightarrow> \<not> holds_lease st"
  by (auto simp: holds_lease_def)

lemma holds_lease_simps [simp]:
  "holds_lease JobStateLeased" "holds_lease JobStateRunning" "\<not> holds_lease JobStateQueued"
  "\<not> holds_lease JobStateSucceeded" "\<not> holds_lease JobStateFailed"
  "\<not> holds_lease JobStateCanceled" "\<not> holds_lease JobStateDeadLetter"
  by (simp_all add: holds_lease_def)

section \<open>Limits and validation errors\<close>

definition MaxFailureCodeLength :: nat where "MaxFailureCodeLength = 128"
definition MaxFailureMessageLength :: nat where "MaxFailureMessageLength = 2048"
definition MaxAllowedAttempts :: int where "MaxAllowedAttempts = 100"
definition MaxJobIDLength :: nat where "MaxJobIDLength = 256"
definition MaxTenantIDLength :: nat where "MaxTenantIDLength = 128"
definition MaxIdempotencyKeyLength :: nat where "MaxIdempotencyKeyLength = 512"
definition MaxRoutingValueLength :: nat where "MaxRoutingValueLength = 256"
definition MaxLeaseOwnerLength :: nat where "MaxLeaseOwnerLength = 256"
definition MaxRetryBackoff :: go_duration where "MaxRetryBackoff = 7 * 24 * hour"

lemmas job_limits = MaxFailureCodeLength_def MaxFailureMessageLength_def MaxAllowedAttempts_def
  MaxJobIDLength_def MaxTenantIDLength_def MaxIdempotencyKeyLength_def MaxRoutingValueLength_def
  MaxLeaseOwnerLength_def MaxRetryBackoff_def hour_def second_def

datatype job_error =
    ErrEmptyTenantID | ErrEmptyJobID | ErrEmptyIdempotencyKey | ErrInvalidRouting
  | ErrInvalidMaxAttempts | ErrEmptyLeaseOwner | ErrInvalidLeaseToken
  | ErrFailureCodeTooLong | ErrFailureMessageTooLong | ErrNilRequest | ErrRequestHashMismatch
  | ErrJobIDTooLong | ErrTenantIDTooLong | ErrIdempotencyKeyTooLong | ErrRoutingValueTooLong
  | ErrLeaseOwnerTooLong | ErrInvalidRetryBackoff

section \<open>Jobs and lease fences\<close>

record Job =
  j_ID :: string
  j_TenantID :: string
  j_IdempotencyKey :: string
  j_RequestHash :: string
  j_Request :: bytes
  j_AgentID :: string
  j_RequiredCapability :: string
  j_State :: JobState
  j_Attempt :: int
  j_MaxAttempts :: int
  j_NextRunAt :: go_time
  j_LeaseOwner :: "string option"
  j_LeaseToken :: int
  j_LeaseExpiresAt :: "go_time option"
  j_Response :: bytes
  j_FailureCode :: "string option"
  j_FailureMessage :: "string option"
  j_CancelRequestedAt :: "go_time option"
  j_CreatedAt :: go_time
  j_UpdatedAt :: go_time

record LeaseFence =
  f_TenantID :: string
  f_JobID :: string
  f_LeaseOwner :: string
  f_LeaseToken :: int

definition Job_Fence :: "Job \<Rightarrow> LeaseFence" where
  "Job_Fence j = \<lparr>f_TenantID = j_TenantID j, f_JobID = j_ID j,
     f_LeaseOwner = (case j_LeaseOwner j of None \<Rightarrow> [] | Some s \<Rightarrow> s),
     f_LeaseToken = j_LeaseToken j\<rparr>"

definition LeaseFence_Validate :: "LeaseFence \<Rightarrow> job_error option" where
  "LeaseFence_Validate f =
     (if trim_space (f_TenantID f) = [] then Some ErrEmptyTenantID
      else if rune_count (f_TenantID f) > MaxTenantIDLength then Some ErrTenantIDTooLong
      else if trim_space (f_JobID f) = [] then Some ErrEmptyJobID
      else if rune_count (f_JobID f) > MaxJobIDLength then Some ErrJobIDTooLong
      else if trim_space (f_LeaseOwner f) = [] then Some ErrEmptyLeaseOwner
      else if rune_count (f_LeaseOwner f) > MaxLeaseOwnerLength then Some ErrLeaseOwnerTooLong
      else if f_LeaseToken f \<le> 0 then Some ErrInvalidLeaseToken
      else None)"

text \<open>
  The checks that several operations make on an identifier: not blank, not longer than
  its limit.
\<close>

definition proper_id :: "nat \<Rightarrow> string \<Rightarrow> bool" where
  "proper_id n s \<longleftrightarrow> trim_space s \<noteq> [] \<and> rune_count s \<le> n"

lemma LeaseFence_Validate_None:
  "LeaseFence_Validate f = None \<longleftrightarrow>
     proper_id MaxTenantIDLength (f_TenantID f) \<and> proper_id MaxJobIDLength (f_JobID f) \<and>
     proper_id MaxLeaseOwnerLength (f_LeaseOwner f) \<and> 0 < f_LeaseToken f"
  by (simp add: LeaseFence_Validate_def proper_id_def not_less not_le)

lemma proper_id_not_Nil: "proper_id n s \<Longrightarrow> s \<noteq> []"
  by (auto simp: proper_id_def trim_space_def strip_def)

text \<open>What validation leaves of an identifier satisfies the length checks of the schema.\<close>

lemma proper_id_sql_length:
  assumes "proper_id n s"
  shows "1 \<le> rune_count (sql_trim s)" and "rune_count (sql_trim s) \<le> n"
proof -
  have "sql_trim s \<noteq> []" using assms sql_trim_empty_imp_blank by (auto simp: proper_id_def)
  then have "rune_count (sql_trim s) \<noteq> 0" by simp
  then show "1 \<le> rune_count (sql_trim s)" by linarith
  show "rune_count (sql_trim s) \<le> n"
    using assms rune_count_sql_trim_le [of s] by (simp add: proper_id_def)
qed

section \<open>Inputs\<close>

text \<open>JSON values, the dynamic type \<open>any\<close> after decoding; a number is its exact value.\<close>

datatype json =
    JNull | JBool bool | JNum rat | JStr string | JArr "json list" | JObj "(string \<times> json) list"

text \<open>The \<open>any\<close> of a job payload: nil, an already serialised message, or a value.\<close>

datatype payload = PNil | PRaw bytes | PValue json

record CreateJobInput =
  c_ID :: string
  c_TenantID :: string
  c_IdempotencyKey :: string
  c_Request :: payload
  c_RequestHash :: string
  c_AgentID :: string
  c_RequiredCapability :: string
  c_MaxAttempts :: int
  c_NextRunAt :: "go_time option"

definition CreateJobInput_Validate :: "CreateJobInput \<Rightarrow> job_error option" where
  "CreateJobInput_Validate c =
     (if trim_space (c_TenantID c) = [] then Some ErrEmptyTenantID
      else if rune_count (c_TenantID c) > MaxTenantIDLength then Some ErrTenantIDTooLong
      else if trim_space (c_ID c) = [] then Some ErrEmptyJobID
      else if rune_count (c_ID c) > MaxJobIDLength then Some ErrJobIDTooLong
      else if trim_space (c_IdempotencyKey c) = [] then Some ErrEmptyIdempotencyKey
      else if rune_count (c_IdempotencyKey c) > MaxIdempotencyKeyLength
        then Some ErrIdempotencyKeyTooLong
      else if trim_space (c_AgentID c) = [] \<and> trim_space (c_RequiredCapability c) = []
        then Some ErrInvalidRouting
      else if rune_count (c_AgentID c) > MaxRoutingValueLength
           \<or> rune_count (c_RequiredCapability c) > MaxRoutingValueLength
        then Some ErrRoutingValueTooLong
      else if c_MaxAttempts c < 1 \<or> c_MaxAttempts c > MaxAllowedAttempts
        then Some ErrInvalidMaxAttempts
      else if c_Request c = PNil then Some ErrNilRequest
      else None)"

lemma CreateJobInput_Validate_None:
  "CreateJobInput_Validate c = None \<longleftrightarrow>
     proper_id MaxTenantIDLength (c_TenantID c) \<and> proper_id MaxJobIDLength (c_ID c) \<and>
     proper_id MaxIdempotencyKeyLength (c_IdempotencyKey c) \<and>
     (trim_space (c_AgentID c) \<noteq> [] \<or> trim_space (c_RequiredCapability c) \<noteq> []) \<and>
     rune_count (c_AgentID c) \<le> MaxRoutingValueLength \<and>
     rune_count (c_RequiredCapability c) \<le> MaxRoutingValueLength \<and>
     1 \<le> c_MaxAttempts c \<and> c_MaxAttempts c \<le> MaxAllowedAttempts \<and> c_Request c \<noteq> PNil"
  by (auto simp: CreateJobInput_Validate_def proper_id_def not_less split: if_splits)

record FailJobInput =
  x_TenantID :: string
  x_JobID :: string
  x_LeaseOwner :: string
  x_LeaseToken :: int
  x_FailureCode :: string
  x_FailureMessage :: string
  x_Retryable :: bool
  x_Backoff :: go_duration

definition FailJobInput_Fence :: "FailJobInput \<Rightarrow> LeaseFence" where
  "FailJobInput_Fence x = \<lparr>f_TenantID = x_TenantID x, f_JobID = x_JobID x,
     f_LeaseOwner = x_LeaseOwner x, f_LeaseToken = x_LeaseToken x\<rparr>"

definition FailJobInput_Validate :: "FailJobInput \<Rightarrow> job_error option" where
  "FailJobInput_Validate x =
     (case LeaseFence_Validate (FailJobInput_Fence x) of
        Some e \<Rightarrow> Some e
      | None \<Rightarrow>
          if rune_count (x_FailureCode x) > MaxFailureCodeLength then Some ErrFailureCodeTooLong
          else if rune_count (x_FailureMessage x) > MaxFailureMessageLength
            then Some ErrFailureMessageTooLong
          else if x_Backoff x < 0 \<or> x_Backoff x > MaxRetryBackoff then Some ErrInvalidRetryBackoff
          else None)"

lemma FailJobInput_Validate_None:
  "FailJobInput_Validate x = None \<longleftrightarrow>
     LeaseFence_Validate (FailJobInput_Fence x) = None \<and>
     rune_count (x_FailureCode x) \<le> MaxFailureCodeLength \<and>
     rune_count (x_FailureMessage x) \<le> MaxFailureMessageLength \<and>
     0 \<le> x_Backoff x \<and> x_Backoff x \<le> MaxRetryBackoff"
  by (auto simp: FailJobInput_Validate_def not_less split: option.splits)

section \<open>Request hashes\<close>

definition hex_digit :: "nat \<Rightarrow> char" where
  "hex_digit n = (if n < 10 then char_of (48 + n) else char_of (87 + n))"

text \<open>\<open>hex.EncodeToString\<close>.\<close>

definition hex_encode :: "bytes \<Rightarrow> string" where
  "hex_encode bs = concat (map (\<lambda>c. [hex_digit (byte c div 16), hex_digit (byte c mod 16)]) bs)"

definition ComputeRequestHash :: "unicode_tables \<Rightarrow> (bytes \<Rightarrow> bytes) \<Rightarrow> bytes \<Rightarrow> string" where
  "ComputeRequestHash U sha256 payload = to_lower U (hex_encode (sha256 payload))"

definition is_lower_hex :: "char \<Rightarrow> bool" where
  "is_lower_hex c \<longleftrightarrow> 48 \<le> byte c \<and> byte c \<le> 57 \<or> 97 \<le> byte c \<and> byte c \<le> 102"

text \<open>The schema's pattern for a request hash, \<open>^[0-9a-f]{64}$\<close>.\<close>

definition hash_pattern :: "string \<Rightarrow> bool" where
  "hash_pattern s \<longleftrightarrow> length s = 64 \<and> list_all is_lower_hex s"

lemma is_lower_hex_digit: "n < 16 \<Longrightarrow> is_lower_hex (hex_digit n)"
  by (auto simp: is_lower_hex_def hex_digit_def)

lemma hex_encode_lower: "list_all is_lower_hex (hex_encode bs)"
proof (induction bs)
  case Nil
  then show ?case by (simp add: hex_encode_def)
next
  case (Cons c bs)
  have "byte c < 16 * 16" by simp
  then have "byte c div 16 < 16" by (rule less_mult_imp_div_less)
  then show ?case using Cons by (simp add: hex_encode_def is_lower_hex_digit)
qed

lemma length_hex_encode [simp]: "length (hex_encode bs) = 2 * length bs"
  by (induction bs) (simp_all add: hex_encode_def)

lemma to_lower_lower_hex: "list_all is_lower_hex s \<Longrightarrow> to_lower U s = s"
proof (induction s)
  case Nil
  then show ?case by (simp add: to_lower_def runes_def of_runes_def)
next
  case (Cons c s)
  then have c: "byte c < 128" "\<not> (65 \<le> byte c \<and> byte c \<le> 90)"
    by (auto simp: is_lower_hex_def)
  then have "segs (c # s) = (byte c, [c]) # segs s" by (simp add: Let_def)
  moreover have "encode_rune (byte c) = [c]"
    using c by (simp add: encode_rune_def encode_valid_def valid_rune_def)
  ultimately show ?case
    using Cons c by (auto simp: to_lower_def runes_def of_runes_def lower_rune_def)
qed

lemma ComputeRequestHash_eq: "ComputeRequestHash U sha p = hex_encode (sha p)"
  by (simp add: ComputeRequestHash_def to_lower_lower_hex hex_encode_lower)

lemma ComputeRequestHash_pattern:
  "length (sha p) = 32 \<Longrightarrow> hash_pattern (ComputeRequestHash U sha p)"
  by (simp add: ComputeRequestHash_eq hash_pattern_def hex_encode_lower)

end
