(* ===== verification/Redaction.thy ===== *)
theory Redaction
  imports Go_Strings
begin

text \<open>
  Redaction of database credentials in error messages, pkg/storage/postgres.go: the tokens
  taken from a DSN, their replacement in a message, and the mapping of driver errors. The
  user information of a DSN that parses as a URL is a parameter (\<open>url.Parse\<close>).
\<close>

section \<open>String replacement\<close>

text \<open>\<open>strings.ReplaceAll\<close> for a non-empty pattern: leftmost matches that do not overlap.\<close>

fun replace_all :: "string \<Rightarrow> string \<Rightarrow> string \<Rightarrow> string" where
  "replace_all old new [] = []"
| "replace_all old new (c # s) =
     (if old \<noteq> [] \<and> has_prefix (c # s) old
      then new @ replace_all old new (drop (length old - 1) s)
      else c # replace_all old new s)"

definition redactString :: "string \<Rightarrow> string list \<Rightarrow> string" where
  "redactString msg tokens =
     fold (\<lambda>t m. if t \<noteq> [] then replace_all t ''[REDACTED]'' m else m) tokens msg"

section \<open>Errors of the driver\<close>

text \<open>
  An error of the driver: one that wraps a context error, or a message. \<open>redactError\<close>
  returns the bare context error, and otherwise a fresh error with the redacted message.
\<close>

datatype db_raw = Raw_ctx ctx_error | Raw_msg string

definition redactError :: "string list \<Rightarrow> db_raw \<Rightarrow> db_raw" where
  "redactError tokens err =
     (case err of Raw_ctx c \<Rightarrow> Raw_ctx c | Raw_msg m \<Rightarrow> Raw_msg (redactString m tokens))"

section \<open>Tokens of a DSN\<close>

text \<open>\<open>strings.Fields\<close>: the maximal runs of runes that are not space.\<close>

fun str_fields_aux :: "(nat \<times> string) list \<Rightarrow> string \<Rightarrow> string list" where
  "str_fields_aux [] w = (if w = [] then [] else [w])"
| "str_fields_aux (x # xs) w =
     (if is_space (fst x)
      then (if w = [] then str_fields_aux xs [] else w # str_fields_aux xs [])
      else str_fields_aux xs (w @ snd x))"

definition str_fields :: "string \<Rightarrow> string list" where
  "str_fields s = str_fields_aux (segs s) []"

text \<open>
  \<open>userinfo\<close> gives, for a DSN that parses as a URL with user information, the password (if
  one is set) and the printed form of the user information.
\<close>

definition extractRedactTokens ::
  "(string \<Rightarrow> (string option \<times> string) option) \<Rightarrow> string \<Rightarrow> string list" where
  "extractRedactTokens userinfo dsn =
     (let trimmed = trim_space dsn;
          t1 = (if trimmed \<noteq> [] then [trimmed] else []);
          t2 = (if dsn \<noteq> [] \<and> dsn \<noteq> trimmed then [dsn] else []);
          t3 = (case userinfo dsn of
                  None \<Rightarrow> []
                | Some (pass, info) \<Rightarrow>
                    (case pass of Some p \<Rightarrow> if p \<noteq> [] then [p] else [] | None \<Rightarrow> [])
                    @ (if info \<noteq> [] then [info] else []));
          t4 = concat (map (\<lambda>part.
                 if has_prefix part ''password='' then
                   (let val = strip (\<lambda>c. c = CHR 0x27 \<or> c = CHR 0x22) (trim_prefix part ''password='')
                    in if val \<noteq> [] then [val] else [])
                 else []) (str_fields dsn))
      in t1 @ t2 @ t3 @ t4)"

lemma extractRedactTokens_nonempty: "t \<in> set (extractRedactTokens ui dsn) \<Longrightarrow> t \<noteq> []"
  by (auto simp: extractRedactTokens_def Let_def simp del: strip_eq_Nil split: if_splits option.splits)

lemma extractRedactTokens_covers_dsn:
  "trim_space dsn \<noteq> [] \<Longrightarrow> trim_space dsn \<in> set (extractRedactTokens ui dsn)"
  "dsn \<noteq> [] \<Longrightarrow> trim_space dsn \<noteq> [] \<Longrightarrow> dsn \<in> set (extractRedactTokens ui dsn)"
  by (simp_all add: extractRedactTokens_def Let_def)

lemma replace_all_no_match: "\<not> contains s old \<Longrightarrow> replace_all old new s = s"
  by (induction s) auto

lemma redactString_no_match: "\<forall>t\<in>set ts. \<not> contains m t \<Longrightarrow> redactString m ts = m"
  unfolding redactString_def by (induction ts) (auto simp: replace_all_no_match)

text \<open>
  A pattern none of whose bytes occurs in the replacement is not created by a replacement:
  an occurrence in the result lies in a run of copied bytes.
\<close>

lemma contains_append_disjoint:
  "set p \<inter> set u = {} \<Longrightarrow> p \<noteq> [] \<Longrightarrow> contains (u @ r) p = contains r p"
proof (induction u)
  case (Cons c u)
  then have "\<not> has_prefix (c # u @ r) p" by (cases p) (auto simp: has_prefix_def)
  with Cons show ?case by simp
qed simp

lemma has_prefix_replace_all:
  assumes "new \<noteq> []"
  shows "set p \<inter> set new = {} \<Longrightarrow> has_prefix (replace_all old new s) p \<Longrightarrow> has_prefix s p"
proof (induction s arbitrary: p)
  case (Cons c s)
  show ?case
  proof (cases p)
    case p: (Cons d q)
    have "\<not> (old \<noteq> [] \<and> has_prefix (c # s) old)"
      using Cons.prems assms by (cases new) (auto simp: p has_prefix_def)
    then have "has_prefix (c # replace_all old new s) (d # q)"
      using Cons.prems(2) unfolding p by (auto split: if_splits)
    then have "c = d" "has_prefix (replace_all old new s) q" by (auto simp: has_prefix_def)
    with Cons.IH [of q] Cons.prems(1) p show ?thesis by (simp add: has_prefix_def)
  qed (simp add: has_prefix_def)
qed simp

lemma contains_drop: "contains (drop n s) p \<Longrightarrow> contains s p"
  by (metis append_assoc append_take_drop_id contains_iff)

lemma contains_replace_all:
  assumes "new \<noteq> []" and "set p \<inter> set new = {}" and "p \<noteq> []"
    and "contains (replace_all old new s) p"
  shows "contains s p"
  using assms
proof (induction old new s rule: replace_all.induct)
  case (2 old new c s)
  have e: "contains (new @ r) p = contains r p" for r
    using "2.prems" by (intro contains_append_disjoint)
  show ?case
  proof (cases "old \<noteq> [] \<and> has_prefix (c # s) old")
    case True
    with "2.prems"(4) have "contains (new @ replace_all old new (drop (length old - 1) s)) p" by simp
    then have "contains (replace_all old new (drop (length old - 1) s)) p" by (simp only: e)
    with 2 True have "contains (drop (length old - 1) s) p" by blast
    then show ?thesis by (auto dest: contains_drop)
  next
    case False
    then have "has_prefix (c # replace_all old new s) p \<or> contains (replace_all old new s) p"
      using "2.prems"(4) by (auto split: if_splits)
    with 2 False have "has_prefix (c # replace_all old new s) p \<or> contains s p" by blast
    then show ?thesis
    proof
      assume "has_prefix (c # replace_all old new s) p"
      then obtain q where p: "p = c # q" and "has_prefix (replace_all old new s) q"
        using "2.prems"(3) by (cases p) (auto simp: has_prefix_def)
      moreover have "set q \<inter> set new = {}" using "2.prems"(2) p by auto
      ultimately have "has_prefix s q" using has_prefix_replace_all "2.prems"(1) by blast
      then show ?thesis by (simp add: p has_prefix_def)
    qed simp
  qed
qed simp

lemma not_contains_replace_all:
  assumes "new \<noteq> []" and "set old \<inter> set new = {}" and "old \<noteq> []"
  shows "\<not> contains (replace_all old new s) old"
  using assms
proof (induction old new s rule: replace_all.induct)
  case (2 old new c s)
  show ?case
  proof (cases "has_prefix (c # s) old")
    case True
    have "\<not> contains (replace_all old new (drop (length old - 1) s)) old" using 2 True by blast
    then have "\<not> contains (new @ replace_all old new (drop (length old - 1) s)) old"
      using "2.prems" by (simp only: contains_append_disjoint not_False_eq_True)
    then show ?thesis using True "2.prems"(3) by simp
  next
    case False
    have "\<not> has_prefix (c # replace_all old new s) old"
    proof
      assume "has_prefix (c # replace_all old new s) old"
      then obtain q where q: "old = c # q" and "has_prefix (replace_all old new s) q"
        using "2.prems"(3) by (cases old) (auto simp: has_prefix_def)
      moreover have "set q \<inter> set new = {}" using "2.prems"(2) q by auto
      ultimately have "has_prefix s q" using has_prefix_replace_all "2.prems"(1) by blast
      with False show False by (simp add: q has_prefix_def)
    qed
    with False 2 show ?thesis by simp
  qed
qed simp

lemma contains_redactString:
  assumes "set p \<inter> set ''[REDACTED]'' = {}" and "p \<noteq> []"
  shows "contains (redactString m ts) p \<Longrightarrow> contains m p"
  unfolding redactString_def
proof (induction ts arbitrary: m)
  case (Cons t ts)
  then have "contains (if t \<noteq> [] then replace_all t ''[REDACTED]'' m else m) p" by simp
  then show ?case
    using contains_replace_all [OF _ assms(1,2)] by (cases "t = []") simp_all
qed simp

text \<open>
  A secret that shares no byte with the placeholder is gone from every redacted message,
  whatever the other tokens are and in whatever order they are replaced.
\<close>

lemma redactString_removes:
  assumes "t \<in> set ts" and "t \<noteq> []" and "set t \<inter> set ''[REDACTED]'' = {}"
  shows "\<not> contains (redactString m ts) t"
  using assms(1)
proof (induction ts arbitrary: m)
  case (Cons u us)
  have step: "redactString m (u # us)
      = redactString (if u \<noteq> [] then replace_all u ''[REDACTED]'' m else m) us"
    by (simp add: redactString_def)
  show ?case
  proof (cases "t \<in> set us")
    case True
    then show ?thesis unfolding step by (rule Cons.IH)
  next
    case False
    with Cons.prems have u: "u = t" by simp
    then have "\<not> contains (replace_all t ''[REDACTED]'' m) t"
      using assms(2,3) by (intro not_contains_replace_all) auto
    then show ?thesis
      unfolding step using u assms(2,3) contains_redactString by auto
  qed
qed simp

end
