(* ===== verification/Job_Ledger.thy ===== *)
theory Job_Ledger
  imports Job_Model Redaction
begin

text \<open>
  The durable job ledger, pkg/storage/postgres_jobs.go: the table \<open>durable_jobs\<close> of
  migration 002 as a list of rows, every SQL statement as a function on that list, and the
  operations of \<open>PostgresJobRepository\<close> with their checks, their statement and the
  diagnosis of a miss. \<open>NOW()\<close> is an argument of each operation (microseconds); the rows
  that another transaction holds locked (\<open>SKIP LOCKED\<close>) and the order in which the database
  breaks ties of \<open>ORDER BY\<close> are arguments too. A statement may be executed, may fail without
  effect, or may be committed although the client sees an error (\<open>db_outcome\<close>). The second
  outcome also stands for a statement that the server refuses before it looks at the table:
  a lost connection, a timeout, or a text parameter that its encoding does not admit (a NUL
  byte, broken UTF-8).
\<close>

section \<open>The table\<close>

record durable_job =
  r_id :: string
  r_tenant_id :: string
  r_idempotency_key :: string
  r_request_hash :: string
  r_request :: bytes
  r_agent_id :: "string option"
  r_required_capability :: "string option"
  r_state :: JobState
  r_attempt :: int
  r_max_attempts :: int
  r_next_run_at :: go_time
  r_lease_owner :: "string option"
  r_lease_token :: int
  r_lease_expires_at :: "go_time option"
  r_response :: "bytes option"
  r_failure_code :: "string option"
  r_failure_message :: "string option"
  r_cancel_requested_at :: "go_time option"
  r_created_at :: go_time
  r_updated_at :: go_time

type_synonym job_key = "string \<times> string"

definition row_key :: "durable_job \<Rightarrow> job_key" where
  "row_key r = (r_tenant_id r, r_id r)"

definition idem_key :: "durable_job \<Rightarrow> job_key" where
  "idem_key r = (r_tenant_id r, r_idempotency_key r)"

definition length_between :: "nat \<Rightarrow> string \<Rightarrow> bool" where
  "length_between n s \<longleftrightarrow> 1 \<le> rune_count (sql_trim s) \<and> rune_count (sql_trim s) \<le> n"

definition opt_all :: "('a \<Rightarrow> bool) \<Rightarrow> 'a option \<Rightarrow> bool" where
  "opt_all P x = (case x of None \<Rightarrow> True | Some v \<Rightarrow> P v)"

definition lease_state_ok :: "durable_job \<Rightarrow> bool" where
  "lease_state_ok r \<longleftrightarrow>
     (if holds_lease (r_state r)
      then (case r_lease_owner r of None \<Rightarrow> False | Some s \<Rightarrow> rune_count (sql_trim s) > 0)
           \<and> 0 < r_lease_token r \<and> r_lease_expires_at r \<noteq> None
      else r_lease_owner r = None \<and> r_lease_expires_at r = None)"

text \<open>The \<open>CHECK\<close> constraints of the table.\<close>

definition row_ok :: "durable_job \<Rightarrow> bool" where
  "row_ok r \<longleftrightarrow>
     length_between 256 (r_id r) \<and> length_between 128 (r_tenant_id r) \<and>
     length_between 512 (r_idempotency_key r) \<and> hash_pattern (r_request_hash r) \<and>
     opt_all (length_between 256) (r_agent_id r) \<and>
     opt_all (length_between 256) (r_required_capability r) \<and>
     Valid (r_state r) \<and> 0 \<le> r_attempt r \<and>
     1 \<le> r_max_attempts r \<and> r_max_attempts r \<le> 100 \<and>
     opt_all (length_between 256) (r_lease_owner r) \<and> 0 \<le> r_lease_token r \<and>
     opt_all (\<lambda>s. rune_count s \<le> 128) (r_failure_code r) \<and>
     opt_all (\<lambda>s. rune_count s \<le> 2048) (r_failure_message r) \<and>
     (r_agent_id r \<noteq> None \<or> r_required_capability r \<noteq> None) \<and>
     lease_state_ok r"

section \<open>Errors, the repository, statements\<close>

datatype repo_error =
    Model_error job_error
  | ErrJobNotFound | ErrIdempotencyConflict | ErrLeaseLost | ErrJobIDConflict
  | ErrCancellationRequested | ErrInvalidBatchSize | ErrInvalidLeaseDuration
  | ErrJobPayloadTooLarge | ErrStoreClosed | ErrPoolNil
  | Ctx_error ctx_error | Db_error string | Marshal_error string

record JobRepo =
  rows :: "durable_job list"
  repo_pool :: "bool option"     \<comment> \<open>\<open>None\<close>: nil pool; otherwise whether it is open\<close>
  repo_closed :: bool
  repo_redactTokens :: "string list"
  repo_ownsPool :: bool

text \<open>What the repository calls outside the repository's sources.\<close>

record ledger_env =
  env_unicode :: unicode_tables
  env_sha256 :: "bytes \<Rightarrow> bytes"
  env_json_valid :: "bytes \<Rightarrow> bool"
  env_json_marshal :: "json \<Rightarrow> string + bytes"
  env_marshal_fingerprint :: "bytes \<Rightarrow> string \<Rightarrow> string \<Rightarrow> int \<Rightarrow> string + bytes"
  env_jsonb :: "bytes \<Rightarrow> bytes option"   \<comment> \<open>the text of a \<open>::jsonb\<close> cast, if it succeeds\<close>

datatype db_outcome = Db_ok | Db_failed db_raw | Db_lost db_raw

definition repo_error_of :: "db_raw \<Rightarrow> repo_error" where
  "repo_error_of e = (case e of Raw_ctx c \<Rightarrow> Ctx_error c | Raw_msg m \<Rightarrow> Db_error m)"

definition redactErr :: "JobRepo \<Rightarrow> db_raw \<Rightarrow> repo_error" where
  "redactErr r e = repo_error_of (redactError (repo_redactTokens r) e)"

text \<open>
  Running a statement that changes the table. The statement gives the new table and a
  result, or an SQL error; a row that breaks a constraint is an error too, and the table
  is then unchanged.
\<close>

definition exec_sql ::
  "db_outcome \<Rightarrow> (durable_job list \<Rightarrow> db_raw + durable_job list \<times> 'a) \<Rightarrow> durable_job list
     \<Rightarrow> durable_job list \<times> (db_raw + 'a)" where
  "exec_sql out stmt rs =
     (case out of
        Db_failed e \<Rightarrow> (rs, Inl e)
      | Db_ok \<Rightarrow>
          (case stmt rs of
             Inl e \<Rightarrow> (rs, Inl e)
           | Inr (rs', v) \<Rightarrow>
               if list_all row_ok rs' then (rs', Inr v)
               else (rs, Inl (Raw_msg ''violates check constraint'')))
      | Db_lost e \<Rightarrow>
          (case stmt rs of
             Inl _ \<Rightarrow> (rs, Inl e)
           | Inr (rs', v) \<Rightarrow> (if list_all row_ok rs' then rs' else rs, Inl e)))"

text \<open>Running a query that only reads.\<close>

definition query_sql :: "db_outcome \<Rightarrow> 'a \<Rightarrow> db_raw + 'a" where
  "query_sql out v = (case out of Db_ok \<Rightarrow> Inr v | Db_failed e \<Rightarrow> Inl e | Db_lost e \<Rightarrow> Inl e)"

text \<open>\<open>UPDATE ... SET f WHERE P\<close>, with the number of rows affected.\<close>

definition update_where ::
  "(durable_job \<Rightarrow> bool) \<Rightarrow> (durable_job \<Rightarrow> durable_job) \<Rightarrow> durable_job list
     \<Rightarrow> db_raw + durable_job list \<times> nat" where
  "update_where P f rs = Inr (map (\<lambda>r. if P r then f r else r) rs, length (filter P rs))"

definition scanJob :: "durable_job \<Rightarrow> Job" where
  "scanJob r =
     \<lparr>j_ID = r_id r, j_TenantID = r_tenant_id r, j_IdempotencyKey = r_idempotency_key r,
      j_RequestHash = r_request_hash r, j_Request = r_request r,
      j_AgentID = (case r_agent_id r of None \<Rightarrow> [] | Some s \<Rightarrow> s),
      j_RequiredCapability = (case r_required_capability r of None \<Rightarrow> [] | Some s \<Rightarrow> s),
      j_State = r_state r, j_Attempt = r_attempt r, j_MaxAttempts = r_max_attempts r,
      j_NextRunAt = r_next_run_at r, j_LeaseOwner = r_lease_owner r,
      j_LeaseToken = r_lease_token r, j_LeaseExpiresAt = r_lease_expires_at r,
      j_Response = (case r_response r of None \<Rightarrow> [] | Some s \<Rightarrow> s),
      j_FailureCode = r_failure_code r, j_FailureMessage = r_failure_message r,
      j_CancelRequestedAt = r_cancel_requested_at r, j_CreatedAt = r_created_at r,
      j_UpdatedAt = r_updated_at r\<rparr>"

section \<open>Payloads and limits\<close>

definition MaxJobBatchSize :: int where "MaxJobBatchSize = 1000"
definition MaxJobLeaseDuration :: go_duration where "MaxJobLeaseDuration = 24 * hour"
definition MaxJobPayloadBytes :: nat where "MaxJobPayloadBytes = 10485760"

definition validateJobBatchSize :: "int \<Rightarrow> repo_error option" where
  "validateJobBatchSize n = (if n < 1 \<or> n > MaxJobBatchSize then Some ErrInvalidBatchSize else None)"

definition validateLeaseDuration :: "go_duration \<Rightarrow> repo_error option" where
  "validateLeaseDuration d =
     (if d < millisecond \<or> d > MaxJobLeaseDuration then Some ErrInvalidLeaseDuration else None)"

definition marshalJobPayload :: "ledger_env \<Rightarrow> payload \<Rightarrow> repo_error + bytes" where
  "marshalJobPayload E v =
     (case (case v of
              PRaw raw \<Rightarrow> if env_json_valid E raw then Inr raw
                          else Inl (Marshal_error ''invalid JSON payload'')
            | PNil \<Rightarrow> Inr ''null''
            | PValue j \<Rightarrow> (case env_json_marshal E j of Inl m \<Rightarrow> Inl (Marshal_error m) | Inr b \<Rightarrow> Inr b)) of
        Inl e \<Rightarrow> Inl e
      | Inr payload \<Rightarrow>
          if length payload > MaxJobPayloadBytes then Inl ErrJobPayloadTooLarge else Inr payload)"

definition computeJobIdempotencyHash ::
  "ledger_env \<Rightarrow> bytes \<Rightarrow> CreateJobInput \<Rightarrow> repo_error + string" where
  "computeJobIdempotencyHash E request c =
     (case env_marshal_fingerprint E request (trim_space (c_AgentID c))
             (trim_space (c_RequiredCapability c)) (c_MaxAttempts c) of
        Inl m \<Rightarrow> Inl (Marshal_error m)
      | Inr fp \<Rightarrow> Inr (ComputeRequestHash (env_unicode E) (env_sha256 E) fp))"

section \<open>Creation and lookup\<close>

definition nullif_trim :: "string \<Rightarrow> string option" where
  "nullif_trim s = (if sql_trim s = [] then None else Some (sql_trim s))"

definition new_row :: "go_time \<Rightarrow> CreateJobInput \<Rightarrow> string \<Rightarrow> bytes \<Rightarrow> durable_job" where
  "new_row now c hash req =
     \<lparr>r_id = c_ID c, r_tenant_id = c_TenantID c, r_idempotency_key = c_IdempotencyKey c,
      r_request_hash = hash, r_request = req,
      r_agent_id = nullif_trim (c_AgentID c),
      r_required_capability = nullif_trim (c_RequiredCapability c),
      r_state = JobStateQueued, r_attempt = 0, r_max_attempts = c_MaxAttempts c,
      r_next_run_at = (case c_NextRunAt c of None \<Rightarrow> now | Some t \<Rightarrow> t),
      r_lease_owner = None, r_lease_token = 0, r_lease_expires_at = None,
      r_response = None, r_failure_code = None, r_failure_message = None,
      r_cancel_requested_at = None, r_created_at = now, r_updated_at = now\<rparr>"

text \<open>\<open>INSERT ... ON CONFLICT DO NOTHING RETURNING\<close>.\<close>

definition insertJobSQL ::
  "ledger_env \<Rightarrow> go_time \<Rightarrow> CreateJobInput \<Rightarrow> string \<Rightarrow> bytes \<Rightarrow> durable_job list
     \<Rightarrow> db_raw + durable_job list \<times> durable_job option" where
  "insertJobSQL E now c hash reqBytes rs =
     (case env_jsonb E reqBytes of
        None \<Rightarrow> Inl (Raw_msg ''invalid input syntax for type json'')
      | Some req \<Rightarrow>
          let row = new_row now c hash req in
          if \<exists>r\<in>set rs. row_key r = row_key row \<or> idem_key r = idem_key row
          then Inr (rs, None) else Inr (rs @ [row], Some row))"

definition CreateJob ::
  "ledger_env \<Rightarrow> ctx_error option \<Rightarrow> go_time \<Rightarrow> db_outcome \<Rightarrow> db_outcome \<Rightarrow> CreateJobInput \<Rightarrow> JobRepo
     \<Rightarrow> JobRepo \<times> (repo_error + Job)" where
  "CreateJob E ctx now out1 out2 c R =
     (if repo_closed R then (R, Inl ErrStoreClosed)
      else case ctx of Some e \<Rightarrow> (R, Inl (Ctx_error e)) | None \<Rightarrow>
      case CreateJobInput_Validate c of Some e \<Rightarrow> (R, Inl (Model_error e)) | None \<Rightarrow>
      case marshalJobPayload E (c_Request c) of Inl e \<Rightarrow> (R, Inl e) | Inr reqBytes \<Rightarrow>
      case computeJobIdempotencyHash E reqBytes c of Inl e \<Rightarrow> (R, Inl e) | Inr computedHash \<Rightarrow>
      if c_RequestHash c \<noteq> [] \<and> \<not> equal_fold (env_unicode E) (c_RequestHash c) computedHash
      then (R, Inl (Model_error ErrRequestHashMismatch))
      else
        let res = exec_sql out1 (insertJobSQL E now c computedHash reqBytes) (rows R);
            R' = R\<lparr>rows := fst res\<rparr> in
        case snd res of
          Inl e \<Rightarrow> (R', Inl (redactErr R e))
        | Inr (Some row) \<Rightarrow> (R', Inr (scanJob row))
        | Inr None \<Rightarrow>
            (case query_sql out2 (find (\<lambda>r. r_tenant_id r = c_TenantID c
                     \<and> r_idempotency_key r = c_IdempotencyKey c) (rows R')) of
               Inl e \<Rightarrow> (R', Inl (redactErr R e))
             | Inr None \<Rightarrow> (R', Inl ErrJobIDConflict)
             | Inr (Some row) \<Rightarrow>
                 if j_RequestHash (scanJob row) = computedHash then (R', Inr (scanJob row))
                 else (R', Inl ErrIdempotencyConflict)))"

definition check_ids :: "string \<Rightarrow> string \<Rightarrow> job_error option" where
  "check_ids tenantID jobID =
     (if trim_space tenantID = [] then Some ErrEmptyTenantID
      else if rune_count tenantID > MaxTenantIDLength then Some ErrTenantIDTooLong
      else if trim_space jobID = [] then Some ErrEmptyJobID
      else if rune_count jobID > MaxJobIDLength then Some ErrJobIDTooLong
      else None)"

definition GetJob ::
  "ctx_error option \<Rightarrow> db_outcome \<Rightarrow> string \<Rightarrow> string \<Rightarrow> JobRepo \<Rightarrow> repo_error + Job" where
  "GetJob ctx out tenantID jobID R =
     (if repo_closed R then Inl ErrStoreClosed
      else case ctx of Some e \<Rightarrow> Inl (Ctx_error e) | None \<Rightarrow>
      case check_ids tenantID jobID of Some e \<Rightarrow> Inl (Model_error e) | None \<Rightarrow>
      case query_sql out (find (\<lambda>r. r_tenant_id r = tenantID \<and> r_id r = jobID) (rows R)) of
        Inl e \<Rightarrow> Inl (redactErr R e)
      | Inr None \<Rightarrow> Inl ErrJobNotFound
      | Inr (Some row) \<Rightarrow> Inr (scanJob row))"

section \<open>Leasing\<close>

definition ready_row :: "go_time \<Rightarrow> durable_job \<Rightarrow> bool" where
  "ready_row now r \<longleftrightarrow>
     r_state r = JobStateQueued \<and> r_next_run_at r \<le> now \<and> r_attempt r < r_max_attempts r"

text \<open>
  The common table expression of the acquisition: the first \<open>LIMIT\<close> ready rows that no
  other transaction holds, by \<open>next_run_at\<close>, then \<open>created_at\<close>; \<open>tie\<close> is the order the
  database happens to give to rows that agree on both.
\<close>

definition ready_batch ::
  "go_time \<Rightarrow> job_key set \<Rightarrow> (durable_job \<Rightarrow> nat) \<Rightarrow> nat \<Rightarrow> durable_job list \<Rightarrow> durable_job list" where
  "ready_batch now locked tie n rs =
     take n (sort_key (\<lambda>r. (r_next_run_at r, r_created_at r, tie r))
       (filter (\<lambda>r. ready_row now r \<and> row_key r \<notin> locked) rs))"

definition lease_row :: "go_time \<Rightarrow> string \<Rightarrow> int \<Rightarrow> durable_job \<Rightarrow> durable_job" where
  "lease_row now owner ms r =
     r\<lparr>r_state := JobStateLeased, r_attempt := r_attempt r + 1, r_lease_owner := Some owner,
       r_lease_token := r_lease_token r + 1, r_lease_expires_at := Some (now + ms * 1000),
       r_updated_at := now\<rparr>"

definition acquireLeasesSQL ::
  "go_time \<Rightarrow> job_key set \<Rightarrow> (durable_job \<Rightarrow> nat) \<Rightarrow> nat \<Rightarrow> string \<Rightarrow> int \<Rightarrow> durable_job list
     \<Rightarrow> db_raw + durable_job list \<times> durable_job list" where
  "acquireLeasesSQL now locked tie n owner ms rs =
     (let ready = map row_key (ready_batch now locked tie n rs);
          sel = (\<lambda>r. row_key r \<in> set ready)
      in Inr (map (\<lambda>r. if sel r then lease_row now owner ms r else r) rs,
              map (lease_row now owner ms) (filter sel rs)))"

definition AcquireLeases ::
  "ctx_error option \<Rightarrow> go_time \<Rightarrow> job_key set \<Rightarrow> (durable_job \<Rightarrow> nat) \<Rightarrow> db_outcome
     \<Rightarrow> string \<Rightarrow> int \<Rightarrow> go_duration \<Rightarrow> JobRepo \<Rightarrow> JobRepo \<times> (repo_error + Job list)" where
  "AcquireLeases ctx now locked tie out owner batchSize leaseDuration R =
     (if repo_closed R then (R, Inl ErrStoreClosed)
      else case ctx of Some e \<Rightarrow> (R, Inl (Ctx_error e)) | None \<Rightarrow>
      if trim_space owner = [] then (R, Inl (Model_error ErrEmptyLeaseOwner))
      else if rune_count owner > MaxLeaseOwnerLength then (R, Inl (Model_error ErrLeaseOwnerTooLong))
      else case validateJobBatchSize batchSize of Some e \<Rightarrow> (R, Inl e) | None \<Rightarrow>
      case validateLeaseDuration leaseDuration of Some e \<Rightarrow> (R, Inl e) | None \<Rightarrow>
        let res = exec_sql out (acquireLeasesSQL now locked tie (nat batchSize) owner
                    (duration_ms leaseDuration)) (rows R);
            R' = R\<lparr>rows := fst res\<rparr> in
        case snd res of
          Inl e \<Rightarrow> (R', Inl (redactErr R e))
        | Inr leased \<Rightarrow>
            (R', Inr (sort_key (\<lambda>j. (j_NextRunAt j, j_CreatedAt j, j_ID j)) (map scanJob leased))))"

section \<open>Fenced mutations\<close>

text \<open>The \<open>WHERE\<close> clause that every fenced statement shares; a comparison with \<open>NULL\<close> fails.\<close>

definition fence_match :: "LeaseFence \<Rightarrow> go_time \<Rightarrow> durable_job \<Rightarrow> bool" where
  "fence_match f now r \<longleftrightarrow>
     r_tenant_id r = f_TenantID f \<and> r_id r = f_JobID f \<and>
     r_lease_owner r = Some (f_LeaseOwner f) \<and> r_lease_token r = f_LeaseToken f \<and>
     holds_lease (r_state r) \<and>
     (case r_lease_expires_at r of None \<Rightarrow> False | Some t \<Rightarrow> now < t)"

definition handleLeaseMutationMiss ::
  "db_outcome \<Rightarrow> string \<Rightarrow> string \<Rightarrow> bool \<Rightarrow> JobRepo \<Rightarrow> repo_error" where
  "handleLeaseMutationMiss out tenantID jobID reportCancellation R =
     (case query_sql out (find (\<lambda>r. r_tenant_id r = tenantID \<and> r_id r = jobID) (rows R)) of
        Inl e \<Rightarrow> redactErr R e
      | Inr None \<Rightarrow> ErrJobNotFound
      | Inr (Some r) \<Rightarrow>
          if reportCancellation \<and> r_cancel_requested_at r \<noteq> None then ErrCancellationRequested
          else ErrLeaseLost)"

text \<open>Execution of a fenced statement: driver error, miss, or success (\<open>None\<close>).\<close>

definition fenced_exec ::
  "db_outcome \<Rightarrow> db_outcome \<Rightarrow> (durable_job list \<Rightarrow> db_raw + durable_job list \<times> nat)
     \<Rightarrow> string \<Rightarrow> string \<Rightarrow> bool \<Rightarrow> JobRepo \<Rightarrow> JobRepo \<times> repo_error option" where
  "fenced_exec out1 out2 stmt tenantID jobID reportCancellation R =
     (let res = exec_sql out1 stmt (rows R); R' = R\<lparr>rows := fst res\<rparr> in
      case snd res of
        Inl e \<Rightarrow> (R', Some (redactErr R e))
      | Inr n \<Rightarrow>
          if n = 0 then (R', Some (handleLeaseMutationMiss out2 tenantID jobID reportCancellation R'))
          else (R', None))"

definition markRunningSQL where
  "markRunningSQL f now = update_where
     (\<lambda>r. fence_match f now r \<and> r_state r = JobStateLeased \<and> r_cancel_requested_at r = None)
     (\<lambda>r. r\<lparr>r_state := JobStateRunning, r_updated_at := now\<rparr>)"

definition MarkRunning ::
  "ctx_error option \<Rightarrow> go_time \<Rightarrow> db_outcome \<Rightarrow> db_outcome \<Rightarrow> LeaseFence \<Rightarrow> JobRepo
     \<Rightarrow> JobRepo \<times> repo_error option" where
  "MarkRunning ctx now out1 out2 f R =
     (if repo_closed R then (R, Some ErrStoreClosed)
      else case ctx of Some e \<Rightarrow> (R, Some (Ctx_error e)) | None \<Rightarrow>
      case LeaseFence_Validate f of Some e \<Rightarrow> (R, Some (Model_error e)) | None \<Rightarrow>
        fenced_exec out1 out2 (markRunningSQL f now) (f_TenantID f) (f_JobID f) True R)"

definition renewLeaseSQL where
  "renewLeaseSQL f now ms = update_where (fence_match f now)
     (\<lambda>r. r\<lparr>r_lease_expires_at := Some (now + ms * 1000), r_updated_at := now\<rparr>)"

definition RenewLease ::
  "ctx_error option \<Rightarrow> go_time \<Rightarrow> db_outcome \<Rightarrow> db_outcome \<Rightarrow> LeaseFence \<Rightarrow> go_duration \<Rightarrow> JobRepo
     \<Rightarrow> JobRepo \<times> repo_error option" where
  "RenewLease ctx now out1 out2 f duration R =
     (if repo_closed R then (R, Some ErrStoreClosed)
      else case ctx of Some e \<Rightarrow> (R, Some (Ctx_error e)) | None \<Rightarrow>
      case LeaseFence_Validate f of Some e \<Rightarrow> (R, Some (Model_error e)) | None \<Rightarrow>
      case validateLeaseDuration duration of Some e \<Rightarrow> (R, Some e) | None \<Rightarrow>
        fenced_exec out1 out2 (renewLeaseSQL f now (duration_ms duration))
          (f_TenantID f) (f_JobID f) False R)"

definition completeJobSQL ::
  "ledger_env \<Rightarrow> LeaseFence \<Rightarrow> go_time \<Rightarrow> bytes \<Rightarrow> durable_job list
     \<Rightarrow> db_raw + durable_job list \<times> nat" where
  "completeJobSQL E f now respBytes rs =
     (case env_jsonb E respBytes of
        None \<Rightarrow> Inl (Raw_msg ''invalid input syntax for type json'')
      | Some resp \<Rightarrow> update_where (fence_match f now)
          (\<lambda>r. r\<lparr>r_state := JobStateSucceeded, r_response := Some resp, r_lease_owner := None,
                r_lease_expires_at := None, r_updated_at := now\<rparr>) rs)"

definition CompleteJob ::
  "ledger_env \<Rightarrow> ctx_error option \<Rightarrow> go_time \<Rightarrow> db_outcome \<Rightarrow> db_outcome \<Rightarrow> LeaseFence \<Rightarrow> payload
     \<Rightarrow> JobRepo \<Rightarrow> JobRepo \<times> repo_error option" where
  "CompleteJob E ctx now out1 out2 f response R =
     (if repo_closed R then (R, Some ErrStoreClosed)
      else case ctx of Some e \<Rightarrow> (R, Some (Ctx_error e)) | None \<Rightarrow>
      case LeaseFence_Validate f of Some e \<Rightarrow> (R, Some (Model_error e)) | None \<Rightarrow>
      case marshalJobPayload E response of Inl e \<Rightarrow> (R, Some e) | Inr respBytes \<Rightarrow>
        fenced_exec out1 out2 (completeJobSQL E f now respBytes) (f_TenantID f) (f_JobID f) False R)"

definition fail_row :: "go_time \<Rightarrow> FailJobInput \<Rightarrow> durable_job \<Rightarrow> durable_job" where
  "fail_row now x r =
     r\<lparr>r_state := (if \<not> x_Retryable x then JobStateFailed
                   else if r_attempt r < r_max_attempts r then JobStateQueued
                   else JobStateDeadLetter),
       r_next_run_at := (if x_Retryable x \<and> r_attempt r < r_max_attempts r
                         then now + duration_ms (x_Backoff x) * 1000 else r_next_run_at r),
       r_failure_code := nullif_trim (x_FailureCode x),
       r_failure_message := nullif_trim (x_FailureMessage x),
       r_lease_owner := None, r_lease_expires_at := None, r_updated_at := now\<rparr>"

definition failJobSQL where
  "failJobSQL x now = update_where (fence_match (FailJobInput_Fence x) now) (fail_row now x)"

definition FailJob ::
  "ctx_error option \<Rightarrow> go_time \<Rightarrow> db_outcome \<Rightarrow> db_outcome \<Rightarrow> FailJobInput \<Rightarrow> JobRepo
     \<Rightarrow> JobRepo \<times> repo_error option" where
  "FailJob ctx now out1 out2 x R =
     (if repo_closed R then (R, Some ErrStoreClosed)
      else case ctx of Some e \<Rightarrow> (R, Some (Ctx_error e)) | None \<Rightarrow>
      case FailJobInput_Validate x of Some e \<Rightarrow> (R, Some (Model_error e)) | None \<Rightarrow>
        fenced_exec out1 out2 (failJobSQL x now) (x_TenantID x) (x_JobID x) False R)"

definition ackCancelSQL where
  "ackCancelSQL f now = update_where
     (\<lambda>r. fence_match f now r \<and> r_cancel_requested_at r \<noteq> None)
     (\<lambda>r. r\<lparr>r_state := JobStateCanceled, r_lease_owner := None, r_lease_expires_at := None,
           r_updated_at := now\<rparr>)"

definition AcknowledgeCancellation ::
  "ctx_error option \<Rightarrow> go_time \<Rightarrow> db_outcome \<Rightarrow> db_outcome \<Rightarrow> LeaseFence \<Rightarrow> JobRepo
     \<Rightarrow> JobRepo \<times> repo_error option" where
  "AcknowledgeCancellation ctx now out1 out2 f R =
     (if repo_closed R then (R, Some ErrStoreClosed)
      else case ctx of Some e \<Rightarrow> (R, Some (Ctx_error e)) | None \<Rightarrow>
      case LeaseFence_Validate f of Some e \<Rightarrow> (R, Some (Model_error e)) | None \<Rightarrow>
        fenced_exec out1 out2 (ackCancelSQL f now) (f_TenantID f) (f_JobID f) False R)"

section \<open>Cancellation and reclamation\<close>

definition cancel_row :: "go_time \<Rightarrow> durable_job \<Rightarrow> durable_job" where
  "cancel_row now r =
     (let active = (r_state r = JobStateQueued \<or> holds_lease (r_state r)) in
      r\<lparr>r_state := (if r_state r = JobStateQueued then JobStateCanceled else r_state r),
        r_cancel_requested_at :=
          (if active then (case r_cancel_requested_at r of None \<Rightarrow> Some now | Some t \<Rightarrow> Some t)
           else r_cancel_requested_at r),
        r_updated_at := (if active then now else r_updated_at r)\<rparr>)"

definition cancelJobSQL where
  "cancelJobSQL tenantID jobID now =
     update_where (\<lambda>r. r_tenant_id r = tenantID \<and> r_id r = jobID) (cancel_row now)"

definition CancelJob ::
  "ctx_error option \<Rightarrow> go_time \<Rightarrow> db_outcome \<Rightarrow> string \<Rightarrow> string \<Rightarrow> JobRepo
     \<Rightarrow> JobRepo \<times> repo_error option" where
  "CancelJob ctx now out tenantID jobID R =
     (if repo_closed R then (R, Some ErrStoreClosed)
      else case ctx of Some e \<Rightarrow> (R, Some (Ctx_error e)) | None \<Rightarrow>
      case check_ids tenantID jobID of Some e \<Rightarrow> (R, Some (Model_error e)) | None \<Rightarrow>
        let res = exec_sql out (cancelJobSQL tenantID jobID now) (rows R);
            R' = R\<lparr>rows := fst res\<rparr> in
        case snd res of
          Inl e \<Rightarrow> (R', Some (redactErr R e))
        | Inr n \<Rightarrow> if n = 0 then (R', Some ErrJobNotFound) else (R', None))"

definition expired_row :: "go_time \<Rightarrow> durable_job \<Rightarrow> bool" where
  "expired_row now r \<longleftrightarrow>
     holds_lease (r_state r) \<and> (case r_lease_expires_at r of None \<Rightarrow> False | Some t \<Rightarrow> t \<le> now)"

definition expired_batch ::
  "go_time \<Rightarrow> job_key set \<Rightarrow> (durable_job \<Rightarrow> nat) \<Rightarrow> nat \<Rightarrow> durable_job list \<Rightarrow> durable_job list" where
  "expired_batch now locked tie n rs =
     take n (sort_key (\<lambda>r. (the (r_lease_expires_at r), tie r))
       (filter (\<lambda>r. expired_row now r \<and> row_key r \<notin> locked) rs))"

definition reclaim_row :: "go_time \<Rightarrow> int \<Rightarrow> durable_job \<Rightarrow> durable_job" where
  "reclaim_row now ms r =
     r\<lparr>r_state := (if r_cancel_requested_at r \<noteq> None then JobStateCanceled
                   else if r_attempt r < r_max_attempts r then JobStateQueued
                   else JobStateDeadLetter),
       r_next_run_at := (if r_cancel_requested_at r = None \<and> r_attempt r < r_max_attempts r
                         then now + ms * 1000 else r_next_run_at r),
       r_lease_owner := None, r_lease_expires_at := None,
       r_lease_token := r_lease_token r + 1, r_updated_at := now\<rparr>"

definition reclaimExpiredSQL ::
  "go_time \<Rightarrow> job_key set \<Rightarrow> (durable_job \<Rightarrow> nat) \<Rightarrow> nat \<Rightarrow> int \<Rightarrow> durable_job list
     \<Rightarrow> db_raw + durable_job list \<times> nat" where
  "reclaimExpiredSQL now locked tie n ms rs =
     update_where (\<lambda>r. row_key r \<in> set (map row_key (expired_batch now locked tie n rs)))
       (reclaim_row now ms) rs"

definition ReclaimExpiredLeases ::
  "ctx_error option \<Rightarrow> go_time \<Rightarrow> job_key set \<Rightarrow> (durable_job \<Rightarrow> nat) \<Rightarrow> db_outcome
     \<Rightarrow> int \<Rightarrow> go_duration \<Rightarrow> JobRepo \<Rightarrow> JobRepo \<times> (repo_error + nat)" where
  "ReclaimExpiredLeases ctx now locked tie out batchSize defaultBackoff R =
     (if repo_closed R then (R, Inl ErrStoreClosed)
      else case ctx of Some e \<Rightarrow> (R, Inl (Ctx_error e)) | None \<Rightarrow>
      case validateJobBatchSize batchSize of Some e \<Rightarrow> (R, Inl e) | None \<Rightarrow>
      if defaultBackoff < 0 \<or> defaultBackoff > MaxRetryBackoff
      then (R, Inl (Model_error ErrInvalidRetryBackoff))
      else
        let res = exec_sql out (reclaimExpiredSQL now locked tie (nat batchSize)
                    (duration_ms defaultBackoff)) (rows R);
            R' = R\<lparr>rows := fst res\<rparr> in
        case snd res of
          Inl e \<Rightarrow> (R', Inl (redactErr R e))
        | Inr n \<Rightarrow> (R', Inr n))"

section \<open>Pool management\<close>

definition Repo_Ping :: "db_outcome \<Rightarrow> JobRepo \<Rightarrow> repo_error option" where
  "Repo_Ping out R =
     (if repo_closed R then Some ErrStoreClosed
      else if repo_pool R = None then Some ErrPoolNil
      else case query_sql out () of Inl e \<Rightarrow> Some (redactErr R e) | Inr _ \<Rightarrow> None)"

definition Repo_Close :: "JobRepo \<Rightarrow> JobRepo" where
  "Repo_Close R =
     (if repo_closed R then R
      else (let R' = R\<lparr>repo_closed := True\<rparr> in
            if repo_ownsPool R \<and> repo_pool R \<noteq> None then R'\<lparr>repo_pool := Some False\<rparr> else R'))"

end
