(* ===== verification/Ledger_Spec.thy ===== *)
theory Ledger_Spec
  imports Job_Ledger
begin

text \<open>
  The abstract specification of a durable job (\<open>lifecycle\<close>: which changes of state,
  attempt counter, lease token and cancellation intent are allowed) and the refinement of
  the ledger to it: every operation of the repository moves each existing row by one
  allowed change, keeps the identity of every row and only appends new, queued rows.
  The invariants of the ledger follow from the abstract steps.
\<close>

section \<open>The abstract job\<close>

record abstract_job =
  a_state :: JobState
  a_attempt :: int
  a_max :: int
  a_token :: int
  a_cancel :: bool

definition abs_job :: "durable_job \<Rightarrow> abstract_job" where
  "abs_job r = \<lparr>a_state = r_state r, a_attempt = r_attempt r, a_max = r_max_attempts r,
     a_token = r_lease_token r, a_cancel = (r_cancel_requested_at r \<noteq> None)\<rparr>"

inductive lifecycle :: "abstract_job \<Rightarrow> abstract_job \<Rightarrow> bool" where
  stay: "lifecycle a a"
| lease: "a_state a = JobStateQueued \<Longrightarrow> a_attempt a < a_max a \<Longrightarrow>
    lifecycle a (a\<lparr>a_state := JobStateLeased, a_attempt := a_attempt a + 1, a_token := a_token a + 1\<rparr>)"
| start: "a_state a = JobStateLeased \<Longrightarrow> \<not> a_cancel a \<Longrightarrow> lifecycle a (a\<lparr>a_state := JobStateRunning\<rparr>)"
| succeed: "holds_lease (a_state a) \<Longrightarrow> lifecycle a (a\<lparr>a_state := JobStateSucceeded\<rparr>)"
| fail: "holds_lease (a_state a) \<Longrightarrow> lifecycle a (a\<lparr>a_state := JobStateFailed\<rparr>)"
| retry: "holds_lease (a_state a) \<Longrightarrow> a_attempt a < a_max a \<Longrightarrow>
    lifecycle a (a\<lparr>a_state := JobStateQueued\<rparr>)"
| exhaust: "holds_lease (a_state a) \<Longrightarrow> \<not> a_attempt a < a_max a \<Longrightarrow>
    lifecycle a (a\<lparr>a_state := JobStateDeadLetter\<rparr>)"
| cancel_queued: "a_state a = JobStateQueued \<Longrightarrow>
    lifecycle a (a\<lparr>a_state := JobStateCanceled, a_cancel := True\<rparr>)"
| cancel_active: "holds_lease (a_state a) \<Longrightarrow> lifecycle a (a\<lparr>a_cancel := True\<rparr>)"
| acknowledge: "holds_lease (a_state a) \<Longrightarrow> a_cancel a \<Longrightarrow> lifecycle a (a\<lparr>a_state := JobStateCanceled\<rparr>)"
| reclaim_canceled: "holds_lease (a_state a) \<Longrightarrow> a_cancel a \<Longrightarrow>
    lifecycle a (a\<lparr>a_state := JobStateCanceled, a_token := a_token a + 1\<rparr>)"
| reclaim_retry: "holds_lease (a_state a) \<Longrightarrow> \<not> a_cancel a \<Longrightarrow> a_attempt a < a_max a \<Longrightarrow>
    lifecycle a (a\<lparr>a_state := JobStateQueued, a_token := a_token a + 1\<rparr>)"
| reclaim_exhausted: "holds_lease (a_state a) \<Longrightarrow> \<not> a_cancel a \<Longrightarrow> \<not> a_attempt a < a_max a \<Longrightarrow>
    lifecycle a (a\<lparr>a_state := JobStateDeadLetter, a_token := a_token a + 1\<rparr>)"

text \<open>What the specification promises of one step.\<close>

lemma lifecycle_terminal: "lifecycle a b \<Longrightarrow> IsTerminal (a_state a) \<Longrightarrow> b = a"
  by (erule lifecycle.cases) (auto simp: holds_lease_def)

lemma lifecycle_token_mono: "lifecycle a b \<Longrightarrow> a_token a \<le> a_token b"
  by (erule lifecycle.cases) auto

lemma lifecycle_token_lease:
  "lifecycle a b \<Longrightarrow> \<not> holds_lease (a_state a) \<Longrightarrow> holds_lease (a_state b) \<Longrightarrow> a_token a < a_token b"
  by (erule lifecycle.cases) auto

lemma lifecycle_cancel_sticky: "lifecycle a b \<Longrightarrow> a_cancel a \<Longrightarrow> a_cancel b"
  by (erule lifecycle.cases) auto

lemma lifecycle_no_start_after_cancel:
  "lifecycle a b \<Longrightarrow> a_cancel a \<Longrightarrow> a_state b = JobStateRunning \<Longrightarrow> a_state a = JobStateRunning"
  by (erule lifecycle.cases) auto

lemma lifecycle_max: "lifecycle a b \<Longrightarrow> a_max b = a_max a"
  by (erule lifecycle.cases) auto

text \<open>
  The counters of a job. A queued job always has an attempt left, so it can be leased; the
  lease token is bounded by twice the attempt counter, so it stays far below 64 bits.
\<close>

definition counters_ok :: "abstract_job \<Rightarrow> bool" where
  "counters_ok a \<longleftrightarrow> 0 \<le> a_attempt a \<and> a_attempt a \<le> a_max a \<and> 0 \<le> a_token a \<and>
     (a_state a = JobStateQueued \<longrightarrow> a_attempt a < a_max a) \<and>
     (if holds_lease (a_state a) then 1 \<le> a_attempt a \<and> 1 \<le> a_token a \<and> a_token a \<le> 2 * a_attempt a - 1
      else a_token a \<le> 2 * a_attempt a)"

lemma lifecycle_counters: "lifecycle a b \<Longrightarrow> counters_ok a \<Longrightarrow> counters_ok b"
  by (erule lifecycle.cases) (auto simp: counters_ok_def)

section \<open>Rows under the operations\<close>

text \<open>The columns no operation changes.\<close>

definition same_identity :: "durable_job \<Rightarrow> durable_job \<Rightarrow> bool" where
  "same_identity r r' \<longleftrightarrow> row_key r' = row_key r \<and> idem_key r' = idem_key r \<and>
     r_request_hash r' = r_request_hash r \<and> r_request r' = r_request r \<and>
     r_agent_id r' = r_agent_id r \<and> r_required_capability r' = r_required_capability r \<and>
     r_max_attempts r' = r_max_attempts r \<and> r_created_at r' = r_created_at r"

definition row_step :: "durable_job \<Rightarrow> durable_job \<Rightarrow> bool" where
  "row_step r r' \<longleftrightarrow> same_identity r r' \<and> lifecycle (abs_job r) (abs_job r') \<and>
     (IsTerminal (r_state r) \<longrightarrow> r' = r) \<and>
     (holds_lease (r_state r') \<longrightarrow>
        r_lease_owner r' = r_lease_owner r \<or> r_lease_token r < r_lease_token r')"

text \<open>A row as \<open>CreateJob\<close> inserts it; its identifiers have passed the checks of the model.\<close>

definition ids_ok :: "durable_job \<Rightarrow> bool" where
  "ids_ok r \<longleftrightarrow> proper_id MaxTenantIDLength (r_tenant_id r) \<and> proper_id MaxJobIDLength (r_id r) \<and>
     proper_id MaxIdempotencyKeyLength (r_idempotency_key r)"

definition fresh_row :: "durable_job \<Rightarrow> bool" where
  "fresh_row r \<longleftrightarrow> r_state r = JobStateQueued \<and> r_attempt r = 0 \<and> r_lease_token r = 0 \<and>
     r_cancel_requested_at r = None \<and> 1 \<le> r_max_attempts r \<and> ids_ok r"

definition table_step :: "durable_job list \<Rightarrow> durable_job list \<Rightarrow> bool" where
  "table_step rs rs' \<longleftrightarrow>
     (\<exists>old new. rs' = old @ new \<and> list_all2 row_step rs old \<and> list_all fresh_row new \<and>
        length new \<le> 1 \<and>
        (\<forall>n\<in>set new. \<forall>r\<in>set rs. row_key r \<noteq> row_key n \<and> idem_key r \<noteq> idem_key n))"

named_theorems row_updates \<open>definitions of the row updates\<close>

lemmas [row_updates] = lease_row_def fail_row_def cancel_row_def reclaim_row_def

lemma same_identity_refl [simp]: "same_identity r r"
  by (simp add: same_identity_def)

lemma row_step_refl [simp]: "row_step r r"
  by (simp add: row_step_def lifecycle.stay)

lemma table_step_refl [simp]: "table_step rs rs"
  unfolding table_step_def
  by (rule exI [of _ rs], rule exI [of _ "[]"]) (simp add: list_all2_refl)

lemma table_step_map: "(\<And>r. r \<in> set rs \<Longrightarrow> row_step r (g r)) \<Longrightarrow> table_step rs (map g rs)"
  unfolding table_step_def
  by (rule exI [of _ "map g rs"], rule exI [of _ "[]"])
    (auto simp: list_all2_conv_all_nth)

text \<open>A row update that is an allowed change.\<close>

lemma row_stepI:
  assumes "same_identity r r'" and "IsTerminal (r_state r) \<Longrightarrow> r' = r"
    and "holds_lease (r_state r') \<Longrightarrow> r_lease_owner r' = r_lease_owner r \<or> r_lease_token r < r_lease_token r'"
    and "lifecycle (abs_job r) b" and "abs_job r' = b"
  shows "row_step r r'"
  using assms by (simp add: row_step_def)

lemma row_step_lease: "ready_row now r \<Longrightarrow> row_step r (lease_row now owner ms r)"
  by (rule row_stepI, simp add: same_identity_def row_key_def idem_key_def row_updates,
      simp add: ready_row_def, simp add: row_updates, rule lifecycle.lease) (auto simp: ready_row_def abs_job_def row_updates)

lemma row_step_running:
  "r_state r = JobStateLeased \<Longrightarrow> r_cancel_requested_at r = None \<Longrightarrow>
   row_step r (r\<lparr>r_state := JobStateRunning, r_updated_at := now\<rparr>)"
  by (rule row_stepI, simp add: same_identity_def row_key_def idem_key_def, simp, simp,
      rule lifecycle.start) (auto simp: abs_job_def)

lemma row_step_renew:
  "holds_lease (r_state r) \<Longrightarrow> row_step r (r\<lparr>r_lease_expires_at := e, r_updated_at := now\<rparr>)"
  by (rule row_stepI, simp add: same_identity_def row_key_def idem_key_def, simp, simp,
      rule lifecycle.stay) (auto simp: abs_job_def)

lemma row_step_complete:
  "holds_lease (r_state r) \<Longrightarrow>
   row_step r (r\<lparr>r_state := JobStateSucceeded, r_response := resp, r_lease_owner := None,
     r_lease_expires_at := None, r_updated_at := now\<rparr>)"
  by (rule row_stepI, simp add: same_identity_def row_key_def idem_key_def, simp, simp,
      rule lifecycle.succeed) (auto simp: abs_job_def)

lemma row_step_ack:
  "holds_lease (r_state r) \<Longrightarrow> r_cancel_requested_at r \<noteq> None \<Longrightarrow>
   row_step r (r\<lparr>r_state := JobStateCanceled, r_lease_owner := None,
     r_lease_expires_at := None, r_updated_at := now\<rparr>)"
  by (rule row_stepI, simp add: same_identity_def row_key_def idem_key_def, simp, simp,
      rule lifecycle.acknowledge) (auto simp: abs_job_def)

lemma row_step_fail: "holds_lease (r_state r) \<Longrightarrow> row_step r (fail_row now x r)"
proof -
  assume h: "holds_lease (r_state r)"
  have id: "same_identity r (fail_row now x r)"
    by (simp add: same_identity_def row_key_def idem_key_def row_updates)
  have nt: "IsTerminal (r_state r) \<Longrightarrow> fail_row now x r = r" using h by simp
  have ow: "holds_lease (r_state (fail_row now x r)) \<Longrightarrow> r_lease_owner (fail_row now x r) = r_lease_owner r \<or>
      r_lease_token r < r_lease_token (fail_row now x r)"
    by (simp add: row_updates split: if_splits)
  note stepI = row_stepI [OF id nt ow]
  consider "\<not> x_Retryable x" | "x_Retryable x" "r_attempt r < r_max_attempts r"
    | "x_Retryable x" "\<not> r_attempt r < r_max_attempts r" by blast
  then show ?thesis
  proof cases
    case 1
    show ?thesis
      by (rule stepI, assumption, assumption, rule lifecycle.fail)
        (use 1 h in \<open>simp_all add: abs_job_def row_updates\<close>)
  next
    case 2
    show ?thesis
      by (rule stepI, assumption, assumption, rule lifecycle.retry)
        (use 2 h in \<open>simp_all add: abs_job_def row_updates\<close>)
  next
    case 3
    show ?thesis
      by (rule stepI, assumption, assumption, rule lifecycle.exhaust)
        (use 3 h in \<open>simp_all add: abs_job_def row_updates\<close>)
  qed
qed

lemma row_step_cancel: "row_step r (cancel_row now r)"
proof -
  have id: "same_identity r (cancel_row now r)"
    by (simp add: same_identity_def row_key_def idem_key_def row_updates Let_def)
  have nt: "IsTerminal (r_state r) \<Longrightarrow> cancel_row now r = r"
    by (simp add: cancel_row_def Let_def)
  have ow: "holds_lease (r_state (cancel_row now r)) \<Longrightarrow> r_lease_owner (cancel_row now r) = r_lease_owner r \<or>
      r_lease_token r < r_lease_token (cancel_row now r)"
    by (simp add: row_updates Let_def)
  note stepI = row_stepI [OF id nt ow]
  consider "r_state r = JobStateQueued" | "holds_lease (r_state r)"
    | "r_state r \<noteq> JobStateQueued" "\<not> holds_lease (r_state r)" by blast
  then show ?thesis
  proof cases
    case 1
    show ?thesis
      by (rule stepI, assumption, assumption, rule lifecycle.cancel_queued)
        (use 1 in \<open>simp_all add: abs_job_def row_updates Let_def split: option.splits\<close>)
  next
    case 2
    show ?thesis
      by (rule stepI, assumption, assumption, rule lifecycle.cancel_active)
        (use 2 in \<open>auto simp: abs_job_def row_updates Let_def split: option.splits\<close>)
  next
    case 3
    show ?thesis
      by (rule stepI, assumption, assumption, rule lifecycle.stay)
        (use 3 in \<open>simp_all add: abs_job_def row_updates Let_def\<close>)
  qed
qed

lemma row_step_reclaim: "holds_lease (r_state r) \<Longrightarrow> row_step r (reclaim_row now ms r)"
proof -
  assume h: "holds_lease (r_state r)"
  have id: "same_identity r (reclaim_row now ms r)"
    by (simp add: same_identity_def row_key_def idem_key_def row_updates)
  have nt: "IsTerminal (r_state r) \<Longrightarrow> reclaim_row now ms r = r" using h by simp
  have ow: "holds_lease (r_state (reclaim_row now ms r)) \<Longrightarrow> r_lease_owner (reclaim_row now ms r) = r_lease_owner r \<or>
      r_lease_token r < r_lease_token (reclaim_row now ms r)"
    by (simp add: row_updates split: if_splits)
  note stepI = row_stepI [OF id nt ow]
  consider "r_cancel_requested_at r \<noteq> None"
    | "r_cancel_requested_at r = None" "r_attempt r < r_max_attempts r"
    | "r_cancel_requested_at r = None" "\<not> r_attempt r < r_max_attempts r" by blast
  then show ?thesis
  proof cases
    case 1
    show ?thesis
      by (rule stepI, assumption, assumption, rule lifecycle.reclaim_canceled)
        (use 1 h in \<open>simp_all add: abs_job_def row_updates\<close>)
  next
    case 2
    show ?thesis
      by (rule stepI, assumption, assumption, rule lifecycle.reclaim_retry)
        (use 2 h in \<open>simp_all add: abs_job_def row_updates\<close>)
  next
    case 3
    show ?thesis
      by (rule stepI, assumption, assumption, rule lifecycle.reclaim_exhausted)
        (use 3 h in \<open>simp_all add: abs_job_def row_updates\<close>)
  qed
qed

end
