(* ===== verification/Ledger_Invariant.thy ===== *)
theory Ledger_Invariant
  imports Ledger_Spec
begin

text \<open>
  The ledger as a transition system: one rule of \<open>ledger_step\<close> per operation of the
  repository, with every argument, clock reading, lock set and database outcome arbitrary;
  the invariant of the table; the refinement of every step to the job lifecycle; and the
  consequences for whole histories.
\<close>

section \<open>The effect of each operation on the table\<close>

lemma exec_sql_cases:
  "fst (exec_sql out stmt rs) = rs \<or>
   (\<exists>v. stmt rs = Inr (fst (exec_sql out stmt rs), v) \<and> list_all row_ok (fst (exec_sql out stmt rs)))"
  by (auto simp: exec_sql_def split: db_outcome.splits sum.splits if_splits)

lemma exec_update_cases:
  "fst (exec_sql out (update_where P f) rs) = rs \<or>
   fst (exec_sql out (update_where P f) rs) = map (\<lambda>r. if P r then f r else r) rs"
  using exec_sql_cases [of out "update_where P f" rs] by (auto simp: update_where_def)

lemma rows_fenced_exec [simp]:
  "rows (fst (fenced_exec out1 out2 stmt t j b R)) = fst (exec_sql out1 stmt (rows R))"
  by (simp add: fenced_exec_def Let_def split: sum.split)

lemma rows_CreateJob:
  "rows (fst (CreateJob E ctx now out1 out2 c R)) = rows R \<or>
   (\<exists>h b. CreateJobInput_Validate c = None \<and> computeJobIdempotencyHash E b c = Inr h \<and>
     rows (fst (CreateJob E ctx now out1 out2 c R)) = fst (exec_sql out1 (insertJobSQL E now c h b) (rows R)))"
  by (auto simp: CreateJob_def Let_def split: option.splits sum.splits)

lemma rows_AcquireLeases:
  "rows (fst (AcquireLeases ctx now locked tie out owner n d R)) = rows R \<or>
   rows (fst (AcquireLeases ctx now locked tie out owner n d R)) =
     fst (exec_sql out (acquireLeasesSQL now locked tie (nat n) owner (duration_ms d)) (rows R))"
  by (simp add: AcquireLeases_def Let_def split: option.splits sum.splits)

lemma rows_MarkRunning:
  "rows (fst (MarkRunning ctx now out1 out2 f R)) = rows R \<or>
   rows (fst (MarkRunning ctx now out1 out2 f R)) = fst (exec_sql out1 (markRunningSQL f now) (rows R))"
  by (simp add: MarkRunning_def split: option.splits)

lemma rows_RenewLease:
  "rows (fst (RenewLease ctx now out1 out2 f d R)) = rows R \<or>
   rows (fst (RenewLease ctx now out1 out2 f d R)) =
     fst (exec_sql out1 (renewLeaseSQL f now (duration_ms d)) (rows R))"
  by (simp add: RenewLease_def split: option.splits)

lemma rows_CompleteJob:
  "rows (fst (CompleteJob E ctx now out1 out2 f resp R)) = rows R \<or>
   (\<exists>b. rows (fst (CompleteJob E ctx now out1 out2 f resp R)) =
     fst (exec_sql out1 (completeJobSQL E f now b) (rows R)))"
  by (auto simp: CompleteJob_def split: option.splits sum.splits)

lemma rows_FailJob:
  "rows (fst (FailJob ctx now out1 out2 x R)) = rows R \<or>
   rows (fst (FailJob ctx now out1 out2 x R)) =
     fst (exec_sql out1 (failJobSQL x now) (rows R))"
  by (simp add: FailJob_def split: option.splits)

lemma rows_AcknowledgeCancellation:
  "rows (fst (AcknowledgeCancellation ctx now out1 out2 f R)) = rows R \<or>
   rows (fst (AcknowledgeCancellation ctx now out1 out2 f R)) =
     fst (exec_sql out1 (ackCancelSQL f now) (rows R))"
  by (simp add: AcknowledgeCancellation_def split: option.splits)

lemma rows_CancelJob:
  "rows (fst (CancelJob ctx now out t j R)) = rows R \<or>
   rows (fst (CancelJob ctx now out t j R)) =
     fst (exec_sql out (cancelJobSQL t j now) (rows R))"
  by (simp add: CancelJob_def Let_def split: option.splits sum.splits)

lemma rows_ReclaimExpiredLeases:
  "rows (fst (ReclaimExpiredLeases ctx now locked tie out n d R)) = rows R \<or>
   rows (fst (ReclaimExpiredLeases ctx now locked tie out n d R)) =
     fst (exec_sql out (reclaimExpiredSQL now locked tie (nat n) (duration_ms d)) (rows R))"
  by (simp add: ReclaimExpiredLeases_def Let_def split: option.splits sum.splits)

section \<open>Selected batches\<close>

lemma ready_batch_in:
  "r \<in> set (ready_batch now locked tie n rs) \<Longrightarrow> r \<in> set rs \<and> ready_row now r \<and> row_key r \<notin> locked"
  unfolding ready_batch_def by (drule set_take_sort_key) simp

lemma expired_batch_in:
  "r \<in> set (expired_batch now locked tie n rs) \<Longrightarrow> r \<in> set rs \<and> expired_row now r \<and> row_key r \<notin> locked"
  unfolding expired_batch_def by (drule set_take_sort_key) simp

lemma distinct_key_eq:
  "distinct (map row_key rs) \<Longrightarrow> r \<in> set rs \<Longrightarrow> s \<in> set rs \<Longrightarrow> row_key r = row_key s \<Longrightarrow> r = s"
  by (simp add: distinct_map inj_on_def)

lemma key_in_sublist:
  assumes "distinct (map row_key rs)" and "set B \<subseteq> set rs" and "r \<in> set rs"
  shows "row_key r \<in> set (map row_key B) \<longleftrightarrow> r \<in> set B"
proof
  assume "row_key r \<in> set (map row_key B)"
  then obtain s where "s \<in> set B" "row_key r = row_key s" by auto
  with assms distinct_key_eq show "r \<in> set B" by (metis subsetD)
qed simp

lemma key_in_ready_batch:
  assumes "distinct (map row_key rs)" and "r \<in> set rs"
  shows "row_key r \<in> set (map row_key (ready_batch now locked tie n rs)) \<longleftrightarrow>
    r \<in> set (ready_batch now locked tie n rs)"
  by (rule key_in_sublist [OF assms(1) _ assms(2)]) (auto dest: ready_batch_in)

lemma key_in_expired_batch:
  assumes "distinct (map row_key rs)" and "r \<in> set rs"
  shows "row_key r \<in> set (map row_key (expired_batch now locked tie n rs)) \<longleftrightarrow>
    r \<in> set (expired_batch now locked tie n rs)"
  by (rule key_in_sublist [OF assms(1) _ assms(2)]) (auto dest: expired_batch_in)

section \<open>Every operation is a table step\<close>

lemma table_step_update:
  assumes "\<And>r. r \<in> set rs \<Longrightarrow> P r \<Longrightarrow> row_step r (f r)"
  shows "table_step rs (fst (exec_sql out (update_where P f) rs))"
proof -
  have "table_step rs (map (\<lambda>r. if P r then f r else r) rs)"
    by (rule table_step_map) (simp add: assms)
  then show ?thesis using exec_update_cases [of out P f rs] by auto
qed

lemma nullif_trim_length:
  "rune_count s \<le> n \<Longrightarrow> opt_all (length_between n) (nullif_trim s)"
  using rune_count_sql_trim_le [of s]
  by (auto simp: opt_all_def nullif_trim_def length_between_def sql_trim_idem Suc_le_eq
      simp flip: neq0_conv)

lemma fresh_new_row: "CreateJobInput_Validate c = None \<Longrightarrow> fresh_row (new_row now c h b)"
  by (simp add: fresh_row_def ids_ok_def new_row_def CreateJobInput_Validate_None)

lemma table_step_insert:
  assumes "CreateJobInput_Validate c = None"
  shows "table_step rs (fst (exec_sql out (insertJobSQL E now c h b) rs))"
proof -
  have "table_step rs rs'" if "insertJobSQL E now c h b rs = Inr (rs', v)" for rs' v
  proof -
    from that have "rs' = rs \<or> (\<exists>req. rs' = rs @ [new_row now c h req] \<and>
        (\<forall>r\<in>set rs. row_key r \<noteq> row_key (new_row now c h req) \<and> idem_key r \<noteq> idem_key (new_row now c h req)))"
      by (auto simp: insertJobSQL_def Let_def split: option.splits if_splits)
    then show ?thesis
    proof
      assume "\<exists>req. rs' = rs @ [new_row now c h req] \<and>
        (\<forall>r\<in>set rs. row_key r \<noteq> row_key (new_row now c h req) \<and> idem_key r \<noteq> idem_key (new_row now c h req))"
      then obtain req where rs': "rs' = rs @ [new_row now c h req]"
        and "\<forall>r\<in>set rs. row_key r \<noteq> row_key (new_row now c h req) \<and> idem_key r \<noteq> idem_key (new_row now c h req)"
        by blast
      then show ?thesis
        unfolding table_step_def rs'
        by (intro exI [of _ rs] exI [of _ "[new_row now c h req]"])
          (simp add: fresh_new_row [OF assms] list_all2_refl)
    qed simp
  qed
  then show ?thesis using exec_sql_cases [of out "insertJobSQL E now c h b" rs] by auto
qed

lemma table_step_acquire:
  assumes "distinct (map row_key rs)"
  shows "table_step rs (fst (exec_sql out (acquireLeasesSQL now locked tie n owner ms) rs))"
proof -
  let ?B = "ready_batch now locked tie n rs"
  have "table_step rs (map (\<lambda>r. if row_key r \<in> set (map row_key ?B) then lease_row now owner ms r else r) rs)"
  proof (rule table_step_map)
    fix r assume "r \<in> set rs"
    then show "row_step r (if row_key r \<in> set (map row_key ?B) then lease_row now owner ms r else r)"
      using key_in_ready_batch [OF assms] by (auto simp del: set_map dest: ready_batch_in intro: row_step_lease)
  qed
  then show ?thesis
    using exec_sql_cases [of out "acquireLeasesSQL now locked tie n owner ms" rs]
    by (auto simp: acquireLeasesSQL_def Let_def)
qed

lemma fence_match_lease: "fence_match f now r \<Longrightarrow> holds_lease (r_state r)"
  by (simp add: fence_match_def)

lemma expired_row_lease: "expired_row now r \<Longrightarrow> holds_lease (r_state r)"
  by (simp add: expired_row_def)

lemma table_step_running: "table_step rs (fst (exec_sql out (markRunningSQL f now) rs))"
  unfolding markRunningSQL_def by (rule table_step_update) (simp add: row_step_running)

lemma table_step_renew: "table_step rs (fst (exec_sql out (renewLeaseSQL f now ms) rs))"
  unfolding renewLeaseSQL_def by (rule table_step_update) (simp add: row_step_renew fence_match_lease)

lemma table_step_complete: "table_step rs (fst (exec_sql out (completeJobSQL E f now b) rs))"
proof (cases "env_jsonb E b")
  case None
  then show ?thesis using exec_sql_cases [of out "completeJobSQL E f now b" rs]
    by (auto simp: completeJobSQL_def)
next
  case (Some resp)
  then have "completeJobSQL E f now b = update_where (fence_match f now)
      (\<lambda>r. r\<lparr>r_state := JobStateSucceeded, r_response := Some resp, r_lease_owner := None,
            r_lease_expires_at := None, r_updated_at := now\<rparr>)"
    by (simp add: completeJobSQL_def fun_eq_iff)
  then show ?thesis
    by (simp only:) (rule table_step_update, simp add: row_step_complete fence_match_lease)
qed

lemma table_step_fail: "table_step rs (fst (exec_sql out (failJobSQL x now) rs))"
  unfolding failJobSQL_def by (rule table_step_update) (simp add: row_step_fail fence_match_lease)

lemma table_step_ack: "table_step rs (fst (exec_sql out (ackCancelSQL f now) rs))"
  unfolding ackCancelSQL_def
  by (rule table_step_update) (blast intro: row_step_ack fence_match_lease)

lemma table_step_cancel: "table_step rs (fst (exec_sql out (cancelJobSQL t j now) rs))"
  unfolding cancelJobSQL_def by (rule table_step_update) (rule row_step_cancel)

lemma table_step_reclaim:
  assumes "distinct (map row_key rs)"
  shows "table_step rs (fst (exec_sql out (reclaimExpiredSQL now locked tie n ms) rs))"
proof -
  let ?B = "expired_batch now locked tie n rs"
  have "table_step rs (map (\<lambda>r. if row_key r \<in> set (map row_key ?B) then reclaim_row now ms r else r) rs)"
  proof (rule table_step_map)
    fix r assume "r \<in> set rs"
    then show "row_step r (if row_key r \<in> set (map row_key ?B) then reclaim_row now ms r else r)"
      using key_in_expired_batch [OF assms]
      by (auto simp del: set_map dest: expired_batch_in intro!: row_step_reclaim expired_row_lease)
  qed
  then show ?thesis
    using exec_sql_cases [of out "reclaimExpiredSQL now locked tie n ms" rs]
    by (auto simp: reclaimExpiredSQL_def update_where_def)
qed

section \<open>The transition system\<close>

inductive ledger_step :: "ledger_env \<Rightarrow> JobRepo \<Rightarrow> JobRepo \<Rightarrow> bool" for E where
  step_create: "ledger_step E R (fst (CreateJob E ctx now out1 out2 c R))"
| step_acquire: "ledger_step E R (fst (AcquireLeases ctx now locked tie out owner n d R))"
| step_running: "ledger_step E R (fst (MarkRunning ctx now out1 out2 f R))"
| step_renew: "ledger_step E R (fst (RenewLease ctx now out1 out2 f d R))"
| step_complete: "ledger_step E R (fst (CompleteJob E ctx now out1 out2 f resp R))"
| step_fail: "ledger_step E R (fst (FailJob ctx now out1 out2 x R))"
| step_cancel: "ledger_step E R (fst (CancelJob ctx now out t j R))"
| step_ack: "ledger_step E R (fst (AcknowledgeCancellation ctx now out1 out2 f R))"
| step_reclaim: "ledger_step E R (fst (ReclaimExpiredLeases ctx now locked tie out n d R))"
| step_close: "ledger_step E R (Repo_Close R)"

lemma ledger_step_table_step:
  assumes "distinct (map row_key (rows R))" and "ledger_step E R R'"
  shows "table_step (rows R) (rows R')"
  using assms(2)
proof cases
  case (step_create ctx now out1 out2 c)
  then show ?thesis
    using rows_CreateJob [of E ctx now out1 out2 c R] table_step_insert by (metis table_step_refl)
next
  case (step_acquire ctx now locked tie out owner n d)
  then show ?thesis
    using rows_AcquireLeases [of ctx now locked tie out owner n d R] table_step_acquire [OF assms(1)]
    by (metis table_step_refl)
next
  case (step_running ctx now out1 out2 f)
  then show ?thesis
    using rows_MarkRunning [of ctx now out1 out2 f R] table_step_running by (metis table_step_refl)
next
  case (step_renew ctx now out1 out2 f d)
  then show ?thesis
    using rows_RenewLease [of ctx now out1 out2 f d R] table_step_renew by (metis table_step_refl)
next
  case (step_complete ctx now out1 out2 f resp)
  then show ?thesis
    using rows_CompleteJob [of E ctx now out1 out2 f resp R] table_step_complete by (metis table_step_refl)
next
  case (step_fail ctx now out1 out2 x)
  then show ?thesis
    using rows_FailJob [of ctx now out1 out2 x R] table_step_fail by (metis table_step_refl)
next
  case (step_cancel ctx now out t j)
  then show ?thesis
    using rows_CancelJob [of ctx now out t j R] table_step_cancel by (metis table_step_refl)
next
  case (step_ack ctx now out1 out2 f)
  then show ?thesis
    using rows_AcknowledgeCancellation [of ctx now out1 out2 f R] table_step_ack by (metis table_step_refl)
next
  case (step_reclaim ctx now locked tie out n d)
  then show ?thesis
    using rows_ReclaimExpiredLeases [of ctx now locked tie out n d R] table_step_reclaim [OF assms(1)]
    by (metis table_step_refl)
next
  case step_close
  then show ?thesis by (simp add: Repo_Close_def Let_def)
qed

section \<open>The invariant\<close>

definition ledger_inv :: "durable_job list \<Rightarrow> bool" where
  "ledger_inv rs \<longleftrightarrow> distinct (map row_key rs) \<and> distinct (map idem_key rs) \<and>
     (\<forall>r\<in>set rs. row_ok r \<and> ids_ok r \<and> counters_ok (abs_job r))"

lemma ledger_inv_empty: "ledger_inv []"
  by (simp add: ledger_inv_def)

lemma ledger_invD:
  assumes "ledger_inv rs"
  shows "distinct (map row_key rs)" "distinct (map idem_key rs)"
    "r \<in> set rs \<Longrightarrow> row_ok r" "r \<in> set rs \<Longrightarrow> counters_ok (abs_job r)" "r \<in> set rs \<Longrightarrow> ids_ok r"
  using assms by (simp_all add: ledger_inv_def)

lemma list_all2_row_step_keys:
  "list_all2 row_step rs old \<Longrightarrow> map row_key old = map row_key rs \<and> map idem_key old = map idem_key rs"
  by (induction rule: list_all2_induct) (auto simp: row_step_def same_identity_def)

lemma list_all2_row_step_counters:
  "list_all2 row_step rs old \<Longrightarrow> \<forall>r\<in>set rs. counters_ok (abs_job r) \<Longrightarrow> \<forall>r\<in>set old. counters_ok (abs_job r)"
  by (induction rule: list_all2_induct) (auto simp: row_step_def intro: lifecycle_counters)

lemma same_identity_ids: "same_identity r r' \<Longrightarrow> ids_ok r' = ids_ok r"
  by (simp add: same_identity_def ids_ok_def row_key_def idem_key_def)

lemma list_all2_row_step_ids:
  "list_all2 row_step rs old \<Longrightarrow> \<forall>r\<in>set rs. ids_ok r \<Longrightarrow> \<forall>r\<in>set old. ids_ok r"
  by (induction rule: list_all2_induct) (auto simp: row_step_def same_identity_ids)

lemma fresh_row_counters: "fresh_row r \<Longrightarrow> counters_ok (abs_job r)"
  by (simp add: fresh_row_def counters_ok_def abs_job_def)

lemma table_step_inv:
  assumes "table_step rs rs'" and "ledger_inv rs" and "\<forall>r\<in>set rs'. row_ok r"
  shows "ledger_inv rs'"
proof -
  obtain old new where rs': "rs' = old @ new" and old: "list_all2 row_step rs old"
    and new: "list_all fresh_row new" "length new \<le> 1"
      "\<forall>n\<in>set new. \<forall>r\<in>set rs. row_key r \<noteq> row_key n \<and> idem_key r \<noteq> idem_key n"
    using assms(1) unfolding table_step_def by blast
  note keys = list_all2_row_step_keys [OF old]
  have "distinct (map row_key new)" "distinct (map idem_key new)"
    using new(2) by (cases new; simp)+
  moreover have "set (map row_key rs) \<inter> set (map row_key new) = {}"
      "set (map idem_key rs) \<inter> set (map idem_key new) = {}"
    using new(3) by fastforce+
  ultimately have "distinct (map row_key rs')" "distinct (map idem_key rs')"
    using assms(2) keys by (simp_all add: rs' ledger_inv_def)
  moreover have "\<forall>r\<in>set old. counters_ok (abs_job r)" "\<forall>r\<in>set old. ids_ok r"
    using list_all2_row_step_counters [OF old] list_all2_row_step_ids [OF old] assms(2)
    by (simp_all add: ledger_inv_def)
  moreover have "\<forall>r\<in>set new. counters_ok (abs_job r) \<and> ids_ok r"
    using new(1) by (auto simp: list_all_iff fresh_row_counters fresh_row_def)
  ultimately show ?thesis
    using assms(3) by (simp add: ledger_inv_def rs' ball_Un)
qed

text \<open>Statements either leave the table or produce rows that satisfy the schema.\<close>

lemma exec_sql_row_ok:
  "\<forall>r\<in>set rs. row_ok r \<Longrightarrow> \<forall>r\<in>set (fst (exec_sql out stmt rs)). row_ok r"
  using exec_sql_cases [of out stmt rs] by (auto simp: list_all_iff)

lemma operation_row_ok:
  assumes "\<forall>r\<in>set (rows R). row_ok r"
  shows "\<forall>r\<in>set (rows (fst (CreateJob E ctx now out1 out2 c R))). row_ok r"
    "\<forall>r\<in>set (rows (fst (AcquireLeases ctx now locked tie out owner n d R))). row_ok r"
    "\<forall>r\<in>set (rows (fst (MarkRunning ctx now out1 out2 f R))). row_ok r"
    "\<forall>r\<in>set (rows (fst (RenewLease ctx now out1 out2 f d R))). row_ok r"
    "\<forall>r\<in>set (rows (fst (CompleteJob E ctx now out1 out2 f resp R))). row_ok r"
    "\<forall>r\<in>set (rows (fst (FailJob ctx now out1 out2 x R))). row_ok r"
    "\<forall>r\<in>set (rows (fst (CancelJob ctx now out t j R))). row_ok r"
    "\<forall>r\<in>set (rows (fst (AcknowledgeCancellation ctx now out1 out2 f R))). row_ok r"
    "\<forall>r\<in>set (rows (fst (ReclaimExpiredLeases ctx now locked tie out n d R))). row_ok r"
  using assms exec_sql_row_ok rows_CreateJob apply metis
  using assms exec_sql_row_ok rows_AcquireLeases apply metis
  using assms exec_sql_row_ok rows_MarkRunning apply metis
  using assms exec_sql_row_ok rows_RenewLease apply metis
  using assms exec_sql_row_ok rows_CompleteJob apply metis
  using assms exec_sql_row_ok rows_FailJob apply metis
  using assms exec_sql_row_ok rows_CancelJob apply metis
  using assms exec_sql_row_ok rows_AcknowledgeCancellation apply metis
  using assms exec_sql_row_ok rows_ReclaimExpiredLeases apply metis
  done

lemma rows_Repo_Close [simp]: "rows (Repo_Close R) = rows R"
  by (simp add: Repo_Close_def Let_def)

lemma ledger_step_row_ok:
  assumes "ledger_step E R R'" and "\<forall>r\<in>set (rows R). row_ok r"
  shows "\<forall>r\<in>set (rows R'). row_ok r"
  using assms(1)
  by cases (simp only:, rule operation_row_ok [OF assms(2)] | simp add: assms(2))+

lemma ledger_step_inv:
  assumes "ledger_step E R R'" and "ledger_inv (rows R)"
  shows "ledger_inv (rows R')"
  using table_step_inv [OF ledger_step_table_step [OF ledger_invD(1) [OF assms(2)] assms(1)] assms(2)]
    ledger_step_row_ok [OF assms(1)] assms(2) by (simp add: ledger_inv_def)

end
