(* ===== verification/Ledger_History.thy ===== *)
theory Ledger_History
  imports Ledger_Invariant
begin

text \<open>
  Histories of the ledger: the states reachable from an empty table, what a whole history
  keeps of a row, dead lease tokens (tokens whose lease is over, for ever), and the lemmas
  that turn a fence that matches no row into a refused operation.
\<close>

section \<open>Reachable states\<close>

inductive ledger_reachable :: "ledger_env \<Rightarrow> JobRepo \<Rightarrow> bool" for E where
  reach_init: "rows R = [] \<Longrightarrow> ledger_reachable E R"
| reach_step: "ledger_reachable E R \<Longrightarrow> ledger_step E R R' \<Longrightarrow> ledger_reachable E R'"

interpretation ledger: preserved "ledger_step E" "\<lambda>R. ledger_inv (rows R)" for E
  by unfold_locales (rule ledger_step_inv)

lemma ledger_reachable_inv_aux: "ledger_reachable E R \<Longrightarrow> ledger_inv (rows R)"
  by (induction rule: ledger_reachable.induct) (simp_all add: ledger_inv_empty ledger_step_inv)

section \<open>A row through a history\<close>

lemma table_step_row:
  assumes "table_step rs rs'" and "r \<in> set rs"
  shows "\<exists>r'\<in>set rs'. row_step r r'"
proof -
  obtain old new where "rs' = old @ new" "list_all2 row_step rs old"
    using assms(1) unfolding table_step_def by blast
  then show ?thesis using assms(2)
    by (metis Un_iff in_set_conv_nth list_all2_conv_all_nth set_append)
qed

lemma history_row:
  assumes "(ledger_step E)\<^sup>*\<^sup>* R R'" and "ledger_inv (rows R)" and "r \<in> set (rows R)"
  shows "\<exists>r'\<in>set (rows R'). row_step\<^sup>*\<^sup>* r r'"
  using assms(1)
proof (induction rule: rtranclp_induct)
  case base
  then show ?case using assms(3) by blast
next
  case (step R1 R2)
  then obtain r1 where r1: "r1 \<in> set (rows R1)" "row_step\<^sup>*\<^sup>* r r1" by blast
  have "ledger_inv (rows R1)" by (rule ledger.inv_star [OF step.hyps(1) assms(2)])
  then have "table_step (rows R1) (rows R2)"
    using step.hyps(2) ledger_invD(1) ledger_step_table_step by blast
  then show ?case using r1 table_step_row by (meson rtranclp.rtrancl_into_rtrancl)
qed

lemma evolve_key: "row_step\<^sup>*\<^sup>* r r' \<Longrightarrow> row_key r' = row_key r"
  by (induction rule: rtranclp_induct) (simp_all add: row_step_def same_identity_def)

text \<open>The row with a given key in a later state is the evolution of the earlier row.\<close>

lemma history_key:
  assumes "(ledger_step E)\<^sup>*\<^sup>* R R'" and "ledger_inv (rows R)" and "r \<in> set (rows R)"
    and "r' \<in> set (rows R')" and "row_key r' = row_key r"
  shows "row_step\<^sup>*\<^sup>* r r'"
proof -
  obtain s where s: "s \<in> set (rows R')" "row_step\<^sup>*\<^sup>* r s" using history_row [OF assms(1-3)] by blast
  then have "row_key s = row_key r'" using evolve_key assms(5) by simp
  then have "s = r'"
    using s(1) assms(4) distinct_key_eq ledger_invD(1) [OF ledger.inv_star [OF assms(1,2)]] by blast
  with s(2) show ?thesis by simp
qed

lemma evolve_identity: "row_step\<^sup>*\<^sup>* r r' \<Longrightarrow> same_identity r r'"
  by (induction rule: rtranclp_induct) (auto simp: row_step_def same_identity_def)

lemma evolve_terminal: "row_step\<^sup>*\<^sup>* r r' \<Longrightarrow> IsTerminal (r_state r) \<Longrightarrow> r' = r"
  by (induction rule: rtranclp_induct) (auto simp: row_step_def)

lemma evolve_token_mono: "row_step\<^sup>*\<^sup>* r r' \<Longrightarrow> r_lease_token r \<le> r_lease_token r'"
  by (induction rule: rtranclp_induct)
    (auto simp: row_step_def abs_job_def dest!: lifecycle_token_mono)

lemma evolve_cancel:
  "row_step\<^sup>*\<^sup>* r r' \<Longrightarrow> r_cancel_requested_at r \<noteq> None \<Longrightarrow> r_cancel_requested_at r' \<noteq> None"
  by (induction rule: rtranclp_induct)
    (auto simp: row_step_def abs_job_def dest!: lifecycle_cancel_sticky)

text \<open>Within one token the owner of the lease is constant.\<close>

lemma row_step_owner:
  assumes "row_step r r'" and "holds_lease (r_state r')" and "r_lease_token r' = r_lease_token r"
  shows "holds_lease (r_state r) \<and> r_lease_owner r' = r_lease_owner r"
  using assms lifecycle_token_lease [of "abs_job r" "abs_job r'"]
  by (auto simp: row_step_def abs_job_def)

lemma evolve_owner:
  "row_step\<^sup>*\<^sup>* r r' \<Longrightarrow> holds_lease (r_state r') \<Longrightarrow> r_lease_token r' = r_lease_token r
    \<Longrightarrow> r_lease_owner r' = r_lease_owner r"
proof (induction rule: rtranclp_induct)
  case (step r1 r2)
  have "r_lease_token r \<le> r_lease_token r1" "r_lease_token r1 \<le> r_lease_token r2"
    using evolve_token_mono step.hyps by blast+
  then show ?case using step row_step_owner by (metis order_antisym)
qed simp

section \<open>Dead tokens\<close>

text \<open>A token is dead for a job when no lease with that token can exist any more.\<close>

definition token_dead :: "int \<Rightarrow> abstract_job \<Rightarrow> bool" where
  "token_dead t a \<longleftrightarrow> t < a_token a \<or> t = a_token a \<and> \<not> holds_lease (a_state a)"

lemma lifecycle_token_dead: "lifecycle a b \<Longrightarrow> token_dead t a \<Longrightarrow> token_dead t b"
  by (erule lifecycle.cases) (auto simp: token_dead_def)

lemma evolve_token_dead:
  "row_step\<^sup>*\<^sup>* r r' \<Longrightarrow> token_dead t (abs_job r) \<Longrightarrow> token_dead t (abs_job r')"
  by (induction rule: rtranclp_induct) (auto simp: row_step_def intro: lifecycle_token_dead)

lemma token_dead_no_match: "token_dead (f_LeaseToken f) (abs_job r) \<Longrightarrow> \<not> fence_match f now r"
  by (auto simp: token_dead_def abs_job_def fence_match_def)

definition fence_key :: "LeaseFence \<Rightarrow> job_key" where
  "fence_key f = (f_TenantID f, f_JobID f)"

lemma fence_match_key: "fence_match f now r \<Longrightarrow> row_key r = fence_key f"
  by (simp add: fence_match_def row_key_def fence_key_def)

lemma dead_fence_no_match:
  assumes "(ledger_step E)\<^sup>*\<^sup>* R R'" and "ledger_inv (rows R)" and "r \<in> set (rows R)"
    and "row_key r = fence_key f" and "token_dead (f_LeaseToken f) (abs_job r)"
  shows "\<forall>r'\<in>set (rows R'). \<not> fence_match f now r'"
proof
  fix r' assume r': "r' \<in> set (rows R')"
  show "\<not> fence_match f now r'"
  proof
    assume m: "fence_match f now r'"
    then have "row_step\<^sup>*\<^sup>* r r'"
      using history_key [OF assms(1-3) r'] fence_match_key assms(4) by simp
    then show False using m token_dead_no_match evolve_token_dead assms(5) by blast
  qed
qed

section \<open>Refused operations\<close>

lemma update_where_none: "\<forall>r\<in>set rs. \<not> P r \<Longrightarrow> update_where P g rs = Inr (rs, 0)"
  by (auto simp: update_where_def filter_empty_conv intro: map_idI)

lemma fenced_exec_none:
  assumes "stmt (rows R) = Inr (rows R, 0) \<or> (\<exists>e. stmt (rows R) = Inl e)"
  shows "fst (fenced_exec out1 out2 stmt t j b R) = R"
    and "\<exists>e. snd (fenced_exec out1 out2 stmt t j b R) = Some e"
  using assms
  by (auto simp: fenced_exec_def exec_sql_def Let_def split: db_outcome.splits)

lemma no_match_refused:
  assumes "\<forall>r\<in>set (rows R). \<not> fence_match f now r"
  shows "fst (MarkRunning ctx now out1 out2 f R) = R" "snd (MarkRunning ctx now out1 out2 f R) \<noteq> None"
    "fst (RenewLease ctx now out1 out2 f d R) = R" "snd (RenewLease ctx now out1 out2 f d R) \<noteq> None"
    "fst (CompleteJob E ctx now out1 out2 f resp R) = R" "snd (CompleteJob E ctx now out1 out2 f resp R) \<noteq> None"
    "fst (AcknowledgeCancellation ctx now out1 out2 f R) = R"
    "snd (AcknowledgeCancellation ctx now out1 out2 f R) \<noteq> None"
    "FailJobInput_Fence x = f \<Longrightarrow> fst (FailJob ctx now out1 out2 x R) = R"
    "FailJobInput_Fence x = f \<Longrightarrow> snd (FailJob ctx now out1 out2 x R) \<noteq> None"
proof -
  have run: "markRunningSQL f now (rows R) = Inr (rows R, 0)"
    and ren: "renewLeaseSQL f now ms (rows R) = Inr (rows R, 0)"
    and ack: "ackCancelSQL f now (rows R) = Inr (rows R, 0)"
    and fail: "FailJobInput_Fence x = f \<Longrightarrow> failJobSQL x now (rows R) = Inr (rows R, 0)" for ms x
    using assms by (simp_all add: markRunningSQL_def renewLeaseSQL_def ackCancelSQL_def failJobSQL_def
        update_where_none)
  have com: "completeJobSQL E f now b (rows R) = Inr (rows R, 0) \<or> (\<exists>e. completeJobSQL E f now b (rows R) = Inl e)"
    for E b using assms by (simp add: completeJobSQL_def update_where_none split: option.split)
  note none = fenced_exec_none
  show "fst (MarkRunning ctx now out1 out2 f R) = R" "snd (MarkRunning ctx now out1 out2 f R) \<noteq> None"
    by (simp_all add: MarkRunning_def none run split: option.splits)
  show "fst (RenewLease ctx now out1 out2 f d R) = R" "snd (RenewLease ctx now out1 out2 f d R) \<noteq> None"
    by (simp_all add: RenewLease_def none ren split: option.splits)
  show "fst (CompleteJob E ctx now out1 out2 f resp R) = R" "snd (CompleteJob E ctx now out1 out2 f resp R) \<noteq> None"
    by (simp_all add: CompleteJob_def none com split: option.splits sum.splits)
  show "fst (AcknowledgeCancellation ctx now out1 out2 f R) = R"
    "snd (AcknowledgeCancellation ctx now out1 out2 f R) \<noteq> None"
    by (simp_all add: AcknowledgeCancellation_def none ack split: option.splits)
  show "fst (FailJob ctx now out1 out2 x R) = R" "snd (FailJob ctx now out1 out2 x R) \<noteq> None"
    if "FailJobInput_Fence x = f"
    using fail [OF that] by (simp_all add: FailJob_def none split: option.splits)
qed

end
