(* ===== verification/Ledger_Schema.thy ===== *)
theory Ledger_Schema
  imports Ledger_History
begin

text \<open>
  The checks in front of each statement are strong enough for the schema: on a table that
  satisfies the invariant no statement of the repository violates a constraint. What each
  operation returns and leaves in the table when the database answers follows from this.
\<close>

section \<open>Row updates keep the constraints\<close>

lemma lengthI: "proper_id n s \<Longrightarrow> length_between n s"
  using proper_id_sql_length [of n s] by (simp add: length_between_def)

lemma row_ok_lease:
  assumes "row_ok r" and "proper_id 256 owner"
  shows "row_ok (lease_row now owner ms r)"
  using assms proper_id_sql_length(1) [OF assms(2)]
  by (auto simp: row_ok_def lease_row_def lease_state_ok_def opt_all_def lengthI)

lemma row_ok_running:
  "row_ok r \<Longrightarrow> r_state r = JobStateLeased \<Longrightarrow> row_ok (r\<lparr>r_state := JobStateRunning, r_updated_at := now\<rparr>)"
  by (simp add: row_ok_def lease_state_ok_def)

lemma row_ok_renew:
  "row_ok r \<Longrightarrow> holds_lease (r_state r) \<Longrightarrow> row_ok (r\<lparr>r_lease_expires_at := Some e, r_updated_at := now\<rparr>)"
  by (simp add: row_ok_def lease_state_ok_def)

lemma row_ok_complete:
  "row_ok r \<Longrightarrow> row_ok (r\<lparr>r_state := JobStateSucceeded, r_response := resp, r_lease_owner := None,
     r_lease_expires_at := None, r_updated_at := now\<rparr>)"
  by (simp add: row_ok_def lease_state_ok_def opt_all_def)

lemma row_ok_ack:
  "row_ok r \<Longrightarrow> row_ok (r\<lparr>r_state := JobStateCanceled, r_lease_owner := None,
     r_lease_expires_at := None, r_updated_at := now\<rparr>)"
  by (simp add: row_ok_def lease_state_ok_def opt_all_def)

lemma nullif_trim_le: "rune_count s \<le> n \<Longrightarrow> opt_all (\<lambda>v. rune_count v \<le> n) (nullif_trim s)"
  using rune_count_sql_trim_le [of s] by (simp add: opt_all_def nullif_trim_def)

lemma row_ok_fail:
  assumes "row_ok r" and "FailJobInput_Validate x = None"
  shows "row_ok (fail_row now x r)"
proof -
  have "opt_all (\<lambda>v. rune_count v \<le> 128) (nullif_trim (x_FailureCode x))"
    "opt_all (\<lambda>v. rune_count v \<le> 2048) (nullif_trim (x_FailureMessage x))"
    using assms(2) by (simp_all add: FailJobInput_Validate_None job_limits nullif_trim_le)
  then show ?thesis
    using assms(1) by (simp add: row_ok_def fail_row_def lease_state_ok_def opt_all_def)
qed

lemma row_ok_cancel: "row_ok r \<Longrightarrow> row_ok (cancel_row now r)"
  by (auto simp: row_ok_def cancel_row_def lease_state_ok_def Let_def)

lemma row_ok_reclaim: "row_ok r \<Longrightarrow> row_ok (reclaim_row now ms r)"
  by (simp add: row_ok_def reclaim_row_def lease_state_ok_def opt_all_def)

lemma nullif_trim_None: "trim_space s \<noteq> [] \<Longrightarrow> nullif_trim s \<noteq> None"
  using sql_trim_empty_imp_blank by (auto simp: nullif_trim_def)

lemma row_ok_new:
  assumes "CreateJobInput_Validate c = None" and "hash_pattern h"
  shows "row_ok (new_row now c h req)"
proof -
  note v = assms(1) [unfolded CreateJobInput_Validate_None]
  then have "opt_all (length_between 256) (nullif_trim (c_AgentID c))"
    "opt_all (length_between 256) (nullif_trim (c_RequiredCapability c))"
    by (simp_all add: nullif_trim_length job_limits)
  moreover have "nullif_trim (c_AgentID c) \<noteq> None \<or> nullif_trim (c_RequiredCapability c) \<noteq> None"
    using v nullif_trim_None by blast
  ultimately show ?thesis
    using v assms(2) by (simp add: row_ok_def new_row_def lease_state_ok_def opt_all_def lengthI job_limits)
qed

section \<open>Statements on a table that satisfies the invariant\<close>

lemma exec_sql_ok:
  "stmt rs = Inr (rs', v) \<Longrightarrow> \<forall>r\<in>set rs'. row_ok r \<Longrightarrow> exec_sql Db_ok stmt rs = (rs', Inr v)"
  by (simp add: exec_sql_def list_all_iff)

lemma exec_update_ok:
  assumes "ledger_inv rs" and "\<And>r. r \<in> set rs \<Longrightarrow> P r \<Longrightarrow> row_ok r \<Longrightarrow> row_ok (g r)"
  shows "exec_sql Db_ok (update_where P g) rs =
    (map (\<lambda>r. if P r then g r else r) rs, Inr (length (filter P rs)))"
  by (rule exec_sql_ok) (use assms ledger_invD(3) [OF assms(1)] in \<open>auto simp: update_where_def\<close>)

lemma exec_running_ok:
  "ledger_inv rs \<Longrightarrow> \<exists>rs' n. exec_sql Db_ok (markRunningSQL f now) rs = (rs', Inr n)"
  unfolding markRunningSQL_def by (subst exec_update_ok) (auto intro: row_ok_running)

lemma exec_renew_ok:
  "ledger_inv rs \<Longrightarrow> \<exists>rs' n. exec_sql Db_ok (renewLeaseSQL f now ms) rs = (rs', Inr n)"
  unfolding renewLeaseSQL_def by (subst exec_update_ok) (auto intro: row_ok_renew fence_match_lease)

lemma completeJobSQL_Some:
  "env_jsonb E b = Some resp \<Longrightarrow> completeJobSQL E f now b = update_where (fence_match f now)
      (\<lambda>r. r\<lparr>r_state := JobStateSucceeded, r_response := Some resp, r_lease_owner := None,
            r_lease_expires_at := None, r_updated_at := now\<rparr>)"
  by (simp add: completeJobSQL_def fun_eq_iff)

lemma exec_complete_ok:
  "ledger_inv rs \<Longrightarrow> env_jsonb E b \<noteq> None \<Longrightarrow>
   \<exists>rs' n. exec_sql Db_ok (completeJobSQL E f now b) rs = (rs', Inr n)"
  by (auto simp: completeJobSQL_Some exec_update_ok row_ok_complete)

lemma exec_fail_ok:
  "ledger_inv rs \<Longrightarrow> FailJobInput_Validate x = None \<Longrightarrow>
   exec_sql Db_ok (failJobSQL x now) rs =
     (map (\<lambda>r. if fence_match (FailJobInput_Fence x) now r then fail_row now x r else r) rs,
      Inr (length (filter (fence_match (FailJobInput_Fence x) now) rs)))"
  by (simp add: failJobSQL_def exec_update_ok row_ok_fail)

lemma exec_ack_ok:
  "ledger_inv rs \<Longrightarrow> \<exists>rs' n. exec_sql Db_ok (ackCancelSQL f now) rs = (rs', Inr n)"
  by (simp add: ackCancelSQL_def exec_update_ok row_ok_ack)

lemma exec_cancel_ok:
  "ledger_inv rs \<Longrightarrow> exec_sql Db_ok (cancelJobSQL t j now) rs =
    (map (\<lambda>r. if r_tenant_id r = t \<and> r_id r = j then cancel_row now r else r) rs,
     Inr (length (filter (\<lambda>r. r_tenant_id r = t \<and> r_id r = j) rs)))"
  by (simp add: cancelJobSQL_def exec_update_ok row_ok_cancel)

lemma exec_reclaim_ok:
  assumes "ledger_inv rs"
  shows "exec_sql Db_ok (reclaimExpiredSQL now locked tie n ms) rs =
    (map (\<lambda>r. if r \<in> set (expired_batch now locked tie n rs) then reclaim_row now ms r else r) rs,
     Inr (length (filter (\<lambda>r. r \<in> set (expired_batch now locked tie n rs)) rs)))"
proof -
  note key = key_in_expired_batch [OF ledger_invD(1) [OF assms], simplified set_map]
  have "map (\<lambda>r. if row_key r \<in> row_key ` set (expired_batch now locked tie n rs)
          then reclaim_row now ms r else r) rs =
        map (\<lambda>r. if r \<in> set (expired_batch now locked tie n rs) then reclaim_row now ms r else r) rs"
    by (rule map_cong) (simp_all add: key)
  moreover have "filter (\<lambda>r. row_key r \<in> row_key ` set (expired_batch now locked tie n rs)) rs =
      filter (\<lambda>r. r \<in> set (expired_batch now locked tie n rs)) rs"
    by (rule filter_cong) (simp_all add: key)
  ultimately show ?thesis
    using exec_update_ok [OF assms row_ok_reclaim,
        of "\<lambda>r. row_key r \<in> set (map row_key (expired_batch now locked tie n rs))"]
    by (simp add: reclaimExpiredSQL_def [abs_def] exec_sql_def)
qed

lemma exec_acquire_ok:
  assumes "ledger_inv rs" and "proper_id 256 owner"
  shows "exec_sql Db_ok (acquireLeasesSQL now locked tie n owner ms) rs =
    (map (\<lambda>r. if r \<in> set (ready_batch now locked tie n rs) then lease_row now owner ms r else r) rs,
     Inr (map (lease_row now owner ms) (filter (\<lambda>r. r \<in> set (ready_batch now locked tie n rs)) rs)))"
proof -
  let ?B = "set (ready_batch now locked tie n rs)"
  note key = key_in_ready_batch [OF ledger_invD(1) [OF assms(1)], simplified set_map]
  have "map (\<lambda>r. if row_key r \<in> row_key ` ?B then lease_row now owner ms r else r) rs =
        map (\<lambda>r. if r \<in> ?B then lease_row now owner ms r else r) rs"
    by (rule map_cong) (simp_all add: key)
  moreover have "filter (\<lambda>r. row_key r \<in> row_key ` ?B) rs = filter (\<lambda>r. r \<in> ?B) rs"
    by (rule filter_cong) (simp_all add: key)
  moreover have "\<forall>r\<in>set rs. row_ok (if r \<in> ?B then lease_row now owner ms r else r)"
    using ledger_invD(3) [OF assms(1)] by (simp add: row_ok_lease assms(2))
  ultimately show ?thesis
    by (intro exec_sql_ok) (auto simp: acquireLeasesSQL_def Let_def)
qed

text \<open>Insertion: SHA-256 gives 32 bytes, so the stored hash has the schema's form.\<close>

lemma exec_insert_ok:
  assumes "ledger_inv rs" and "CreateJobInput_Validate c = None" and "hash_pattern h"
    and "env_jsonb E b = Some req"
  shows "exec_sql Db_ok (insertJobSQL E now c h b) rs =
    (if \<exists>r\<in>set rs. row_key r = (c_TenantID c, c_ID c) \<or> idem_key r = (c_TenantID c, c_IdempotencyKey c)
     then (rs, Inr None) else (rs @ [new_row now c h req], Inr (Some (new_row now c h req))))"
proof -
  have "row_key (new_row now c h req) = (c_TenantID c, c_ID c)"
    "idem_key (new_row now c h req) = (c_TenantID c, c_IdempotencyKey c)"
    by (simp_all add: row_key_def idem_key_def new_row_def)
  then show ?thesis
    using ledger_invD(3) [OF assms(1)] row_ok_new [OF assms(2,3), of now req]
    by (auto simp: exec_sql_def insertJobSQL_def assms(4) Let_def list_all_iff)
qed

lemma computed_hash_pattern:
  assumes "\<And>x. length (env_sha256 E x) = 32" and "computeJobIdempotencyHash E b c = Inr h"
  shows "hash_pattern h"
  using assms by (auto simp: computeJobIdempotencyHash_def ComputeRequestHash_pattern split: sum.splits)

section \<open>Lookup\<close>

lemma find_key:
  assumes "ledger_inv rs" and "r \<in> set rs" and "r_tenant_id r = t" and "r_id r = j"
  shows "find (\<lambda>r. r_tenant_id r = t \<and> r_id r = j) rs = Some r"
  using distinct_map_find_eq [OF ledger_invD(1) [OF assms(1)] assms(2)] assms(3,4)
  by (simp add: row_key_def)

lemma find_idem:
  assumes "ledger_inv rs" and "r \<in> set rs" and "r_tenant_id r = t" and "r_idempotency_key r = k"
  shows "find (\<lambda>r. r_tenant_id r = t \<and> r_idempotency_key r = k) rs = Some r"
  using distinct_map_find_eq [OF ledger_invD(2) [OF assms(1)] assms(2)] assms(3,4)
  by (simp add: idem_key_def)

end
