(* ===== verification/Ledger_Behaviour.thy ===== *)
theory Ledger_Behaviour
  imports Ledger_Schema
begin

text \<open>
  What the operations do to one job when the database answers: the lemmas behind the
  functional properties of the ledger.
\<close>

section \<open>One row of a table with distinct keys\<close>

lemma filter_eq_distinct: "distinct xs \<Longrightarrow> r \<in> set xs \<Longrightarrow> filter (\<lambda>s. s = r) xs = [r]"
  by (induction xs) (auto simp: filter_empty_conv)

lemma filter_unique:
  assumes "distinct (map row_key rs)" and "r \<in> set rs" and "P r"
    and "\<And>s. s \<in> set rs \<Longrightarrow> P s \<Longrightarrow> row_key s = row_key r"
  shows "filter P rs = [r]"
proof -
  have "filter P rs = filter (\<lambda>s. s = r) rs"
    using assms distinct_key_eq by (intro filter_cong) blast+
  moreover have "distinct rs" using assms(1) distinct_map by blast
  ultimately show ?thesis using filter_eq_distinct assms(2) by metis
qed

lemma map_one_row:
  assumes "ledger_inv rs" and "r \<in> set rs" and "P r" and "\<And>s. P s \<Longrightarrow> row_key s = row_key r"
  shows "map (\<lambda>s. if P s then g s else s) rs = map (\<lambda>s. if s = r then g r else s) rs"
    and "length (filter P rs) = 1"
proof -
  have "s = r" if "s \<in> set rs" "P s" for s
    using that assms distinct_key_eq ledger_invD(1) by blast
  then show "map (\<lambda>s. if P s then g s else s) rs = map (\<lambda>s. if s = r then g r else s) rs"
    using assms(3) by (intro map_cong refl) metis
  show "length (filter P rs) = 1"
    using filter_unique [OF ledger_invD(1) [OF assms(1)] assms(2), of P, OF assms(3) assms(4)] by simp
qed

text \<open>A fenced statement whose \<open>WHERE\<close> clause selects one row.\<close>

lemma fenced_exec_hit:
  assumes "ledger_inv (rows R)" and "r \<in> set (rows R)" and "P r"
    and "\<And>s. P s \<Longrightarrow> row_key s = row_key r" and "\<And>s. P s \<Longrightarrow> row_ok s \<Longrightarrow> row_ok (g s)"
  shows "fenced_exec Db_ok out2 (update_where P g) t j b R =
    (R\<lparr>rows := map (\<lambda>s. if s = r then g r else s) (rows R)\<rparr>, None)"
proof -
  have "exec_sql Db_ok (update_where P g) (rows R) =
      (map (\<lambda>r. if P r then g r else r) (rows R), Inr (length (filter P (rows R))))"
    using assms(5) by (intro exec_update_ok assms(1))
  moreover have "length (filter P (rows R)) = 1"
    by (rule map_one_row(2) [where P = P, OF assms(1-3) assms(4)])
  moreover have "map (\<lambda>s. if P s then g s else s) (rows R) = map (\<lambda>s. if s = r then g r else s) (rows R)"
    by (rule map_one_row(1) [where P = P, OF assms(1-3) assms(4)])
  ultimately show ?thesis by (simp add: fenced_exec_def Let_def)
qed

lemma GetJob_row:
  assumes "ledger_inv (rows R)" and "\<not> repo_closed R" and "r \<in> set (rows R)"
  shows "GetJob None Db_ok (r_tenant_id r) (r_id r) R = Inr (scanJob r)"
proof -
  have "check_ids (r_tenant_id r) (r_id r) = None"
    using ledger_invD(5) [OF assms(1,3)] by (simp add: check_ids_def ids_ok_def proper_id_def)
  then show ?thesis
    using assms find_key [OF assms(1,3)] by (simp add: GetJob_def query_sql_def)
qed

section \<open>Creation\<close>

lemma scanJob_simps [simp]:
  "j_RequestHash (scanJob r) = r_request_hash r" "j_ID (scanJob r) = r_id r"
  "j_TenantID (scanJob r) = r_tenant_id r" "j_State (scanJob r) = r_state r"
  "j_NextRunAt (scanJob r) = r_next_run_at r" "j_CreatedAt (scanJob r) = r_created_at r"
  "j_LeaseToken (scanJob r) = r_lease_token r" "j_LeaseOwner (scanJob r) = r_lease_owner r"
  "j_LeaseExpiresAt (scanJob r) = r_lease_expires_at r" "j_Attempt (scanJob r) = r_attempt r"
  "j_MaxAttempts (scanJob r) = r_max_attempts r" "j_CancelRequestedAt (scanJob r) = r_cancel_requested_at r"
  "j_FailureCode (scanJob r) = r_failure_code r" "j_FailureMessage (scanJob r) = r_failure_message r"
  by (simp_all add: scanJob_def)

lemma exec_insert_success:
  assumes "exec_sql out (insertJobSQL E now c h b) rs = (rs', Inr (Some r))"
  shows "r \<in> set rs' \<and> idem_key r = (c_TenantID c, c_IdempotencyKey c)"
proof -
  from assms have "insertJobSQL E now c h b rs = Inr (rs', Some r)"
    by (simp add: exec_sql_def split: db_outcome.splits sum.splits prod.splits if_splits)
  then show ?thesis
    by (auto simp: insertJobSQL_def Let_def idem_key_def new_row_def split: option.splits if_splits)
qed

lemma CreateJob_success:
  assumes "CreateJob E ctx now out1 out2 c R = (R1, Inr job)"
  shows "\<exists>r\<in>set (rows R1). scanJob r = job \<and> idem_key r = (c_TenantID c, c_IdempotencyKey c)"
    and "\<not> repo_closed R" and "\<not> repo_closed R1"
proof -
  show opn: "\<not> repo_closed R" using assms by (auto simp: CreateJob_def)
  have c: "ctx = None" using assms opn by (cases ctx) (auto simp: CreateJob_def)
  have v: "CreateJobInput_Validate c = None"
    using assms opn c by (cases "CreateJobInput_Validate c") (auto simp: CreateJob_def)
  obtain b where b: "marshalJobPayload E (c_Request c) = Inr b"
    using assms opn c v by (cases "marshalJobPayload E (c_Request c)") (auto simp: CreateJob_def)
  obtain h where h: "computeJobIdempotencyHash E b c = Inr h"
    using assms opn c v b by (cases "computeJobIdempotencyHash E b c") (auto simp: CreateJob_def)
  obtain rs' res where ex: "exec_sql out1 (insertJobSQL E now c h b) (rows R) = (rs', res)"
    by fastforce
  have R1: "R1 = R\<lparr>rows := rs'\<rparr>" and res: "\<exists>v. res = Inr v"
    using assms opn c v b h ex
    by (simp_all add: CreateJob_def Let_def split: if_splits sum.splits option.splits)
  then show "\<not> repo_closed R1" using opn by simp
  obtain v' where v': "res = Inr v'" using res by blast
  show "\<exists>r\<in>set (rows R1). scanJob r = job \<and> idem_key r = (c_TenantID c, c_IdempotencyKey c)"
  proof (cases v')
    case None
    then obtain r where "find (\<lambda>r. r_tenant_id r = c_TenantID c \<and> r_idempotency_key r = c_IdempotencyKey c) rs' = Some r"
      "scanJob r = job"
      using assms opn c v b h ex v'
      by (simp add: CreateJob_def Let_def query_sql_def split: if_splits sum.splits option.splits db_outcome.splits)
    then show ?thesis using R1 by (auto simp: idem_key_def dest!: find_SomeD)
  next
    case (Some r)
    then have "scanJob r = job"
      using assms opn c v b h ex v' by (simp add: CreateJob_def Let_def split: if_splits)
    moreover have "r \<in> set rs' \<and> idem_key r = (c_TenantID c, c_IdempotencyKey c)"
      by (rule exec_insert_success) (use ex v' Some in simp)
    ultimately show ?thesis using R1 by auto
  qed
qed

lemma CreateJob_replay:
  assumes inv: "ledger_inv (rows R)" and "\<not> repo_closed R"
    and r: "r \<in> set (rows R)" "idem_key r = (c_TenantID c, c_IdempotencyKey c)"
    and v: "CreateJobInput_Validate c = None" "marshalJobPayload E (c_Request c) = Inr b"
      "computeJobIdempotencyHash E b c = Inr h" "env_jsonb E b \<noteq> None"
      "c_RequestHash c = [] \<or> equal_fold (env_unicode E) (c_RequestHash c) h"
  shows "CreateJob E None now Db_ok Db_ok c R =
    (R, if r_request_hash r = h then Inr (scanJob r) else Inl ErrIdempotencyConflict)"
proof -
  obtain req where req: "env_jsonb E b = Some req" using v(4) by blast
  have "idem_key (new_row now c h req) = idem_key r"
    using r(2) by (simp add: idem_key_def new_row_def)
  then have "insertJobSQL E now c h b (rows R) = Inr (rows R, None)"
    using r(1) by (auto simp: insertJobSQL_def req Let_def)
  then have "exec_sql Db_ok (insertJobSQL E now c h b) (rows R) = (rows R, Inr None)"
    by (rule exec_sql_ok) (simp add: ledger_invD(3) [OF inv])
  moreover have "find (\<lambda>r. r_tenant_id r = c_TenantID c \<and> r_idempotency_key r = c_IdempotencyKey c) (rows R) = Some r"
    using r(2) by (intro find_idem [OF inv r(1)]) (simp_all add: idem_key_def)
  moreover have "\<not> (c_RequestHash c \<noteq> [] \<and> \<not> equal_fold (env_unicode E) (c_RequestHash c) h)"
    using v(5) by blast
  ultimately show ?thesis
    by (simp add: CreateJob_def v(1-3) query_sql_def Let_def assms(2))
qed

section \<open>Cancellation\<close>

lemma cancel_row_effect:
  "Valid (r_state r) \<Longrightarrow> IsTerminal (r_state (cancel_row now r)) \<or> r_cancel_requested_at (cancel_row now r) \<noteq> None"
  by (auto simp: cancel_row_def Let_def Valid_cases split: option.splits)

lemma CancelJob_success:
  assumes "ledger_inv (rows R)" and "CancelJob ctx now out t j R = (R1, None)"
  shows "\<exists>r\<in>set (rows R1). row_key r = (t, j) \<and> (IsTerminal (r_state r) \<or> r_cancel_requested_at r \<noteq> None)"
proof -
  have opn: "\<not> repo_closed R" "ctx = None" "check_ids t j = None"
    using assms(2) by (auto simp: CancelJob_def split: if_splits option.splits)
  moreover have "out = Db_ok"
    using assms(2) opn by (cases out) (auto simp: CancelJob_def exec_sql_def Let_def split: sum.splits)
  ultimately have R1: "rows R1 = map (\<lambda>r. if r_tenant_id r = t \<and> r_id r = j then cancel_row now r else r) (rows R)"
    and "filter (\<lambda>r. r_tenant_id r = t \<and> r_id r = j) (rows R) \<noteq> []"
    using assms(2) exec_cancel_ok [OF assms(1), of t j now]
    by (auto simp: CancelJob_def Let_def split: if_splits)
  then obtain r where r: "r \<in> set (rows R)" "r_tenant_id r = t \<and> r_id r = j" by (auto simp: filter_empty_conv)
  then have "cancel_row now r \<in> set (rows R1)" unfolding R1 by force
  moreover have "row_key (cancel_row now r) = (t, j)"
    using r(2) by (simp add: row_key_def cancel_row_def Let_def)
  moreover have "Valid (r_state r)" using ledger_invD(3) [OF assms(1) r(1)] by (simp add: row_ok_def)
  ultimately show ?thesis using cancel_row_effect by blast
qed

section \<open>Acquisition\<close>

lemma ready_batch_distinct:
  "distinct (map row_key rs) \<Longrightarrow> distinct (ready_batch now locked tie n rs)"
  unfolding ready_batch_def by (intro distinct_take_sort_key distinct_filter) (simp add: distinct_map)

lemma expired_batch_distinct:
  "distinct (map row_key rs) \<Longrightarrow> distinct (expired_batch now locked tie n rs)"
  unfolding expired_batch_def by (intro distinct_take_sort_key distinct_filter) (simp add: distinct_map)

lemma length_filter_batch:
  assumes "distinct rs" and "distinct B" and "set B \<subseteq> set rs"
  shows "length (filter (\<lambda>r. r \<in> set B) rs) = length B"
proof -
  have "set (filter (\<lambda>r. r \<in> set B) rs) = set B" using assms(3) by auto
  then show ?thesis using assms(1,2) by (metis distinct_card distinct_filter)
qed

text \<open>A row that was leased is not ready any more.\<close>

lemma leased_not_ready:
  assumes "distinct (map row_key rs)" and "r \<in> set rs"
    and "row_key r \<in> row_key ` set (filter (ready_row now') (map (\<lambda>s. if s \<in> B then lease_row now owner ms s else s) rs))"
  shows "r \<notin> B"
proof
  assume "r \<in> B"
  from assms(3) obtain s where s: "s \<in> set rs" "ready_row now' (if s \<in> B then lease_row now owner ms s else s)"
    "row_key r = row_key (if s \<in> B then lease_row now owner ms s else s)" by auto
  then have "row_key s = row_key r" by (auto simp: row_key_def lease_row_def split: if_splits)
  then have "s = r" using distinct_key_eq [OF assms(1)] s(1) assms(2) by blast
  with s(2) \<open>r \<in> B\<close> show False by (simp add: ready_row_def lease_row_def)
qed

lemma AcquireLeases_ok:
  assumes "ledger_inv (rows R)" and "\<not> repo_closed R" and "proper_id MaxLeaseOwnerLength owner"
    and "1 \<le> n" "n \<le> MaxJobBatchSize" and "millisecond \<le> d" "d \<le> MaxJobLeaseDuration"
  shows "AcquireLeases None now locked tie Db_ok owner n d R =
    (R\<lparr>rows := map (\<lambda>r. if r \<in> set (ready_batch now locked tie (nat n) (rows R))
                        then lease_row now owner (duration_ms d) r else r) (rows R)\<rparr>,
     Inr (sort_key (\<lambda>j. (j_NextRunAt j, j_CreatedAt j, j_ID j))
       (map (scanJob \<circ> lease_row now owner (duration_ms d))
         (filter (\<lambda>r. r \<in> set (ready_batch now locked tie (nat n) (rows R))) (rows R)))))"
proof -
  have p: "proper_id 256 owner" using assms(3) by (simp add: job_limits)
  show ?thesis
    using assms(2-) exec_acquire_ok [OF assms(1) p, of now locked tie "nat n" "duration_ms d"]
    by (simp add: AcquireLeases_def proper_id_def validateJobBatchSize_def validateLeaseDuration_def Let_def)
qed

lemma AcquireLeases_success:
  assumes "AcquireLeases ctx now locked tie out owner n d R = (R1, Inr js)"
  shows "ctx = None \<and> out = Db_ok \<and> \<not> repo_closed R \<and> proper_id MaxLeaseOwnerLength owner \<and>
    1 \<le> n \<and> n \<le> MaxJobBatchSize \<and> millisecond \<le> d \<and> d \<le> MaxJobLeaseDuration"
  using assms
  by (auto simp: AcquireLeases_def Let_def exec_sql_def proper_id_def validateJobBatchSize_def
      validateLeaseDuration_def split: if_splits option.splits sum.splits db_outcome.splits)

lemma AcquireLeases_row:
  assumes "ledger_inv (rows R)" and acq: "AcquireLeases ctx now locked tie out owner n d R = (R1, Inr js)"
    and "j \<in> set js"
  shows "\<exists>r. r \<in> set (rows R1) \<and> j = scanJob r \<and> r_state r = JobStateLeased \<and> r_lease_owner r = Some owner \<and>
    r_lease_expires_at r = Some (now + duration_ms d * 1000) \<and>
    proper_id MaxLeaseOwnerLength owner \<and> \<not> repo_closed R1"
proof -
  let ?B = "set (ready_batch now locked tie (nat n) (rows R))"
  let ?L = "lease_row now owner (duration_ms d)"
  note ok = AcquireLeases_success [OF acq]
  have R1: "R1 = R\<lparr>rows := map (\<lambda>r. if r \<in> ?B then ?L r else r) (rows R)\<rparr>"
    and js: "js = sort_key (\<lambda>j. (j_NextRunAt j, j_CreatedAt j, j_ID j))
       (map (scanJob \<circ> ?L) (filter (\<lambda>r. r \<in> ?B) (rows R)))"
    using AcquireLeases_ok [of R owner n d now locked tie] ok acq assms(1) by simp_all
  from assms(3) obtain r where r: "r \<in> set (rows R)" "r \<in> ?B" "j = scanJob (?L r)" by (auto simp: js)
  then have "?L r \<in> set (rows R1)" by (force simp: R1)
  moreover have "\<not> repo_closed R1" using ok by (simp add: R1)
  ultimately show ?thesis using ok r(3) by (intro exI [of _ "?L r"]) (simp add: lease_row_def)
qed

section \<open>Fenced operations with a valid fence\<close>

lemma Job_Fence_valid:
  assumes "ledger_inv rs" and "r \<in> set rs" and "r_state r = JobStateLeased"
    and "j = scanJob r" and "r_lease_owner r = Some owner" and "proper_id MaxLeaseOwnerLength owner"
  shows "LeaseFence_Validate (Job_Fence j) = None"
  using ledger_invD(3,5) [OF assms(1,2)] assms(3-)
  by (simp add: LeaseFence_Validate_None Job_Fence_def ids_ok_def row_ok_def lease_state_ok_def)

lemma MarkRunning_hit:
  assumes "ledger_inv (rows R)" and "\<not> repo_closed R" and "r \<in> set (rows R)" and "fence_match f now r"
    and "LeaseFence_Validate f = None" and "r_state r = JobStateLeased" and "r_cancel_requested_at r = None"
  shows "MarkRunning None now Db_ok out2 f R =
    (R\<lparr>rows := map (\<lambda>s. if s = r then r\<lparr>r_state := JobStateRunning, r_updated_at := now\<rparr> else s) (rows R)\<rparr>, None)"
  unfolding MarkRunning_def markRunningSQL_def
  using assms(2,5) by simp (rule fenced_exec_hit, use assms fence_match_key row_ok_running in auto)

lemma CompleteJob_hit:
  assumes "ledger_inv (rows R)" and "\<not> repo_closed R" and "r \<in> set (rows R)" and "fence_match f now r"
    and "LeaseFence_Validate f = None" and "marshalJobPayload E v = Inr b" and "env_jsonb E b = Some resp"
  shows "\<exists>R' r'. CompleteJob E None now Db_ok out2 f v R = (R', None) \<and> r' \<in> set (rows R') \<and>
    row_key r' = row_key r \<and> r_state r' = JobStateSucceeded \<and> r_response r' = Some resp \<and>
    r_lease_owner r' = None \<and> \<not> repo_closed R'"
proof -
  let ?g = "\<lambda>r. r\<lparr>r_state := JobStateSucceeded, r_response := Some resp, r_lease_owner := None,
            r_lease_expires_at := None, r_updated_at := now\<rparr>"
  have "fenced_exec Db_ok out2 (update_where (fence_match f now) ?g) (f_TenantID f) (f_JobID f) False R =
      (R\<lparr>rows := map (\<lambda>s. if s = r then ?g r else s) (rows R)\<rparr>, None)"
    by (rule fenced_exec_hit) (use assms fence_match_key row_ok_complete in auto)
  then have "CompleteJob E None now Db_ok out2 f v R =
      (R\<lparr>rows := map (\<lambda>s. if s = r then ?g r else s) (rows R)\<rparr>, None)"
    using assms(2,5,6,7) by (simp add: CompleteJob_def completeJobSQL_Some)
  then show ?thesis
    using assms(2,3) by (intro exI [of _ "R\<lparr>rows := map (\<lambda>s. if s = r then ?g r else s) (rows R)\<rparr>"]
        exI [of _ "?g r"]) (auto simp: row_key_def)
qed

section \<open>Reclamation\<close>

lemma ReclaimExpiredLeases_ok:
  assumes "ledger_inv (rows R)" and "\<not> repo_closed R"
    and "1 \<le> n" "n \<le> MaxJobBatchSize" and "0 \<le> d" "d \<le> MaxRetryBackoff"
  shows "ReclaimExpiredLeases None now locked tie Db_ok n d R =
    (R\<lparr>rows := map (\<lambda>r. if r \<in> set (expired_batch now locked tie (nat n) (rows R))
                        then reclaim_row now (duration_ms d) r else r) (rows R)\<rparr>,
     Inr (length (expired_batch now locked tie (nat n) (rows R))))"
proof -
  let ?B = "expired_batch now locked tie (nat n) (rows R)"
  note d = ledger_invD(1) [OF assms(1)]
  have "length (filter (\<lambda>r. r \<in> set ?B) (rows R)) = length ?B"
    using d by (intro length_filter_batch expired_batch_distinct)
      (auto simp: distinct_map dest: expired_batch_in)
  then show ?thesis
    using assms(2-) exec_reclaim_ok [OF assms(1), of now locked tie "nat n" "duration_ms d"]
    by (simp add: ReclaimExpiredLeases_def validateJobBatchSize_def Let_def)
qed

section \<open>No SQL error from the constraints\<close>

lemma fenced_exec_no_db_error:
  assumes "\<exists>rs' n. exec_sql Db_ok stmt (rows R) = (rs', Inr n)"
  shows "snd (fenced_exec Db_ok Db_ok stmt t j b R) \<noteq> Some (Db_error m)"
  using assms by (auto simp: fenced_exec_def handleLeaseMutationMiss_def query_sql_def Let_def split: option.splits if_splits)

lemma fenced_no_db_error:
  assumes "ledger_inv (rows R)"
  shows "snd (MarkRunning ctx now Db_ok Db_ok f R) \<noteq> Some (Db_error m)"
    and "snd (RenewLease ctx now Db_ok Db_ok f d R) \<noteq> Some (Db_error m)"
    and "snd (FailJob ctx now Db_ok Db_ok x R) \<noteq> Some (Db_error m)"
    and "snd (AcknowledgeCancellation ctx now Db_ok Db_ok f R) \<noteq> Some (Db_error m)"
  using assms
  by (simp_all add: MarkRunning_def RenewLease_def FailJob_def AcknowledgeCancellation_def
      validateLeaseDuration_def fenced_exec_no_db_error exec_running_ok exec_renew_ok exec_fail_ok exec_ack_ok
      split: option.splits)

text \<open>A payload that \<open>jsonb\<close> accepts once it is marshalled.\<close>

definition payload_casts :: "ledger_env \<Rightarrow> payload \<Rightarrow> bool" where
  "payload_casts E v \<longleftrightarrow> (case marshalJobPayload E v of Inl _ \<Rightarrow> True | Inr b \<Rightarrow> env_jsonb E b \<noteq> None)"

lemma payload_castsD: "payload_casts E v \<Longrightarrow> marshalJobPayload E v = Inr b \<Longrightarrow> env_jsonb E b \<noteq> None"
  by (simp add: payload_casts_def)

lemma CompleteJob_no_db_error:
  assumes "ledger_inv (rows R)" and "payload_casts E resp"
  shows "snd (CompleteJob E ctx now Db_ok Db_ok f resp R) \<noteq> Some (Db_error m)"
proof -
  have "e \<noteq> Db_error m" if "marshalJobPayload E resp = Inl e" for e
    using that by (auto simp: marshalJobPayload_def split: payload.splits sum.splits if_splits)
  moreover have "snd (fenced_exec Db_ok Db_ok (completeJobSQL E f now b) t j False R) \<noteq> Some (Db_error m)"
    if "marshalJobPayload E resp = Inr b" for b t j
    using fenced_exec_no_db_error [OF exec_complete_ok [OF assms(1) payload_castsD [OF assms(2) that]]] .
  ultimately show ?thesis by (auto simp: CompleteJob_def split: option.splits sum.splits)
qed

lemma CreateJob_no_db_error:
  assumes "ledger_inv (rows R)" and "\<And>z. length (env_sha256 E z) = 32"
    and "payload_casts E (c_Request c)"
  shows "snd (CreateJob E ctx now Db_ok Db_ok c R) \<noteq> Inl (Db_error m)"
proof -
  have e1: "e \<noteq> Db_error m" if "marshalJobPayload E v = Inl e" for e v
    using that by (auto simp: marshalJobPayload_def split: payload.splits sum.splits if_splits)
  have e2: "e \<noteq> Db_error m" if "computeJobIdempotencyHash E b c = Inl e" for e b
    using that by (auto simp: computeJobIdempotencyHash_def split: sum.splits)
  have ok: "\<exists>rs' v. exec_sql Db_ok (insertJobSQL E now c h b) (rows R) = (rs', Inr v)"
    if "CreateJobInput_Validate c = None" "marshalJobPayload E (c_Request c) = Inr b"
      "computeJobIdempotencyHash E b c = Inr h" for b h
    using exec_insert_ok [OF assms(1) that(1) computed_hash_pattern [OF assms(2) that(3)]]
      payload_castsD [OF assms(3) that(2)] by fastforce
  have run: "snd (CreateJob E ctx now Db_ok Db_ok c R) \<noteq> Inl (Db_error m)"
    if v: "CreateJobInput_Validate c = None" "marshalJobPayload E (c_Request c) = Inr b"
      "computeJobIdempotencyHash E b c = Inr h" for b h
    using ok [OF v] v by (auto simp: CreateJob_def query_sql_def Let_def split: option.splits if_splits)
  show ?thesis
  proof (cases "CreateJobInput_Validate c")
    case None
    show ?thesis
    proof (cases "marshalJobPayload E (c_Request c)")
      case (Inl e)
      then show ?thesis using e1 None by (auto simp: CreateJob_def split: option.splits)
    next
      case (Inr b)
      then show ?thesis
        using e2 run [OF None Inr] None
        by (cases "computeJobIdempotencyHash E b c") (auto simp: CreateJob_def split: option.splits)
    qed
  qed (simp add: CreateJob_def split: option.splits)
qed

lemma AcquireLeases_no_db_error:
  assumes "ledger_inv (rows R)"
  shows "snd (AcquireLeases ctx now locked tie Db_ok owner n d R) \<noteq> Inl (Db_error m)"
proof (cases "proper_id 256 owner")
  case True
  then show ?thesis
    using exec_acquire_ok [OF assms True]
    by (simp add: AcquireLeases_def validateJobBatchSize_def validateLeaseDuration_def Let_def split: option.splits)
next
  case False
  then show ?thesis
    by (auto simp: AcquireLeases_def proper_id_def job_limits split: option.splits)
qed

lemma CancelJob_no_db_error:
  "ledger_inv (rows R) \<Longrightarrow> snd (CancelJob ctx now Db_ok t j R) \<noteq> Some (Db_error m)"
  using exec_cancel_ok [of "rows R" t j now] by (simp add: CancelJob_def Let_def split: option.splits)

lemma ReclaimExpiredLeases_no_db_error:
  "ledger_inv (rows R) \<Longrightarrow> snd (ReclaimExpiredLeases ctx now locked tie Db_ok n d R) \<noteq> Inl (Db_error m)"
  using exec_reclaim_ok [of "rows R" now locked tie "nat n" "duration_ms d"]
  by (simp add: ReclaimExpiredLeases_def validateJobBatchSize_def Let_def split: option.splits)

end
