(* ===== verification/Ledger_Example.thy ===== *)
theory Ledger_Example
  imports Ledger_Schema
begin

text \<open>
  A small concrete ledger, on which the hypotheses of the ledger's properties are shown to
  hold together.
\<close>

section \<open>A concrete ledger\<close>

text \<open>
  An environment whose hash is the identity on 32 bytes, one job, and the states of the
  ledger after creating it, leasing it to worker \<open>w\<close>, and reclaiming the expired lease.
\<close>

definition demo_env :: ledger_env where
  "demo_env = \<lparr>env_unicode = ascii_tables,
     env_sha256 = (\<lambda>x. take 32 (x @ replicate 32 (char_of (0::nat)))),
     env_json_valid = (\<lambda>_. True), env_json_marshal = (\<lambda>_. Inr ''{}''),
     env_marshal_fingerprint = (\<lambda>req a c n. Inr (req @ a @ c)), env_jsonb = Some\<rparr>"

definition demo_input :: CreateJobInput where
  "demo_input = \<lparr>c_ID = ''j1'', c_TenantID = ''t'', c_IdempotencyKey = ''k'', c_Request = PRaw ''{}'',
     c_RequestHash = [], c_AgentID = ''a'', c_RequiredCapability = [], c_MaxAttempts = 2,
     c_NextRunAt = None\<rparr>"

definition demo_repo :: "durable_job list \<Rightarrow> JobRepo" where
  "demo_repo rs = \<lparr>rows = rs, repo_pool = Some True, repo_closed = False, repo_redactTokens = [],
     repo_ownsPool = True\<rparr>"

definition demo_hash :: string where
  "demo_hash = hex_encode (''{}a'' @ replicate 29 (char_of (0::nat)))"

definition demo_row :: durable_job where
  "demo_row = new_row 0 demo_input demo_hash ''{}''"

definition demo_leased_row :: durable_job where
  "demo_leased_row = lease_row 10 ''w'' 30000 demo_row"

definition demo_reclaimed_row :: durable_job where
  "demo_reclaimed_row = reclaim_row 40000000 0 demo_leased_row"

text \<open>The job after worker \<open>v\<close> has leased it again.\<close>

definition demo_second_row :: durable_job where
  "demo_second_row = lease_row 50000000 ''v'' 30000 demo_reclaimed_row"

definition demo_second_fence :: LeaseFence where
  "demo_second_fence = \<lparr>f_TenantID = ''t'', f_JobID = ''j1'', f_LeaseOwner = ''v'', f_LeaseToken = 3\<rparr>"

definition demo_fence :: LeaseFence where
  "demo_fence = \<lparr>f_TenantID = ''t'', f_JobID = ''j1'', f_LeaseOwner = ''w'', f_LeaseToken = 1\<rparr>"

lemmas string_eval = rune_count_def trim_space_eq_Nil runes_def is_space_def

lemmas demo_defs = demo_repo_def demo_row_def demo_leased_row_def demo_reclaimed_row_def
  demo_fence_def demo_second_row_def demo_second_fence_def demo_input_def new_row_def lease_row_def reclaim_row_def

lemma demo_repo_simps [simp]:
  "rows (demo_repo rs) = rs" "\<not> repo_closed (demo_repo rs)" "(demo_repo rs)\<lparr>rows := rs'\<rparr> = demo_repo rs'"
  by (simp_all add: demo_repo_def)

lemma demo_valid: "CreateJobInput_Validate demo_input = None"
  by (simp add: demo_input_def CreateJobInput_Validate_def job_limits string_eval)

lemma demo_payload: "marshalJobPayload demo_env (c_Request demo_input) = Inr ''{}''"
  by (simp add: marshalJobPayload_def demo_env_def demo_input_def MaxJobPayloadBytes_def)

lemma demo_trim: "trim_space ''a'' = ''a''" "trim_space [] = []"
  by (simp_all add: trim_space_def strip_def is_space_def)

lemma demo_sha [simp]: "length (env_sha256 demo_env x) = 32"
  by (simp add: demo_env_def)

lemma demo_jsonb [simp]: "env_jsonb demo_env b = Some b"
  by (simp add: demo_env_def)

lemma demo_computed: "computeJobIdempotencyHash demo_env ''{}'' demo_input = Inr demo_hash"
  by (simp add: computeJobIdempotencyHash_def demo_env_def demo_input_def demo_trim
      ComputeRequestHash_eq demo_hash_def)

lemma demo_hash_pattern: "hash_pattern demo_hash"
  by (rule computed_hash_pattern [OF demo_sha demo_computed])

lemma demo_owner: "proper_id 256 ''w''"
  by (simp add: proper_id_def string_eval)

lemma demo_row_ok: "row_ok demo_row" "row_ok demo_leased_row" "row_ok demo_reclaimed_row"
proof -
  show r: "row_ok demo_row"
    unfolding demo_row_def by (rule row_ok_new [OF demo_valid demo_hash_pattern])
  show l: "row_ok demo_leased_row"
    unfolding demo_leased_row_def by (rule row_ok_lease [OF r demo_owner])
  show "row_ok demo_reclaimed_row"
    unfolding demo_reclaimed_row_def by (rule row_ok_reclaim [OF l])
qed

lemma demo_inv: "ledger_inv [demo_row]" "ledger_inv [demo_leased_row]" "ledger_inv [demo_reclaimed_row]"
  using demo_row_ok
  by (simp_all add: ledger_inv_def counters_ok_def abs_job_def ids_ok_def proper_id_def
      job_limits string_eval demo_defs)

lemma demo_create:
  "CreateJob demo_env None 0 Db_ok Db_ok demo_input (demo_repo []) = (demo_repo [demo_row], Inr (scanJob demo_row))"
proof -
  have "c_RequestHash demo_input = []" by (simp add: demo_input_def)
  then show ?thesis
    using exec_insert_ok [OF ledger_inv_empty demo_valid demo_hash_pattern demo_jsonb, of 0 "''{}''"]
    by (simp add: CreateJob_def demo_valid demo_payload demo_computed Let_def demo_row_def)
qed

lemma demo_ready: "ready_batch 10 {} (\<lambda>_. 0) 5 [demo_row] = [demo_row]"
  by (simp add: ready_batch_def ready_row_def demo_defs)

lemmas demo_checks = string_eval job_limits validateJobBatchSize_def MaxJobBatchSize_def
  validateLeaseDuration_def MaxJobLeaseDuration_def millisecond_def duration_ms_def go_div_nonneg

lemma demo_acquire:
  "AcquireLeases None 10 {} (\<lambda>_. 0) Db_ok ''w'' 5 (30 * second) (demo_repo [demo_row]) =
     (demo_repo [demo_leased_row], Inr [scanJob demo_leased_row])"
  using exec_acquire_ok [OF demo_inv(1) demo_owner, of 10 "{}" "\<lambda>_. 0" 5 30000]
  by (simp add: AcquireLeases_def demo_checks demo_ready Let_def demo_leased_row_def)

lemma demo_expired: "expired_batch 40000000 {} (\<lambda>_. 0) 5 [demo_leased_row] = [demo_leased_row]"
  by (simp add: expired_batch_def expired_row_def demo_defs)

lemma demo_reclaim:
  "ReclaimExpiredLeases None 40000000 {} (\<lambda>_. 0) Db_ok 5 0 (demo_repo [demo_leased_row]) =
     (demo_repo [demo_reclaimed_row], Inr 1)"
  using exec_reclaim_ok [OF demo_inv(2), of 40000000 "{}" "\<lambda>_. 0" 5 0]
  by (simp add: ReclaimExpiredLeases_def demo_checks demo_expired Let_def demo_reclaimed_row_def)

lemma demo_ready_again:
  "ready_batch 50000000 {} (\<lambda>_. 0) 5 [demo_reclaimed_row] = [demo_reclaimed_row]"
  by (simp add: ready_batch_def ready_row_def demo_defs)

lemma demo_second_owner: "proper_id 256 ''v''"
  by (simp add: proper_id_def string_eval)

lemma demo_acquire_again:
  "AcquireLeases None 50000000 {} (\<lambda>_. 0) Db_ok ''v'' 5 (30 * second) (demo_repo [demo_reclaimed_row]) =
     (demo_repo [demo_second_row], Inr [scanJob demo_second_row])"
  using exec_acquire_ok [OF demo_inv(3) demo_second_owner, of 50000000 "{}" "\<lambda>_. 0" 5 30000]
  by (simp add: AcquireLeases_def demo_checks demo_ready_again Let_def demo_second_row_def)

lemma demo_step_create: "ledger_step demo_env (demo_repo []) (demo_repo [demo_row])"
  using step_create [of demo_env "demo_repo []" None 0 Db_ok Db_ok demo_input] by (simp add: demo_create)

lemma demo_step_acquire: "ledger_step demo_env (demo_repo [demo_row]) (demo_repo [demo_leased_row])"
  using step_acquire [of demo_env "demo_repo [demo_row]" None 10 "{}" "\<lambda>_. 0" Db_ok "''w''" 5 "30 * second"]
  by (simp add: demo_acquire)

lemma demo_step_reclaim:
  "ledger_step demo_env (demo_repo [demo_leased_row]) (demo_repo [demo_reclaimed_row])"
  using step_reclaim [of demo_env "demo_repo [demo_leased_row]" None 40000000 "{}" "\<lambda>_. 0" Db_ok 5 0]
  by (simp add: demo_reclaim)

lemma demo_step_acquire_again:
  "ledger_step demo_env (demo_repo [demo_reclaimed_row]) (demo_repo [demo_second_row])"
  using step_acquire [of demo_env "demo_repo [demo_reclaimed_row]" None 50000000 "{}" "\<lambda>_. 0" Db_ok
      "''v''" 5 "30 * second"]
  by (simp add: demo_acquire_again)

lemma demo_handover: "(ledger_step demo_env)\<^sup>*\<^sup>* (demo_repo [demo_leased_row]) (demo_repo [demo_second_row])"
  by (meson converse_rtranclp_into_rtranclp demo_step_acquire_again demo_step_reclaim rtranclp.rtrancl_refl)

lemma demo_reachable: "ledger_reachable demo_env (demo_repo [demo_leased_row])"
  using reach_step reach_init demo_step_create demo_step_acquire demo_repo_simps(1) by metis

end
