(* ===== verification/Ledger_Claims.thy ===== *)
theory Ledger_Claims
  imports Ledger_Behaviour Ledger_Example
begin

text \<open>
  The properties of the durable job ledger, over whole histories and for each operation.
  Every hypothesis is shown to be satisfiable on the concrete ledger of Ledger_Example.
\<close>

section \<open>Leases\<close>

text \<open>
  C1. A worker whose lease is over can do nothing any more. If a job is not leased and its
  token has reached the token of a fence, then in every later state of the ledger each of
  the five fenced operations with that fence leaves the repository unchanged and reports an
  error, whatever the clock, the context and the database do.
\<close>

theorem zombie_worker_refused:
  assumes "ledger_inv (rows R)" and "r \<in> set (rows R)" and "row_key r = fence_key f"
    and "\<not> holds_lease (r_state r)" and "f_LeaseToken f \<le> r_lease_token r"
    and "(ledger_step E)\<^sup>*\<^sup>* R R'" and "FailJobInput_Fence x = f"
  shows "fst (MarkRunning ctx now out1 out2 f R') = R' \<and> snd (MarkRunning ctx now out1 out2 f R') \<noteq> None \<and>
    fst (RenewLease ctx now out1 out2 f d R') = R' \<and> snd (RenewLease ctx now out1 out2 f d R') \<noteq> None \<and>
    fst (CompleteJob E ctx now out1 out2 f resp R') = R' \<and>
    snd (CompleteJob E ctx now out1 out2 f resp R') \<noteq> None \<and>
    fst (FailJob ctx now out1 out2 x R') = R' \<and> snd (FailJob ctx now out1 out2 x R') \<noteq> None \<and>
    fst (AcknowledgeCancellation ctx now out1 out2 f R') = R' \<and>
    snd (AcknowledgeCancellation ctx now out1 out2 f R') \<noteq> None"
proof -
  have "token_dead (f_LeaseToken f) (abs_job r)"
    using assms(4,5) by (auto simp: token_dead_def abs_job_def)
  from dead_fence_no_match [OF assms(6,1-3) this]
  have "\<forall>r'\<in>set (rows R'). \<not> fence_match f now r'" .
  note refused = no_match_refused [OF this]
  show ?thesis by (intro conjI refused assms(7))
qed

text \<open>The expired lease of worker \<open>w\<close>, after worker \<open>v\<close> has taken the job over.\<close>

theorem zombie_worker_refused_witness:
  "snd (CompleteJob demo_env None 50000001 Db_ok Db_ok demo_fence (PRaw ''{}'') (demo_repo [demo_second_row])) \<noteq> None"
proof -
  have "FailJobInput_Fence \<lparr>x_TenantID = ''t'', x_JobID = ''j1'', x_LeaseOwner = ''w'', x_LeaseToken = 1,
      x_FailureCode = [], x_FailureMessage = [], x_Retryable = True, x_Backoff = 0\<rparr> = demo_fence"
    by (simp add: FailJobInput_Fence_def demo_fence_def)
  note zombie_worker_refused [of "demo_repo [demo_reclaimed_row]" demo_reclaimed_row demo_fence demo_env
      "demo_repo [demo_second_row]", OF _ _ _ _ _ r_into_rtranclp this]
  then show ?thesis
    using demo_inv(3) demo_step_acquire_again by (simp add: row_key_def fence_key_def demo_defs)
qed

text \<open>
  Leases are exclusive over time: when a second fence has become valid for a job, the
  first one is dead in every later state, so the fences that are valid for one job never
  interleave.
\<close>

lemma lease_handover_exclusive:
  assumes "ledger_inv (rows R)" and "r \<in> set (rows R)" and "fence_match f now r"
    and "(ledger_step E)\<^sup>*\<^sup>* R R'" and "r' \<in> set (rows R')" and "fence_match f' now' r'"
    and "fence_key f' = fence_key f" and "f' \<noteq> f" and "(ledger_step E)\<^sup>*\<^sup>* R' R''"
  shows "\<forall>r''\<in>set (rows R''). \<not> fence_match f now'' r''"
proof -
  have "row_step\<^sup>*\<^sup>* r r'"
    using history_key [OF assms(4,1,2,5)] fence_match_key assms(3,6,7) by metis
  then have mono: "r_lease_token r \<le> r_lease_token r'"
    and owner: "r_lease_token r' = r_lease_token r \<Longrightarrow> r_lease_owner r' = r_lease_owner r"
    using evolve_token_mono evolve_owner assms(6) fence_match_lease by blast+
  have "r_lease_token r' \<noteq> r_lease_token r"
    using owner assms(3,6,7,8) by (auto simp: fence_match_def fence_key_def)
  then have "token_dead (f_LeaseToken f) (abs_job r')"
    using mono assms(3) by (simp add: token_dead_def abs_job_def fence_match_def)
  moreover have "row_key r' = fence_key f" using fence_match_key assms(6,7) by metis
  ultimately show ?thesis
    using dead_fence_no_match assms(9,5) ledger.inv_star [OF assms(4,1)] by blast
qed

lemma lease_handover_exclusive_witness:
  "\<not> fence_match demo_fence 50000000 demo_second_row"
  using lease_handover_exclusive [of "demo_repo [demo_leased_row]" demo_leased_row demo_fence 11
      demo_env "demo_repo [demo_second_row]" demo_second_row demo_second_fence 50000001
      "demo_repo [demo_second_row]" 50000000]
    demo_inv(2) demo_handover
  by (simp add: fence_match_def fence_key_def demo_defs)

section \<open>The invariant and the lifecycle\<close>

text \<open>
  C4. In every reachable state of the ledger job keys and idempotency keys are unique, every
  row satisfies the constraints of the schema, its identifiers are proper and its counters
  are consistent.
\<close>

theorem ledger_reachable_invariant: "ledger_reachable E R \<Longrightarrow> ledger_inv (rows R)"
  by (rule ledger_reachable_inv_aux)

theorem ledger_reachable_invariant_witness: "ledger_inv (rows (demo_repo [demo_leased_row]))"
  by (rule ledger_reachable_invariant [OF demo_reachable])

text \<open>
  C5. Refinement to the abstract lifecycle: a step of the repository moves every existing
  row by one transition that the lifecycle allows, keeps its identity and the whole of a
  finished row, and appends at most one row, which is new, queued and unleased.
\<close>

theorem ledger_refines_lifecycle:
  "ledger_reachable E R \<Longrightarrow> ledger_step E R R' \<Longrightarrow> table_step (rows R) (rows R')"
  using ledger_step_table_step ledger_invD(1) ledger_reachable_inv_aux by blast

theorem ledger_refines_lifecycle_witness: "table_step [demo_leased_row] [demo_reclaimed_row]"
  using ledger_refines_lifecycle [OF demo_reachable demo_step_reclaim] by simp

text \<open>
  C6. Finished jobs are final: a row in a terminal state is still there, unchanged in every
  column, in every later state.
\<close>

theorem terminal_rows_final:
  assumes "ledger_inv (rows R)" and "(ledger_step E)\<^sup>*\<^sup>* R R'" and "r \<in> set (rows R)"
    and "IsTerminal (r_state r)"
  shows "r \<in> set (rows R')"
  using history_row [OF assms(2,1,3)] evolve_terminal assms(4) by blast

theorem terminal_rows_final_witness:
  "cancel_row 5 demo_row \<in> set (rows (fst (CancelJob None 6 Db_ok ''t'' ''j1'' (demo_repo [cancel_row 5 demo_row]))))"
proof -
  have "ledger_inv [cancel_row 5 demo_row]"
    using row_ok_cancel [OF demo_row_ok(1), of 5]
    by (simp add: ledger_inv_def counters_ok_def abs_job_def ids_ok_def proper_id_def job_limits
        string_eval cancel_row_def demo_defs)
  then show ?thesis
    using terminal_rows_final [OF _ r_into_rtranclp [of "ledger_step demo_env", OF step_cancel],
        of "demo_repo [cancel_row 5 demo_row]" "cancel_row 5 demo_row" None 6 Db_ok "''t''" "''j1''"]
    by (simp add: cancel_row_def demo_defs)
qed

text \<open>
  The counters never leave their range: a job is leased at most \<open>max_attempts \<le> 100\<close>
  times and its lease token stays below 200, far from the bounds of a 64-bit column; a
  queued job always has an attempt left, so none is stuck in the queue.
\<close>

lemma ledger_counters_bounded:
  assumes "ledger_reachable E R" and "r \<in> set (rows R)"
  shows "0 \<le> r_attempt r \<and> r_attempt r \<le> r_max_attempts r \<and> r_max_attempts r \<le> MaxAllowedAttempts \<and>
    0 \<le> r_lease_token r \<and> r_lease_token r \<le> 2 * MaxAllowedAttempts \<and>
    (r_state r = JobStateQueued \<longrightarrow> r_attempt r < r_max_attempts r)"
  using ledger_invD(3,4) [OF ledger_reachable_inv_aux [OF assms(1)] assms(2)]
  by (auto simp: counters_ok_def abs_job_def row_ok_def job_limits split: if_splits)

lemma ledger_counters_bounded_witness: "r_lease_token demo_leased_row \<le> 2 * MaxAllowedAttempts"
  using ledger_counters_bounded [OF demo_reachable, of demo_leased_row] by simp

section \<open>Creation and lookup\<close>

text \<open>
  C7. Idempotent submission: once a submission has succeeded, in every later state a second
  submission with the same tenant and idempotency key changes nothing, and either returns
  the job of the first one (same request, routing and attempts, by their hash) or is
  refused as a conflict.
\<close>

theorem create_idempotent:
  assumes "ledger_inv (rows R)" and "CreateJob E ctx now out1 out2 c R = (R1, Inr job)"
    and "(ledger_step E)\<^sup>*\<^sup>* R1 R2" and "\<not> repo_closed R2"
    and "c_TenantID c' = c_TenantID c" and "c_IdempotencyKey c' = c_IdempotencyKey c"
    and "CreateJobInput_Validate c' = None" and "marshalJobPayload E (c_Request c') = Inr b"
    and "computeJobIdempotencyHash E b c' = Inr h" and "env_jsonb E b \<noteq> None"
    and "c_RequestHash c' = [] \<or> equal_fold (env_unicode E) (c_RequestHash c') h"
  shows "fst (CreateJob E None now' Db_ok Db_ok c' R2) = R2 \<and>
    (if j_RequestHash job = h
     then \<exists>job'. snd (CreateJob E None now' Db_ok Db_ok c' R2) = Inr job' \<and>
            j_ID job' = j_ID job \<and> j_RequestHash job' = h
     else snd (CreateJob E None now' Db_ok Db_ok c' R2) = Inl ErrIdempotencyConflict)"
proof -
  have inv1: "ledger_inv (rows R1)"
    using ledger_step_inv [OF step_create assms(1), of E ctx now out1 out2 c] assms(2) by simp
  obtain r where r: "r \<in> set (rows R1)" "scanJob r = job" "idem_key r = (c_TenantID c, c_IdempotencyKey c)"
    using CreateJob_success(1) [OF assms(2)] by blast
  then obtain s where s: "s \<in> set (rows R2)" and "row_step\<^sup>*\<^sup>* r s"
    using history_row [OF assms(3) inv1] by blast
  then have "idem_key s = (c_TenantID c', c_IdempotencyKey c')" "r_request_hash s = j_RequestHash job" "r_id s = j_ID job"
    using evolve_identity r assms(5,6) by (fastforce simp: same_identity_def row_key_def)+
  with CreateJob_replay [OF ledger.inv_star [OF assms(3) inv1] assms(4) s _ assms(7-)]
  show ?thesis by simp
qed

theorem create_idempotent_witness:
  "fst (CreateJob demo_env None 99 Db_ok Db_ok demo_input (demo_repo [demo_leased_row])) = demo_repo [demo_leased_row]"
proof -
  have "c_RequestHash demo_input = []" by (simp add: demo_input_def)
  then show ?thesis
    using create_idempotent [OF _ demo_create r_into_rtranclp [of "ledger_step demo_env", OF demo_step_acquire]
        _ refl refl demo_valid demo_payload demo_computed, of 99]
    by (simp add: ledger_inv_empty split: if_splits)
qed

text \<open>
  What \<open>CreateJob\<close> returned is what \<open>GetJob\<close> returns right after it, for a new job and for
  a repeated submission.
\<close>

lemma create_then_get:
  assumes "ledger_inv (rows R)" and "CreateJob E ctx now out1 out2 c R = (R1, Inr job)"
  shows "GetJob None Db_ok (j_TenantID job) (j_ID job) R1 = Inr job"
proof -
  have "ledger_inv (rows R1)"
    using ledger_step_inv [OF step_create assms(1), of E ctx now out1 out2 c] assms(2) by simp
  moreover obtain r where "r \<in> set (rows R1)" "scanJob r = job"
    using CreateJob_success(1) [OF assms(2)] by blast
  ultimately show ?thesis using GetJob_row CreateJob_success(3) [OF assms(2)] by fastforce
qed

lemma create_then_get_witness:
  "GetJob None Db_ok ''t'' ''j1'' (demo_repo [demo_row]) = Inr (scanJob demo_row)"
  using create_then_get [OF _ demo_create] by (simp add: ledger_inv_empty demo_defs)

section \<open>Cancellation\<close>

text \<open>
  C8. Cancellation is not lost: after \<open>CancelJob\<close> has succeeded, the job is finished or keeps
  the intent in every later state, and no worker ever starts it again: \<open>MarkRunning\<close> with any
  fence for it changes nothing and reports an error.
\<close>

theorem cancellation_blocks_start:
  assumes inv: "ledger_inv (rows R)" and cj: "CancelJob ctx now out t j R = (R1, None)"
    and "(ledger_step E)\<^sup>*\<^sup>* R1 R2" and "fence_key f = (t, j)"
  shows "(\<exists>r\<in>set (rows R2). row_key r = (t, j) \<and>
            (IsTerminal (r_state r) \<or> r_cancel_requested_at r \<noteq> None)) \<and>
    fst (MarkRunning ctx' now' out1 out2 f R2) = R2 \<and> snd (MarkRunning ctx' now' out1 out2 f R2) \<noteq> None"
proof -
  have inv1: "ledger_inv (rows R1)"
    using ledger_step_inv [OF step_cancel inv, of ctx now out t j] cj by simp
  obtain r1 where r1: "r1 \<in> set (rows R1)" "row_key r1 = (t, j)"
      "IsTerminal (r_state r1) \<or> r_cancel_requested_at r1 \<noteq> None"
    using CancelJob_success [OF inv cj] by blast
  then obtain r2 where r2: "r2 \<in> set (rows R2)" "row_step\<^sup>*\<^sup>* r1 r2"
    using history_row [OF assms(3) inv1] by blast
  then have k: "row_key r2 = (t, j)" and c: "IsTerminal (r_state r2) \<or> r_cancel_requested_at r2 \<noteq> None"
    using r1 evolve_key [OF r2(2)] evolve_cancel [OF r2(2)] evolve_terminal [OF r2(2)] by auto
  have "\<not> (fence_match f now' s \<and> r_state s = JobStateLeased \<and> r_cancel_requested_at s = None)"
    if "s \<in> set (rows R2)" for s
    using that c k r2(1) fence_match_key assms(4) ledger_invD(1) [OF ledger.inv_star [OF assms(3) inv1]]
      distinct_key_eq fence_match_lease IsTerminal_not_active(2) by metis
  then have "markRunningSQL f now' (rows R2) = Inr (rows R2, 0)"
    unfolding markRunningSQL_def by (intro update_where_none) blast
  then have "fst (MarkRunning ctx' now' out1 out2 f R2) = R2" "snd (MarkRunning ctx' now' out1 out2 f R2) \<noteq> None"
    by (simp_all add: MarkRunning_def fenced_exec_none split: option.splits)
  with r2(1) k c show ?thesis by blast
qed

theorem cancellation_blocks_start_witness:
  "snd (MarkRunning None 12 Db_ok Db_ok demo_fence (demo_repo [cancel_row 11 demo_leased_row])) \<noteq> None"
proof -
  have "check_ids ''t'' ''j1'' = None" by (simp add: check_ids_def string_eval job_limits)
  then have "CancelJob None 11 Db_ok ''t'' ''j1'' (demo_repo [demo_leased_row]) =
      (demo_repo [cancel_row 11 demo_leased_row], None)"
    using exec_cancel_ok [OF demo_inv(2), where t = "''t''" and j = "''j1''" and now = 11]
    by (simp add: CancelJob_def Let_def) (simp add: demo_defs)
  from cancellation_blocks_start [OF _ this rtranclp.rtrancl_refl, of demo_fence None 12 Db_ok Db_ok]
  show ?thesis using demo_inv(2) by (simp add: fence_key_def demo_fence_def)
qed

section \<open>Acquisition and reclamation\<close>

text \<open>
  C9. \<open>AcquireLeases\<close> leases as many ready jobs as it can and in order: with proper
  arguments it succeeds, returns as many jobs as the batch and the ready, unlocked rows
  allow, each of them leased to the caller with one attempt and one token more and an
  expiry that lies in the future, in the order of their due times; and no ready job that it
  leaves is due before one that it took.
\<close>

theorem acquire_leases_batch:
  assumes "ledger_inv (rows R)" and "\<not> repo_closed R" and "proper_id MaxLeaseOwnerLength owner"
    and "1 \<le> n" "n \<le> MaxJobBatchSize" and "millisecond \<le> d" "d \<le> MaxJobLeaseDuration"
    and "AcquireLeases None now locked tie Db_ok owner n d R = (R', res)"
    and "avail = filter (\<lambda>r. ready_row now r \<and> row_key r \<notin> locked) (rows R)"
  shows "\<exists>js. res = Inr js \<and> length js = min (nat n) (length avail) \<and>
    sorted (map (\<lambda>j. (j_NextRunAt j, j_CreatedAt j, j_ID j)) js) \<and>
    (\<forall>j\<in>set js. j_State j = JobStateLeased \<and> j_LeaseOwner j = Some owner \<and>
       (\<exists>e. j_LeaseExpiresAt j = Some e \<and> now < e) \<and>
       (\<exists>r\<in>set avail. row_key r = (j_TenantID j, j_ID j) \<and> j_Attempt j = r_attempt r + 1 \<and>
          j_Attempt j \<le> j_MaxAttempts j \<and> j_LeaseToken j = r_lease_token r + 1)) \<and>
    (\<forall>j\<in>set js. \<forall>r\<in>set avail. row_key r \<in> row_key ` set (filter (ready_row now) (rows R')) \<longrightarrow>
       (j_NextRunAt j, j_CreatedAt j) \<le> (r_next_run_at r, r_created_at r))"
proof -
  let ?B = "ready_batch now locked tie (nat n) (rows R)"
  let ?L = "lease_row now owner (duration_ms d)"
  have d: "distinct (rows R)" "distinct (map row_key (rows R))"
    using ledger_invD(1) [OF assms(1)] by (simp_all add: distinct_map)
  have B: "set ?B \<subseteq> set avail" using assms(9) by (auto dest: ready_batch_in)
  let ?js = "sort_key (\<lambda>j. (j_NextRunAt j, j_CreatedAt j, j_ID j))
       (map (scanJob \<circ> ?L) (filter (\<lambda>r. r \<in> set ?B) (rows R)))"
  have R': "rows R' = map (\<lambda>r. if r \<in> set ?B then ?L r else r) (rows R)" and res: "res = Inr ?js"
    using AcquireLeases_ok [OF assms(1-7), of now locked tie] assms(8) by auto
  have "length (filter (\<lambda>r. r \<in> set ?B) (rows R)) = length ?B"
    using d B assms(9) by (intro length_filter_batch ready_batch_distinct) auto
  moreover have "length ?B = min (nat n) (length avail)" by (simp add: ready_batch_def assms(9) min.commute)
  ultimately have len: "length ?js = min (nat n) (length avail)" by simp
  have js: "\<exists>r\<in>set avail. r \<in> set ?B \<and> j = scanJob (?L r)" if "j \<in> set ?js" for j
    using that B by auto
  have fields: "j_State j = JobStateLeased \<and> j_LeaseOwner j = Some owner \<and>
       (\<exists>e. j_LeaseExpiresAt j = Some e \<and> now < e) \<and>
       (\<exists>r\<in>set avail. row_key r = (j_TenantID j, j_ID j) \<and> j_Attempt j = r_attempt r + 1 \<and>
          j_Attempt j \<le> j_MaxAttempts j \<and> j_LeaseToken j = r_lease_token r + 1)" if "j \<in> set ?js" for j
    using js [OF that] duration_ms_pos [OF assms(6)]
    by (auto simp: lease_row_def row_key_def assms(9) ready_row_def)
  have prio: "(j_NextRunAt j, j_CreatedAt j) \<le> (r_next_run_at r, r_created_at r)"
    if j: "j \<in> set ?js" and r: "r \<in> set avail"
      and k: "row_key r \<in> row_key ` set (filter (ready_row now) (rows R'))" for j r
  proof -
    have "r \<notin> set ?B"
      using leased_not_ready [OF d(2) _ k [unfolded R']] r assms(9) by simp
    moreover obtain s where s: "s \<in> set ?B" "j = scanJob (?L s)" using js [OF j] by blast
    ultimately have "(r_next_run_at s, r_created_at s, tie s) \<le> (r_next_run_at r, r_created_at r, tie r)"
      using r assms(9) unfolding ready_batch_def
      by (intro take_sort_key_min [where f = "\<lambda>r. (r_next_run_at r, r_created_at r, tie r)"]) auto
    then show ?thesis by (auto simp: s(2) lease_row_def)
  qed
  show ?thesis using res len fields prio by (intro exI [of _ ?js]) (auto simp del: set_sort set_map)
qed

theorem acquire_leases_batch_witness:
  "length [scanJob demo_leased_row] = min 5 (length [demo_row])"
proof -
  have "proper_id MaxLeaseOwnerLength ''w''" using demo_owner by (simp add: job_limits)
  then show ?thesis
    using acquire_leases_batch [of "demo_repo [demo_row]" "''w''" 5 "30 * second" 10 "{}" "\<lambda>_. 0"
        "demo_repo [demo_leased_row]" "Inr [scanJob demo_leased_row]" "[demo_row]", OF _ _ _ _ _ _ _ demo_acquire]
      demo_inv(1)
    by (simp add: demo_checks ready_row_def demo_defs)
qed

text \<open>
  C10. \<open>ReclaimExpiredLeases\<close> frees every expired lease that fits in its batch: it reports
  their number, no expired lease is left, a reclaimed job is canceled if cancellation was
  requested, queued again if it has attempts left and dead otherwise, and its token grows,
  so that the fence of the old holder is dead.
\<close>

theorem reclaim_expired_complete:
  assumes "ledger_inv (rows R)" and "\<not> repo_closed R"
    and "1 \<le> n" "n \<le> MaxJobBatchSize" and "0 \<le> d" "d \<le> MaxRetryBackoff"
    and "length (filter (expired_row now) (rows R)) \<le> nat n"
    and "ReclaimExpiredLeases None now {} tie Db_ok n d R = (R', res)"
  shows "res = Inr (length (filter (expired_row now) (rows R))) \<and>
    (\<forall>r\<in>set (rows R'). \<not> expired_row now r) \<and>
    rows R' = map (\<lambda>r. if expired_row now r then reclaim_row now (duration_ms d) r else r) (rows R) \<and>
    (\<forall>r\<in>set (rows R). expired_row now r \<longrightarrow>
       r_state (reclaim_row now (duration_ms d) r) =
         (if r_cancel_requested_at r \<noteq> None then JobStateCanceled
          else if r_attempt r < r_max_attempts r then JobStateQueued else JobStateDeadLetter) \<and>
       token_dead (r_lease_token r) (abs_job (reclaim_row now (duration_ms d) r)))"
proof -
  let ?B = "expired_batch now {} tie (nat n) (rows R)"
  have "?B = sort_key (\<lambda>r. (the (r_lease_expires_at r), tie r)) (filter (expired_row now) (rows R))"
    using assms(7) by (simp add: expired_batch_def)
  then have B: "set ?B = {r \<in> set (rows R). expired_row now r}"
    and len: "length ?B = length (filter (expired_row now) (rows R))" by simp_all
  have rows: "rows R' = map (\<lambda>r. if expired_row now r then reclaim_row now (duration_ms d) r else r) (rows R)"
    and res: "res = Inr (length (filter (expired_row now) (rows R)))"
    using ReclaimExpiredLeases_ok [OF assms(1-6), of now "{}" tie] assms(8) by (auto simp: B len)
  have "\<not> expired_row now (reclaim_row now (duration_ms d) r)" for r
    by (simp add: expired_row_def reclaim_row_def)
  then have "\<forall>r\<in>set (rows R'). \<not> expired_row now r" unfolding rows by auto
  moreover have "r_state (reclaim_row now (duration_ms d) r) =
         (if r_cancel_requested_at r \<noteq> None then JobStateCanceled
          else if r_attempt r < r_max_attempts r then JobStateQueued else JobStateDeadLetter) \<and>
       token_dead (r_lease_token r) (abs_job (reclaim_row now (duration_ms d) r))" for r
    by (simp add: reclaim_row_def token_dead_def abs_job_def)
  ultimately show ?thesis using res rows by blast
qed

theorem reclaim_expired_complete_witness: "\<not> expired_row 40000000 demo_reclaimed_row"
proof -
  have "ledger_inv (rows (demo_repo [demo_leased_row]))" using demo_inv(2) by simp
  moreover have "\<not> repo_closed (demo_repo [demo_leased_row])" by simp
  moreover have "(1::int) \<le> 5" "5 \<le> MaxJobBatchSize" "(0::int) \<le> 0" "0 \<le> MaxRetryBackoff"
    by (simp_all add: demo_checks)
  moreover have "length (filter (expired_row 40000000) (rows (demo_repo [demo_leased_row]))) \<le> nat 5" by simp
  ultimately have "\<forall>r\<in>set (rows (demo_repo [demo_reclaimed_row])). \<not> expired_row 40000000 r"
    using reclaim_expired_complete [OF _ _ _ _ _ _ _ demo_reclaim] by blast
  then show ?thesis by simp
qed

section \<open>The outcome of an attempt\<close>

text \<open>
  C11. A worker that holds a lease and is not canceled can run the job and record its
  result: within the lease \<open>MarkRunning\<close> and \<open>CompleteJob\<close> with the fence of the acquired job
  succeed, and afterwards \<open>GetJob\<close> shows the job succeeded with the response as the database
  stores it, and without a lease.
\<close>

theorem acquired_job_can_succeed:
  assumes inv: "ledger_inv (rows R)"
    and acq: "AcquireLeases ctx now locked tie out owner n d R = (R1, Inr js)" and "j \<in> set js"
    and "j_CancelRequestedAt j = None"
    and "now1 < now + duration_ms d * 1000" and "now2 < now + duration_ms d * 1000"
    and "marshalJobPayload E v = Inr b" and "env_jsonb E b = Some resp"
  shows "\<exists>R2 R3 job. MarkRunning None now1 Db_ok out2 (Job_Fence j) R1 = (R2, None) \<and>
    CompleteJob E None now2 Db_ok out2 (Job_Fence j) v R2 = (R3, None) \<and>
    GetJob None Db_ok (j_TenantID j) (j_ID j) R3 = Inr job \<and>
    j_State job = JobStateSucceeded \<and> j_Response job = resp \<and> j_LeaseOwner job = None"
proof -
  obtain r where r: "r \<in> set (rows R1)" "j = scanJob r" "r_state r = JobStateLeased"
      "r_lease_owner r = Some owner" "r_lease_expires_at r = Some (now + duration_ms d * 1000)"
    and own: "proper_id MaxLeaseOwnerLength owner" and opn: "\<not> repo_closed R1"
    using AcquireLeases_row [OF inv acq assms(3)] by blast
  have inv1: "ledger_inv (rows R1)"
    using ledger_step_inv [OF step_acquire inv, of ctx now locked tie out owner n d] acq by simp
  let ?f = "Job_Fence j"
  let ?r2 = "r\<lparr>r_state := JobStateRunning, r_updated_at := now1\<rparr>"
  let ?R2 = "R1\<lparr>rows := map (\<lambda>s. if s = r then ?r2 else s) (rows R1)\<rparr>"
  have m1: "fence_match ?f now1 r" and m2: "fence_match ?f now2 ?r2"
    using r assms(5,6) by (simp_all add: fence_match_def Job_Fence_def)
  have v: "LeaseFence_Validate ?f = None"
    by (rule Job_Fence_valid [OF inv1 r(1,3,2,4) own])
  have c: "r_cancel_requested_at r = None" using assms(4) r(2) by simp
  have run: "MarkRunning None now1 Db_ok out2 ?f R1 = (?R2, None)"
    using MarkRunning_hit [OF inv1 opn r(1) m1 v r(3) c] by simp
  have inv2: "ledger_inv (rows ?R2)"
    using ledger_step_inv [OF step_running inv1, of None now1 Db_ok out2 ?f] run by simp
  have r2: "?r2 \<in> set (rows ?R2)" using r(1) by force
  obtain R3 r3 where com: "CompleteJob E None now2 Db_ok out2 ?f v ?R2 = (R3, None)"
    and r3: "r3 \<in> set (rows R3)" "row_key r3 = row_key ?r2" "r_state r3 = JobStateSucceeded"
      "r_response r3 = Some resp" "r_lease_owner r3 = None" and opn3: "\<not> repo_closed R3"
    using CompleteJob_hit [OF inv2 _ r2 m2 v assms(7,8), of out2] opn by auto
  have "ledger_inv (rows R3)"
    using ledger_step_inv [OF step_complete inv2, of E None now2 Db_ok out2 ?f v] com by simp
  from GetJob_row [OF this opn3 r3(1)] r3(2)
  have "GetJob None Db_ok (j_TenantID j) (j_ID j) R3 = Inr (scanJob r3)"
    by (simp add: row_key_def r(2))
  then show ?thesis using run com r3 by (auto simp: scanJob_def)
qed

theorem acquired_job_can_succeed_witness:
  "\<exists>R2. MarkRunning None 11 Db_ok Db_ok (Job_Fence (scanJob demo_leased_row)) (demo_repo [demo_leased_row]) = (R2, None)"
  using acquired_job_can_succeed [OF _ demo_acquire, of "scanJob demo_leased_row" 11 12 demo_env
      "c_Request demo_input" "''{}''" "''{}''" Db_ok] demo_inv(1) demo_payload
  by (auto simp: demo_checks demo_defs)

text \<open>
  The outcome of a failed attempt: with a valid fence and a valid report \<open>FailJob\<close>
  succeeds, and \<open>GetJob\<close> then shows the job failed, queued again after the backoff, or dead,
  by retryability and the attempts left, with the failure recorded and no lease.
\<close>

lemma fail_job_outcome:
  assumes inv: "ledger_inv (rows R)" and opn: "\<not> repo_closed R" and r: "r \<in> set (rows R)"
    and m: "fence_match (FailJobInput_Fence x) now r" and v: "FailJobInput_Validate x = None"
  shows "\<exists>R' job. FailJob None now Db_ok out2 x R = (R', None) \<and>
    GetJob None Db_ok (x_TenantID x) (x_JobID x) R' = Inr job \<and>
    j_State job = (if \<not> x_Retryable x then JobStateFailed
                   else if r_attempt r < r_max_attempts r then JobStateQueued else JobStateDeadLetter) \<and>
    j_NextRunAt job = (if x_Retryable x \<and> r_attempt r < r_max_attempts r
                       then now + duration_ms (x_Backoff x) * 1000 else r_next_run_at r) \<and>
    j_FailureCode job = nullif_trim (x_FailureCode x) \<and>
    j_FailureMessage job = nullif_trim (x_FailureMessage x) \<and>
    j_LeaseOwner job = None \<and> j_Attempt job = r_attempt r \<and> j_LeaseToken job = r_lease_token r"
proof -
  let ?R' = "R\<lparr>rows := map (\<lambda>s. if s = r then fail_row now x r else s) (rows R)\<rparr>"
  have fail: "FailJob None now Db_ok out2 x R = (?R', None)"
    using fenced_exec_hit [where P = "fence_match (FailJobInput_Fence x) now", OF inv r m _ row_ok_fail]
      fence_match_key m v opn
    by (simp add: FailJob_def failJobSQL_def)
  have "ledger_inv (rows ?R')"
    using ledger_step_inv [OF step_fail inv, of None now Db_ok out2 x] fail by simp
  moreover have "fail_row now x r \<in> set (rows ?R')" using r by force
  moreover have "r_tenant_id (fail_row now x r) = x_TenantID x" "r_id (fail_row now x r) = x_JobID x"
    using m by (simp_all add: fail_row_def fence_match_def FailJobInput_Fence_def)
  ultimately have "GetJob None Db_ok (x_TenantID x) (x_JobID x) ?R' = Inr (scanJob (fail_row now x r))"
    using GetJob_row [of ?R' "fail_row now x r"] opn by simp
  then show ?thesis using fail by (auto simp: fail_row_def)
qed

definition demo_fail :: FailJobInput where
  "demo_fail = \<lparr>x_TenantID = ''t'', x_JobID = ''j1'', x_LeaseOwner = ''w'', x_LeaseToken = 1,
     x_FailureCode = ''E'', x_FailureMessage = [], x_Retryable = True, x_Backoff = second\<rparr>"

lemma fail_job_outcome_witness:
  "\<exists>R'. FailJob None 11 Db_ok Db_ok demo_fail (demo_repo [demo_leased_row]) = (R', None)"
proof -
  have "fence_match (FailJobInput_Fence demo_fail) 11 demo_leased_row"
    by (simp add: fence_match_def FailJobInput_Fence_def demo_fail_def demo_defs)
  moreover have "FailJobInput_Validate demo_fail = None"
    by (simp add: FailJobInput_Validate_def LeaseFence_Validate_def FailJobInput_Fence_def demo_fail_def
        string_eval job_limits)
  ultimately show ?thesis
    using fail_job_outcome [of "demo_repo [demo_leased_row]" demo_leased_row demo_fail 11 Db_ok] demo_inv(2)
    by auto
qed

section \<open>The schema\<close>

text \<open>
  C12. The checks in front of the statements are as strong as the constraints of the schema: on a
  table that satisfies the invariant, a statement that the database executes violates no
  constraint, so no operation returns an SQL error, but for a payload that \<open>jsonb\<close> rejects.
  (A text that the encoding of the database rejects, with a NUL byte or broken UTF-8, makes the
  statement fail before any constraint is looked at; it is one of the reasons for the outcome
  \<open>Db_failed\<close>, which is not claimed here.) SHA-256 is assumed to give 32 bytes.
\<close>

theorem checks_imply_constraints:
  assumes "ledger_inv (rows R)" and "\<And>z. length (env_sha256 E z) = 32"
  shows "(payload_casts E (c_Request c) \<longrightarrow> snd (CreateJob E ctx now Db_ok Db_ok c R) \<noteq> Inl (Db_error m)) \<and>
    snd (AcquireLeases ctx now locked tie Db_ok owner n d R) \<noteq> Inl (Db_error m) \<and>
    snd (MarkRunning ctx now Db_ok Db_ok f R) \<noteq> Some (Db_error m) \<and>
    snd (RenewLease ctx now Db_ok Db_ok f d R) \<noteq> Some (Db_error m) \<and>
    (payload_casts E resp \<longrightarrow> snd (CompleteJob E ctx now Db_ok Db_ok f resp R) \<noteq> Some (Db_error m)) \<and>
    snd (FailJob ctx now Db_ok Db_ok x R) \<noteq> Some (Db_error m) \<and>
    snd (CancelJob ctx now Db_ok t j R) \<noteq> Some (Db_error m) \<and>
    snd (AcknowledgeCancellation ctx now Db_ok Db_ok f R) \<noteq> Some (Db_error m) \<and>
    snd (ReclaimExpiredLeases ctx now locked tie Db_ok n d R) \<noteq> Inl (Db_error m)"
  by (intro conjI impI CreateJob_no_db_error [OF assms] AcquireLeases_no_db_error CancelJob_no_db_error
      ReclaimExpiredLeases_no_db_error fenced_no_db_error [OF assms(1)] CompleteJob_no_db_error assms)

theorem checks_imply_constraints_witness:
  "payload_casts demo_env (c_Request demo_input) \<and>
   snd (CreateJob demo_env None 99 Db_ok Db_ok demo_input (demo_repo [demo_leased_row])) \<noteq> Inl (Db_error [])"
proof -
  have "payload_casts demo_env (c_Request demo_input)"
    by (simp add: payload_casts_def demo_env_def split: sum.split)
  then show ?thesis
    using checks_imply_constraints [of "demo_repo [demo_leased_row]" demo_env] demo_inv(2) by simp
qed

end
