(* ===== verification/A2A_Model.thy ===== *)
theory A2A_Model
  imports Job_Model
begin

text \<open>
  The protocol types of pkg/model/a2a.go and pkg/model/error.go: agent cards, task requests
  and responses, stream events and the error value \<open>A2AError\<close>. A field of type \<open>any\<close> is a
  JSON value (\<open>None\<close> is nil), a JSON object an association list.
\<close>

section \<open>Tasks\<close>

text \<open>\<open>TaskStatus\<close> is a string type with five named values.\<close>

datatype TaskStatus =
    StatusPending | StatusInProgress | StatusCompleted | StatusFailed | StatusCanceled
  | OtherStatus string

record AgentCard =
  card_ID :: string
  card_Name :: string
  card_Description :: string
  card_Capabilities :: "string list"
  card_Tags :: "string list"

record TaskRequest =
  tr_ID :: string
  tr_AgentID :: string
  tr_RequiredCapability :: string
  tr_Input :: "json option"
  tr_Context :: "(string \<times> json) list"
  tr_Metadata :: "(string \<times> json) list"
  tr_Stream :: bool

record Artifact =
  art_Name :: string
  art_MimeType :: string
  art_URI :: string
  art_Data :: "json option"

record TaskResponse =
  resp_TaskID :: string
  resp_AgentID :: string
  resp_Status :: TaskStatus
  resp_Output :: "json option"
  resp_Artifacts :: "Artifact list"
  resp_Error :: "string option"
  resp_Timestamp :: go_time

datatype StreamEventType =
    EventTaskStarted | EventStepProgress | EventTokenDelta | EventTaskCompleted | EventTaskError

record StreamEvent =
  ev_Type :: StreamEventType
  ev_Data :: "json option"

section \<open>Errors\<close>

record A2AError =
  err_Code :: string
  err_Message :: string
  err_AgentID :: string
  err_Status :: int
  err_Details :: "(string \<times> json) list"
  err_Timestamp :: go_time

text \<open>Decimal digits, as \<open>fmt\<close> prints an integer with \<open>%d\<close>.\<close>

fun show_nat :: "nat \<Rightarrow> string" where
  "show_nat n = (if n < 10 then [char_of (48 + n)] else show_nat (n div 10) @ [char_of (48 + n mod 10)])"

declare show_nat.simps [simp del]

definition show_int :: "int \<Rightarrow> string" where
  "show_int i = (if i < 0 then ''-'' @ show_nat (nat (- i)) else show_nat (nat i))"

definition A2AError_Error :: "A2AError \<Rightarrow> string" where
  "A2AError_Error e = ''['' @ err_Code e @ ''] '' @ err_Message e @ '' (agent='' @ err_AgentID e
     @ '', status='' @ show_int (err_Status e) @ '')''"

text \<open>An \<open>A2AError\<close> without details, as the gateway builds it, at a time.\<close>

definition a2a_error :: "string \<Rightarrow> string \<Rightarrow> string \<Rightarrow> int \<Rightarrow> go_time \<Rightarrow> A2AError" where
  "a2a_error code msg agent status now =
     \<lparr>err_Code = code, err_Message = msg, err_AgentID = agent, err_Status = status,
      err_Details = [], err_Timestamp = now\<rparr>"

lemma a2a_error_simps [simp]:
  "err_Code (a2a_error c m a st n) = c" "err_AgentID (a2a_error c m a st n) = a"
  "err_Status (a2a_error c m a st n) = st" "err_Message (a2a_error c m a st n) = m"
  by (simp_all add: a2a_error_def)

text \<open>Decimal notation is unambiguous.\<close>

definition digit_val :: "char \<Rightarrow> nat" where
  "digit_val c = byte c - 48"

definition read_nat :: "string \<Rightarrow> nat" where
  "read_nat s = foldl (\<lambda>n c. 10 * n + digit_val c) 0 s"

lemma read_show_nat: "read_nat (show_nat n) = n"
proof (induction n rule: show_nat.induct)
  case (1 n)
  have d: "digit_val (char_of (48 + k)) = k" if "k < 10" for k
    using that by (simp add: digit_val_def byte_char_of)
  show ?case
  proof (cases "n < 10")
    case True
    then show ?thesis by (simp add: show_nat.simps read_nat_def d)
  next
    case False
    then have "read_nat (show_nat (n div 10)) = n div 10" using 1 by simp
    then show ?thesis using False by (simp add: show_nat.simps [of n] read_nat_def d)
  qed
qed

lemma show_nat_inj: "show_nat m = show_nat n \<Longrightarrow> m = n"
  by (metis read_show_nat)

end
