(* ===== verification/Go_Errors.thy ===== *)
theory Go_Errors
  imports A2A_Model
begin

text \<open>
  Error values as Go code passes them around: a context error, an \<open>A2AError\<close>, the
  \<open>ExecutionError\<close> of pkg/worker/executor.go, a text, or a text wrapped around an error
  with \<open>%w\<close>; with \<open>Error()\<close>, \<open>errors.Is\<close> and \<open>errors.As\<close>.
\<close>

record ExecutionError =
  xe_Code :: string
  xe_Message :: string
  xe_Retryable :: bool

definition ExecutionError_Error :: "ExecutionError \<Rightarrow> string" where
  "ExecutionError_Error e = ''['' @ xe_Code e @ ''] '' @ xe_Message e @ '' (retryable=''
     @ (if xe_Retryable e then ''true'' else ''false'') @ '')''"

datatype go_err =
    Err_ctx ctx_error | Err_a2a A2AError | Err_exec ExecutionError | Err_text string | Err_wrap string go_err

fun err_string :: "go_err \<Rightarrow> string" where
  "err_string (Err_ctx Canceled) = ''context canceled''"
| "err_string (Err_ctx DeadlineExceeded) = ''context deadline exceeded''"
| "err_string (Err_a2a e) = A2AError_Error e"
| "err_string (Err_exec e) = ExecutionError_Error e"
| "err_string (Err_text s) = s"
| "err_string (Err_wrap s e) = s @ '': '' @ err_string e"

text \<open>\<open>errors.Is(err, context.DeadlineExceeded)\<close>, and \<open>errors.As\<close> for the two error types.\<close>

fun is_deadline :: "go_err \<Rightarrow> bool" where
  "is_deadline (Err_ctx c) = (c = DeadlineExceeded)"
| "is_deadline (Err_wrap s e) = is_deadline e"
| "is_deadline _ = False"

fun as_a2a :: "go_err \<Rightarrow> A2AError option" where
  "as_a2a (Err_a2a e) = Some e"
| "as_a2a (Err_wrap s e) = as_a2a e"
| "as_a2a _ = None"

fun as_exec :: "go_err \<Rightarrow> ExecutionError option" where
  "as_exec (Err_exec e) = Some e"
| "as_exec (Err_wrap s e) = as_exec e"
| "as_exec _ = None"

end
