(* ===== verification/Memory_Store.thy ===== *)
theory Memory_Store
  imports Go_Errors "HOL-Library.AList"
begin

text \<open>
  The task stores, pkg/storage/task_store.go and pkg/storage/memory.go. The interface
  \<open>TaskStore\<close> is a locale; \<open>MemoryTaskStore\<close> is modelled with its two data structures, the map
  from identifiers to list elements and the doubly linked list, whose elements have handles.
  The abstract store is a first-in first-out list of identifiers and responses, and \<open>Save\<close> is
  shown to refine it.
\<close>

section \<open>The interface\<close>

datatype store_error =
    ErrTaskNotFound | ErrNilTaskResponse | ErrEmptyTaskID | ErrCapacityExceeded
  | Store_ctx ctx_error | Store_failed go_err

text \<open>The identifiers under which a call of \<open>Save\<close> stores a response.\<close>

definition saved_ids :: "TaskResponse \<Rightarrow> string list \<Rightarrow> string set" where
  "saved_ids r aliases = insert (resp_TaskID r) (set aliases - {[]})"

text \<open>
  What the handlers rely on: a successful \<open>Save\<close> is visible under the canonical identifier and
  every alias, and a call changes what is stored under other identifiers at most by removal.
  \<open>view\<close> is what a store serves for a response it has saved: the response itself, or what is
  left of it after an encoding.
\<close>

locale task_store =
  fixes save :: "ctx_error option \<Rightarrow> TaskResponse option \<Rightarrow> string list \<Rightarrow> 's \<Rightarrow> 's \<times> store_error option"
    and load :: "ctx_error option \<Rightarrow> string \<Rightarrow> 's \<Rightarrow> store_error + TaskResponse"
    and view :: "TaskResponse \<Rightarrow> store_error + TaskResponse"
    and ok :: "'s \<Rightarrow> bool"
  assumes save_ok: "ok s \<Longrightarrow> save ctx resp al s = (s', e) \<Longrightarrow> ok s'"
    and save_load: "ok s \<Longrightarrow> save ctx (Some r) al s = (s', None) \<Longrightarrow> k \<in> saved_ids r al \<Longrightarrow> load None k s' = view r"
    and save_nil: "ok s \<Longrightarrow> save ctx None al s = (s', e) \<Longrightarrow> s' = s"
    and save_kept: "ok s \<Longrightarrow> save ctx (Some r) al s = (s', e) \<Longrightarrow>
      load None k s' = load None k s \<or> load None k s' = Inl ErrTaskNotFound \<or>
      k \<in> saved_ids r al \<and> load None k s' = view r"
begin

text \<open>A sequence of calls, whatever they return.\<close>

primrec run :: "(ctx_error option \<times> TaskResponse option \<times> string list) list \<Rightarrow> 's \<Rightarrow> 's" where
  "run [] s = s"
| "run (c # cs) s = run cs (fst (save (fst c) (fst (snd c)) (snd (snd c)) s))"

lemma run_ok: "ok s \<Longrightarrow> ok (run cs s)"
  by (induction cs arbitrary: s) (simp_all, metis prod.collapse save_ok)

text \<open>What is served was saved under that identifier, or was there before.\<close>

lemma served_was_saved:
  assumes "ok s" and "load None k (run cs s) = x" and "x \<noteq> Inl ErrTaskNotFound"
  shows "load None k s = x \<or> (\<exists>ctx r al. (ctx, Some r, al) \<in> set cs \<and> k \<in> saved_ids r al \<and> view r = x)"
  using assms
proof (induction cs arbitrary: s)
  case (Cons c cs)
  obtain ctx resp al where c: "c = (ctx, resp, al)" by (cases c) auto
  obtain s' e where s': "save ctx resp al s = (s', e)" by fastforce
  then have "ok s'" using save_ok Cons.prems(1) by blast
  moreover have "load None k (run cs s') = x" using Cons.prems(2) c s' by simp
  ultimately consider "load None k s' = x"
    | "\<exists>ctx r al. (ctx, Some r, al) \<in> set cs \<and> k \<in> saved_ids r al \<and> view r = x"
    using Cons.IH Cons.prems(3) by blast
  then show ?case
  proof cases
    case 1
    show ?thesis
    proof (cases resp)
      case None
      then show ?thesis using save_nil Cons.prems(1) s' 1 by blast
    next
      case (Some r')
      then have "save ctx (Some r') al s = (s', e)" using s' by simp
      from save_kept [OF Cons.prems(1) this, of k] 1 Cons.prems(3)
      have "load None k s = x \<or> k \<in> saved_ids r' al \<and> view r' = x" by auto
      then show ?thesis using c Some by auto
    qed
  next
    case 2
    then show ?thesis by auto
  qed
qed simp

end

section \<open>The memory store\<close>

record taskItem =
  item_id :: string
  item_resp :: TaskResponse

text \<open>
  \<open>ms_tasks\<close> maps an identifier to the handle of its list element; \<open>ms_ll\<close> is the linked list
  from front (oldest) to back, each element with its handle; \<open>ms_fresh\<close> is the next handle.
\<close>

record MemoryTaskStore =
  ms_maxTasks :: nat
  ms_tasks :: "(string \<times> nat) list"
  ms_ll :: "(nat \<times> taskItem) list"
  ms_fresh :: nat

definition DefaultMaxTasks :: int where "DefaultMaxTasks = 10000"

definition NewMemoryTaskStore :: "int \<Rightarrow> MemoryTaskStore" where
  "NewMemoryTaskStore maxTasks =
     \<lparr>ms_maxTasks = nat (if maxTasks \<le> 0 then DefaultMaxTasks else maxTasks),
      ms_tasks = [], ms_ll = [], ms_fresh = 0\<rparr>"

text \<open>The identifiers of a batch: the canonical one, then the aliases, without blanks and repetitions.\<close>

fun alias_keys :: "string list \<Rightarrow> string list \<Rightarrow> string list" where
  "alias_keys keys [] = keys"
| "alias_keys keys (a # aliases) =
     (if a = [] then alias_keys keys aliases
      else if a \<in> set keys then alias_keys keys aliases
      else alias_keys (keys @ [a]) aliases)"

text \<open>\<open>elem.Value = v; ll.MoveToBack(elem)\<close> for the element with a handle.\<close>

definition set_and_move_back :: "nat \<Rightarrow> taskItem \<Rightarrow> (nat \<times> taskItem) list \<Rightarrow> (nat \<times> taskItem) list" where
  "set_and_move_back h v ll =
     (if h \<in> fst ` set ll then filter (\<lambda>e. fst e \<noteq> h) ll @ [(h, v)] else ll)"

text \<open>The loop over the identifiers: present ones are updated, the others collected.\<close>

fun update_existing :: "TaskResponse \<Rightarrow> string list \<Rightarrow> MemoryTaskStore \<Rightarrow> MemoryTaskStore \<times> string list" where
  "update_existing r [] s = (s, [])"
| "update_existing r (k # keys) s =
     (case map_of (ms_tasks s) k of
        Some h \<Rightarrow> update_existing r keys
          (s\<lparr>ms_ll := set_and_move_back h \<lparr>item_id = k, item_resp = r\<rparr> (ms_ll s)\<rparr>)
      | None \<Rightarrow> (let (s', new) = update_existing r keys s in (s', k # new)))"

function evict :: "nat \<Rightarrow> MemoryTaskStore \<Rightarrow> MemoryTaskStore" where
  "evict n s =
     (if length (ms_tasks s) + n > ms_maxTasks s \<and> length (ms_ll s) > 0
      then evict n (s\<lparr>ms_tasks := AList.delete (item_id (snd (hd (ms_ll s)))) (ms_tasks s),
                      ms_ll := tl (ms_ll s)\<rparr>)
      else s)"
  by pat_completeness auto

termination
  by (relation "measure (\<lambda>(n, s). length (ms_ll s))") auto

declare evict.simps [simp del]

fun insert_new :: "TaskResponse \<Rightarrow> string list \<Rightarrow> MemoryTaskStore \<Rightarrow> MemoryTaskStore" where
  "insert_new r [] s = s"
| "insert_new r (k # keys) s = insert_new r keys
     (s\<lparr>ms_ll := ms_ll s @ [(ms_fresh s, \<lparr>item_id = k, item_resp = r\<rparr>)],
        ms_tasks := AList.update k (ms_fresh s) (ms_tasks s), ms_fresh := Suc (ms_fresh s)\<rparr>)"

definition Memory_Save ::
  "ctx_error option \<Rightarrow> TaskResponse option \<Rightarrow> string list \<Rightarrow> MemoryTaskStore
     \<Rightarrow> MemoryTaskStore \<times> store_error option" where
  "Memory_Save ctx resp aliases s =
     (case resp of None \<Rightarrow> (s, Some ErrNilTaskResponse) | Some r \<Rightarrow>
      if resp_TaskID r = [] then (s, Some ErrEmptyTaskID)
      else case ctx of Some e \<Rightarrow> (s, Some (Store_ctx e)) | None \<Rightarrow>
        let keys = alias_keys [resp_TaskID r] aliases in
        if length keys > ms_maxTasks s then (s, Some ErrCapacityExceeded)
        else
          let (s1, newKeys) = update_existing r keys s;
              s2 = evict (length newKeys) s1
          in (insert_new r newKeys s2, None))"

definition Memory_Load :: "ctx_error option \<Rightarrow> string \<Rightarrow> MemoryTaskStore \<Rightarrow> store_error + TaskResponse" where
  "Memory_Load ctx i s =
     (case ctx of Some e \<Rightarrow> Inl (Store_ctx e) | None \<Rightarrow>
      if i = [] then Inl ErrTaskNotFound
      else case map_of (ms_tasks s) i of
             None \<Rightarrow> Inl ErrTaskNotFound
           | Some h \<Rightarrow> (case map_of (ms_ll s) h of
                          None \<Rightarrow> Inl ErrTaskNotFound   \<comment> \<open>no such element: excluded by the invariant\<close>
                        | Some it \<Rightarrow> Inr (item_resp it)))"

definition Memory_Len :: "MemoryTaskStore \<Rightarrow> nat" where
  "Memory_Len s = length (ms_tasks s)"

section \<open>The invariant\<close>

text \<open>
  The identifiers of the map are distinct, so are the handles of the list, the two agree
  element by element, handles are below the next fresh one, and the capacity is respected.
\<close>

definition keys_of :: "(nat \<times> taskItem) list \<Rightarrow> string list" where
  "keys_of ll = map (item_id \<circ> snd) ll"

definition store_inv :: "MemoryTaskStore \<Rightarrow> bool" where
  "store_inv s \<longleftrightarrow>
     distinct (map fst (ms_tasks s)) \<and> distinct (map fst (ms_ll s)) \<and> distinct (keys_of (ms_ll s)) \<and>
     set (ms_tasks s) = (\<lambda>(h, it). (item_id it, h)) ` set (ms_ll s) \<and>
     (\<forall>e\<in>set (ms_ll s). fst e < ms_fresh s \<and> item_id (snd e) \<noteq> [])"

definition store_ok :: "MemoryTaskStore \<Rightarrow> bool" where
  "store_ok s \<longleftrightarrow> store_inv s \<and> length (ms_tasks s) \<le> ms_maxTasks s \<and> 0 < ms_maxTasks s"

text \<open>The abstract store: identifiers and responses, oldest first.\<close>

definition abs_store :: "MemoryTaskStore \<Rightarrow> (string \<times> TaskResponse) list" where
  "abs_store s = map (\<lambda>e. (item_id (snd e), item_resp (snd e))) (ms_ll s)"

definition fifo_save :: "nat \<Rightarrow> string list \<Rightarrow> TaskResponse \<Rightarrow> (string \<times> TaskResponse) list
    \<Rightarrow> (string \<times> TaskResponse) list" where
  "fifo_save cap keys r q =
     (let others = filter (\<lambda>e. fst e \<notin> set keys) q;
          old = filter (\<lambda>k. k \<in> fst ` set q) keys;
          new = filter (\<lambda>k. k \<notin> fst ` set q) keys
      in drop (length q + length new - cap) others @ map (\<lambda>k. (k, r)) (old @ new))"

section \<open>The two structures agree\<close>

lemma keys_of_simps [simp]:
  "keys_of [] = []" "keys_of (e # ll) = item_id (snd e) # keys_of ll" "keys_of (xs @ ys) = keys_of xs @ keys_of ys"
  by (simp_all add: keys_of_def)

lemma set_keys_of: "set (keys_of ll) = (\<lambda>e. item_id (snd e)) ` set ll"
  by (auto simp: keys_of_def)

lemma keys_of_abs: "map fst (abs_store s) = keys_of (ms_ll s)"
  by (simp add: abs_store_def keys_of_def)

lemma store_invD:
  assumes "store_inv s"
  shows "distinct (map fst (ms_tasks s))" "distinct (map fst (ms_ll s))" "distinct (keys_of (ms_ll s))"
    "set (ms_tasks s) = (\<lambda>(h, it). (item_id it, h)) ` set (ms_ll s)"
    "e \<in> set (ms_ll s) \<Longrightarrow> fst e < ms_fresh s" "e \<in> set (ms_ll s) \<Longrightarrow> item_id (snd e) \<noteq> []"
  using assms by (auto simp: store_inv_def)

lemma tasks_Some:
  assumes "store_inv s"
  shows "map_of (ms_tasks s) k = Some h \<longleftrightarrow> (\<exists>it. (h, it) \<in> set (ms_ll s) \<and> item_id it = k)"
  using store_invD(1,4) [OF assms] by (auto simp: map_of_eq_Some_iff)

lemma tasks_dom: "store_inv s \<Longrightarrow> fst ` set (ms_tasks s) = set (keys_of (ms_ll s))"
  by (drule store_invD(4)) (auto simp: set_keys_of image_image case_prod_beta)

lemma tasks_None: "store_inv s \<Longrightarrow> map_of (ms_tasks s) k = None \<longleftrightarrow> k \<notin> set (keys_of (ms_ll s))"
  by (simp add: map_of_eq_None_iff tasks_dom)

lemma tasks_length: "store_inv s \<Longrightarrow> length (ms_tasks s) = length (ms_ll s)"
  using store_invD(1,3) [of s] tasks_dom [of s]
  by (metis distinct_card keys_of_def length_map set_map)

lemma unique_handle:
  "store_inv s \<Longrightarrow> (h, it) \<in> set (ms_ll s) \<Longrightarrow> (h, it') \<in> set (ms_ll s) \<Longrightarrow> it = it'"
  by (rule eq_key_imp_eq_value [OF store_invD(2)])

lemma unique_key:
  "store_inv s \<Longrightarrow> e \<in> set (ms_ll s) \<Longrightarrow> e' \<in> set (ms_ll s) \<Longrightarrow> item_id (snd e) = item_id (snd e') \<Longrightarrow> e = e'"
  using store_invD(3) [of s] by (auto simp: keys_of_def distinct_map inj_on_def)

section \<open>The loops of Save\<close>

lemma alias_keys_props:
  "distinct keys \<Longrightarrow> [] \<notin> set keys \<Longrightarrow>
   distinct (alias_keys keys al) \<and> [] \<notin> set (alias_keys keys al) \<and>
   set (alias_keys keys al) = set keys \<union> (set al - {[]})"
  by (induction keys al rule: alias_keys.induct) auto

text \<open>Updating one present identifier.\<close>

lemma move_back_filter:
  assumes "store_inv s" and "(h, it) \<in> set (ms_ll s)" and "item_id it = k"
  shows "set_and_move_back h v (ms_ll s) = filter (\<lambda>e. item_id (snd e) \<noteq> k) (ms_ll s) @ [(h, v)]"
proof -
  have "filter (\<lambda>e. fst e \<noteq> h) (ms_ll s) = filter (\<lambda>e. item_id (snd e) \<noteq> k) (ms_ll s)"
    using assms unique_handle [OF assms(1)] unique_key [OF assms(1)]
    by (intro filter_cong refl) (metis fst_conv prod.collapse snd_conv)
  then show ?thesis using assms(2) by (force simp: set_and_move_back_def)
qed

lemma move_back_inv:
  assumes "store_inv s" and "map_of (ms_tasks s) k = Some h"
    and s'_def: "s' = s\<lparr>ms_ll := set_and_move_back h \<lparr>item_id = k, item_resp = r\<rparr> (ms_ll s)\<rparr>"
  shows "store_inv s'" and "abs_store s' = filter (\<lambda>e. fst e \<noteq> k) (abs_store s) @ [(k, r)]"
    and "set (keys_of (ms_ll s')) = set (keys_of (ms_ll s))"
proof -
  obtain it where it: "(h, it) \<in> set (ms_ll s)" "item_id it = k"
    using assms(2) tasks_Some [OF assms(1)] by blast
  let ?F = "filter (\<lambda>e. item_id (snd e) \<noteq> k) (ms_ll s)"
  have ll: "ms_ll s' = ?F @ [(h, \<lparr>item_id = k, item_resp = r\<rparr>)]"
    using move_back_filter [OF assms(1) it] by (simp add: s'_def)
  have hF: "h \<notin> fst ` set ?F" using unique_handle [OF assms(1) it(1)] it(2) by auto
  note inv = store_invD [OF assms(1)]
  have "distinct (map fst ?F)" "distinct (keys_of ?F)"
    using inv(2,3) by (simp_all add: keys_of_def distinct_map_filter)
  moreover have "k \<notin> set (keys_of ?F)" by (auto simp: set_keys_of)
  moreover have "set (ms_tasks s) = (\<lambda>(h, it). (item_id it, h)) ` set (ms_ll s')"
  proof -
    have "x = (h, it)" if "x \<in> set (ms_ll s)" "item_id (snd x) = k" for x
      using unique_key [OF assms(1) that(1) it(1)] that(2) it(2) by simp
    then have "set (ms_ll s) = insert (h, it) (set ?F)" using it(1) by auto
    then have "(\<lambda>(h, it). (item_id it, h)) ` set (ms_ll s) = (\<lambda>(h, it). (item_id it, h)) ` insert (h, it) (set ?F)"
      by (rule arg_cong)
    then show ?thesis unfolding inv(4) ll by (rule trans) (simp add: it(2))
  qed
  moreover have "\<forall>e\<in>set (ms_ll s'). fst e < ms_fresh s \<and> item_id (snd e) \<noteq> []"
    using inv(5,6) it unfolding ll by fastforce
  ultimately show "store_inv s'"
    using inv(1) hF unfolding store_inv_def ll by (auto simp: s'_def)
  show "abs_store s' = filter (\<lambda>e. fst e \<noteq> k) (abs_store s) @ [(k, r)]"
    unfolding abs_store_def ll by (simp add: filter_map comp_def)
  show "set (keys_of (ms_ll s')) = set (keys_of (ms_ll s))"
    unfolding ll using it by (auto simp: set_keys_of image_iff) force
qed

lemma update_existing_spec:
  assumes "store_inv s" and "distinct keys" and "[] \<notin> set keys" and "update_existing r keys s = (s', new)"
  shows "store_inv s' \<and> ms_maxTasks s' = ms_maxTasks s \<and>
    set (keys_of (ms_ll s')) = set (keys_of (ms_ll s)) \<and>
    new = filter (\<lambda>k. k \<notin> set (keys_of (ms_ll s))) keys \<and>
    abs_store s' = filter (\<lambda>e. fst e \<notin> set keys) (abs_store s) @
      map (\<lambda>k. (k, r)) (filter (\<lambda>k. k \<in> set (keys_of (ms_ll s))) keys)"
  using assms
proof (induction keys arbitrary: s s' new)
  case Nil
  then show ?case by simp
next
  case (Cons k keys)
  show ?case
  proof (cases "map_of (ms_tasks s) k")
    case None
    then obtain new' where u: "update_existing r keys s = (s', new')" and "new = k # new'"
      using Cons.prems(4) by (auto split: prod.splits)
    moreover have k: "k \<notin> set (keys_of (ms_ll s))" using None tasks_None [OF Cons.prems(1)] by simp
    moreover have "filter (\<lambda>e. fst e \<notin> set keys) (abs_store s) = filter (\<lambda>e. fst e \<notin> set (k # keys)) (abs_store s)"
    proof -
      have "k \<notin> fst ` set (abs_store s)" using k keys_of_abs by (metis set_map)
      then show ?thesis by (intro filter_cong refl) force
    qed
    ultimately show ?thesis using Cons.IH [OF Cons.prems(1) _ _ u] Cons.prems(2,3) by simp
  next
    case (Some h)
    define s1 where "s1 = s\<lparr>ms_ll := set_and_move_back h \<lparr>item_id = k, item_resp = r\<rparr> (ms_ll s)\<rparr>"
    note m = move_back_inv [OF Cons.prems(1) Some s1_def]
    have u: "update_existing r keys s1 = (s', new)" using Cons.prems(4) Some by (simp add: s1_def)
    have k: "k \<in> set (keys_of (ms_ll s))" using Some tasks_None [OF Cons.prems(1), of k] by auto
    have "k \<notin> set keys" using Cons.prems(2) by simp
    then have "filter (\<lambda>e. fst e \<notin> set keys) (abs_store s1) =
        filter (\<lambda>e. fst e \<notin> set (k # keys)) (abs_store s) @ [(k, r)]"
      by (simp add: m(2) conj_commute)
    moreover have "ms_maxTasks s1 = ms_maxTasks s" by (simp add: s1_def)
    ultimately show ?thesis using Cons.IH [OF m(1) _ _ u] Cons.prems(2,3) k m(3) by simp
  qed
qed

lemma evict_step_inv:
  assumes "store_inv s" and "ms_ll s = e # ll"
  shows "store_inv (s\<lparr>ms_tasks := AList.delete (item_id (snd e)) (ms_tasks s), ms_ll := ll\<rparr>)"
proof -
  note inv = store_invD [OF assms(1), unfolded assms(2)]
  have "set (AList.delete (item_id (snd e)) (ms_tasks s)) = {p \<in> set (ms_tasks s). fst p \<noteq> item_id (snd e)}"
    by (auto simp: AList.delete_eq)
  also have "\<dots> = (\<lambda>(h, it). (item_id it, h)) ` set ll"
  proof -
    have "item_id (snd e) \<noteq> item_id (snd x)" if "x \<in> set ll" for x
      using inv(3) that by (auto simp: set_keys_of)
    then show ?thesis unfolding inv(4) by (force simp: case_prod_beta)
  qed
  finally show ?thesis
    using inv assms(2) by (auto simp: store_inv_def distinct_delete)
qed

lemma evict_spec:
  assumes "store_inv s"
  shows "store_inv (evict n s) \<and> ms_maxTasks (evict n s) = ms_maxTasks s \<and>
    abs_store (evict n s) = drop (length (ms_ll s) + n - ms_maxTasks s) (abs_store s)"
  using assms
proof (induction n s rule: evict.induct)
  case (1 n s)
  show ?case
  proof (cases "length (ms_tasks s) + n > ms_maxTasks s \<and> length (ms_ll s) > 0")
    case True
    then obtain e ll where ll: "ms_ll s = e # ll" by (cases "ms_ll s") auto
    let ?s = "s\<lparr>ms_tasks := AList.delete (item_id (snd e)) (ms_tasks s), ms_ll := ll\<rparr>"
    have "evict n s = evict n ?s" using True ll by (simp add: evict.simps [of n s])
    moreover have "Suc (length ll) + n - ms_maxTasks s = Suc (length ll + n - ms_maxTasks s)"
      using True tasks_length [OF 1(2)] ll by simp
    ultimately show ?thesis
      using 1(1) [OF True] evict_step_inv [OF 1(2) ll] ll by (simp add: abs_store_def)
  next
    case False
    then have "evict n s = s" by (subst evict.simps) (simp only: if_False)
    moreover have "drop (length (ms_ll s) + n - ms_maxTasks s) (abs_store s) = abs_store s"
      using False tasks_length [OF 1(2)] by (auto simp: abs_store_def)
    ultimately show ?thesis using 1(2) by simp
  qed
qed

lemma alist_update_new: "k \<notin> fst ` set al \<Longrightarrow> AList.update k v al = al @ [(k, v)]"
  by (induction al) auto

lemma insert_step_inv:
  assumes "store_inv s" and "k \<notin> set (keys_of (ms_ll s))" and "k \<noteq> []"
  shows "store_inv (s\<lparr>ms_ll := ms_ll s @ [(ms_fresh s, \<lparr>item_id = k, item_resp = r\<rparr>)],
    ms_tasks := AList.update k (ms_fresh s) (ms_tasks s), ms_fresh := Suc (ms_fresh s)\<rparr>)"
proof -
  note inv = store_invD [OF assms(1)]
  have "k \<notin> fst ` set (ms_tasks s)" using assms(2) tasks_dom [OF assms(1)] by simp
  then have "AList.update k (ms_fresh s) (ms_tasks s) = ms_tasks s @ [(k, ms_fresh s)]"
    by (rule alist_update_new)
  moreover have "ms_fresh s \<notin> fst ` set (ms_ll s)" using inv(5) by force
  ultimately show ?thesis
    using inv assms(2,3) \<open>k \<notin> fst ` set (ms_tasks s)\<close> by (auto simp: store_inv_def less_Suc_eq)
qed

lemma insert_new_spec:
  assumes "store_inv s" and "distinct keys" and "[] \<notin> set keys" and "set keys \<inter> set (keys_of (ms_ll s)) = {}"
  shows "store_inv (insert_new r keys s) \<and> ms_maxTasks (insert_new r keys s) = ms_maxTasks s \<and>
    abs_store (insert_new r keys s) = abs_store s @ map (\<lambda>k. (k, r)) keys"
  using assms
proof (induction keys arbitrary: s)
  case (Cons k keys)
  let ?s = "s\<lparr>ms_ll := ms_ll s @ [(ms_fresh s, \<lparr>item_id = k, item_resp = r\<rparr>)],
    ms_tasks := AList.update k (ms_fresh s) (ms_tasks s), ms_fresh := Suc (ms_fresh s)\<rparr>"
  have "store_inv ?s" using Cons.prems by (intro insert_step_inv) auto
  from Cons.IH [OF this] Cons.prems show ?case by (auto simp: abs_store_def)
qed simp

section \<open>Save refines the abstract store\<close>

lemma length_filter_key:
  assumes "distinct (map fst q)" and "distinct keys"
  shows "length (filter (\<lambda>e. fst e \<in> set keys) q) = length (filter (\<lambda>k. k \<in> fst ` set q) keys)"
proof -
  have "distinct (map fst (filter (\<lambda>e. fst e \<in> set keys) q))" by (rule distinct_map_filter [OF assms(1)])
  moreover have "set (map fst (filter (\<lambda>e. fst e \<in> set keys) q)) = set (filter (\<lambda>k. k \<in> fst ` set q) keys)"
    by force
  ultimately show ?thesis using assms(2) by (metis distinct_card distinct_filter length_map)
qed

lemma fifo_save_length:
  assumes "distinct (map fst q)" and "distinct keys" and "length keys \<le> cap"
  shows "length (fifo_save cap keys r q) \<le> cap"
    and "length q + length (filter (\<lambda>k. k \<notin> fst ` set q) keys) - cap \<le> length (filter (\<lambda>e. fst e \<notin> set keys) q)"
proof -
  have "length q = length (filter (\<lambda>e. fst e \<in> set keys) q) + length (filter (\<lambda>e. fst e \<notin> set keys) q)"
    by (rule sum_length_filter_compl [symmetric])
  moreover have "length keys = length (filter (\<lambda>k. k \<in> fst ` set q) keys) + length (filter (\<lambda>k. k \<notin> fst ` set q) keys)"
    by (rule sum_length_filter_compl [symmetric])
  moreover note length_filter_key [OF assms(1,2)] assms(3)
  ultimately show "length (fifo_save cap keys r q) \<le> cap"
    "length q + length (filter (\<lambda>k. k \<notin> fst ` set q) keys) - cap \<le> length (filter (\<lambda>e. fst e \<notin> set keys) q)"
    unfolding fifo_save_def Let_def by simp_all
qed

lemma abs_store_keys: "fst ` set (abs_store s) = set (keys_of (ms_ll s))"
  using keys_of_abs [of s] by (metis set_map)

text \<open>The batch of a call, and the successful branch of \<open>Save\<close>.\<close>

lemma Memory_Save_batch:
  assumes ok: "store_ok s" and keys: "distinct keys" "[] \<notin> set keys" "length keys \<le> ms_maxTasks s"
    and u: "update_existing r keys s = (s1, new)"
  shows "store_ok (insert_new r new (evict (length new) s1)) \<and>
    ms_maxTasks (insert_new r new (evict (length new) s1)) = ms_maxTasks s \<and>
    abs_store (insert_new r new (evict (length new) s1)) = fifo_save (ms_maxTasks s) keys r (abs_store s)"
proof -
  have inv: "store_inv s" using ok by (simp add: store_ok_def)
  let ?q = "abs_store s" and ?cap = "ms_maxTasks s"
  let ?others = "filter (\<lambda>e. fst e \<notin> set keys) ?q"
  note d = store_invD(3) [OF inv, folded keys_of_abs]
  note s1 = update_existing_spec [OF inv keys(1,2) u, folded abs_store_keys]
  let ?s2 = "evict (length new) s1"
  note s2 = evict_spec [OF conjunct1 [OF s1], of "length new"]
  have len: "length (ms_ll s1) = length ?q"
  proof -
    have "length (abs_store s1) = length ?q"
      using s1 length_filter_key [OF d keys(1)] sum_length_filter_compl [of "\<lambda>e. fst e \<in> set keys" ?q]
      by simp
    then show ?thesis by (simp add: abs_store_def)
  qed
  have q2: "abs_store ?s2 = drop (length ?q + length new - ?cap) ?others @
      map (\<lambda>k. (k, r)) (filter (\<lambda>k. k \<in> fst ` set ?q) keys)"
    using s1 s2 len fifo_save_length(2) [OF d keys(1,3)] by simp
  have "set new \<inter> set (keys_of (ms_ll ?s2)) = {}"
    unfolding abs_store_keys [symmetric] q2 using s1 by (auto dest!: in_set_dropD) (metis fst_conv image_eqI)
  moreover have "distinct new" "[] \<notin> set new" using s1 keys by auto
  ultimately have s3: "store_inv (insert_new r new ?s2)" "ms_maxTasks (insert_new r new ?s2) = ?cap"
    "abs_store (insert_new r new ?s2) = abs_store ?s2 @ map (\<lambda>k. (k, r)) new"
    using insert_new_spec [of ?s2 new r] s1 s2 by auto
  have fifo: "abs_store (insert_new r new ?s2) = fifo_save ?cap keys r ?q"
    unfolding s3(3) q2 fifo_save_def Let_def using s1 by simp
  then have "length (ms_tasks (insert_new r new ?s2)) \<le> ?cap"
    using fifo_save_length(1) [OF d keys(1,3), of r] tasks_length [OF s3(1)]
    by (metis abs_store_def length_map)
  then show ?thesis using s3 fifo ok by (simp add: store_ok_def)
qed

lemma Memory_Save_cases:
  assumes "store_ok s" and "Memory_Save ctx resp aliases s = (s', e)"
  shows "e \<noteq> None \<and> s' = s \<or>
    (\<exists>r. resp = Some r \<and> ctx = None \<and> e = None \<and> resp_TaskID r \<noteq> [] \<and> store_ok s' \<and>
       ms_maxTasks s' = ms_maxTasks s \<and> length (alias_keys [resp_TaskID r] aliases) \<le> ms_maxTasks s \<and>
       abs_store s' = fifo_save (ms_maxTasks s) (alias_keys [resp_TaskID r] aliases) r (abs_store s))"
proof (cases "\<exists>r. resp = Some r \<and> resp_TaskID r \<noteq> [] \<and> ctx = None \<and>
    length (alias_keys [resp_TaskID r] aliases) \<le> ms_maxTasks s")
  case True
  then obtain r where r: "resp = Some r" "resp_TaskID r \<noteq> []" "ctx = None"
    "length (alias_keys [resp_TaskID r] aliases) \<le> ms_maxTasks s" by blast
  obtain s1 new where u: "update_existing r (alias_keys [resp_TaskID r] aliases) s = (s1, new)" by fastforce
  have "s' = insert_new r new (evict (length new) s1)" "e = None"
    using assms(2) r u by (auto simp: Memory_Save_def)
  with Memory_Save_batch [OF assms(1) _ _ r(4) u] alias_keys_props [of "[resp_TaskID r]" aliases] r
  show ?thesis by auto
next
  case False
  then show ?thesis
    using assms(2) by (auto simp: Memory_Save_def Let_def split: option.splits if_splits prod.splits)
qed

section \<open>Load reads the abstract store\<close>

lemma map_of_abs_store:
  assumes "store_inv s"
  shows "map_of (abs_store s) k = (case map_of (ms_tasks s) k of None \<Rightarrow> None
    | Some h \<Rightarrow> map_option item_resp (map_of (ms_ll s) h))"
proof (cases "map_of (ms_tasks s) k")
  case None
  then have "k \<notin> fst ` set (abs_store s)" using tasks_None [OF assms] abs_store_keys by metis
  then have "map_of (abs_store s) k = None" by (simp add: map_of_eq_None_iff)
  then show ?thesis using None by simp
next
  case (Some h)
  then obtain it where it: "(h, it) \<in> set (ms_ll s)" "item_id it = k" using tasks_Some [OF assms] by blast
  then have "map_of (ms_ll s) h = Some it" using store_invD(2) [OF assms] by simp
  moreover have "(k, item_resp it) \<in> set (abs_store s)" using it by (force simp: abs_store_def)
  then have "map_of (abs_store s) k = Some (item_resp it)"
    using store_invD(3) [OF assms] keys_of_abs [of s] by simp
  ultimately show ?thesis using Some by simp
qed

lemma store_no_blank: "store_inv s \<Longrightarrow> map_of (abs_store s) [] = None"
  using store_invD(6) abs_store_keys by (force simp: map_of_eq_None_iff set_keys_of)

lemma Memory_Load_abs:
  assumes "store_inv s"
  shows "Memory_Load None k s = (case map_of (abs_store s) k of None \<Rightarrow> Inl ErrTaskNotFound | Some r \<Rightarrow> Inr r)"
  using store_no_blank [OF assms]
  by (cases "k = []") (simp_all add: Memory_Load_def map_of_abs_store [OF assms] split: option.splits)

lemma fifo_save_lookup:
  assumes "distinct keys"
  shows "k \<in> set keys \<Longrightarrow> map_of (fifo_save cap keys r q) k = Some r"
    and "k \<notin> set keys \<Longrightarrow> distinct (map fst q) \<Longrightarrow>
      map_of (fifo_save cap keys r q) k = map_of q k \<or> map_of (fifo_save cap keys r q) k = None"
proof -
  let ?others = "filter (\<lambda>e. fst e \<notin> set keys) q"
  have new: "map_of (map (\<lambda>k. (k, r)) xs) k = (if k \<in> set xs then Some r else None)" for xs
    by (induction xs) auto
  have o: "map_of (drop n ?others) k = None" if "k \<in> set keys" for n
    using that by (auto simp: map_of_eq_None_iff dest!: in_set_dropD)
  show "map_of (fifo_save cap keys r q) k = Some r" if "k \<in> set keys"
    using that o by (auto simp: fifo_save_def Let_def map_add_def new split: option.splits)
  show "map_of (fifo_save cap keys r q) k = map_of q k \<or> map_of (fifo_save cap keys r q) k = None"
    if "k \<notin> set keys" "distinct (map fst q)"
  proof (cases "map_of (fifo_save cap keys r q) k")
    case (Some v)
    then have "(k, v) \<in> set q"
      using that(1) by (auto simp: fifo_save_def Let_def map_add_def new split: option.splits if_splits
          dest!: map_of_SomeD in_set_dropD)
    then show ?thesis using Some that(2) by simp
  qed simp
qed

section \<open>The memory store provides the interface\<close>

lemma alias_keys_saved: "resp_TaskID r \<noteq> [] \<Longrightarrow> set (alias_keys [resp_TaskID r] al) = saved_ids r al"
  using alias_keys_props [of "[resp_TaskID r]" al] by (auto simp: saved_ids_def)

lemma alias_keys_distinct: "resp_TaskID r \<noteq> [] \<Longrightarrow> distinct (alias_keys [resp_TaskID r] al)"
  using alias_keys_props [of "[resp_TaskID r]" al] by simp

lemma store_ok_inv: "store_ok s \<Longrightarrow> store_inv s"
  by (simp add: store_ok_def)

interpretation memory: task_store Memory_Save Memory_Load Inr store_ok
proof
  fix s s' :: MemoryTaskStore and ctx resp al e
  assume ok: "store_ok s" and sv: "Memory_Save ctx resp al s = (s', e)"
  show "store_ok s'" using Memory_Save_cases [OF ok sv] ok by auto
next
  fix s s' :: MemoryTaskStore and ctx r al k
  assume ok: "store_ok s" and sv: "Memory_Save ctx (Some r) al s = (s', None)" and k: "k \<in> saved_ids r al"
  from Memory_Save_cases [OF ok sv] have s': "store_ok s'" and t: "resp_TaskID r \<noteq> []"
    and a: "abs_store s' = fifo_save (ms_maxTasks s) (alias_keys [resp_TaskID r] al) r (abs_store s)" by auto
  have "map_of (abs_store s') k = Some r"
    unfolding a using k alias_keys_saved [OF t] by (intro fifo_save_lookup(1) alias_keys_distinct [OF t]) simp
  then show "Memory_Load None k s' = Inr r" by (simp add: Memory_Load_abs store_ok_inv s')
next
  fix s s' :: MemoryTaskStore and ctx al e
  assume "store_ok s" and "Memory_Save ctx None al s = (s', e)"
  then show "s' = s" by (simp add: Memory_Save_def)
next
  fix s s' :: MemoryTaskStore and ctx r al e k
  assume ok: "store_ok s" and sv: "Memory_Save ctx (Some r) al s = (s', e)"
  from Memory_Save_cases [OF ok sv] consider "s' = s"
    | "store_ok s'" "resp_TaskID r \<noteq> []"
      "abs_store s' = fifo_save (ms_maxTasks s) (alias_keys [resp_TaskID r] al) r (abs_store s)" by auto
  then show "Memory_Load None k s' = Memory_Load None k s \<or> Memory_Load None k s' = Inl ErrTaskNotFound \<or>
      k \<in> saved_ids r al \<and> Memory_Load None k s' = Inr r"
  proof cases
    case 2
    have "distinct (map fst (abs_store s))" using store_invD(3) [OF store_ok_inv [OF ok]] keys_of_abs by metis
    then have "map_of (abs_store s') k = map_of (abs_store s) k \<or> map_of (abs_store s') k = None \<or>
        k \<in> saved_ids r al \<and> map_of (abs_store s') k = Some r"
      unfolding 2(3) using fifo_save_lookup [OF alias_keys_distinct [OF 2(2)]] alias_keys_saved [OF 2(2)] by metis
    then show ?thesis
      by (elim disjE) (simp_all add: Memory_Load_abs store_ok_inv ok 2(1))
  qed simp
qed

lemma NewMemoryTaskStore_ok: "store_ok (NewMemoryTaskStore n)"
  by (simp add: NewMemoryTaskStore_def store_ok_def store_inv_def DefaultMaxTasks_def)

section \<open>Properties\<close>

text \<open>
  C15. \<open>MemoryTaskStore.Save\<close> refines the bounded first-in first-out store: a successful call
  moves the identifiers that were present to the newest position, evicts exactly as many of
  the oldest other entries as the capacity requires, appends the new identifiers, and keeps
  map and list consistent; a call that returns an error leaves the store unchanged.
\<close>

theorem memory_save_refines_fifo:
  assumes "store_ok s" and "Memory_Save ctx resp al s = (s', e)"
  shows "store_ok s' \<and> (case e of
      Some _ \<Rightarrow> s' = s
    | None \<Rightarrow> (\<exists>r. resp = Some r \<and>
        abs_store s' = fifo_save (ms_maxTasks s) (alias_keys [resp_TaskID r] al) r (abs_store s)))"
  using Memory_Save_cases [OF assms] assms(1) by auto

definition demo_resp :: "string \<Rightarrow> TaskResponse" where
  "demo_resp i = \<lparr>resp_TaskID = i, resp_AgentID = ''a'', resp_Status = StatusCompleted, resp_Output = None,
     resp_Artifacts = [], resp_Error = None, resp_Timestamp = 0\<rparr>"

theorem memory_save_refines_fifo_witness:
  "abs_store (fst (Memory_Save None (Some (demo_resp ''x'')) [''y''] (NewMemoryTaskStore 2))) =
     [(''x'', demo_resp ''x''), (''y'', demo_resp ''x'')]"
proof -
  let ?c = "Memory_Save None (Some (demo_resp ''x'')) [''y''] (NewMemoryTaskStore 2)"
  have "snd ?c = None"
    by (auto simp: Memory_Save_def demo_resp_def NewMemoryTaskStore_def Let_def split: prod.splits)
  then have c: "?c = (fst ?c, None)" by (metis prod.collapse)
  from memory_save_refines_fifo [OF NewMemoryTaskStore_ok c]
  show ?thesis
    by (simp add: fifo_save_def demo_resp_def NewMemoryTaskStore_def abs_store_def Let_def)
qed

text \<open>
  C16. A memory store never holds more identifiers than its capacity, and only saved responses
  are served: after any sequence of calls on a new store \<open>Len\<close> is at most the capacity, map
  and list agree, and what \<open>Load\<close> returns for an identifier was saved under it.
\<close>

theorem memory_store_bounded:
  "Memory_Len (memory.run cs (NewMemoryTaskStore n)) \<le> ms_maxTasks (memory.run cs (NewMemoryTaskStore n)) \<and>
   store_inv (memory.run cs (NewMemoryTaskStore n)) \<and>
   (Memory_Load None k (memory.run cs (NewMemoryTaskStore n)) \<noteq> Inl ErrTaskNotFound \<longrightarrow>
     (\<exists>ctx r al. (ctx, Some r, al) \<in> set cs \<and> k \<in> saved_ids r al \<and>
        Memory_Load None k (memory.run cs (NewMemoryTaskStore n)) = Inr r))"
proof -
  let ?s = "memory.run cs (NewMemoryTaskStore n)"
  have ok: "store_ok ?s" by (rule memory.run_ok [OF NewMemoryTaskStore_ok])
  have new: "Memory_Load None k (NewMemoryTaskStore n) = Inl ErrTaskNotFound"
    by (simp add: Memory_Load_def NewMemoryTaskStore_def)
  have "\<exists>ctx r al. (ctx, Some r, al) \<in> set cs \<and> k \<in> saved_ids r al \<and> Memory_Load None k ?s = Inr r"
    if nf: "Memory_Load None k ?s \<noteq> Inl ErrTaskNotFound"
  proof -
    obtain r where r: "Memory_Load None k ?s = Inr r"
      using nf Memory_Load_abs [OF store_ok_inv [OF ok], of k] by (auto split: option.splits)
    from memory.served_was_saved [OF NewMemoryTaskStore_ok this] new r show ?thesis by fastforce
  qed
  then show ?thesis using ok by (auto simp: store_ok_def Memory_Len_def)
qed

theorem memory_store_bounded_witness:
  "Memory_Len (memory.run [(None, Some (demo_resp ''x''), [])] (NewMemoryTaskStore 1)) \<le>
   ms_maxTasks (memory.run [(None, Some (demo_resp ''x''), [])] (NewMemoryTaskStore 1))"
  using memory_store_bounded by blast

text \<open>
  Read your writes: after a successful \<open>Save\<close> the response is returned under its task
  identifier and under every non-empty alias, also when the call evicted older entries.
\<close>

lemma memory_read_your_writes:
  assumes "store_ok s" and "Memory_Save ctx (Some r) al s = (s', None)"
    and "k = resp_TaskID r \<or> k \<in> set al \<and> k \<noteq> []"
  shows "Memory_Load None k s' = Inr r"
  using memory.save_load [OF assms(1,2)] assms(3) by (auto simp: saved_ids_def)

lemma memory_read_your_writes_witness:
  "\<exists>s'. Memory_Save None (Some (demo_resp ''x'')) [''y''] (NewMemoryTaskStore 2) = (s', None) \<and>
     Memory_Load None ''y'' s' = Inr (demo_resp ''x'')"
proof -
  let ?c = "Memory_Save None (Some (demo_resp ''x'')) [''y''] (NewMemoryTaskStore 2)"
  have "snd ?c = None"
    by (auto simp: Memory_Save_def demo_resp_def NewMemoryTaskStore_def Let_def split: prod.splits)
  then have c: "?c = (fst ?c, None)" by (metis prod.collapse)
  from memory_read_your_writes [OF NewMemoryTaskStore_ok c, of "''y''"] c show ?thesis by auto
qed

end
