(* ===== verification/Metrics_Registry.thy ===== *)
theory Metrics_Registry
  imports A2A_Model Redaction
begin

text \<open>
  The metrics registry, pkg/metrics/metrics.go: counters with and without labels, the gauge
  of active streams and the Prometheus text exposition. Counters are 64-bit words, the
  gauge is a 64-bit integer. Go's float64 and its \<open>%.6f\<close> format are parameters. A Go map is
  an association list with distinct keys, in an arbitrary order: \<open>Gather\<close> sorts it.
\<close>

section \<open>The registry\<close>

record requestKey =
  rk_Method :: string
  rk_Path :: string
  rk_Status :: int

record durationKey =
  dk_Method :: string
  dk_Path :: string

record fallbackKey =
  fk_PrimaryAgent :: string
  fk_FallbackAgent :: string

type_synonym counter = "64 word"

record 'f Registry =
  g_requestsTotal :: "(requestKey \<times> counter) list"
  g_totalRequests :: counter
  g_durationSum :: "(durationKey \<times> 'f) list"
  g_durationCount :: "(durationKey \<times> counter) list"
  g_totalDurSum :: 'f
  g_totalDurCount :: counter
  g_activeStreams :: int
  g_retriesTotal :: "(string \<times> counter) list"
  g_totalRetries :: counter
  g_fallbacksTotal :: "(fallbackKey \<times> counter) list"
  g_totalFallbacks :: counter

text \<open>What the registry uses of float64: zero, addition and the \<open>%.6f\<close> format.\<close>

record 'f float_ops =
  f_zero :: 'f
  f_add :: "'f \<Rightarrow> 'f \<Rightarrow> 'f"
  f_print6 :: "'f \<Rightarrow> string"

definition NewRegistry :: "'f float_ops \<Rightarrow> 'f Registry" where
  "NewRegistry F = \<lparr>g_requestsTotal = [], g_totalRequests = 0, g_durationSum = [], g_durationCount = [],
     g_totalDurSum = f_zero F, g_totalDurCount = 0, g_activeStreams = 0, g_retriesTotal = [],
     g_totalRetries = 0, g_fallbacksTotal = [], g_totalFallbacks = 0\<rparr>"

text \<open>\<open>m[k] = f(m[k])\<close> with the zero value for an absent key.\<close>

fun map_upd :: "'v \<Rightarrow> ('v \<Rightarrow> 'v) \<Rightarrow> 'k \<Rightarrow> ('k \<times> 'v) list \<Rightarrow> ('k \<times> 'v) list" where
  "map_upd z f k [] = [(k, f z)]"
| "map_upd z f k ((k', v) # m) = (if k' = k then (k', f v) # m else (k', v) # map_upd z f k m)"

abbreviation inc :: "'k \<Rightarrow> ('k \<times> counter) list \<Rightarrow> ('k \<times> counter) list" where
  "inc k m \<equiv> map_upd 0 (\<lambda>v. v + 1) k m"

definition IncRequests :: "string \<Rightarrow> string \<Rightarrow> int \<Rightarrow> 'f Registry \<Rightarrow> 'f Registry" where
  "IncRequests method path status r =
     r\<lparr>g_requestsTotal := inc \<lparr>rk_Method = method, rk_Path = path, rk_Status = status\<rparr> (g_requestsTotal r),
       g_totalRequests := g_totalRequests r + 1\<rparr>"

definition IncRequestsTotal :: "'f Registry \<Rightarrow> 'f Registry" where
  "IncRequestsTotal r = r\<lparr>g_totalRequests := g_totalRequests r + 1\<rparr>"

definition ObserveDuration :: "'f float_ops \<Rightarrow> string \<Rightarrow> string \<Rightarrow> 'f \<Rightarrow> 'f Registry \<Rightarrow> 'f Registry" where
  "ObserveDuration F method path seconds r =
     (let key = \<lparr>dk_Method = method, dk_Path = path\<rparr> in
      r\<lparr>g_durationSum := map_upd (f_zero F) (\<lambda>x. f_add F x seconds) key (g_durationSum r),
        g_durationCount := inc key (g_durationCount r),
        g_totalDurSum := f_add F (g_totalDurSum r) seconds,
        g_totalDurCount := g_totalDurCount r + 1\<rparr>)"

definition ObserveDurationSeconds :: "'f float_ops \<Rightarrow> 'f \<Rightarrow> 'f Registry \<Rightarrow> 'f Registry" where
  "ObserveDurationSeconds F seconds r =
     r\<lparr>g_totalDurSum := f_add F (g_totalDurSum r) seconds, g_totalDurCount := g_totalDurCount r + 1\<rparr>"

definition IncActiveStreams :: "'f Registry \<Rightarrow> 'f Registry" where
  "IncActiveStreams r = r\<lparr>g_activeStreams := wrap64 (g_activeStreams r + 1)\<rparr>"

definition DecActiveStreams :: "'f Registry \<Rightarrow> 'f Registry" where
  "DecActiveStreams r = r\<lparr>g_activeStreams := wrap64 (g_activeStreams r - 1)\<rparr>"

definition GetActiveStreams :: "'f Registry \<Rightarrow> int" where
  "GetActiveStreams r = g_activeStreams r"

definition IncRetries :: "string list \<Rightarrow> 'f Registry \<Rightarrow> 'f Registry" where
  "IncRetries agentID r =
     (let r' = r\<lparr>g_totalRetries := g_totalRetries r + 1\<rparr> in
      if length agentID > 0 \<and> agentID ! 0 \<noteq> []
      then r'\<lparr>g_retriesTotal := inc (agentID ! 0) (g_retriesTotal r)\<rparr> else r')"

definition GetRetries :: "'f Registry \<Rightarrow> int" where
  "GetRetries r = sint (g_totalRetries r)"

definition IncFallbackTriggered :: "string list \<Rightarrow> 'f Registry \<Rightarrow> 'f Registry" where
  "IncFallbackTriggered agents r =
     (let r' = r\<lparr>g_totalFallbacks := g_totalFallbacks r + 1\<rparr> in
      if length agents \<ge> 2 \<and> (agents ! 0 \<noteq> [] \<or> agents ! 1 \<noteq> [])
      then r'\<lparr>g_fallbacksTotal := inc \<lparr>fk_PrimaryAgent = agents ! 0, fk_FallbackAgent = agents ! 1\<rparr>
                (g_fallbacksTotal r)\<rparr>
      else r')"

definition GetFallbackTriggered :: "'f Registry \<Rightarrow> int" where
  "GetFallbackTriggered r = sint (g_totalFallbacks r)"

definition Reset :: "'f float_ops \<Rightarrow> 'f Registry \<Rightarrow> 'f Registry" where
  "Reset F r = NewRegistry F"

section \<open>Exposition\<close>

definition escapeLabel :: "string \<Rightarrow> string" where
  "escapeLabel s =
     (let s1 = replace_all [CHR 0x5C] [CHR 0x5C, CHR 0x5C] s;
          s2 = replace_all [CHR 0x22] [CHR 0x5C, CHR 0x22] s1
      in replace_all [CHR 0x0A] [CHR 0x5C, CHR ''n''] s2)"

text \<open>\<open>%d\<close> of an unsigned counter, and a label \<open>name="value"\<close>.\<close>

definition show_counter :: "counter \<Rightarrow> string" where
  "show_counter c = show_nat (unat c)"

definition quoted :: "string \<Rightarrow> string" where
  "quoted s = CHR 0x22 # s @ [CHR 0x22]"

definition nl :: string where "nl = [CHR 0x0A]"

definition header_lines :: "string \<Rightarrow> string \<Rightarrow> string \<Rightarrow> string" where
  "header_lines name help typ = ''# HELP '' @ name @ '' '' @ help @ nl @ ''# TYPE '' @ name @ '' '' @ typ @ nl"

definition fallback_lines :: "'f Registry \<Rightarrow> string" where
  "fallback_lines r =
     (if g_fallbacksTotal r = [] then ''a2a_fallback_triggered_total '' @ show_counter (g_totalFallbacks r) @ nl
      else concat (map (\<lambda>(k, c). ''a2a_fallback_triggered_total{fallback='' @ quoted (escapeLabel (fk_FallbackAgent k))
             @ '',primary='' @ quoted (escapeLabel (fk_PrimaryAgent k)) @ ''} '' @ show_counter c @ nl)
           (sort_key (\<lambda>(k, c). (fk_PrimaryAgent k, fk_FallbackAgent k)) (g_fallbacksTotal r))))"

definition duration_lines :: "'f float_ops \<Rightarrow> 'f Registry \<Rightarrow> string" where
  "duration_lines F r =
     (if g_durationSum r = []
      then ''a2a_request_duration_seconds_sum '' @ f_print6 F (g_totalDurSum r) @ nl
           @ ''a2a_request_duration_seconds_count '' @ show_counter (g_totalDurCount r) @ nl
      else concat (map (\<lambda>(k, s).
             (let labels = ''{method='' @ quoted (escapeLabel (dk_Method k)) @ '',path='' @ quoted (escapeLabel (dk_Path k)) @ ''} '';
                  n = (case map_of (g_durationCount r) k of None \<Rightarrow> 0 | Some n \<Rightarrow> n)
              in ''a2a_request_duration_seconds_sum'' @ labels @ f_print6 F s @ nl
                 @ ''a2a_request_duration_seconds_count'' @ labels @ show_counter n @ nl))
           (sort_key (\<lambda>(k, s). (dk_Method k, dk_Path k)) (g_durationSum r))))"

definition request_lines :: "'f Registry \<Rightarrow> string" where
  "request_lines r =
     (if g_requestsTotal r = [] then ''a2a_requests_total '' @ show_counter (g_totalRequests r) @ nl
      else concat (map (\<lambda>(k, c). ''a2a_requests_total{method='' @ quoted (escapeLabel (rk_Method k))
             @ '',path='' @ quoted (escapeLabel (rk_Path k)) @ '',status='' @ quoted (show_int (rk_Status k))
             @ ''} '' @ show_counter c @ nl)
           (sort_key (\<lambda>(k, c). (rk_Method k, rk_Path k, rk_Status k)) (g_requestsTotal r))))"

definition retry_lines :: "'f Registry \<Rightarrow> string" where
  "retry_lines r =
     (if g_retriesTotal r = [] then ''a2a_retries_total '' @ show_counter (g_totalRetries r) @ nl
      else concat (map (\<lambda>(k, c). ''a2a_retries_total{agent_id='' @ quoted (escapeLabel k) @ ''} '' @ show_counter c @ nl)
           (sort_key fst (g_retriesTotal r))))"

definition Gather :: "'f float_ops \<Rightarrow> 'f Registry \<Rightarrow> string" where
  "Gather F r =
     header_lines ''a2a_active_streams'' ''Current number of active streaming connections'' ''gauge''
     @ ''a2a_active_streams '' @ show_int (g_activeStreams r) @ nl
     @ header_lines ''a2a_fallback_triggered_total'' ''Total number of fallback agent invocations triggered'' ''counter''
     @ fallback_lines r
     @ header_lines ''a2a_request_duration_seconds'' ''HTTP request duration in seconds'' ''summary''
     @ duration_lines F r
     @ header_lines ''a2a_requests_total'' ''Total number of HTTP requests processed'' ''counter''
     @ request_lines r
     @ header_lines ''a2a_retries_total'' ''Total number of downstream retries triggered'' ''counter''
     @ retry_lines r"

section \<open>Histories of the registry\<close>

text \<open>The updates of a registry between two resets.\<close>

datatype 'f metric_op =
    Op_request string string int | Op_requests_total | Op_duration string string 'f
  | Op_duration_seconds 'f | Op_stream_start | Op_stream_end
  | Op_retry "string list" | Op_fallback "string list"

fun apply_op :: "'f float_ops \<Rightarrow> 'f metric_op \<Rightarrow> 'f Registry \<Rightarrow> 'f Registry" where
  "apply_op F (Op_request m p st) r = IncRequests m p st r"
| "apply_op F Op_requests_total r = IncRequestsTotal r"
| "apply_op F (Op_duration m p x) r = ObserveDuration F m p x r"
| "apply_op F (Op_duration_seconds x) r = ObserveDurationSeconds F x r"
| "apply_op F Op_stream_start r = IncActiveStreams r"
| "apply_op F Op_stream_end r = DecActiveStreams r"
| "apply_op F (Op_retry a) r = IncRetries a r"
| "apply_op F (Op_fallback a) r = IncFallbackTriggered a r"

definition run_ops :: "'f float_ops \<Rightarrow> 'f metric_op list \<Rightarrow> 'f Registry" where
  "run_ops F ops = fold (apply_op F) ops (NewRegistry F)"

definition count_ops :: "('f metric_op \<Rightarrow> bool) \<Rightarrow> 'f metric_op list \<Rightarrow> nat" where
  "count_ops P ops = length (filter P ops)"

fun is_request :: "'f metric_op \<Rightarrow> bool" where
  "is_request (Op_request _ _ _) = True"
| "is_request Op_requests_total = True"
| "is_request _ = False"

definition counter_of :: "('k \<times> counter) list \<Rightarrow> 'k \<Rightarrow> counter" where
  "counter_of m k = (case map_of m k of None \<Rightarrow> 0 | Some v \<Rightarrow> v)"

lemma counter_of_inc: "counter_of (inc k m) k' = (if k' = k then counter_of m k + 1 else counter_of m k')"
  by (induction m) (auto simp: counter_of_def)

lemma map_upd_keys: "map fst (map_upd z f k m) = (if k \<in> set (map fst m) then map fst m else map fst m @ [k])"
  by (induction m) (auto simp del: set_map)

lemma map_upd_distinct: "distinct (map fst m) \<Longrightarrow> distinct (map fst (map_upd z f k m))"
  by (simp add: map_upd_keys)

lemma run_ops_snoc: "run_ops F (ops @ [x]) = apply_op F x (run_ops F ops)"
  by (simp add: run_ops_def)

lemma count_ops_snoc: "count_ops P (ops @ [x]) = count_ops P ops + (if P x then 1 else 0)"
  by (simp add: count_ops_def)

lemma wrap64_add: "wrap64 (wrap64 x + y) = wrap64 (x + y)"
proof -
  have "((x + 2 ^ 63) mod 2 ^ 64 - 2 ^ 63 + y + 2 ^ 63) mod 2 ^ 64 = (x + y + 2 ^ 63) mod (2 ^ 64 :: int)"
  proof -
    have "(x + 2 ^ 63) mod 2 ^ 64 - 2 ^ 63 + y + 2 ^ 63 = (x + 2 ^ 63) mod (2 ^ 64 :: int) + y" by simp
    moreover have "x + y + 2 ^ 63 = (x + 2 ^ 63) + y" by simp
    ultimately show ?thesis by (simp only: mod_add_left_eq)
  qed
  then show ?thesis by (simp only: wrap64_def)
qed

lemmas registry_ops = IncRequests_def IncRequestsTotal_def ObserveDuration_def ObserveDurationSeconds_def
  IncActiveStreams_def DecActiveStreams_def IncRetries_def IncFallbackTriggered_def Let_def

lemma requests_step:
  "g_totalRequests (apply_op F x r) = g_totalRequests r + (if is_request x then 1 else 0)"
  "counter_of (g_requestsTotal (apply_op F x r)) k = counter_of (g_requestsTotal r) k +
     (if x = Op_request (rk_Method k) (rk_Path k) (rk_Status k) then 1 else 0)"
  "g_activeStreams (apply_op F x r) =
     (if x = Op_stream_start then wrap64 (g_activeStreams r + 1)
      else if x = Op_stream_end then wrap64 (g_activeStreams r - 1) else g_activeStreams r)"
  "counter_of (g_retriesTotal (apply_op F x r)) i = counter_of (g_retriesTotal r) i +
     (if \<exists>a as. x = Op_retry (a # as) \<and> a = i \<and> i \<noteq> [] then 1 else 0)"
  by (cases x; force simp: registry_ops counter_of_inc neq_Nil_conv)+

lemma run_ops_distinct:
  "distinct (map fst (g_requestsTotal (run_ops F ops))) \<and> distinct (map fst (g_durationSum (run_ops F ops))) \<and>
   distinct (map fst (g_durationCount (run_ops F ops))) \<and> distinct (map fst (g_retriesTotal (run_ops F ops))) \<and>
   distinct (map fst (g_fallbacksTotal (run_ops F ops)))"
proof (induction ops rule: rev_induct)
  case Nil
  then show ?case by (simp add: run_ops_def NewRegistry_def)
next
  case (snoc x ops)
  then show ?case
    unfolding run_ops_snoc by (cases x) (simp_all add: registry_ops map_upd_distinct)
qed

section \<open>Labels\<close>

definition esc :: "char \<Rightarrow> string" where
  "esc c = (if c = CHR 0x5C then [CHR 0x5C, CHR 0x5C] else if c = CHR 0x22 then [CHR 0x5C, CHR 0x22]
            else if c = CHR 0x0A then [CHR 0x5C, CHR ''n''] else [c])"

lemma replace_all_single: "replace_all [c] new s = concat (map (\<lambda>x. if x = c then new else [x]) s)"
  by (induction s) (auto simp: has_prefix_def)

lemma escapeLabel_esc: "escapeLabel s = concat (map esc s)"
  unfolding escapeLabel_def Let_def replace_all_single by (induction s) (auto simp: esc_def)

text \<open>
  A reader of the exposition format: the label value up to the closing quote, with the
  escapes undone, and what follows it.
\<close>

fun read_label :: "string \<Rightarrow> (string \<times> string) option" where
  "read_label [] = None"
| "read_label (c # s) =
     (if c = CHR 0x22 then Some ([], s)
      else if c = CHR 0x5C then
        (case s of [] \<Rightarrow> None
         | d # s' \<Rightarrow> map_option (apfst (Cons (if d = CHR ''n'' then CHR 0x0A else d))) (read_label s'))
      else map_option (apfst (Cons c)) (read_label s))"

lemma read_escaped: "read_label (escapeLabel s @ CHR 0x22 # rest) = Some (s, rest)"
  by (induction s) (auto simp: escapeLabel_esc esc_def)

lemma escapeLabel_no_newline: "CHR 0x0A \<notin> set (escapeLabel s)"
  by (induction s) (auto simp: escapeLabel_esc esc_def)

section \<open>Properties\<close>

text \<open>
  The registry counts events: after any sequence of updates the request total is the
  number of requests, each labelled counter the number of requests (retries) with its
  labels, both modulo 2^64, and the gauge is the number of started minus the number of
  ended streams as a 64-bit integer.
\<close>

lemma registry_counts_events:
  "g_totalRequests (run_ops F ops) = of_nat (count_ops is_request ops) \<and>
   counter_of (g_requestsTotal (run_ops F ops)) k =
     of_nat (count_ops (\<lambda>x. x = Op_request (rk_Method k) (rk_Path k) (rk_Status k)) ops) \<and>
   counter_of (g_retriesTotal (run_ops F ops)) i =
     of_nat (count_ops (\<lambda>x. \<exists>a as. x = Op_retry (a # as) \<and> a = i \<and> i \<noteq> []) ops) \<and>
   GetActiveStreams (run_ops F ops) =
     wrap64 (int (count_ops (\<lambda>x. x = Op_stream_start) ops) - int (count_ops (\<lambda>x. x = Op_stream_end) ops))"
proof (induction ops rule: rev_induct)
  case Nil
  then show ?case
    by (simp add: run_ops_def NewRegistry_def count_ops_def counter_of_def GetActiveStreams_def wrap64_id)
next
  case (snoc x ops)
  have gauge: "g_activeStreams (apply_op F x (run_ops F ops)) =
      wrap64 (int (count_ops (\<lambda>x. x = Op_stream_start) (ops @ [x])) - int (count_ops (\<lambda>x. x = Op_stream_end) (ops @ [x])))"
    using snoc wrap64_add [of _ 1] wrap64_add [of _ "-1"]
    by (auto simp: requests_step(3) count_ops_snoc GetActiveStreams_def algebra_simps)
  show ?case
    using snoc unfolding run_ops_snoc GetActiveStreams_def gauge requests_step(1,2,4) count_ops_snoc by simp
qed

text \<open>
  Label values survive the exposition: a reader that undoes the escapes of the text
  format recovers every label value exactly, whatever bytes it has, and finds the closing
  quote where \<open>Gather\<close> wrote it; a label never breaks the line.
\<close>

lemma label_value_roundtrip:
  "read_label (escapeLabel s @ CHR 0x22 # rest) = Some (s, rest) \<and> CHR 0x0A \<notin> set (escapeLabel s)"
  by (simp add: read_escaped escapeLabel_no_newline)

lemma sort_key_perm: "mset xs = mset ys \<Longrightarrow> inj_on f (set xs) \<Longrightarrow> sort_key f xs = sort_key f ys"
  by (rule sort_key_inj_key_eq) simp_all

lemma key_inj_on: "distinct (map fst xs) \<Longrightarrow> inj g \<Longrightarrow> inj_on (\<lambda>(k, v). g k) (set xs)"
  by (auto simp: inj_on_def distinct_map inj_def) (metis fst_conv snd_conv)

lemma keys_inj:
  "inj (\<lambda>k::requestKey. (rk_Method k, rk_Path k, rk_Status k))"
  "inj (\<lambda>k::durationKey. (dk_Method k, dk_Path k))"
  "inj (\<lambda>k::fallbackKey. (fk_PrimaryAgent k, fk_FallbackAgent k))"
  by (auto intro!: injI requestKey.equality durationKey.equality fallbackKey.equality)

definition same_entries :: "'f Registry \<Rightarrow> 'f Registry \<Rightarrow> bool" where
  "same_entries r r' \<longleftrightarrow>
     mset (g_requestsTotal r') = mset (g_requestsTotal r) \<and> mset (g_durationSum r') = mset (g_durationSum r) \<and>
     mset (g_durationCount r') = mset (g_durationCount r) \<and> mset (g_retriesTotal r') = mset (g_retriesTotal r) \<and>
     mset (g_fallbacksTotal r') = mset (g_fallbacksTotal r) \<and>
     g_totalRequests r' = g_totalRequests r \<and> g_totalDurSum r' = g_totalDurSum r \<and>
     g_totalDurCount r' = g_totalDurCount r \<and> g_activeStreams r' = g_activeStreams r \<and>
     g_totalRetries r' = g_totalRetries r \<and> g_totalFallbacks r' = g_totalFallbacks r"

lemma sort_entries:
  assumes "mset ys = mset xs" and "distinct (map fst xs)" and "inj g"
  shows "sort_key (\<lambda>(k, v). g k) ys = sort_key (\<lambda>(k, v). g k) xs"
  using sort_key_perm [OF assms(1) [symmetric] key_inj_on [OF assms(2,3)]] by simp

lemma mset_map_of:
  assumes "mset ys = mset xs" and "distinct (map fst xs)"
  shows "map_of ys = map_of xs"
proof -
  have "distinct (map fst ys)"
    using assms mset_eq_imp_distinct_iff [of "map fst ys" "map fst xs"] by simp
  from map_of_inject_set [OF this assms(2)] show ?thesis using mset_eq_setD [OF assms(1)] by (rule iffD2)
qed

lemma mset_Nil_iff: "mset ys = mset xs \<Longrightarrow> ys = [] \<longleftrightarrow> xs = []"
  by (metis mset_zero_iff)

lemma Gather_cong:
  assumes "same_entries r r'"
    and d: "distinct (map fst (g_requestsTotal r))" "distinct (map fst (g_durationSum r))"
      "distinct (map fst (g_durationCount r))" "distinct (map fst (g_retriesTotal r))"
      "distinct (map fst (g_fallbacksTotal r))"
  shows "Gather F r' = Gather F r"
proof -
  have m: "mset (g_requestsTotal r') = mset (g_requestsTotal r)" "mset (g_durationSum r') = mset (g_durationSum r)"
      "mset (g_durationCount r') = mset (g_durationCount r)" "mset (g_retriesTotal r') = mset (g_retriesTotal r)"
      "mset (g_fallbacksTotal r') = mset (g_fallbacksTotal r)"
    and e: "g_totalRequests r' = g_totalRequests r" "g_totalDurSum r' = g_totalDurSum r"
      "g_totalDurCount r' = g_totalDurCount r" "g_activeStreams r' = g_activeStreams r"
      "g_totalRetries r' = g_totalRetries r" "g_totalFallbacks r' = g_totalFallbacks r"
    using assms(1) by (simp_all add: same_entries_def)
  note nil = mset_Nil_iff [OF m(1)] mset_Nil_iff [OF m(2)] mset_Nil_iff [OF m(4)] mset_Nil_iff [OF m(5)]
  have "request_lines r' = request_lines r"
    unfolding request_lines_def nil e sort_entries [OF m(1) d(1) keys_inj(1)] ..
  moreover have "duration_lines F r' = duration_lines F r"
    unfolding duration_lines_def nil e sort_entries [OF m(2) d(2) keys_inj(2)] mset_map_of [OF m(3) d(3)] ..
  moreover have "fallback_lines r' = fallback_lines r"
    unfolding fallback_lines_def nil e sort_entries [OF m(5) d(5) keys_inj(3)] ..
  moreover have "sort_key fst (g_retriesTotal r') = sort_key fst (g_retriesTotal r)"
    using sort_entries [OF m(4) d(4), of "\<lambda>k. k"] by (simp add: case_prod_beta')
  then have "retry_lines r' = retry_lines r"
    unfolding retry_lines_def nil e by simp
  ultimately show ?thesis using e by (simp add: Gather_def)
qed

text \<open>
  The exposition is deterministic: \<open>Gather\<close> gives the same text for two registries that
  hold the same entries, in whatever order the maps are iterated.
\<close>


lemma gather_deterministic:
  assumes "same_entries (run_ops F ops) r'"
  shows "Gather F r' = Gather F (run_ops F ops)"
  using Gather_cong [OF assms] run_ops_distinct [of F ops] by blast

definition unit_floats :: "nat float_ops" where
  "unit_floats = \<lparr>f_zero = 0, f_add = (+), f_print6 = show_nat\<rparr>"

lemma gather_deterministic_witness:
  "Gather unit_floats (run_ops unit_floats [Op_retry [''b''], Op_retry [''a'']]) =
   Gather unit_floats (run_ops unit_floats [Op_retry [''a''], Op_retry [''b'']])"
  by (rule gather_deterministic)
    (simp add: same_entries_def run_ops_def NewRegistry_def IncRetries_def)

end
