(* ===== verification/Config_Model.thy ===== *)
theory Config_Model
  imports A2A_Model Job_Ledger
begin

text \<open>
  The configuration of the gateway, pkg/config: the records of config.go with the durations
  of the worker, the defaults and the environment expansion of loader.go, and the
  validation of validator.go, one definition per part of \<open>Validate\<close> in the order of the code.
  YAML decoding, the file system, the environment and \<open>url.Parse\<close> are parameters.
\<close>

section \<open>Records\<close>

record ServerConfig =
  sv_Host :: string
  sv_Port :: int
  sv_ReadTimeoutSeconds :: int
  sv_WriteTimeoutSeconds :: int
  sv_IdleTimeoutSeconds :: int

record APIKeyConfig =
  key_Key :: string
  key_ClientID :: string
  key_AllowedAgents :: "string list"

record SecurityConfig =
  sec_Enabled :: bool
  sec_APIKeys :: "APIKeyConfig list"

record AuthConfig =
  auth_Type :: string
  auth_Token :: string
  auth_HeaderName :: string
  auth_HeaderValue :: string

record RequestTemplate =
  rt_Method :: string
  rt_Headers :: "(string \<times> string) list"
  rt_BodyTemplate :: string

record ResponseMapping =
  rm_OutputPath :: string
  rm_StatusPath :: string
  rm_ArtifactsPath :: string
  rm_ErrorPath :: string

record StreamMapping =
  sm_DataPath :: string
  sm_DoneSentinel :: string

record CustomMapping =
  cm_Request :: RequestTemplate
  cm_Response :: ResponseMapping
  cm_Stream :: StreamMapping

record AgentConfig =
  ag_ID :: string
  ag_Name :: string
  ag_Description :: string
  ag_Type :: string
  ag_Endpoint :: string
  ag_Capabilities :: "string list"
  ag_Tags :: "string list"
  ag_TimeoutSeconds :: int
  ag_Retries :: int
  ag_FallbackAgentIDs :: "string list"
  ag_Auth :: AuthConfig
  ag_Options :: "(string \<times> json) list"
  ag_Mapping :: "CustomMapping option"

record MemoryStorageConfig =
  mem_MaxTasks :: int

record PostgresStorageConfig =
  pg_DSN :: string
  pg_MaxConnections :: int
  pg_MinConnections :: int
  pg_MaxConnectionLifetimeSeconds :: int
  pg_MaxConnectionIdleTimeSeconds :: int
  pg_HealthCheckPeriodSeconds :: int
  pg_ConnectTimeoutSeconds :: int
  pg_MigrateOnStart :: bool

record StorageConfig =
  st_Backend :: string
  st_Memory :: MemoryStorageConfig
  st_Postgres :: PostgresStorageConfig

record WorkerConfig =
  w_WorkerID :: string
  w_Concurrency :: int
  w_BatchSize :: int
  w_PollIntervalMilliseconds :: int
  w_LeaseDurationSeconds :: int
  w_RenewalIntervalSeconds :: int
  w_RetryBackoffSeconds :: int
  w_DrainTimeoutSeconds :: int

record Config =
  cfg_Role :: string
  cfg_Server :: ServerConfig
  cfg_Worker :: WorkerConfig
  cfg_Security :: SecurityConfig
  cfg_Agents :: "AgentConfig list"
  cfg_Storage :: StorageConfig

definition zero_worker :: WorkerConfig where
  "zero_worker = \<lparr>w_WorkerID = [], w_Concurrency = 0, w_BatchSize = 0, w_PollIntervalMilliseconds = 0,
     w_LeaseDurationSeconds = 0, w_RenewalIntervalSeconds = 0, w_RetryBackoffSeconds = 0,
     w_DrainTimeoutSeconds = 0\<rparr>"

definition zero_postgres :: PostgresStorageConfig where
  "zero_postgres = \<lparr>pg_DSN = [], pg_MaxConnections = 0, pg_MinConnections = 0,
     pg_MaxConnectionLifetimeSeconds = 0, pg_MaxConnectionIdleTimeSeconds = 0,
     pg_HealthCheckPeriodSeconds = 0, pg_ConnectTimeoutSeconds = 0, pg_MigrateOnStart = False\<rparr>"

section \<open>Durations\<close>

definition MaxWorkerPollIntervalMilliseconds :: int where "MaxWorkerPollIntervalMilliseconds = 600000"
definition MaxWorkerDrainTimeoutSeconds :: int where "MaxWorkerDrainTimeoutSeconds = 3600"

text \<open>A product of two 64-bit integers.\<close>

definition PollInterval :: "WorkerConfig \<Rightarrow> go_duration" where
  "PollInterval w = wrap64 (w_PollIntervalMilliseconds w * millisecond)"

definition LeaseDuration :: "WorkerConfig \<Rightarrow> go_duration" where
  "LeaseDuration w = wrap64 (w_LeaseDurationSeconds w * second)"

definition RenewalInterval :: "WorkerConfig \<Rightarrow> go_duration" where
  "RenewalInterval w = wrap64 (w_RenewalIntervalSeconds w * second)"

definition RetryBackoff :: "WorkerConfig \<Rightarrow> go_duration" where
  "RetryBackoff w = wrap64 (w_RetryBackoffSeconds w * second)"

definition DrainTimeout :: "WorkerConfig \<Rightarrow> go_duration" where
  "DrainTimeout w = wrap64 (w_DrainTimeoutSeconds w * second)"

section \<open>Loading\<close>

definition is_var_start :: "char \<Rightarrow> bool" where
  "is_var_start c \<longleftrightarrow> 97 \<le> byte c \<and> byte c \<le> 122 \<or> 65 \<le> byte c \<and> byte c \<le> 90 \<or> c = CHR ''_''"

definition is_var_char :: "char \<Rightarrow> bool" where
  "is_var_char c \<longleftrightarrow> is_var_start c \<or> 48 \<le> byte c \<and> byte c \<le> 57"

text \<open>A match of the pattern of a variable reference at the start: its name and the rest.\<close>

definition match_var :: "string \<Rightarrow> (string \<times> string) option" where
  "match_var s =
     (if has_prefix s ''${'' then
        (let t = drop 2 s; name = takeWhile is_var_char t; rest = dropWhile is_var_char t in
         if name \<noteq> [] \<and> is_var_start (hd name) \<and> rest \<noteq> [] \<and> hd rest = CHR ''}''
         then Some (name, tl rest) else None)
      else None)"

lemma match_var_shorter: "match_var s = Some (name, rest) \<Longrightarrow> length rest < length s"
proof -
  assume m: "match_var s = Some (name, rest)"
  then have "rest = tl (dropWhile is_var_char (drop 2 s))" "has_prefix s ''${''"
    by (auto simp: match_var_def Let_def split: if_splits)
  moreover have "length (dropWhile is_var_char (drop 2 s)) \<le> length s - 2"
    using length_dropWhile_le [of is_var_char "drop 2 s"] by simp
  moreover have "2 \<le> length s" using calculation(2) by (auto simp: has_prefix_iff)
  ultimately show ?thesis by simp
qed

function expandEnv :: "(string \<Rightarrow> string) \<Rightarrow> bytes \<Rightarrow> bytes" where
  "expandEnv getenv [] = []"
| "expandEnv getenv (c # s) =
     (case match_var (c # s) of
        Some (name, rest) \<Rightarrow> getenv name @ expandEnv getenv rest
      | None \<Rightarrow> c # expandEnv getenv s)"
  by pat_completeness auto

termination
  by (relation "measure (\<lambda>(g, s). length s)") (auto dest: match_var_shorter)

definition dflt :: "int \<Rightarrow> int \<Rightarrow> int" where
  "dflt d x = (if x = 0 then d else x)"

definition default_worker :: "WorkerConfig \<Rightarrow> WorkerConfig" where
  "default_worker w =
     w\<lparr>w_Concurrency := dflt 10 (w_Concurrency w), w_BatchSize := dflt 5 (w_BatchSize w),
       w_PollIntervalMilliseconds := dflt 1000 (w_PollIntervalMilliseconds w),
       w_LeaseDurationSeconds := dflt 30 (w_LeaseDurationSeconds w),
       w_RenewalIntervalSeconds := dflt 10 (w_RenewalIntervalSeconds w),
       w_RetryBackoffSeconds := dflt 15 (w_RetryBackoffSeconds w),
       w_DrainTimeoutSeconds := dflt 30 (w_DrainTimeoutSeconds w)\<rparr>"

definition default_server :: "ServerConfig \<Rightarrow> ServerConfig" where
  "default_server s =
     s\<lparr>sv_Port := dflt 8080 (sv_Port s), sv_Host := (if sv_Host s = [] then ''0.0.0.0'' else sv_Host s),
       sv_ReadTimeoutSeconds := dflt 30 (sv_ReadTimeoutSeconds s),
       sv_WriteTimeoutSeconds := dflt 120 (sv_WriteTimeoutSeconds s),
       sv_IdleTimeoutSeconds := dflt 60 (sv_IdleTimeoutSeconds s)\<rparr>"

definition default_agent :: "AgentConfig \<Rightarrow> AgentConfig" where
  "default_agent a = a\<lparr>ag_TimeoutSeconds := dflt 60 (ag_TimeoutSeconds a)\<rparr>"

definition default_postgres :: "PostgresStorageConfig \<Rightarrow> PostgresStorageConfig" where
  "default_postgres p =
     p\<lparr>pg_MaxConnections := dflt 20 (pg_MaxConnections p), pg_MinConnections := dflt 2 (pg_MinConnections p),
       pg_MaxConnectionLifetimeSeconds := dflt 1800 (pg_MaxConnectionLifetimeSeconds p),
       pg_MaxConnectionIdleTimeSeconds := dflt 300 (pg_MaxConnectionIdleTimeSeconds p),
       pg_HealthCheckPeriodSeconds := dflt 30 (pg_HealthCheckPeriodSeconds p),
       pg_ConnectTimeoutSeconds := dflt 5 (pg_ConnectTimeoutSeconds p)\<rparr>"

definition default_storage :: "StorageConfig \<Rightarrow> StorageConfig" where
  "default_storage s =
     (let b = (if st_Backend s = [] then ''memory'' else st_Backend s); s' = s\<lparr>st_Backend := b\<rparr> in
      if b = ''memory'' then s'\<lparr>st_Memory := \<lparr>mem_MaxTasks = dflt 10000 (mem_MaxTasks (st_Memory s))\<rparr>\<rparr>
      else if b = ''postgres'' then s'\<lparr>st_Postgres := default_postgres (st_Postgres s)\<rparr>
      else s')"

definition applyDefaults :: "Config \<Rightarrow> Config" where
  "applyDefaults c =
     c\<lparr>cfg_Role := (if cfg_Role c = [] then ''api'' else cfg_Role c),
       cfg_Worker := default_worker (cfg_Worker c),
       cfg_Server := default_server (cfg_Server c),
       cfg_Agents := map default_agent (cfg_Agents c),
       cfg_Storage := default_storage (cfg_Storage c)\<rparr>"

end
