(* ===== verification/Config_Validate.thy ===== *)
theory Config_Validate
  imports Config_Model
begin

text \<open>
  \<open>Validate\<close> of pkg/config/validator.go. Each part of the function is a definition, in the
  order of the code; an error carries what its message names. The cycle check is the
  depth-first search of the code with its three colours; its fuel bounds the depth of the
  recursion, and is shown to be enough when it is the number of agents.
\<close>

section \<open>Errors\<close>

text \<open>Problems of one agent, of the storage settings and of the worker settings.\<close>

datatype agent_problem =
    Duplicate_agent | Empty_endpoint | Endpoint_whitespace | Endpoint_malformed | Endpoint_not_http
  | Endpoint_no_host | Endpoint_userinfo | Endpoint_fragment | Empty_type | Unsupported_type
  | Bad_retries | Negative_timeout | None_with_credentials | Bearer_empty_token | Bearer_with_header
  | Header_with_token | Header_bad_name | Header_empty_value | Unsupported_auth
  | Mapping_missing | Mapping_method | Mapping_body | Mapping_output

datatype storage_problem =
    Memory_with_dsn | Memory_with_postgres | Bad_max_tasks | Postgres_with_memory | Empty_dsn
  | Bad_max_connections | Bad_min_connections | Bad_lifetime | Bad_idle_time | Bad_health_period
  | Bad_connect_timeout | Unknown_backend

datatype worker_problem =
    Role_needs_postgres | Worker_id_blank | Worker_id_long | Bad_concurrency | Batch_not_positive
  | Batch_over_concurrency | Batch_over_max | Poll_not_positive | Poll_over_max | Lease_too_short
  | Lease_too_long | Renewal_not_positive | Renewal_over_half | Backoff_not_positive
  | Backoff_too_long | Drain_not_positive | Drain_too_long

datatype config_error =
    Bad_role | Bad_port | Empty_agent_id | Agent_error string agent_problem
  | No_API_keys | Empty_API_key nat | Duplicate_API_key nat | Unknown_allowed_agent nat string
  | Unknown_fallback string string | Self_fallback string | Cyclic_fallback "string list" string
  | Out_of_fuel | Storage_error storage_problem | Worker_error worker_problem

section \<open>Role and port\<close>

definition effective_role :: "Config \<Rightarrow> string" where
  "effective_role c = (if cfg_Role c = [] then ''api'' else cfg_Role c)"

definition validate_role :: "Config \<Rightarrow> config_error option" where
  "validate_role c =
     (let role = effective_role c; port = sv_Port (cfg_Server c) in
      if role \<notin> {''api'', ''worker'', ''all''} then Some Bad_role
      else if role = ''api'' \<or> role = ''all'' then
        (if port \<le> 0 \<or> port > 65535 then Some Bad_port else None)
      else if port < 0 \<or> port > 65535 then Some Bad_port
      else None)"

section \<open>Agents\<close>

text \<open>What the validator reads of a parsed URL; \<open>parse_url\<close> is \<open>url.Parse\<close>.\<close>

record url =
  url_Scheme :: string
  url_Hostname :: string
  url_has_User :: bool
  url_Fragment :: string

definition isValidHeaderFieldByte :: "char \<Rightarrow> bool" where
  "isValidHeaderFieldByte b \<longleftrightarrow>
     97 \<le> byte b \<and> byte b \<le> 122 \<or> 65 \<le> byte b \<and> byte b \<le> 90 \<or> 48 \<le> byte b \<and> byte b \<le> 57 \<or>
     b \<in> set ''!#$%&*+-.^_|~'' \<or> b = CHR 0x27 \<or> b = CHR 0x60"

definition isValidHeaderFieldName :: "string \<Rightarrow> bool" where
  "isValidHeaderFieldName name \<longleftrightarrow> name \<noteq> [] \<and> list_all isValidHeaderFieldByte name"

definition validate_endpoint :: "(string \<Rightarrow> url option) \<Rightarrow> AgentConfig \<Rightarrow> config_error option" where
  "validate_endpoint parse_url a =
     (if trim_space (ag_Endpoint a) = [] then Some (Agent_error (ag_ID a) Empty_endpoint)
      else if \<exists>c\<in>set (ag_Endpoint a). c \<in> {CHR 0x20, CHR 0x09, CHR 0x0D, CHR 0x0A}
        then Some (Agent_error (ag_ID a) Endpoint_whitespace)
      else case parse_url (ag_Endpoint a) of
        None \<Rightarrow> Some (Agent_error (ag_ID a) Endpoint_malformed)
      | Some u \<Rightarrow>
          if url_Scheme u = [] \<or> (url_Scheme u \<noteq> ''http'' \<and> url_Scheme u \<noteq> ''https'')
            then Some (Agent_error (ag_ID a) Endpoint_not_http)
          else if url_Hostname u = [] then Some (Agent_error (ag_ID a) Endpoint_no_host)
          else if url_has_User u then Some (Agent_error (ag_ID a) Endpoint_userinfo)
          else if url_Fragment u \<noteq> [] \<or> contains (ag_Endpoint a) ''#'' then Some (Agent_error (ag_ID a) Endpoint_fragment)
          else None)"

definition validate_auth :: "AgentConfig \<Rightarrow> config_error option" where
  "validate_auth a =
     (let au = ag_Auth a; i = ag_ID a;
          authType = (if auth_Type au = [] then ''none'' else auth_Type au) in
      if authType = ''none'' then
        (if auth_Token au \<noteq> [] \<or> auth_HeaderName au \<noteq> [] \<or> auth_HeaderValue au \<noteq> []
         then Some (Agent_error i None_with_credentials) else None)
      else if authType = ''bearer'' then
        (if trim_space (auth_Token au) = [] then Some (Agent_error i Bearer_empty_token)
         else if auth_HeaderName au \<noteq> [] \<or> auth_HeaderValue au \<noteq> [] then Some (Agent_error i Bearer_with_header)
         else None)
      else if authType = ''header'' then
        (if auth_Token au \<noteq> [] then Some (Agent_error i Header_with_token)
         else if \<not> isValidHeaderFieldName (auth_HeaderName au) then Some (Agent_error i Header_bad_name)
         else if trim_space (auth_HeaderValue au) = [] then Some (Agent_error i Header_empty_value)
         else None)
      else Some (Agent_error i Unsupported_auth))"

definition validate_mapping :: "unicode_tables \<Rightarrow> AgentConfig \<Rightarrow> config_error option" where
  "validate_mapping U a =
     (if ag_Type a \<noteq> ''custom'' then None
      else case ag_Mapping a of
        None \<Rightarrow> Some (Agent_error (ag_ID a) Mapping_missing)
      | Some m \<Rightarrow>
          if to_upper U (trim_space (rt_Method (cm_Request m))) \<notin> {''GET'', ''POST'', ''PUT'', ''PATCH'', ''DELETE''}
            then Some (Agent_error (ag_ID a) Mapping_method)
          else if trim_space (rt_BodyTemplate (cm_Request m)) = [] then Some (Agent_error (ag_ID a) Mapping_body)
          else if trim_space (rm_OutputPath (cm_Response m)) = [] then Some (Agent_error (ag_ID a) Mapping_output)
          else None)"

definition agent_types :: "string set" where
  "agent_types = {''langgraph'', ''crewai'', ''autogen'', ''openai'', ''custom''}"

definition validate_agent ::
  "unicode_tables \<Rightarrow> (string \<Rightarrow> url option) \<Rightarrow> string list \<Rightarrow> AgentConfig \<Rightarrow> config_error option" where
  "validate_agent U parse_url agentIDs a =
     (if ag_ID a = [] then Some Empty_agent_id
      else if ag_ID a \<in> set agentIDs then Some (Agent_error (ag_ID a) Duplicate_agent)
      else case validate_endpoint parse_url a of Some e \<Rightarrow> Some e | None \<Rightarrow>
      if ag_Type a = [] then Some (Agent_error (ag_ID a) Empty_type)
      else if ag_Type a \<notin> agent_types then Some (Agent_error (ag_ID a) Unsupported_type)
      else if ag_Retries a < 0 \<or> ag_Retries a > 10 then Some (Agent_error (ag_ID a) Bad_retries)
      else if ag_TimeoutSeconds a < 0 then Some (Agent_error (ag_ID a) Negative_timeout)
      else case validate_auth a of Some e \<Rightarrow> Some e | None \<Rightarrow> validate_mapping U a)"

fun validate_agents ::
  "unicode_tables \<Rightarrow> (string \<Rightarrow> url option) \<Rightarrow> string list \<Rightarrow> AgentConfig list \<Rightarrow> config_error option" where
  "validate_agents U p ids [] = None"
| "validate_agents U p ids (a # as) =
     (case validate_agent U p ids a of Some e \<Rightarrow> Some e | None \<Rightarrow> validate_agents U p (ag_ID a # ids) as)"

definition agent_ids :: "Config \<Rightarrow> string list" where
  "agent_ids c = map ag_ID (cfg_Agents c)"

section \<open>Security\<close>

fun validate_keys :: "string list \<Rightarrow> nat \<Rightarrow> string list \<Rightarrow> APIKeyConfig list \<Rightarrow> config_error option" where
  "validate_keys ids i seen [] = None"
| "validate_keys ids i seen (k # ks) =
     (if trim_space (key_Key k) = [] then Some (Empty_API_key i)
      else if key_Key k \<in> set seen then Some (Duplicate_API_key i)
      else case find (\<lambda>a. a \<noteq> ''*'' \<and> a \<notin> set ids) (key_AllowedAgents k) of
             Some a \<Rightarrow> Some (Unknown_allowed_agent i a)
           | None \<Rightarrow> validate_keys ids (i + 1) (key_Key k # seen) ks)"

definition validate_security :: "Config \<Rightarrow> config_error option" where
  "validate_security c =
     (if \<not> sec_Enabled (cfg_Security c) then None
      else if sec_APIKeys (cfg_Security c) = [] then Some No_API_keys
      else validate_keys (agent_ids c) 0 [] (sec_APIKeys (cfg_Security c)))"

section \<open>Fallback references and cycles\<close>

fun check_references :: "string list \<Rightarrow> string \<Rightarrow> string list \<Rightarrow> config_error option" where
  "check_references ids a [] = None"
| "check_references ids a (f # fs) =
     (if f \<notin> set ids then Some (Unknown_fallback a f)
      else if f = a then Some (Self_fallback a)
      else check_references ids a fs)"

fun validate_references :: "string list \<Rightarrow> AgentConfig list \<Rightarrow> config_error option" where
  "validate_references ids [] = None"
| "validate_references ids (a # as) =
     (case check_references ids (ag_ID a) (ag_FallbackAgentIDs a) of
        Some e \<Rightarrow> Some e | None \<Rightarrow> validate_references ids as)"

text \<open>The adjacency map: a later agent overwrites an earlier one with the same identifier.\<close>

definition adj_of :: "AgentConfig list \<Rightarrow> string \<Rightarrow> string list" where
  "adj_of as i = (case find (\<lambda>a. ag_ID a = i) (rev as) of None \<Rightarrow> [] | Some a \<Rightarrow> ag_FallbackAgentIDs a)"

type_synonym colours = "string \<Rightarrow> nat"   \<comment> \<open>0 unvisited, 1 visiting, 2 visited\<close>

fun checkCycle :: "nat \<Rightarrow> (string \<Rightarrow> string list) \<Rightarrow> string \<Rightarrow> string list \<Rightarrow> colours
      \<Rightarrow> config_error option \<times> colours"
  and checkNeighbors :: "nat \<Rightarrow> (string \<Rightarrow> string list) \<Rightarrow> string list \<Rightarrow> string list \<Rightarrow> colours
      \<Rightarrow> config_error option \<times> colours" where
  "checkCycle 0 adj node path st = (Some Out_of_fuel, st)"
| "checkCycle (Suc n) adj node path st =
     (case checkNeighbors n adj (path @ [node]) (adj node) (st(node := 1)) of
        (Some e, st') \<Rightarrow> (Some e, st')
      | (None, st') \<Rightarrow> (None, st'(node := 2)))"
| "checkNeighbors n adj path [] st = (None, st)"
| "checkNeighbors n adj path (v # vs) st =
     (if st v = 1 then (Some (Cyclic_fallback path v), st)
      else if st v = 0 then
        (case checkCycle n adj v path st of
           (Some e, st') \<Rightarrow> (Some e, st')
         | (None, st') \<Rightarrow> checkNeighbors n adj path vs st')
      else checkNeighbors n adj path vs st)"

fun check_all :: "nat \<Rightarrow> (string \<Rightarrow> string list) \<Rightarrow> string list \<Rightarrow> colours \<Rightarrow> config_error option" where
  "check_all n adj [] st = None"
| "check_all n adj (i # is) st =
     (if st i = 0 then
        (case checkCycle n adj i [] st of (Some e, st') \<Rightarrow> Some e | (None, st') \<Rightarrow> check_all n adj is st')
      else check_all n adj is st)"

definition validate_fallbacks :: "Config \<Rightarrow> config_error option" where
  "validate_fallbacks c =
     (case validate_references (agent_ids c) (cfg_Agents c) of
        Some e \<Rightarrow> Some e
      | None \<Rightarrow> check_all (length (cfg_Agents c)) (adj_of (cfg_Agents c)) (agent_ids c) (\<lambda>_. 0))"

section \<open>Storage and worker\<close>

definition effective_backend :: "Config \<Rightarrow> string" where
  "effective_backend c = (if st_Backend (cfg_Storage c) = [] then ''memory'' else st_Backend (cfg_Storage c))"

definition validate_postgres :: "PostgresStorageConfig \<Rightarrow> config_error option" where
  "validate_postgres p =
     (if trim_space (pg_DSN p) = [] then Some (Storage_error Empty_dsn)
      else if pg_MaxConnections p < 1 \<or> pg_MaxConnections p > 1000 then Some (Storage_error Bad_max_connections)
      else if pg_MinConnections p < 0 \<or> pg_MinConnections p > pg_MaxConnections p then Some (Storage_error Bad_min_connections)
      else if pg_MaxConnectionLifetimeSeconds p \<le> 0 then Some (Storage_error Bad_lifetime)
      else if pg_MaxConnectionIdleTimeSeconds p \<le> 0 then Some (Storage_error Bad_idle_time)
      else if pg_HealthCheckPeriodSeconds p \<le> 0 then Some (Storage_error Bad_health_period)
      else if pg_ConnectTimeoutSeconds p \<le> 0 then Some (Storage_error Bad_connect_timeout)
      else None)"

definition validate_storage :: "Config \<Rightarrow> config_error option" where
  "validate_storage c =
     (let backend = effective_backend c; s = cfg_Storage c in
      if backend = ''memory'' then
        (if pg_DSN (st_Postgres s) \<noteq> [] then Some (Storage_error Memory_with_dsn)
         else if (st_Postgres s)\<lparr>pg_DSN := []\<rparr> \<noteq> zero_postgres then Some (Storage_error Memory_with_postgres)
         else if mem_MaxTasks (st_Memory s) < 0 \<or> mem_MaxTasks (st_Memory s) > 1000000 then Some (Storage_error Bad_max_tasks)
         else None)
      else if backend = ''postgres'' then
        (if mem_MaxTasks (st_Memory s) \<noteq> 0 then Some (Storage_error Postgres_with_memory)
         else validate_postgres (st_Postgres s))
      else Some (Storage_error Unknown_backend))"

definition validate_worker_fields :: "WorkerConfig \<Rightarrow> config_error option" where
  "validate_worker_fields w =
     (if w_WorkerID w \<noteq> [] \<and> trim_space (w_WorkerID w) = [] then Some (Worker_error Worker_id_blank)
      else if rune_count (w_WorkerID w) > MaxLeaseOwnerLength then Some (Worker_error Worker_id_long)
      else if w_Concurrency w < 1 \<or> w_Concurrency w > 1000 then Some (Worker_error Bad_concurrency)
      else if w_BatchSize w < 1 then Some (Worker_error Batch_not_positive)
      else if w_BatchSize w > w_Concurrency w then Some (Worker_error Batch_over_concurrency)
      else if w_BatchSize w > MaxJobBatchSize then Some (Worker_error Batch_over_max)
      else if w_PollIntervalMilliseconds w \<le> 0 then Some (Worker_error Poll_not_positive)
      else if w_PollIntervalMilliseconds w > MaxWorkerPollIntervalMilliseconds then Some (Worker_error Poll_over_max)
      else if w_LeaseDurationSeconds w < 2 then Some (Worker_error Lease_too_short)
      else if w_LeaseDurationSeconds w > MaxJobLeaseDuration div second then Some (Worker_error Lease_too_long)
      else if w_RenewalIntervalSeconds w \<le> 0 then Some (Worker_error Renewal_not_positive)
      else if w_RenewalIntervalSeconds w > go_div (w_LeaseDurationSeconds w) 2 then Some (Worker_error Renewal_over_half)
      else if w_RetryBackoffSeconds w \<le> 0 then Some (Worker_error Backoff_not_positive)
      else if w_RetryBackoffSeconds w > MaxRetryBackoff div second then Some (Worker_error Backoff_too_long)
      else if w_DrainTimeoutSeconds w \<le> 0 then Some (Worker_error Drain_not_positive)
      else if w_DrainTimeoutSeconds w > MaxWorkerDrainTimeoutSeconds then Some (Worker_error Drain_too_long)
      else None)"

definition validate_worker :: "Config \<Rightarrow> config_error option" where
  "validate_worker c =
     (let role = effective_role c in
      if (role = ''worker'' \<or> role = ''all'') \<and> effective_backend c \<noteq> ''postgres'' then Some (Worker_error Role_needs_postgres)
      else if role = ''worker'' \<or> role = ''all'' \<or> cfg_Worker c \<noteq> zero_worker
        then validate_worker_fields (cfg_Worker c)
      else None)"

section \<open>Validation and loading\<close>

definition Validate :: "unicode_tables \<Rightarrow> (string \<Rightarrow> url option) \<Rightarrow> Config \<Rightarrow> config_error option" where
  "Validate U parse_url c =
     (case validate_role c of Some e \<Rightarrow> Some e | None \<Rightarrow>
      case validate_agents U parse_url [] (cfg_Agents c) of Some e \<Rightarrow> Some e | None \<Rightarrow>
      case validate_security c of Some e \<Rightarrow> Some e | None \<Rightarrow>
      case validate_fallbacks c of Some e \<Rightarrow> Some e | None \<Rightarrow>
      case validate_storage c of Some e \<Rightarrow> Some e | None \<Rightarrow> validate_worker c)"

datatype load_error = Read_error | Yaml_error | Invalid_config config_error

text \<open>
  \<open>read_file\<close> is \<open>os.ReadFile\<close>, \<open>getenv\<close> the environment, \<open>unmarshal\<close> the YAML decoder.
\<close>

definition Load ::
  "unicode_tables \<Rightarrow> (string \<Rightarrow> url option) \<Rightarrow> (string \<Rightarrow> bytes option) \<Rightarrow> (string \<Rightarrow> string)
     \<Rightarrow> (bytes \<Rightarrow> Config option) \<Rightarrow> string \<Rightarrow> load_error + Config" where
  "Load U parse_url read_file getenv unmarshal path =
     (case read_file path of None \<Rightarrow> Inl Read_error | Some data \<Rightarrow>
      case unmarshal (expandEnv getenv data) of None \<Rightarrow> Inl Yaml_error | Some cfg \<Rightarrow>
        (let cfg' = applyDefaults cfg in
         case Validate U parse_url cfg' of Some e \<Rightarrow> Inl (Invalid_config e) | None \<Rightarrow> Inr cfg'))"

end
