(* ===== verification/Config_Cycles.thy ===== *)
theory Config_Cycles
  imports Config_Validate
begin

text \<open>
  The depth-first search of the validator decides acyclicity of the fallback graph: when it
  accepts there is no cycle, when it reports one there is one, and fuel for as many nested
  calls as there are unvisited agents is enough.
\<close>

definition edges :: "(string \<Rightarrow> string list) \<Rightarrow> (string \<times> string) set" where
  "edges adj = {(a, b). b \<in> set (adj a)}"

text \<open>Visited agents lead to visited agents only, and no cycle goes through them.\<close>

definition black_edges :: "(string \<Rightarrow> string list) \<Rightarrow> colours \<Rightarrow> (string \<times> string) set" where
  "black_edges adj st = {(a, b). st a = 2 \<and> b \<in> set (adj a)}"

definition dfs_inv :: "(string \<Rightarrow> string list) \<Rightarrow> colours \<Rightarrow> bool" where
  "dfs_inv adj st \<longleftrightarrow>
     (\<forall>v. st v = 2 \<longrightarrow> (\<forall>w\<in>set (adj v). st w = 2)) \<and> acyclic (black_edges adj st) \<and> (\<forall>v. st v \<le> 2)"

text \<open>What a successful search does to the colours.\<close>

definition advances :: "colours \<Rightarrow> colours \<Rightarrow> bool" where
  "advances st st' \<longleftrightarrow> (\<forall>v. st' v = 1 \<longleftrightarrow> st v = 1) \<and> (\<forall>v. st v = 2 \<longrightarrow> st' v = 2)"

lemma advances_refl [simp]: "advances st st"
  by (simp add: advances_def)

lemma advances_trans: "advances a b \<Longrightarrow> advances b c \<Longrightarrow> advances a c"
  by (simp add: advances_def)

text \<open>Colouring a node black whose successors are all black.\<close>

lemma trancl_stays:
  assumes "(x, y) \<in> r\<^sup>+" and "x \<in> B" and "\<And>a b. (a, b) \<in> r \<Longrightarrow> a \<in> B \<Longrightarrow> (a, b) \<in> s \<and> b \<in> B"
  shows "(x, y) \<in> s\<^sup>+ \<and> y \<in> B"
  using assms(1,2)
proof (induction rule: trancl_induct)
  case (base y)
  then show ?case using assms(3) by blast
next
  case (step y z)
  then have "(y, z) \<in> s \<and> z \<in> B" using assms(3) by blast
  then show ?case using step by (meson trancl.trancl_into_trancl)
qed

lemma dfs_inv_black:
  assumes inv: "dfs_inv adj st" and "st node \<noteq> 2" and succ: "\<forall>w\<in>set (adj node). st w = 2"
  shows "dfs_inv adj (st(node := 2))"
proof -
  let ?B = "{v. st v = 2}"
  let ?r = "black_edges adj (st(node := 2))"
  have closed: "(a, b) \<in> black_edges adj st \<and> b \<in> ?B" if "(a, b) \<in> ?r" "a \<in> ?B" for a b
    using that inv assms(2) by (auto simp: black_edges_def dfs_inv_def split: if_splits)
  have "(x, x) \<notin> ?r\<^sup>+" for x
  proof
    assume c: "(x, x) \<in> ?r\<^sup>+"
    show False
    proof (cases "x \<in> ?B")
      case True
      then have "(x, x) \<in> (black_edges adj st)\<^sup>+" using trancl_stays [OF c _ closed] by blast
      then show False using inv by (auto simp: dfs_inv_def acyclic_def)
    next
      case False
      then have x: "x = node" using c by (auto dest!: tranclD simp: black_edges_def split: if_splits)
      obtain y where y: "(x, y) \<in> ?r" "(y, x) \<in> ?r\<^sup>*" using tranclD [OF c] by blast
      then have "y \<in> ?B" using x succ by (auto simp: black_edges_def)
      then have "x \<in> ?B" using y(2) trancl_stays [OF _ _ closed] by (metis rtranclD)
      then show False using False by blast
    qed
  qed
  then have "acyclic ?r" by (simp add: acyclic_def)
  then show ?thesis using inv succ by (auto simp: dfs_inv_def)
qed

section \<open>Soundness\<close>

lemma dfs_sound:
  "\<lbrakk>checkCycle n adj node path st = (None, st'); dfs_inv adj st; st node = 0\<rbrakk> \<Longrightarrow>
     dfs_inv adj st' \<and> advances st st' \<and> st' node = 2"
  "\<lbrakk>checkNeighbors n adj path vs st = (None, st'); dfs_inv adj st\<rbrakk> \<Longrightarrow>
     dfs_inv adj st' \<and> advances st st' \<and> (\<forall>v\<in>set vs. st' v = 2)"
proof (induction n adj node path st and n adj path vs st arbitrary: st' and st'
    rule: checkCycle_checkNeighbors.induct)
  case (2 n adj node path st)
  then obtain st1 where c: "checkNeighbors n adj (path @ [node]) (adj node) (st(node := 1)) = (None, st1)"
    and st': "st' = st1(node := 2)" by (auto split: prod.splits option.splits)
  have "black_edges adj (st(node := 1)) = black_edges adj st"
    using 2(4) by (auto simp: black_edges_def split: if_splits)
  then have d: "dfs_inv adj (st(node := 1))" using 2(3,4) by (auto simp: dfs_inv_def)
  have i: "dfs_inv adj st1" "advances (st(node := 1)) st1" "\<forall>v\<in>set (adj node). st1 v = 2"
    using 2(1) [OF c d] by blast+
  then have "st1 node = 1" by (auto simp: advances_def)
  then have "dfs_inv adj st'" unfolding st' using dfs_inv_black i(1,3) by simp
  moreover have "advances st st'" using i(2) 2(4) by (auto simp: advances_def st')
  moreover have "st' node = 2" by (simp add: st')
  ultimately show ?case by blast
next
  case (4 n adj path v vs st)
  show ?case
  proof (cases "st v = 0")
    case True
    then obtain st1 where c: "checkCycle n adj v path st = (None, st1)"
      and r: "checkNeighbors n adj path vs st1 = (None, st')"
      using 4(4) by (auto split: prod.splits option.splits)
    have i: "dfs_inv adj st1" "advances st st1" "st1 v = 2" using 4(1) [OF _ True c 4(5) True] True by auto
    from 4(2) [OF _ True c [symmetric] refl r i(1)] True i
    show ?thesis by (auto intro: advances_trans simp: advances_def)
  next
    case False
    then have r: "checkNeighbors n adj path vs st = (None, st')" "st v \<noteq> 1"
      using 4(4) by (auto split: if_splits)
    moreover have "st v \<le> 2" using 4(5) by (simp add: dfs_inv_def)
    then have "st v = 2" using False r(2) by linarith
    ultimately show ?thesis using 4(3) [OF r(2) False r(1) 4(5)] by (auto simp: advances_def)
  qed
qed auto

lemma check_all_sound:
  "check_all n adj is st = None \<Longrightarrow> dfs_inv adj st \<Longrightarrow> \<forall>v. st v \<noteq> 1 \<Longrightarrow>
   \<exists>st'. dfs_inv adj st' \<and> (\<forall>i\<in>set is. st' i = 2) \<and> (\<forall>v. st v = 2 \<longrightarrow> st' v = 2)"
proof (induction "is" arbitrary: st)
  case (Cons i "is")
  show ?case
  proof (cases "st i = 0")
    case True
    then obtain st1 where c: "checkCycle n adj i [] st = (None, st1)" and r: "check_all n adj is st1 = None"
      using Cons.prems(1) by (auto split: prod.splits option.splits)
    have i: "dfs_inv adj st1" "advances st st1" "st1 i = 2" using dfs_sound(1) [OF c Cons.prems(2) True] by auto
    then have "\<forall>v. st1 v \<noteq> 1" using Cons.prems(3) by (auto simp: advances_def)
    from Cons.IH [OF r i(1) this] i show ?thesis by (auto simp: advances_def)
  next
    case False
    moreover have "st i \<le> 2" "st i \<noteq> 1" using Cons.prems(2,3) by (simp_all add: dfs_inv_def)
    ultimately have "st i = 2" by linarith
    then show ?thesis using Cons.IH [OF _ Cons.prems(2,3)] Cons.prems(1) False by auto
  qed
qed auto

section \<open>Completeness\<close>

text \<open>
  The agents on the path are exactly the ones being visited, and each of them reaches the
  last one.
\<close>

definition path_inv :: "(string \<Rightarrow> string list) \<Rightarrow> string list \<Rightarrow> colours \<Rightarrow> bool" where
  "path_inv adj path st \<longleftrightarrow> (\<forall>v. st v = 1 \<longleftrightarrow> v \<in> set path) \<and>
     (\<forall>v\<in>set path. (v, last path) \<in> (edges adj)\<^sup>*)"

lemma path_inv_extend:
  assumes "path_inv adj path st" and "path = [] \<or> node \<in> set (adj (last path))" and "st node = 0"
  shows "path_inv adj (path @ [node]) (st(node := 1))"
proof -
  have "(v, node) \<in> (edges adj)\<^sup>*" if "v \<in> set path" for v
  proof -
    have "(v, last path) \<in> (edges adj)\<^sup>*" using assms(1) that by (simp add: path_inv_def)
    moreover have "(last path, node) \<in> edges adj" using assms(2) that by (auto simp: edges_def)
    ultimately show ?thesis by (rule rtrancl_into_rtrancl)
  qed
  then show ?thesis using assms(1,3) by (auto simp: path_inv_def)
qed

lemma dfs_complete:
  "\<lbrakk>checkCycle n adj node path st = (Some e, st'); e \<noteq> Out_of_fuel; path_inv adj path st;
    path = [] \<or> node \<in> set (adj (last path)); st node = 0; dfs_inv adj st\<rbrakk> \<Longrightarrow> \<not> acyclic (edges adj)"
  "\<lbrakk>checkNeighbors n adj path vs st = (Some e, st'); e \<noteq> Out_of_fuel; path_inv adj path st;
    path \<noteq> []; set vs \<subseteq> set (adj (last path)); dfs_inv adj st\<rbrakk> \<Longrightarrow> \<not> acyclic (edges adj)"
proof (induction n adj node path st and n adj path vs st arbitrary: st' and st'
    rule: checkCycle_checkNeighbors.induct)
  case (2 n adj node path st)
  then have c: "checkNeighbors n adj (path @ [node]) (adj node) (st(node := 1)) = (Some e, st')"
    by (auto split: prod.splits option.splits)
  have p: "path_inv adj (path @ [node]) (st(node := 1))" using path_inv_extend 2(4,5,6) by blast
  have "black_edges adj (st(node := 1)) = black_edges adj st"
    using 2(6) by (auto simp: black_edges_def split: if_splits)
  then have d: "dfs_inv adj (st(node := 1))" using 2(6,7) by (auto simp: dfs_inv_def)
  show ?case by (rule 2(1) [OF c 2(3) p _ _ d]) simp_all
next
  case (4 n adj path v vs st)
  consider "st v = 1" | "st v = 0" | "st v \<noteq> 1" "st v \<noteq> 0" by blast
  then show ?case
  proof cases
    case 1
    then have "(v, last path) \<in> (edges adj)\<^sup>*" using 4(6) by (simp add: path_inv_def)
    moreover have "(last path, v) \<in> edges adj" using 4(8) by (simp add: edges_def)
    ultimately have "(v, v) \<in> (edges adj)\<^sup>+" by (rule rtrancl_into_trancl1)
    then show ?thesis by (auto simp: acyclic_def)
  next
    case 2
    show ?thesis
    proof (cases "checkCycle n adj v path st")
      case (Pair r st1)
      show ?thesis
      proof (cases r)
        case None
        have c: "checkCycle n adj v path st = (None, st1)" using Pair None by simp
        have i: "dfs_inv adj st1" "advances st st1" using dfs_sound(1) [OF c 4(9) 2] by auto
        then have p: "path_inv adj path st1" using 4(6) by (simp add: path_inv_def advances_def)
        have r: "checkNeighbors n adj path vs st1 = (Some e, st')" using 4(4) 2 c by simp
        show ?thesis
          using 4(2) [OF _ 2 c [symmetric] refl r 4(5) p 4(7) _ i(1)] 4(8) 2 by simp
      next
        case (Some e')
        then have "checkCycle n adj v path st = (Some e, st')" using 4(4) 2 Pair by simp
        from 4(1) [OF _ 2 this 4(5,6) _ 2 4(9)] 4(8) 2 show ?thesis by simp
      qed
    qed
  next
    case 3
    then have r: "checkNeighbors n adj path vs st = (Some e, st')" using 4(4) by (auto split: if_splits)
    show ?thesis using 4(3) [OF 3 r 4(5,6,7) _ 4(9)] 4(8) by simp
  qed
qed auto

lemma check_all_complete:
  "check_all n adj is st = Some e \<Longrightarrow> e \<noteq> Out_of_fuel \<Longrightarrow> dfs_inv adj st \<Longrightarrow> \<forall>v. st v \<noteq> 1 \<Longrightarrow>
   \<not> acyclic (edges adj)"
proof (induction "is" arbitrary: st)
  case (Cons i "is")
  show ?case
  proof (cases "st i = 0")
    case True
    obtain r st1 where c: "checkCycle n adj i [] st = (r, st1)" by fastforce
    show ?thesis
    proof (cases r)
      case None
      then have i: "dfs_inv adj st1" "advances st st1" using dfs_sound(1) [of n adj i "[]" st st1] c Cons.prems(3) True by auto
      then have "\<forall>v. st1 v \<noteq> 1" using Cons.prems(4) by (auto simp: advances_def)
      then show ?thesis using Cons.IH [OF _ Cons.prems(2) i(1)] Cons.prems(1) True c None by simp
    next
      case (Some e')
      then have "checkCycle n adj i [] st = (Some e, st1)" using c Cons.prems(1) True by simp
      moreover have "path_inv adj [] st" using Cons.prems(4) by (simp add: path_inv_def)
      ultimately show ?thesis using dfs_complete(1) Cons.prems(2,3) True by blast
    qed
  next
    case False
    then show ?thesis using Cons by simp
  qed
qed simp

section \<open>Fuel\<close>

definition unvisited :: "string set \<Rightarrow> colours \<Rightarrow> string set" where
  "unvisited U st = {v \<in> U. st v = 0}"

lemma unvisited_finite: "finite U \<Longrightarrow> finite (unvisited U st)"
  by (simp add: unvisited_def)

lemma unvisited_mono: "(\<And>v. st' v = 0 \<Longrightarrow> st v = 0) \<Longrightarrow> finite U \<Longrightarrow> card (unvisited U st') \<le> card (unvisited U st)"
  by (rule card_mono) (auto simp: unvisited_def)

lemma dfs_fuel:
  "\<lbrakk>finite U; \<forall>v\<in>U. set (adj v) \<subseteq> U; node \<in> U; st node = 0; card (unvisited U st) \<le> n\<rbrakk> \<Longrightarrow>
     fst (checkCycle n adj node path st) \<noteq> Some Out_of_fuel \<and>
     (\<forall>v. st v \<noteq> 0 \<longrightarrow> snd (checkCycle n adj node path st) v \<noteq> 0)"
  "\<lbrakk>finite U; \<forall>v\<in>U. set (adj v) \<subseteq> U; set vs \<subseteq> U; card (unvisited U st) \<le> n\<rbrakk> \<Longrightarrow>
     fst (checkNeighbors n adj path vs st) \<noteq> Some Out_of_fuel \<and>
     (\<forall>v. st v \<noteq> 0 \<longrightarrow> snd (checkNeighbors n adj path vs st) v \<noteq> 0)"
proof (induction n adj node path st and n adj path vs st rule: checkCycle_checkNeighbors.induct)
  case (1 adj node path st)
  then have "node \<in> unvisited U st" by (simp add: unvisited_def)
  then show ?case using 1(5) unvisited_finite [OF 1(1)] by auto
next
  case (2 n adj node path st)
  have "node \<in> unvisited U st" using 2(4,5) by (simp add: unvisited_def)
  moreover have "unvisited U (st(node := 1)) = unvisited U st - {node}" by (auto simp: unvisited_def)
  ultimately have "card (unvisited U (st(node := 1))) \<le> n"
    using 2(6) unvisited_finite [OF 2(2), of st] by (simp add: card_Diff_singleton)
  with 2 have "fst (checkNeighbors n adj (path @ [node]) (adj node) (st(node := 1))) \<noteq> Some Out_of_fuel"
    "\<forall>v. (st(node := 1)) v \<noteq> 0 \<longrightarrow> snd (checkNeighbors n adj (path @ [node]) (adj node) (st(node := 1))) v \<noteq> 0"
    by blast+
  then show ?case by (auto split: prod.splits option.splits)
next
  case (4 n adj path v vs st)
  show ?case
  proof (cases "st v = 0")
    case True
    obtain r st1 where c: "checkCycle n adj v path st = (r, st1)" by fastforce
    have i: "r \<noteq> Some Out_of_fuel" "\<forall>v. st v \<noteq> 0 \<longrightarrow> st1 v \<noteq> 0"
      using 4(1) [OF _ True 4(4,5)] 4(6,7) True c by auto
    show ?thesis
    proof (cases r)
      case None
      have "card (unvisited U st1) \<le> n" using unvisited_mono [of st1 st U] i(2) 4(4,7) by (meson order_trans)
      then show ?thesis using 4(2) [OF _ True c [symmetric] None 4(4,5)] 4(6) c None True i(2) by auto
    next
      case (Some e)
      then show ?thesis using c i True by simp
    qed
  next
    case False
    then show ?thesis using 4(3) [OF _ False 4(4,5)] 4(6,7) by auto
  qed
qed auto

lemma check_all_fuel:
  "\<lbrakk>finite U; \<forall>v\<in>U. set (adj v) \<subseteq> U; set is \<subseteq> U; card U \<le> n\<rbrakk> \<Longrightarrow> check_all n adj is st \<noteq> Some Out_of_fuel"
proof (induction "is" arbitrary: st)
  case (Cons i "is")
  have "card (unvisited U st) \<le> n"
    using Cons.prems(1,4) card_mono [of U "unvisited U st"] by (auto simp: unvisited_def)
  then have "fst (checkCycle n adj i [] st) \<noteq> Some Out_of_fuel" if "st i = 0"
    using dfs_fuel(1) [OF Cons.prems(1,2), of i st n "[]"] that Cons.prems(3) by simp
  then show ?case using Cons by (auto split: prod.splits option.splits)
qed simp

section \<open>The fallback check\<close>

definition references_ok :: "Config \<Rightarrow> bool" where
  "references_ok c \<longleftrightarrow> (\<forall>a\<in>set (cfg_Agents c). \<forall>f\<in>set (ag_FallbackAgentIDs a). f \<in> set (agent_ids c) \<and> f \<noteq> ag_ID a)"

lemma check_references_None: "check_references ids a fs = None \<longleftrightarrow> (\<forall>f\<in>set fs. f \<in> set ids \<and> f \<noteq> a)"
  by (induction fs) auto

lemma validate_references_None:
  "validate_references ids as = None \<longleftrightarrow>
     (\<forall>a\<in>set as. \<forall>f\<in>set (ag_FallbackAgentIDs a). f \<in> set ids \<and> f \<noteq> ag_ID a)"
  by (induction as) (auto split: option.splits simp: check_references_None simp flip: not_None_eq)

lemma dfs_inv_init: "dfs_inv adj (\<lambda>_. 0)"
  by (simp add: dfs_inv_def black_edges_def acyclic_def)

lemma adj_of_subset:
  assumes "references_ok c"
  shows "set (adj_of (cfg_Agents c) v) \<subseteq> set (agent_ids c)"
proof (cases "find (\<lambda>a. ag_ID a = v) (rev (cfg_Agents c))")
  case (Some a)
  then have "a \<in> set (cfg_Agents c)" using find_SomeD [OF Some] by simp
  then show ?thesis using assms Some by (auto simp: adj_of_def references_ok_def)
qed (simp add: adj_of_def)

lemma adj_of_dom:
  assumes "w \<in> set (adj_of as v)"
  shows "v \<in> set (map ag_ID as)"
proof (cases "find (\<lambda>a. ag_ID a = v) (rev as)")
  case (Some a)
  then show ?thesis using find_SomeD [OF Some] by auto
qed (use assms in \<open>simp add: adj_of_def\<close>)

lemma validate_fallbacks_iff:
  "validate_fallbacks c = None \<longleftrightarrow> references_ok c \<and> acyclic (edges (adj_of (cfg_Agents c)))"
proof (cases "references_ok c")
  case True
  let ?adj = "adj_of (cfg_Agents c)"
  have refs: "validate_references (agent_ids c) (cfg_Agents c) = None"
    using True by (simp add: validate_references_None references_ok_def)
  have nofuel: "check_all (length (cfg_Agents c)) ?adj (agent_ids c) (\<lambda>_. 0) \<noteq> Some Out_of_fuel"
    using adj_of_subset [OF True] card_length [of "agent_ids c"]
    by (intro check_all_fuel [of "set (agent_ids c)"]) (auto simp: agent_ids_def)
  show ?thesis
  proof (cases "check_all (length (cfg_Agents c)) ?adj (agent_ids c) (\<lambda>_. 0)")
    case None
    from check_all_sound [OF None dfs_inv_init]
    obtain st where st: "dfs_inv ?adj st" "\<forall>i\<in>set (agent_ids c). st i = 2" by auto
    have "edges ?adj \<subseteq> black_edges ?adj st"
      using st(2) adj_of_dom by (fastforce simp: edges_def black_edges_def agent_ids_def)
    then have "acyclic (edges ?adj)" using st(1) acyclic_subset by (auto simp: dfs_inv_def)
    then show ?thesis using True refs None by (simp add: validate_fallbacks_def)
  next
    case (Some e)
    then have "\<not> acyclic (edges ?adj)"
      using nofuel by (intro check_all_complete [OF Some _ dfs_inv_init]) auto
    then show ?thesis using Some refs by (simp add: validate_fallbacks_def)
  qed
next
  case False
  then have "validate_references (agent_ids c) (cfg_Agents c) \<noteq> None"
    by (simp only: validate_references_None references_ok_def not_False_eq_True)
  then show ?thesis using False by (auto simp: validate_fallbacks_def)
qed

end
