(* ===== verification/Config_Claims.thy ===== *)
theory Config_Claims
  imports Config_Cycles
begin

text \<open>
  The properties of the configuration: what a configuration that \<open>Load\<close> accepts guarantees to
  the dispatcher, to the access control and to the worker, and the behaviour of the
  environment expansion and of the defaults.
\<close>

section \<open>What each part of the validation establishes\<close>

lemma case_None: "(case x of Some e \<Rightarrow> Some e | None \<Rightarrow> y) = None \<longleftrightarrow> x = None \<and> y = None"
  by (cases x) simp_all

definition agent_ok :: "AgentConfig \<Rightarrow> bool" where
  "agent_ok a \<longleftrightarrow> ag_ID a \<noteq> [] \<and> ag_Type a \<in> agent_types \<and> 0 \<le> ag_Retries a \<and> ag_Retries a \<le> 10 \<and>
     0 \<le> ag_TimeoutSeconds a \<and> (ag_Type a = ''custom'' \<longrightarrow> ag_Mapping a \<noteq> None) \<and>
     (auth_Type (ag_Auth a) = ''header'' \<longrightarrow>
        isValidHeaderFieldName (auth_HeaderName (ag_Auth a)) \<and> auth_HeaderValue (ag_Auth a) \<noteq> []) \<and>
     (auth_Type (ag_Auth a) = ''bearer'' \<longrightarrow> auth_Token (ag_Auth a) \<noteq> [])"

lemma trim_space_Nil: "trim_space [] = []"
  by (simp add: trim_space_eq_Nil runes_def)

lemma validate_agent_None:
  assumes "validate_agent U p ids a = None"
  shows "agent_ok a" and "ag_ID a \<notin> set ids" and "validate_endpoint p a = None"
proof -
  have "validate_auth a = None" "validate_mapping U a = None" "validate_endpoint p a = None"
    and r: "ag_ID a \<noteq> []" "ag_ID a \<notin> set ids" "ag_Type a \<in> agent_types" "0 \<le> ag_Retries a" "ag_Retries a \<le> 10"
      "0 \<le> ag_TimeoutSeconds a"
    using assms by (auto simp: validate_agent_def case_None not_less split: if_splits)
  then show "validate_endpoint p a = None" "ag_ID a \<notin> set ids" by simp_all
  show "agent_ok a"
    using r \<open>validate_auth a = None\<close> \<open>validate_mapping U a = None\<close>
    by (auto simp: agent_ok_def validate_auth_def validate_mapping_def trim_space_Nil Let_def split: if_splits option.splits)
qed

lemma validate_endpoint_None:
  assumes "validate_endpoint p a = None"
  shows "\<exists>u. p (ag_Endpoint a) = Some u \<and> (url_Scheme u = ''http'' \<or> url_Scheme u = ''https'') \<and>
    url_Hostname u \<noteq> [] \<and> \<not> url_has_User u \<and> url_Fragment u = []"
proof (cases "p (ag_Endpoint a)")
  case None
  then show ?thesis using assms by (simp add: validate_endpoint_def split: if_splits)
next
  case (Some u)
  then show ?thesis
    using assms by (simp add: validate_endpoint_def del: bex_simps split: if_splits)
qed

lemma validate_agents_None:
  "validate_agents U p ids as = None \<Longrightarrow>
     (\<forall>a\<in>set as. agent_ok a \<and> validate_endpoint p a = None) \<and> distinct (map ag_ID as) \<and> set (map ag_ID as) \<inter> set ids = {}"
proof (induction as arbitrary: ids)
  case (Cons a as)
  then have a: "validate_agent U p ids a = None" and r: "validate_agents U p (ag_ID a # ids) as = None"
    by (simp_all add: case_None)
  from Cons.IH [OF r] validate_agent_None [OF a] show ?case by auto
qed simp

lemma validate_keys_None:
  "validate_keys ids i seen ks = None \<Longrightarrow>
     distinct (map key_Key ks) \<and> set (map key_Key ks) \<inter> set seen = {} \<and>
     (\<forall>k\<in>set ks. trim_space (key_Key k) \<noteq> [] \<and> (\<forall>a\<in>set (key_AllowedAgents k). a = ''*'' \<or> a \<in> set ids))"
proof (induction ks arbitrary: i seen)
  case (Cons k ks)
  then have k: "trim_space (key_Key k) \<noteq> []" "key_Key k \<notin> set seen"
      "find (\<lambda>a. a \<noteq> ''*'' \<and> a \<notin> set ids) (key_AllowedAgents k) = None"
    and r: "validate_keys ids (i + 1) (key_Key k # seen) ks = None"
    by (auto split: if_splits option.splits)
  from Cons.IH [OF r] k show ?case by (auto simp: find_None_iff)
qed simp

definition worker_ok :: "WorkerConfig \<Rightarrow> bool" where
  "worker_ok w \<longleftrightarrow>
     (w_WorkerID w = [] \<or> proper_id MaxLeaseOwnerLength (w_WorkerID w)) \<and>
     1 \<le> w_BatchSize w \<and> w_BatchSize w \<le> w_Concurrency w \<and> w_Concurrency w \<le> 1000 \<and>
     validateJobBatchSize (w_BatchSize w) = None \<and>
     PollInterval w = w_PollIntervalMilliseconds w * millisecond \<and> 0 < PollInterval w \<and>
     LeaseDuration w = w_LeaseDurationSeconds w * second \<and> validateLeaseDuration (LeaseDuration w) = None \<and>
     0 < RenewalInterval w \<and> 2 * RenewalInterval w \<le> LeaseDuration w \<and>
     0 < RetryBackoff w \<and> RetryBackoff w \<le> MaxRetryBackoff \<and>
     DrainTimeout w = w_DrainTimeoutSeconds w * second \<and> 0 < DrainTimeout w"

lemma wrap64_mult: "0 \<le> x \<Longrightarrow> x \<le> 1000000 \<Longrightarrow> 0 \<le> k \<Longrightarrow> k \<le> 1000000000 \<Longrightarrow> wrap64 (x * k) = x * k"
proof (rule wrap64_id)
  assume "0 \<le> x" "x \<le> 1000000" "0 \<le> k" "k \<le> (1000000000 :: int)"
  then have "0 \<le> x * k" "x * k \<le> 1000000 * 1000000000" by (simp, intro mult_mono) simp_all
  then show "- (2 ^ 63) \<le> x * k" "x * k < 2 ^ 63" by simp_all
qed

lemma validate_worker_fields_None:
  assumes "validate_worker_fields w = None"
  shows "worker_ok w"
proof -
  have b: "w_WorkerID w = [] \<or> proper_id MaxLeaseOwnerLength (w_WorkerID w)"
    "1 \<le> w_BatchSize w" "w_BatchSize w \<le> w_Concurrency w" "w_Concurrency w \<le> 1000"
    "w_BatchSize w \<le> MaxJobBatchSize"
    "0 < w_PollIntervalMilliseconds w" "w_PollIntervalMilliseconds w \<le> 600000"
    "2 \<le> w_LeaseDurationSeconds w" "w_LeaseDurationSeconds w \<le> 86400"
    "0 < w_RenewalIntervalSeconds w" "w_RenewalIntervalSeconds w \<le> w_LeaseDurationSeconds w div 2"
    "0 < w_RetryBackoffSeconds w" "w_RetryBackoffSeconds w \<le> 604800"
    "0 < w_DrainTimeoutSeconds w" "w_DrainTimeoutSeconds w \<le> 3600"
    using assms
    by (auto simp: validate_worker_fields_def proper_id_def MaxWorkerPollIntervalMilliseconds_def
        MaxWorkerDrainTimeoutSeconds_def MaxJobLeaseDuration_def MaxRetryBackoff_def hour_def second_def
        go_div_nonneg not_less not_le split: if_splits)
  have "PollInterval w = w_PollIntervalMilliseconds w * millisecond" "LeaseDuration w = w_LeaseDurationSeconds w * second"
    "RenewalInterval w = w_RenewalIntervalSeconds w * second" "RetryBackoff w = w_RetryBackoffSeconds w * second"
    "DrainTimeout w = w_DrainTimeoutSeconds w * second"
    using b by (simp_all add: PollInterval_def LeaseDuration_def RenewalInterval_def RetryBackoff_def
        DrainTimeout_def wrap64_mult millisecond_def second_def)
  then show ?thesis
    using b by (simp add: worker_ok_def validateJobBatchSize_def validateLeaseDuration_def millisecond_def
        second_def MaxJobLeaseDuration_def MaxRetryBackoff_def hour_def)
qed

lemma default_worker_nonzero: "default_worker w \<noteq> zero_worker"
proof
  assume "default_worker w = zero_worker"
  then have "w_Concurrency (default_worker w) = 0" by (simp add: zero_worker_def)
  then show False by (simp add: default_worker_def dflt_def split: if_splits)
qed

lemma Validate_None:
  "Validate U p c = None \<longleftrightarrow> validate_role c = None \<and> validate_agents U p [] (cfg_Agents c) = None \<and>
     validate_security c = None \<and> validate_fallbacks c = None \<and> validate_storage c = None \<and> validate_worker c = None"
  by (simp add: Validate_def case_None)

lemma Load_accepted:
  assumes "Load U p rf env um path = Inr c"
  shows "\<exists>c0. c = applyDefaults c0 \<and> Validate U p c = None"
  using assms by (auto simp: Load_def Let_def split: option.splits)

section \<open>Properties\<close>

text \<open>
  C13. The cycle check is exact: the fallback part of \<open>Validate\<close> accepts a configuration if and
  only if every fallback names another configured agent and the fallback graph has no
  cycle; the search always ends within the depth that the number of agents allows.
\<close>

theorem fallback_check_exact:
  "validate_fallbacks c = None \<longleftrightarrow> references_ok c \<and> acyclic (edges (adj_of (cfg_Agents c)))"
  by (rule validate_fallbacks_iff)

text \<open>
  C14. An accepted configuration is safe to dispatch on: agent identifiers are non-empty and
  unique, every agent has a known type, between 0 and 10 retries, a positive timeout and an
  absolute HTTP endpoint with a host and without credentials or fragment, the fallback
  graph is closed and acyclic, and with security enabled the keys are unique, not blank and
  grant only configured agents.
\<close>

theorem loaded_config_safe:
  assumes "Load U parse_url rf env um path = Inr c"
  shows "distinct (agent_ids c) \<and>
    (\<forall>a\<in>set (cfg_Agents c). agent_ok a \<and> 0 < ag_TimeoutSeconds a \<and>
       (\<exists>u. parse_url (ag_Endpoint a) = Some u \<and> (url_Scheme u = ''http'' \<or> url_Scheme u = ''https'') \<and>
          url_Hostname u \<noteq> [] \<and> \<not> url_has_User u \<and> url_Fragment u = [])) \<and>
    references_ok c \<and> acyclic (edges (adj_of (cfg_Agents c))) \<and>
    (sec_Enabled (cfg_Security c) \<longrightarrow> sec_APIKeys (cfg_Security c) \<noteq> [] \<and>
       distinct (map key_Key (sec_APIKeys (cfg_Security c))) \<and>
       (\<forall>k\<in>set (sec_APIKeys (cfg_Security c)). trim_space (key_Key k) \<noteq> [] \<and>
          (\<forall>a\<in>set (key_AllowedAgents k). a = ''*'' \<or> a \<in> set (agent_ids c))))"
proof -
  obtain c0 where c0: "c = applyDefaults c0" and v: "Validate U parse_url c = None"
    using Load_accepted [OF assms] by blast
  note v = v [unfolded Validate_None]
  have ags: "\<forall>a\<in>set (cfg_Agents c). agent_ok a \<and> validate_endpoint parse_url a = None"
    and ids: "distinct (agent_ids c)"
    using validate_agents_None [of U parse_url "[]" "cfg_Agents c"] v by (simp_all add: agent_ids_def)
  have "ag_TimeoutSeconds a \<noteq> 0" if "a \<in> set (cfg_Agents c)" for a
    using that by (auto simp: c0 applyDefaults_def default_agent_def dflt_def split: if_splits)
  then have t: "0 < ag_TimeoutSeconds a" if "a \<in> set (cfg_Agents c)" for a
    using that ags by (force simp: agent_ok_def)
  have u: "\<exists>u. parse_url (ag_Endpoint a) = Some u \<and> (url_Scheme u = ''http'' \<or> url_Scheme u = ''https'') \<and>
          url_Hostname u \<noteq> [] \<and> \<not> url_has_User u \<and> url_Fragment u = []" if "a \<in> set (cfg_Agents c)" for a
    using validate_endpoint_None ags that by blast
  have "validate_security c = None" using v by blast
  then have s: "sec_Enabled (cfg_Security c) \<longrightarrow> sec_APIKeys (cfg_Security c) \<noteq> [] \<and>
      validate_keys (agent_ids c) 0 [] (sec_APIKeys (cfg_Security c)) = None"
    by (auto simp: validate_security_def split: if_splits)
  show ?thesis
    using ids ags t u s validate_keys_None [of "agent_ids c" 0 "[]" "sec_APIKeys (cfg_Security c)"]
      v validate_fallbacks_iff [of c] by blast
qed

text \<open>
  Accepted worker settings are settings the job ledger accepts: the products that turn
  them into durations do not overflow, the batch size and the lease duration pass the
  checks of the ledger, two renewals fit in one lease, and the backoff is within the limit.
  The defaults make this hold for every loaded configuration, whatever its role.
\<close>

lemma loaded_worker_settings_accepted:
  assumes "Load U parse_url rf env um path = Inr c"
  shows "worker_ok (cfg_Worker c)"
proof -
  obtain c0 where c0: "c = applyDefaults c0" and "Validate U parse_url c = None"
    using Load_accepted [OF assms] by blast
  then have "validate_worker c = None" by (simp add: Validate_None)
  moreover have "cfg_Worker c \<noteq> zero_worker" using default_worker_nonzero by (simp add: c0 applyDefaults_def)
  ultimately have "validate_worker_fields (cfg_Worker c) = None"
    by (auto simp: validate_worker_def Let_def split: if_splits)
  then show ?thesis by (rule validate_worker_fields_None)
qed

text \<open>The configuration of an empty document: no agents, security off, the memory backend.\<close>

definition empty_config :: Config where
  "empty_config = \<lparr>cfg_Role = [],
     cfg_Server = \<lparr>sv_Host = [], sv_Port = 0, sv_ReadTimeoutSeconds = 0, sv_WriteTimeoutSeconds = 0, sv_IdleTimeoutSeconds = 0\<rparr>,
     cfg_Worker = zero_worker, cfg_Security = \<lparr>sec_Enabled = False, sec_APIKeys = []\<rparr>, cfg_Agents = [],
     cfg_Storage = \<lparr>st_Backend = [], st_Memory = \<lparr>mem_MaxTasks = 0\<rparr>, st_Postgres = zero_postgres\<rparr>\<rparr>"

lemma empty_config_loads:
  "Load ascii_tables (\<lambda>_. None) (\<lambda>_. Some []) (\<lambda>_. []) (\<lambda>_. Some empty_config) [] = Inr (applyDefaults empty_config)"
proof -
  have "Validate ascii_tables (\<lambda>_. None) (applyDefaults empty_config) = None"
    by (simp add: Validate_None validate_role_def validate_security_def validate_fallbacks_def validate_storage_def
        validate_worker_def validate_worker_fields_def effective_role_def effective_backend_def agent_ids_def
        applyDefaults_def default_worker_def default_server_def default_storage_def dflt_def empty_config_def
        zero_worker_def zero_postgres_def MaxJobBatchSize_def MaxWorkerPollIntervalMilliseconds_def
        MaxJobLeaseDuration_def MaxRetryBackoff_def MaxWorkerDrainTimeoutSeconds_def hour_def second_def
        go_div_nonneg Let_def)
  then show ?thesis by (simp add: Load_def Let_def)
qed

theorem loaded_config_safe_witness: "distinct (agent_ids (applyDefaults empty_config))"
  using loaded_config_safe [OF empty_config_loads] by blast

lemma loaded_worker_settings_accepted_witness: "worker_ok (cfg_Worker (applyDefaults empty_config))"
  by (rule loaded_worker_settings_accepted [OF empty_config_loads])

text \<open>
  Defaults are applied once: loading the printed form of a loaded configuration again
  changes nothing, since the defaults are idempotent.
\<close>

lemma applyDefaults_idempotent: "applyDefaults (applyDefaults c) = applyDefaults c"
  by (simp add: applyDefaults_def default_worker_def default_server_def default_agent_def default_storage_def
      default_postgres_def dflt_def Let_def comp_def)

text \<open>
  The environment expansion replaces every well-formed reference by the value of its
  variable, without expanding that value again, and leaves text without a dollar sign as
  it is.
\<close>

lemma match_var_ref:
  assumes "name \<noteq> []" and "is_var_start (hd name)" and "list_all is_var_char name"
  shows "match_var (''${'' @ name @ ''}'' @ rest) = Some (name, rest)"
proof -
  have b: "\<not> is_var_char CHR ''}''" by (simp add: is_var_char_def is_var_start_def)
  have t: "takeWhile is_var_char (name @ CHR ''}'' # rest) = name"
    using assms(3) b by (simp add: takeWhile_append list_all_iff)
  have d: "dropWhile is_var_char (name @ CHR ''}'' # rest) = CHR ''}'' # rest"
    using assms(3) b by (simp add: dropWhile_append list_all_iff)
  show ?thesis using assms(1,2) by (simp add: match_var_def has_prefix_def Let_def t d b)
qed

lemma expandEnv_plain: "CHR ''$'' \<notin> set s \<Longrightarrow> expandEnv env (s @ t) = s @ expandEnv env t"
  by (induction s) (auto simp: match_var_def has_prefix_def)

lemma expandEnv_references:
  assumes "CHR ''$'' \<notin> set s" and "name \<noteq> []" and "is_var_start (hd name)" and "list_all is_var_char name"
  shows "expandEnv env (s @ ''${'' @ name @ ''}'' @ rest) = s @ env name @ expandEnv env rest"
  using match_var_ref [OF assms(2-4), of rest] by (simp add: expandEnv_plain [OF assms(1)])

lemma expandEnv_references_witness:
  "expandEnv (\<lambda>n. if n = ''P'' then ''${P}'' else []) (''a'' @ ''${'' @ ''P'' @ ''}'' @ []) = ''a${P}''"
  using expandEnv_references [of "''a''" "''P''" "\<lambda>n. if n = ''P'' then ''${P}'' else []" "[]"]
  by (simp add: is_var_char_def is_var_start_def)

text \<open>
  The documented lower bound 0 of \<open>min_connections\<close> cannot be configured: an explicit 0 is taken
  for an absent value and becomes 2, so that a pool of one connection is rejected.
\<close>

lemma single_connection_pool_rejected:
  assumes "trim_space (pg_DSN p) \<noteq> []" and "pg_MaxConnections p = 1" and "pg_MinConnections p = 0"
  shows "validate_postgres (default_postgres p) = Some (Storage_error Bad_min_connections)"
  using assms by (simp add: validate_postgres_def default_postgres_def dflt_def)

end
