(* ===== verification/Dispatcher.thy ===== *)
theory Dispatcher
  imports Config_Validate Metrics_Registry Go_Errors
begin

text \<open>
  Routing, retries and failover, pkg/dispatcher/dispatcher.go and retry.go, with the adapter
  registry of pkg/adapter. Everything a dispatch does to the outside (HTTP calls, waiting,
  the clock, randomness, cancellation) goes through a state \<open>'w\<close> of the world and the
  operations of a record; an adapter is the record of its methods. The metrics registry is
  the one of Metrics_Registry. A ghost trace records each HTTP call with the agent it is
  made for, and each emitted stream event.

  The recursion over fallback agents carries fuel for its depth, which is shown to be
  enough when it is the number of configured agents.
\<close>

section \<open>Adapters and the world\<close>

record http_request =
  q_Method :: string
  q_URL :: string
  q_Header :: "(string \<times> string) list"
  q_Body :: bytes

record http_response =
  p_StatusCode :: int
  p_Header :: "(string \<times> string) list"
  p_Body :: bytes

text \<open>The timeout of the attempt's context, if it has one of its own, is the first argument.\<close>

record 'w Adapter =
  ad_Type :: string
  ad_TranslateRequest :: "go_duration option \<Rightarrow> AgentConfig \<Rightarrow> TaskRequest \<Rightarrow> 'w \<Rightarrow> 'w \<times> (go_err + http_request)"
  ad_TranslateResponse :: "go_duration option \<Rightarrow> AgentConfig \<Rightarrow> http_response \<Rightarrow> 'w \<Rightarrow> 'w \<times> (go_err + TaskResponse)"
  ad_TranslateStream :: "go_duration option \<Rightarrow> AgentConfig \<Rightarrow> http_response \<Rightarrow> 'w
     \<Rightarrow> 'w \<times> StreamEvent list \<times> go_err option"

type_synonym 'w adapters = "(string \<times> 'w Adapter) list"

definition Adapter_Register :: "'w Adapter \<Rightarrow> 'w adapters \<Rightarrow> 'w adapters" where
  "Adapter_Register a r = map_upd a (\<lambda>_. a) (ad_Type a) r"

definition Adapter_Get :: "string \<Rightarrow> 'w adapters \<Rightarrow> go_err + 'w Adapter" where
  "Adapter_Get t r = (case map_of r t of
     None \<Rightarrow> Inl (Err_text (''adapter type '' @ [CHR 0x27] @ t @ [CHR 0x27] @ '' not found''))
   | Some a \<Rightarrow> Inr a)"

definition Adapter_Count :: "'w adapters \<Rightarrow> nat" where
  "Adapter_Count r = length r"

record 'w world_ops =
  wo_ctx_err :: "'w \<Rightarrow> ctx_error option"      \<comment> \<open>\<open>ctx.Err()\<close>\<close>
  wo_now :: "'w \<Rightarrow> go_time"
  wo_do :: "go_duration option \<Rightarrow> http_request \<Rightarrow> 'w \<Rightarrow> 'w \<times> (go_err + http_response)"
  wo_wait :: "go_duration \<Rightarrow> 'w \<Rightarrow> 'w \<times> ctx_error option"   \<comment> \<open>timer or \<open>ctx.Done()\<close>\<close>
  wo_random :: "'w \<Rightarrow> 'w \<times> bytes"             \<comment> \<open>eight random bytes\<close>

section \<open>Backoff\<close>

text \<open>What the backoff uses of float64; the random jitter is an argument.\<close>

record 'f backoff_floats =
  bf_of_int :: "int \<Rightarrow> 'f"
  bf_less :: "'f \<Rightarrow> 'f \<Rightarrow> bool"
  bf_mul :: "'f \<Rightarrow> 'f \<Rightarrow> 'f"
  bf_pow :: "'f \<Rightarrow> int \<Rightarrow> 'f"
  bf_add :: "'f \<Rightarrow> 'f \<Rightarrow> 'f"
  bf_08 :: 'f
  bf_04 :: 'f
  bf_to_int :: "'f \<Rightarrow> int"

record 'f BackoffPolicy =
  bp_InitialInterval :: go_duration
  bp_Multiplier :: 'f
  bp_MaxInterval :: go_duration

definition DefaultBackoffPolicy :: "'f backoff_floats \<Rightarrow> 'f BackoffPolicy" where
  "DefaultBackoffPolicy F = \<lparr>bp_InitialInterval = 100 * millisecond, bp_Multiplier = bf_of_int F 2,
     bp_MaxInterval = 2 * second\<rparr>"

definition Backoff_Duration :: "'f backoff_floats \<Rightarrow> 'f \<Rightarrow> 'f BackoffPolicy option \<Rightarrow> int \<Rightarrow> go_duration" where
  "Backoff_Duration F rnd b attempt =
     (case b of None \<Rightarrow> 0 | Some p \<Rightarrow>
      if bp_InitialInterval p \<le> 0 \<or> attempt < 0 then 0
      else
        let mult = (if bf_less F (bp_Multiplier p) (bf_of_int F 1) then bf_of_int F 2 else bp_Multiplier p);
            d = bf_mul F (bf_of_int F (bp_InitialInterval p)) (bf_pow F mult attempt);
            d' = (if bp_MaxInterval p > 0 \<and> bf_less F (bf_of_int F (bp_MaxInterval p)) d
                  then bf_of_int F (bp_MaxInterval p) else d)
        in bf_to_int F (bf_mul F d' (bf_add F (bf_08 F) (bf_mul F rnd (bf_04 F)))))"

definition Backoff_Sleep :: "'w world_ops \<Rightarrow> go_duration \<Rightarrow> 'w \<Rightarrow> 'w \<times> ctx_error option" where
  "Backoff_Sleep W d w = (if d \<le> 0 then (w, wo_ctx_err W w) else wo_wait W d w)"

section \<open>The dispatcher\<close>

datatype dispatch_event = Called string | Emitted StreamEvent

text \<open>
  The state of a dispatch: the world, the metrics registry (if configured), the visited
  agents, whether the tracking emitter has emitted, and the ghost trace.
\<close>

record ('w, 'm) dstate =
  ds_world :: 'w
  ds_metrics :: "'m Registry option"
  ds_visited :: "string list"
  ds_hasEmitted :: bool
  ds_trace :: "dispatch_event list"

record 'w Dispatcher =
  d_cfg :: "Config option"
  d_reg :: "'w adapters"
  d_ops :: "'w world_ops"
  d_backoff :: "int \<Rightarrow> 'w \<Rightarrow> go_duration"   \<comment> \<open>\<open>Backoff_Duration\<close> with the jitter drawn from the world\<close>
  d_unicode :: unicode_tables

text \<open>
  \<open>New\<close> and the setters. The client is the operation \<open>wo_do\<close>; the policy becomes a function of
  the attempt and of the jitter, which is drawn from the world.
\<close>

definition SetBackoffPolicy :: "'f backoff_floats \<Rightarrow> ('w \<Rightarrow> 'f) \<Rightarrow> 'f BackoffPolicy option \<Rightarrow> 'w Dispatcher \<Rightarrow> 'w Dispatcher" where
  "SetBackoffPolicy F jitter b D = D\<lparr>d_backoff := (\<lambda>attempt w. Backoff_Duration F (jitter w) b attempt)\<rparr>"

definition SetHTTPClient ::
  "(go_duration option \<Rightarrow> http_request \<Rightarrow> 'w \<Rightarrow> 'w \<times> (go_err + http_response)) \<Rightarrow> 'w Dispatcher \<Rightarrow> 'w Dispatcher" where
  "SetHTTPClient client D = D\<lparr>d_ops := (d_ops D)\<lparr>wo_do := client\<rparr>\<rparr>"

definition SetMetricsRegistry :: "'m Registry option \<Rightarrow> ('w, 'm) dstate \<Rightarrow> ('w, 'm) dstate" where
  "SetMetricsRegistry reg st = st\<lparr>ds_metrics := reg\<rparr>"

definition Dispatcher_New ::
  "unicode_tables \<Rightarrow> 'w world_ops \<Rightarrow> 'f backoff_floats \<Rightarrow> ('w \<Rightarrow> 'f) \<Rightarrow> Config option \<Rightarrow> 'w adapters \<Rightarrow> 'w Dispatcher" where
  "Dispatcher_New U W F jitter cfg reg = SetBackoffPolicy F jitter (Some (DefaultBackoffPolicy F))
     \<lparr>d_cfg = cfg, d_reg = reg, d_ops = W, d_backoff = (\<lambda>_ _. 0), d_unicode = U\<rparr>"

definition now_of :: "'w Dispatcher \<Rightarrow> ('w, 'm) dstate \<Rightarrow> go_time" where
  "now_of D st = wo_now (d_ops D) (ds_world st)"

definition ctx_of :: "'w Dispatcher \<Rightarrow> ('w, 'm) dstate \<Rightarrow> ctx_error option" where
  "ctx_of D st = wo_ctx_err (d_ops D) (ds_world st)"

definition squote :: "string \<Rightarrow> string" where
  "squote s = CHR 0x27 # s @ [CHR 0x27]"

definition config_agents :: "'w Dispatcher \<Rightarrow> AgentConfig list" where
  "config_agents D = (case d_cfg D of None \<Rightarrow> [] | Some c \<Rightarrow> cfg_Agents c)"

definition GetAgent :: "'w Dispatcher \<Rightarrow> go_time \<Rightarrow> string \<Rightarrow> A2AError + AgentConfig" where
  "GetAgent D now agentID =
     (case find (\<lambda>a. ag_ID a = agentID) (config_agents D) of
        Some a \<Rightarrow> Inr a
      | None \<Rightarrow> Inl (a2a_error ''AGENT_NOT_FOUND'' (''agent '' @ squote agentID @ '' not found'') agentID 404 now))"

definition has_capability :: "unicode_tables \<Rightarrow> string \<Rightarrow> AgentConfig \<Rightarrow> bool" where
  "has_capability U targetCap a \<longleftrightarrow> (\<exists>c\<in>set (ag_Capabilities a). equal_fold U (trim_space c) targetCap)"

definition FindAgentByCapability :: "'w Dispatcher \<Rightarrow> go_time \<Rightarrow> string \<Rightarrow> A2AError + AgentConfig" where
  "FindAgentByCapability D now capability =
     (case find (has_capability (d_unicode D) (to_lower (d_unicode D) (trim_space capability))) (config_agents D) of
        Some a \<Rightarrow> Inr a
      | None \<Rightarrow> Inl (a2a_error ''CAPABILITY_NOT_FOUND''
                  (''no agent found with capability '' @ squote capability) [] 404 now))"

definition resolveAgent :: "'w Dispatcher \<Rightarrow> go_time \<Rightarrow> TaskRequest option \<Rightarrow> A2AError + AgentConfig" where
  "resolveAgent D now task =
     (case task of
        None \<Rightarrow> Inl (a2a_error ''INVALID_REQUEST'' ''task request must not be nil'' [] 400 now)
      | Some t \<Rightarrow>
          if tr_AgentID t \<noteq> [] then GetAgent D now (tr_AgentID t)
          else if tr_RequiredCapability t \<noteq> [] then FindAgentByCapability D now (tr_RequiredCapability t)
          else Inl (a2a_error ''INVALID_REQUEST'' ''either agent_id or required_capability must be specified'' [] 400 now))"

text \<open>\<open>generateTaskID\<close>: a prefix and eight random bytes in hexadecimal.\<close>

definition generateTaskID :: "'w world_ops \<Rightarrow> 'w \<Rightarrow> 'w \<times> string" where
  "generateTaskID W w = (let (w', b) = wo_random W w in (w', ''task-'' @ hex_encode b))"

definition attempt_timeout :: "AgentConfig \<Rightarrow> go_duration option" where
  "attempt_timeout a = (if ag_TimeoutSeconds a > 0 then Some (wrap64 (ag_TimeoutSeconds a * second)) else None)"

definition count_retry :: "string \<Rightarrow> ('w, 'm) dstate \<Rightarrow> ('w, 'm) dstate" where
  "count_retry agentID st = st\<lparr>ds_metrics := map_option (IncRetries [agentID]) (ds_metrics st)\<rparr>"

definition count_fallback :: "string \<Rightarrow> string \<Rightarrow> ('w, 'm) dstate \<Rightarrow> ('w, 'm) dstate" where
  "count_fallback a b st = st\<lparr>ds_metrics := map_option (IncFallbackTriggered [a, b]) (ds_metrics st)\<rparr>"

definition call_client ::
  "'w Dispatcher \<Rightarrow> AgentConfig \<Rightarrow> http_request \<Rightarrow> ('w, 'm) dstate \<Rightarrow> ('w, 'm) dstate \<times> (go_err + http_response)" where
  "call_client D a req st =
     (let (w, r) = wo_do (d_ops D) (attempt_timeout a) req (ds_world st)
      in (st\<lparr>ds_world := w, ds_trace := ds_trace st @ [Called (ag_ID a)]\<rparr>, r))"

text \<open>The part before an attempt: metrics and backoff, from the second attempt on.\<close>

definition before_attempt ::
  "'w Dispatcher \<Rightarrow> AgentConfig \<Rightarrow> int \<Rightarrow> ('w, 'm) dstate \<Rightarrow> ('w, 'm) dstate \<times> ctx_error option" where
  "before_attempt D a attempt st =
     (if attempt > 0 then
        (let st1 = count_retry (ag_ID a) st;
             (w, e) = Backoff_Sleep (d_ops D) (d_backoff D (attempt - 1) (ds_world st1)) (ds_world st1)
         in (st1\<lparr>ds_world := w\<rparr>, e))
      else (st, None))"

definition status_error :: "int \<Rightarrow> go_err" where
  "status_error code = Err_text (''downstream returned status '' @ show_int code)"

text \<open>Filling in the identifiers of a response.\<close>

definition complete_response ::
  "'w Dispatcher \<Rightarrow> TaskRequest \<Rightarrow> AgentConfig \<Rightarrow> TaskResponse \<Rightarrow> ('w, 'm) dstate \<Rightarrow> ('w, 'm) dstate \<times> TaskResponse" where
  "complete_response D task a r st =
     (let (st1, r1) =
            (if resp_TaskID r = [] then
               (if tr_ID task \<noteq> [] then (st, r\<lparr>resp_TaskID := tr_ID task\<rparr>)
                else (let (w, i) = generateTaskID (d_ops D) (ds_world st)
                      in (st\<lparr>ds_world := w\<rparr>, r\<lparr>resp_TaskID := i\<rparr>)))
             else (st, r))
      in (st1, if resp_AgentID r1 = [] then r1\<lparr>resp_AgentID := ag_ID a\<rparr> else r1))"

text \<open>The loop over attempts: \<open>n\<close> attempts are left, \<open>attempt\<close> counts up from 0.\<close>

fun attempt_loop ::
  "'w Dispatcher \<Rightarrow> 'w Adapter \<Rightarrow> TaskRequest \<Rightarrow> AgentConfig \<Rightarrow> nat \<Rightarrow> int \<Rightarrow> go_err option \<Rightarrow> ('w, 'm) dstate
     \<Rightarrow> ('w, 'm) dstate \<times> (go_err option + TaskResponse)" where
  "attempt_loop D ad task a 0 attempt lastErr st = (st, Inl lastErr)"
| "attempt_loop D ad task a (Suc n) attempt lastErr st =
     (let (st1, e) = before_attempt D a attempt st in
      case e of Some c \<Rightarrow> (st1, Inl (Some (Err_ctx c))) | None \<Rightarrow>
      let (w2, q) = ad_TranslateRequest ad (attempt_timeout a) a task (ds_world st1);
          st2 = st1\<lparr>ds_world := w2\<rparr> in
      case q of Inl err \<Rightarrow> (st2, Inl (Some (Err_wrap ''failed to translate request'' err))) | Inr req \<Rightarrow>
      let (st3, p) = call_client D a req st2 in
      case p of
        Inl err \<Rightarrow>
          (case ctx_of D st3 of
             Some c \<Rightarrow> (st3, Inl (Some (Err_ctx c)))
           | None \<Rightarrow> attempt_loop D ad task a n (attempt + 1) (Some err) st3)
      | Inr resp \<Rightarrow>
          if p_StatusCode resp \<ge> 500
          then attempt_loop D ad task a n (attempt + 1) (Some (status_error (p_StatusCode resp))) st3
          else
            let (w4, tr) = ad_TranslateResponse ad (attempt_timeout a) a resp (ds_world st3);
                st4 = st3\<lparr>ds_world := w4\<rparr> in
            case tr of
              Inl err \<Rightarrow> (st4, Inl (Some (Err_wrap ''failed to translate response'' err)))
            | Inr r \<Rightarrow> (let (st5, r') = complete_response D task a r st4 in (st5, Inr r')))"

definition max_retries :: "AgentConfig \<Rightarrow> nat" where
  "max_retries a = nat (if ag_Retries a < 0 then 0 else ag_Retries a)"

definition invokeAgentWithRetries ::
  "'w Dispatcher \<Rightarrow> TaskRequest \<Rightarrow> AgentConfig \<Rightarrow> ('w, 'm) dstate \<Rightarrow> ('w, 'm) dstate \<times> (go_err option + TaskResponse)" where
  "invokeAgentWithRetries D task a st =
     (case Adapter_Get (ag_Type a) (d_reg D) of
        Inl err \<Rightarrow> (st, Inl (Some (Err_wrap (''adapter error for agent '' @ ag_ID a) err)))
      | Inr ad \<Rightarrow> attempt_loop D ad task a (Suc (max_retries a)) 0 None st)"

section \<open>Fallback\<close>

text \<open>The result of a dispatch; \<open>D_fuel\<close> is the end of the fuel.\<close>

datatype 'a dresult = D_ok 'a | D_err go_err | D_fuel

definition is_timeout :: "go_err \<Rightarrow> bool" where
  "is_timeout err \<longleftrightarrow> is_deadline err \<or> contains (err_string err) ''context deadline exceeded''"

definition cycle_error :: "string \<Rightarrow> go_time \<Rightarrow> go_err" where
  "cycle_error i now = Err_a2a (a2a_error ''CYCLE_DETECTED'' (''fallback cycle detected for agent '' @ i) i 502 now)"

text \<open>The error of an exhausted cascade: cancellation first, then timeout, then unavailable.\<close>

definition cascade_error :: "'w Dispatcher \<Rightarrow> AgentConfig \<Rightarrow> go_err \<Rightarrow> ('w, 'm) dstate \<Rightarrow> go_err" where
  "cascade_error D a err st =
     (case ctx_of D st of
        Some c \<Rightarrow> Err_ctx c
      | None \<Rightarrow>
          if is_timeout err
          then Err_a2a (a2a_error ''DOWNSTREAM_TIMEOUT'' (''Agent timed out: '' @ err_string err) (ag_ID a) 504 (now_of D st))
          else Err_a2a (a2a_error ''DOWNSTREAM_UNAVAILABLE'' ''All attempts to invoke downstream agents failed''
                 (ag_ID a) 502 (now_of D st)))"

definition visit :: "string \<Rightarrow> ('w, 'm) dstate \<Rightarrow> ('w, 'm) dstate" where
  "visit i st = st\<lparr>ds_visited := i # ds_visited st\<rparr>"

text \<open>A nil error with a nil response cannot occur: the loop makes at least one attempt.\<close>

definition err_or_nil :: "go_err option \<Rightarrow> go_err" where
  "err_or_nil e = (case e of Some x \<Rightarrow> x | None \<Rightarrow> Err_text [])"

fun dispatchWithFallback ::
  "nat \<Rightarrow> 'w Dispatcher \<Rightarrow> TaskRequest \<Rightarrow> AgentConfig \<Rightarrow> ('w, 'm) dstate \<Rightarrow> ('w, 'm) dstate \<times> TaskResponse dresult"
  and fallback_loop ::
  "nat \<Rightarrow> 'w Dispatcher \<Rightarrow> TaskRequest \<Rightarrow> AgentConfig \<Rightarrow> go_err \<Rightarrow> string list \<Rightarrow> ('w, 'm) dstate
     \<Rightarrow> ('w, 'm) dstate \<times> TaskResponse dresult" where
  "dispatchWithFallback 0 D task a st = (st, D_fuel)"
| "dispatchWithFallback (Suc n) D task a st =
     (if ag_ID a \<in> set (ds_visited st) then (st, D_err (cycle_error (ag_ID a) (now_of D st)))
      else
        let (st1, r) = invokeAgentWithRetries D task a (visit (ag_ID a) st) in
        case r of
          Inr resp \<Rightarrow> (st1, D_ok resp)
        | Inl e \<Rightarrow>
            (case ctx_of D st1 of
               Some c \<Rightarrow> (st1, D_err (Err_ctx c))
             | None \<Rightarrow> fallback_loop n D task a (err_or_nil e) (ag_FallbackAgentIDs a) st1))"
| "fallback_loop n D task a err [] st = (st, D_err (cascade_error D a err st))"
| "fallback_loop n D task a err (f # fs) st =
     (case ctx_of D st of
        Some c \<Rightarrow> (st, D_err (Err_ctx c))
      | None \<Rightarrow>
          if f \<in> set (ds_visited st) then fallback_loop n D task a err fs st
          else case GetAgent D (now_of D st) f of
                 Inl _ \<Rightarrow> fallback_loop n D task a err fs st
               | Inr b \<Rightarrow>
                   (case dispatchWithFallback n D task b (count_fallback (ag_ID a) f st) of
                      (st1, D_ok resp) \<Rightarrow> (st1, D_ok resp)
                    | (st1, D_fuel) \<Rightarrow> (st1, D_fuel)
                    | (st1, D_err _) \<Rightarrow> fallback_loop n D task a err fs st1))"

definition fuel_of :: "'w Dispatcher \<Rightarrow> nat" where
  "fuel_of D = length (config_agents D)"

definition Dispatch ::
  "'w Dispatcher \<Rightarrow> TaskRequest option \<Rightarrow> ('w, 'm) dstate \<Rightarrow> ('w, 'm) dstate \<times> TaskResponse dresult" where
  "Dispatch D task st =
     (case resolveAgent D (now_of D st) task of
        Inl e \<Rightarrow> (st, D_err (Err_a2a e))
      | Inr a \<Rightarrow> dispatchWithFallback (fuel_of D) D (the task) a (st\<lparr>ds_visited := []\<rparr>))"

definition DispatchSingleAttempt ::
  "'w Dispatcher \<Rightarrow> TaskRequest option \<Rightarrow> ('w, 'm) dstate \<Rightarrow> ('w, 'm) dstate \<times> (go_err + TaskResponse)" where
  "DispatchSingleAttempt D task st =
     (case resolveAgent D (now_of D st) task of
        Inl e \<Rightarrow> (st, Inl (Err_a2a e))
      | Inr a0 \<Rightarrow>
          let a = a0\<lparr>ag_Retries := 0, ag_FallbackAgentIDs := []\<rparr>;
              (st1, r) = invokeAgentWithRetries D (the task) a st in
          case r of
            Inr resp \<Rightarrow> (st1, Inr resp)
          | Inl e \<Rightarrow>
              (st1, Inl (case ctx_of D st1 of
                 Some c \<Rightarrow> Err_ctx c
               | None \<Rightarrow>
                   if is_timeout (err_or_nil e)
                   then Err_a2a (a2a_error ''DOWNSTREAM_TIMEOUT'' ''Agent timed out'' (ag_ID a) 504 (now_of D st1))
                   else Err_a2a (a2a_error ''DOWNSTREAM_UNAVAILABLE'' ''Downstream agent invocation failed''
                          (ag_ID a) 502 (now_of D st1)))))"

section \<open>Streaming\<close>

text \<open>
  \<open>trackingEmitter.Emit\<close>, for the events an adapter emits while it translates a stream: the flag
  is set by the first one.
\<close>

definition emit_all :: "StreamEvent list \<Rightarrow> ('w, 'm) dstate \<Rightarrow> ('w, 'm) dstate" where
  "emit_all evs st = st\<lparr>ds_hasEmitted := (ds_hasEmitted st \<or> evs \<noteq> []), ds_trace := ds_trace st @ map Emitted evs\<rparr>"

fun stream_loop ::
  "'w Dispatcher \<Rightarrow> 'w Adapter \<Rightarrow> TaskRequest \<Rightarrow> AgentConfig \<Rightarrow> nat \<Rightarrow> int \<Rightarrow> go_err option \<Rightarrow> ('w, 'm) dstate
     \<Rightarrow> ('w, 'm) dstate \<times> go_err option" where
  "stream_loop D ad task a 0 attempt lastErr st = (st, lastErr)"
| "stream_loop D ad task a (Suc n) attempt lastErr st =
     (let (st1, e) = before_attempt D a attempt st in
      case e of Some c \<Rightarrow> (st1, Some (Err_ctx c)) | None \<Rightarrow>
      let (w2, q) = ad_TranslateRequest ad (attempt_timeout a) a (task\<lparr>tr_Stream := True\<rparr>) (ds_world st1);
          st2 = st1\<lparr>ds_world := w2\<rparr> in
      case q of Inl err \<Rightarrow> (st2, Some (Err_wrap ''failed to translate stream request'' err)) | Inr req \<Rightarrow>
      let (st3, p) = call_client D a req st2 in
      case p of
        Inl err \<Rightarrow>
          (case ctx_of D st3 of
             Some c \<Rightarrow> (st3, Some (Err_ctx c))
           | None \<Rightarrow> stream_loop D ad task a n (attempt + 1) (Some err) st3)
      | Inr resp \<Rightarrow>
          if p_StatusCode resp \<ge> 500
          then stream_loop D ad task a n (attempt + 1) (Some (status_error (p_StatusCode resp))) st3
          else
            let (w4, evs, err) = ad_TranslateStream ad (attempt_timeout a) a resp (ds_world st3)
            in (emit_all evs (st3\<lparr>ds_world := w4\<rparr>), err))"

definition invokeAgentStreamWithRetries ::
  "'w Dispatcher \<Rightarrow> TaskRequest \<Rightarrow> AgentConfig \<Rightarrow> ('w, 'm) dstate \<Rightarrow> ('w, 'm) dstate \<times> go_err option" where
  "invokeAgentStreamWithRetries D task a st =
     (case Adapter_Get (ag_Type a) (d_reg D) of
        Inl err \<Rightarrow> (st, Some (Err_wrap (''adapter error for agent '' @ ag_ID a) err))
      | Inr ad \<Rightarrow> stream_loop D ad task a (Suc (max_retries a)) 0 None st)"

fun dispatchStreamWithFallback ::
  "nat \<Rightarrow> 'w Dispatcher \<Rightarrow> TaskRequest \<Rightarrow> AgentConfig \<Rightarrow> ('w, 'm) dstate \<Rightarrow> ('w, 'm) dstate \<times> unit dresult"
  and stream_fallback_loop ::
  "nat \<Rightarrow> 'w Dispatcher \<Rightarrow> TaskRequest \<Rightarrow> AgentConfig \<Rightarrow> go_err \<Rightarrow> string list \<Rightarrow> ('w, 'm) dstate
     \<Rightarrow> ('w, 'm) dstate \<times> unit dresult" where
  "dispatchStreamWithFallback 0 D task a st = (st, D_fuel)"
| "dispatchStreamWithFallback (Suc n) D task a st =
     (if ag_ID a \<in> set (ds_visited st) then (st, D_err (cycle_error (ag_ID a) (now_of D st)))
      else
        let (st1, e) = invokeAgentStreamWithRetries D task a (visit (ag_ID a) st) in
        case e of
          None \<Rightarrow> (st1, D_ok ())
        | Some err \<Rightarrow>
            if ds_hasEmitted st1 then (st1, D_err err)
            else (case ctx_of D st1 of
                    Some c \<Rightarrow> (st1, D_err (Err_ctx c))
                  | None \<Rightarrow> stream_fallback_loop n D task a err (ag_FallbackAgentIDs a) st1))"
| "stream_fallback_loop n D task a err [] st = (st, D_err (cascade_error D a err st))"
| "stream_fallback_loop n D task a err (f # fs) st =
     (case ctx_of D st of
        Some c \<Rightarrow> (st, D_err (Err_ctx c))
      | None \<Rightarrow>
          if ds_hasEmitted st then (st, D_err err)
          else if f \<in> set (ds_visited st) then stream_fallback_loop n D task a err fs st
          else case GetAgent D (now_of D st) f of
                 Inl _ \<Rightarrow> stream_fallback_loop n D task a err fs st
               | Inr b \<Rightarrow>
                   (case dispatchStreamWithFallback n D task b (count_fallback (ag_ID a) f st) of
                      (st1, D_ok u) \<Rightarrow> (st1, D_ok u)
                    | (st1, D_fuel) \<Rightarrow> (st1, D_fuel)
                    | (st1, D_err fbErr) \<Rightarrow>
                        if ds_hasEmitted st1 then (st1, D_err fbErr)
                        else stream_fallback_loop n D task a err fs st1))"

definition DispatchStream ::
  "'w Dispatcher \<Rightarrow> TaskRequest option \<Rightarrow> ('w, 'm) dstate \<Rightarrow> ('w, 'm) dstate \<times> unit dresult" where
  "DispatchStream D task st =
     (case resolveAgent D (now_of D st) task of
        Inl e \<Rightarrow> (st, D_err (Err_a2a e))
      | Inr a \<Rightarrow> dispatchStreamWithFallback (fuel_of D) D (the task) a
                    (st\<lparr>ds_visited := [], ds_hasEmitted := False\<rparr>))"

end
