(* ===== verification/Dispatcher_Facts.thy ===== *)
theory Dispatcher_Facts
  imports Dispatcher
begin

text \<open>
  What a dispatch does to its trace and to the set of visited agents: every invocation of an
  agent is a block of at most one call more than its retries, no agent is invoked twice, and
  a streaming dispatch emits only after its last call. The fuel of the recursion is enough.
\<close>

section \<open>One invocation\<close>

text \<open>Steps that keep the trace, the visited agents and the emission flag.\<close>

definition quiet :: "('w, 'm) dstate \<Rightarrow> ('w, 'm) dstate \<Rightarrow> bool" where
  "quiet st st' \<longleftrightarrow> ds_trace st' = ds_trace st \<and> ds_visited st' = ds_visited st \<and> ds_hasEmitted st' = ds_hasEmitted st"

lemma quiet_refl [simp]: "quiet st st"
  by (simp add: quiet_def)

lemma quiet_world [simp]: "quiet st (st\<lparr>ds_world := w\<rparr>)"
  by (simp add: quiet_def)

lemma quiet_count_fallback [simp]: "quiet st (count_fallback a b st)"
  by (simp add: quiet_def count_fallback_def)

lemma quiet_before_attempt: "before_attempt D a k st = (st', e) \<Longrightarrow> quiet st st'"
  by (auto simp: before_attempt_def count_retry_def quiet_def Let_def split: if_splits prod.splits)

lemma quiet_complete_response: "complete_response D task a r st = (st', r') \<Longrightarrow> quiet st st'"
  by (auto simp: complete_response_def quiet_def Let_def split: if_splits prod.splits)

lemma generateTaskID_nonempty: "generateTaskID W w = (w', i) \<Longrightarrow> i \<noteq> []"
  by (auto simp: generateTaskID_def split: prod.splits)

lemma complete_response_ids:
  assumes "complete_response D task a r st = (st', r')"
  shows "resp_TaskID r' \<noteq> [] \<and> (ag_ID a \<noteq> [] \<longrightarrow> resp_AgentID r' \<noteq> [])"
proof -
  obtain w i where g: "generateTaskID (d_ops D) (ds_world st) = (w, i)" by fastforce
  then show ?thesis
    using assms generateTaskID_nonempty [OF g] by (auto simp: complete_response_def Let_def split: if_splits)
qed

text \<open>The trace of an invocation: a number of calls for one agent.\<close>

definition calls :: "AgentConfig \<Rightarrow> nat \<Rightarrow> dispatch_event list" where
  "calls a k = replicate k (Called (ag_ID a))"

definition invoked :: "AgentConfig \<Rightarrow> nat \<Rightarrow> ('w, 'm) dstate \<Rightarrow> ('w, 'm) dstate \<Rightarrow> bool" where
  "invoked a n st st' \<longleftrightarrow> (\<exists>k\<le>n. ds_trace st' = ds_trace st @ calls a k) \<and>
     ds_visited st' = ds_visited st \<and> ds_hasEmitted st' = ds_hasEmitted st"

lemma invoked_quiet: "quiet st st' \<Longrightarrow> invoked a n st st'"
  by (auto simp: invoked_def quiet_def calls_def intro!: exI [of _ 0])

lemma invoked_call:
  assumes "quiet st st2" and "call_client D a req st2 = (st3, p)" and "invoked a n st3 st'"
  shows "invoked a (Suc n) st st'"
proof -
  have st3: "ds_trace st3 = ds_trace st @ [Called (ag_ID a)]" "ds_visited st3 = ds_visited st"
    "ds_hasEmitted st3 = ds_hasEmitted st"
    using assms(1,2) by (auto simp: call_client_def quiet_def split: prod.splits)
  obtain k where "k \<le> n" "ds_trace st' = ds_trace st3 @ calls a k"
    using assms(3) by (auto simp: invoked_def)
  then show ?thesis using st3 assms(3)
    by (auto simp: invoked_def calls_def intro!: exI [of _ "Suc k"])
qed

lemma quiet_trans: "quiet a b \<Longrightarrow> quiet b c \<Longrightarrow> quiet a c"
  by (simp add: quiet_def)

lemma attempt_loop_invoked: "invoked a n st (fst (attempt_loop D ad task a n k le st))"
proof (induction n arbitrary: k le st)
  case 0
  then show ?case by (simp add: invoked_quiet)
next
  case (Suc n)
  obtain st1 e where b: "before_attempt D a k st = (st1, e)" by fastforce
  note q1 = quiet_before_attempt [OF b]
  show ?case
  proof (cases e)
    case (Some c)
    then show ?thesis by (simp add: b invoked_quiet q1)
  next
    case None
    obtain w2 q where t: "ad_TranslateRequest ad (attempt_timeout a) a task (ds_world st1) = (w2, q)" by fastforce
    let ?st2 = "st1\<lparr>ds_world := w2\<rparr>"
    have q2: "quiet st ?st2" using quiet_trans [OF q1 quiet_world] .
    show ?thesis
    proof (cases q)
      case (Inl err)
      then show ?thesis by (simp add: b None t invoked_quiet q2)
    next
      case (Inr req)
      obtain st3 p where c: "call_client D a req ?st2 = (st3, p)" by fastforce
      note step = invoked_call [OF q2 c]
      have fin: "invoked a (Suc n) st st'" if "quiet st3 st'" for st'
        by (rule step [OF invoked_quiet [OF that]])
      show ?thesis
      proof (cases p)
        case (Inl err)
        then show ?thesis
          using step [OF Suc.IH] fin [OF quiet_refl]
          by (auto simp: b None t Inr c split: option.splits)
      next
        case (Inr resp)
        obtain w4 tr where t4: "ad_TranslateResponse ad (attempt_timeout a) a resp (ds_world st3) = (w4, tr)" by fastforce
        have "quiet st3 st5" if "complete_response D task a r (st3\<lparr>ds_world := w4\<rparr>) = (st5, r')" for r st5 r'
          using quiet_trans [OF quiet_world quiet_complete_response [OF that]] .
        then show ?thesis
          using step [OF Suc.IH] fin [OF quiet_world]
          by (auto simp: b None t \<open>q = Inr req\<close> c Inr t4 fin Let_def split: sum.splits prod.splits)
      qed
    qed
  qed
qed

text \<open>What an invocation returns.\<close>

lemma attempt_loop_result:
  "attempt_loop D ad task a n k le st = (st', r) \<Longrightarrow>
     (case r of Inr resp \<Rightarrow> resp_TaskID resp \<noteq> [] \<and> (ag_ID a \<noteq> [] \<longrightarrow> resp_AgentID resp \<noteq> [])
      | Inl e \<Rightarrow> n = 0 \<and> e = le \<or> e \<noteq> None)"
proof (induction n arbitrary: k le st)
  case (Suc n)
  have IH: "case r of Inr resp \<Rightarrow> resp_TaskID resp \<noteq> [] \<and> (ag_ID a \<noteq> [] \<longrightarrow> resp_AgentID resp \<noteq> [])
      | Inl e \<Rightarrow> e \<noteq> None"
    if "attempt_loop D ad task a n k' (Some le') st1 = (st', r)" for k' le' st1
    using Suc.IH [OF that] by (auto split: sum.splits)
  show ?case
    using Suc.prems
    by (auto simp: Let_def split: prod.splits option.splits sum.splits if_splits
        dest!: IH complete_response_ids)
qed auto

lemma invoke_invoked: "invoked a (Suc (max_retries a)) st (fst (invokeAgentWithRetries D task a st))"
  using attempt_loop_invoked [of a "Suc (max_retries a)" st D _ task 0 None]
  by (auto simp: invokeAgentWithRetries_def invoked_quiet simp del: attempt_loop.simps split: sum.splits)

lemma invoke_result:
  "invokeAgentWithRetries D task a st = (st', r) \<Longrightarrow>
     (case r of Inr resp \<Rightarrow> resp_TaskID resp \<noteq> [] \<and> (ag_ID a \<noteq> [] \<longrightarrow> resp_AgentID resp \<noteq> [])
      | Inl e \<Rightarrow> e \<noteq> None)"
  using attempt_loop_result [of D _ task a "Suc (max_retries a)" 0 None st st' r]
  by (auto simp: invokeAgentWithRetries_def simp del: attempt_loop.simps split: sum.splits)

section \<open>A whole dispatch\<close>

text \<open>
  The invocations of a dispatch, in order: each agent once, none that was visited before,
  and each with at most one call more than its retries; then the emitted events.
\<close>

type_synonym invocations = "(AgentConfig \<times> nat) list"

definition invocation_trace :: "invocations \<Rightarrow> dispatch_event list" where
  "invocation_trace invs = concat (map (\<lambda>(b, k). calls b k) invs)"

definition dispatched ::
  "AgentConfig set \<Rightarrow> ('w, 'm) dstate \<Rightarrow> ('w, 'm) dstate \<Rightarrow> invocations \<Rightarrow> StreamEvent list \<Rightarrow> bool" where
  "dispatched A st st' invs evs \<longleftrightarrow>
     ds_trace st' = ds_trace st @ invocation_trace invs @ map Emitted evs \<and>
     distinct (map (ag_ID \<circ> fst) invs) \<and>
     (\<forall>(b, k)\<in>set invs. b \<in> A \<and> k \<le> Suc (max_retries b) \<and> ag_ID b \<notin> set (ds_visited st)) \<and>
     set (ds_visited st') = set (ds_visited st) \<union> (ag_ID \<circ> fst) ` set invs \<and>
     ds_hasEmitted st' = (ds_hasEmitted st \<or> evs \<noteq> [])"

lemma invocation_trace_append [simp]:
  "invocation_trace (xs @ ys) = invocation_trace xs @ invocation_trace ys"
  by (simp add: invocation_trace_def)

lemma dispatched_quiet: "quiet st st' \<Longrightarrow> dispatched A st st' [] []"
  by (simp add: dispatched_def quiet_def invocation_trace_def)

lemma image_disjointI: "(\<And>y. y \<in> set ys \<Longrightarrow> f y \<notin> f ` set xs) \<Longrightarrow> set (map f xs) \<inter> set (map f ys) = {}"
  unfolding disjoint_iff set_map by (metis imageE)

lemma dispatched_trans:
  assumes st: "dispatched A s t xs []" and tu: "dispatched A t u js evs"
  shows "dispatched A s u (xs @ js) evs"
proof -
  have vis: "set (ds_visited t) = set (ds_visited s) \<union> (ag_ID \<circ> fst) ` set xs"
    using st unfolding dispatched_def by blast
  have new: "b \<in> A \<and> k \<le> Suc (max_retries b) \<and> ag_ID b \<notin> set (ds_visited t)" if "(b, k) \<in> set js" for b k
    using tu that unfolding dispatched_def by blast
  have old: "b \<in> A \<and> k \<le> Suc (max_retries b) \<and> ag_ID b \<notin> set (ds_visited s)" if "(b, k) \<in> set xs" for b k
    using st that unfolding dispatched_def by blast
  have "(ag_ID \<circ> fst) p \<notin> (ag_ID \<circ> fst) ` set xs" if "p \<in> set js" for p
    using new [of "fst p" "snd p"] that vis by simp
  then have disj: "set (map (ag_ID \<circ> fst) xs) \<inter> set (map (ag_ID \<circ> fst) js) = {}"
    by (rule image_disjointI)
  have both: "distinct (map (ag_ID \<circ> fst) xs)" "distinct (map (ag_ID \<circ> fst) js)"
    using st tu unfolding dispatched_def by blast+
  have "\<forall>(b, k)\<in>set (xs @ js). b \<in> A \<and> k \<le> Suc (max_retries b) \<and> ag_ID b \<notin> set (ds_visited s)"
    using new old vis by auto
  moreover have "set (ds_visited u) = set (ds_visited s) \<union> (ag_ID \<circ> fst) ` set (xs @ js)"
    using tu unfolding dispatched_def vis set_append image_Un by (simp only: Un_assoc)
  moreover have "ds_trace u = ds_trace s @ invocation_trace (xs @ js) @ map Emitted evs"
    using st tu unfolding dispatched_def by simp
  moreover have "ds_hasEmitted u = (ds_hasEmitted s \<or> evs \<noteq> [])"
    using st tu unfolding dispatched_def by simp
  moreover have "distinct (map (ag_ID \<circ> fst) (xs @ js))"
    using both disj unfolding map_append distinct_append by blast
  ultimately show ?thesis unfolding dispatched_def by blast
qed

lemma dispatched_quiet_left: "quiet s t \<Longrightarrow> dispatched A t u js evs \<Longrightarrow> dispatched A s u js evs"
  using dispatched_trans [OF dispatched_quiet] by fastforce

text \<open>Marking an agent as visited and invoking it.\<close>

lemma dispatched_invoked:
  assumes "invoked a (Suc (max_retries a)) (visit (ag_ID a) st) st'" and "ag_ID a \<notin> set (ds_visited st)" and "a \<in> A"
  shows "\<exists>k. dispatched A st st' [(a, k)] []"
  using assms by (auto simp: invoked_def dispatched_def visit_def invocation_trace_def)

lemma GetAgent_Inr:
  "GetAgent D now i = Inr b \<Longrightarrow> b \<in> set (config_agents D) \<and> ag_ID b = i"
  by (auto simp: GetAgent_def split: option.splits dest!: find_SomeD)

text \<open>Sets of agents that a dispatch does not leave.\<close>

definition resolves_in :: "'w Dispatcher \<Rightarrow> AgentConfig set \<Rightarrow> string list \<Rightarrow> bool" where
  "resolves_in D A fs \<longleftrightarrow> (\<forall>f\<in>set fs. \<forall>now b. GetAgent D now f = Inr b \<longrightarrow> b \<in> A)"

definition fallback_closed :: "'w Dispatcher \<Rightarrow> AgentConfig set \<Rightarrow> bool" where
  "fallback_closed D A \<longleftrightarrow> (\<forall>a\<in>A. resolves_in D A (ag_FallbackAgentIDs a))"

lemma fallback_closed_config: "fallback_closed D (set (config_agents D))"
  using GetAgent_Inr by (fastforce simp: fallback_closed_def resolves_in_def)

lemma fallback_closed_UNIV: "fallback_closed D UNIV" "resolves_in D UNIV fs"
  by (simp_all add: fallback_closed_def resolves_in_def)

lemma resolves_in_Cons: "resolves_in D A (f # fs) \<Longrightarrow> resolves_in D A fs"
  "resolves_in D A (f # fs) \<Longrightarrow> GetAgent D now f = Inr b \<Longrightarrow> b \<in> A"
  by (auto simp: resolves_in_def)

lemma dispatch_dispatched:
  fixes A :: "AgentConfig set"
  shows "\<lbrakk>a \<in> A; fallback_closed D A\<rbrakk> \<Longrightarrow>
      \<exists>invs. dispatched A st (fst (dispatchWithFallback n D task a st)) invs []"
    and "\<lbrakk>fallback_closed D A; resolves_in D A fs\<rbrakk> \<Longrightarrow>
      \<exists>invs. dispatched A st (fst (fallback_loop n D task a err fs st)) invs []"
proof (induction n D task a st and n D task a err fs st rule: dispatchWithFallback_fallback_loop.induct)
  case (1 D task a st)
  then show ?case using dispatched_quiet [OF quiet_refl] by auto
next
  case (2 n D task a st)
  show ?case
  proof (cases "ag_ID a \<in> set (ds_visited st)")
    case True
    then show ?thesis using dispatched_quiet [OF quiet_refl] by auto
  next
    case False
    obtain st1 r where i: "invokeAgentWithRetries D task a (visit (ag_ID a) st) = (st1, r)" by fastforce
    then obtain k where k: "dispatched A st st1 [(a, k)] []"
      using dispatched_invoked [OF _ False 2(2)] invoke_invoked [of a "visit (ag_ID a) st" D task] by (metis fst_conv)
    have "\<exists>invs. dispatched A st (fst (fallback_loop n D task a (err_or_nil e) (ag_FallbackAgentIDs a) st1)) invs []"
      if "r = Inl e" "ctx_of D st1 = None" for e
    proof -
      have "resolves_in D A (ag_FallbackAgentIDs a)" using 2(2,3) by (simp add: fallback_closed_def)
      then show ?thesis using 2(1) [OF False i [symmetric] refl that 2(3)] dispatched_trans [OF k] by blast
    qed
    then show ?thesis using False i k by (auto simp: Let_def split: sum.splits option.splits)
  qed
next
  case (3 n D task a err st)
  then show ?case using dispatched_quiet [OF quiet_refl] by auto
next
  case (4 n D task a err f fs st)
  show ?case
  proof (cases "ctx_of D st")
    case (Some c)
    then show ?thesis using dispatched_quiet [OF quiet_refl] by auto
  next
    case None
    show ?thesis
    proof (cases "f \<in> set (ds_visited st)")
      case True
      then show ?thesis using 4(1) [OF None True 4(5) resolves_in_Cons(1) [OF 4(6)]] None by simp
    next
      case False
      show ?thesis
      proof (cases "GetAgent D (now_of D st) f")
        case (Inl e)
        then show ?thesis using 4(2) [OF None False Inl 4(5) resolves_in_Cons(1) [OF 4(6)]] None False by simp
      next
        case (Inr b)
        obtain st1 r where d: "dispatchWithFallback n D task b (count_fallback (ag_ID a) f st) = (st1, r)" by fastforce
        have "b \<in> A" by (rule resolves_in_Cons(2) [OF 4(6) Inr])
        then obtain invs where "dispatched A (count_fallback (ag_ID a) f st) st1 invs []"
          using 4(3) [OF None False Inr _ 4(5)] d by auto
        then have k: "dispatched A st st1 invs []" by (rule dispatched_quiet_left [OF quiet_count_fallback])
        show ?thesis
        proof (cases r)
          case (D_err e)
          have "\<exists>js. dispatched A st1 (fst (fallback_loop n D task a err fs st1)) js []"
            using 4(4) [OF None False Inr d [symmetric] D_err 4(5) resolves_in_Cons(1) [OF 4(6)]] .
          then show ?thesis using dispatched_trans [OF k] None False Inr d D_err by auto
        qed (use k None False Inr d in auto)
      qed
    qed
  qed
qed

section \<open>The fuel is enough, and what a dispatch returns\<close>

text \<open>The configured agents that were not visited yet.\<close>

definition untried :: "'w Dispatcher \<Rightarrow> ('w, 'm) dstate \<Rightarrow> string set" where
  "untried D st = ag_ID ` set (config_agents D) - set (ds_visited st)"

lemma untried_mono: "set (ds_visited s) \<subseteq> set (ds_visited t) \<Longrightarrow> card (untried D t) \<le> card (untried D s)"
  by (intro card_mono) (auto simp: untried_def)

lemma untried_less:
  assumes "set (ds_visited s) \<subseteq> set (ds_visited t)" and "i \<in> untried D s" and "i \<in> set (ds_visited t)"
  shows "card (untried D t) < card (untried D s)"
  using assms by (intro psubset_card_mono) (auto simp: untried_def)

lemma dispatched_visited: "dispatched A s t invs evs \<Longrightarrow> set (ds_visited s) \<subseteq> set (ds_visited t)"
  unfolding dispatched_def by blast

lemma dispatch_visited:
  assumes "dispatchWithFallback n D task a st = (st', r)"
  shows "set (ds_visited st) \<subseteq> set (ds_visited st')"
  using dispatch_dispatched(1) [of a UNIV D st n task] by (auto simp: assms fallback_closed_UNIV dest: dispatched_visited)

lemma invoke_visited:
  assumes "invokeAgentWithRetries D task a (visit (ag_ID a) st) = (st1, r)"
  shows "set (ds_visited st1) = insert (ag_ID a) (set (ds_visited st))"
  using invoke_invoked [of a "visit (ag_ID a) st" D task] unfolding assms by (simp add: invoked_def visit_def)

text \<open>
  The result of a cascade: a response with its identifiers, or the error of the cascade for
  the agent it started from, judged in the final state.
\<close>

definition cascade_result :: "'w Dispatcher \<Rightarrow> AgentConfig \<Rightarrow> ('w, 'm) dstate \<Rightarrow> TaskResponse dresult \<Rightarrow> bool" where
  "cascade_result D a st r \<longleftrightarrow> (case r of
     D_ok resp \<Rightarrow> resp_TaskID resp \<noteq> []
   | D_err e \<Rightarrow> (\<exists>err. e = cascade_error D a err st)
   | D_fuel \<Rightarrow> False)"

lemma cascade_ctx: "ctx_of D st = Some c \<Longrightarrow> cascade_result D a st (D_err (Err_ctx c))"
  by (simp add: cascade_result_def cascade_error_def)

lemma dispatch_cascade_result:
  shows "\<lbrakk>ag_ID a \<in> untried D st; card (untried D st) \<le> n; dispatchWithFallback n D task a st = (st', r)\<rbrakk>
      \<Longrightarrow> cascade_result D a st' r"
    and "\<lbrakk>card (untried D st) \<le> n; fallback_loop n D task a err fs st = (st', r)\<rbrakk>
      \<Longrightarrow> cascade_result D a st' r"
proof (induction n D task a st and n D task a err fs st arbitrary: st' r and st' r
    rule: dispatchWithFallback_fallback_loop.induct)
  case (1 D task a st)
  then have "card (untried D st) \<noteq> 0" by (subst card_0_eq) (auto simp: untried_def)
  then show ?case using 1 by simp
next
  case (2 n D task a st)
  have new: "ag_ID a \<notin> set (ds_visited st)" using 2(2) by (simp add: untried_def)
  obtain st1 q where i: "invokeAgentWithRetries D task a (visit (ag_ID a) st) = (st1, q)" by fastforce
  have "card (untried D st1) < card (untried D st)"
    using untried_less [OF _ 2(2)] invoke_visited [OF i] by blast
  then have n: "card (untried D st1) \<le> n" using 2(3) by simp
  show ?case
  proof (cases q)
    case (Inr resp)
    then show ?thesis using 2(4) i new invoke_result [OF i] by (auto simp: cascade_result_def)
  next
    case (Inl e)
    show ?thesis
    proof (cases "ctx_of D st1")
      case None
      then show ?thesis using 2(1) [OF new i [symmetric] refl Inl None n] 2(4) i new Inl by simp
    next
      case (Some c)
      then show ?thesis using 2(4) i new Inl cascade_ctx [OF Some] by simp
    qed
  qed
next
  case (3 n D task a err st)
  then show ?case by (auto simp: cascade_result_def)
next
  case (4 n D task a err f fs st)
  show ?case
  proof (cases "ctx_of D st")
    case (Some c)
    then show ?thesis using 4(6) cascade_ctx [OF Some] by simp
  next
    case None
    show ?thesis
    proof (cases "f \<in> set (ds_visited st)")
      case True
      then show ?thesis using 4(1) [OF None True 4(5)] 4(6) None by simp
    next
      case False
      show ?thesis
      proof (cases "GetAgent D (now_of D st) f")
        case (Inl e)
        then show ?thesis using 4(2) [OF None False Inl 4(5)] 4(6) None False by simp
      next
        case (Inr b)
        let ?st = "count_fallback (ag_ID a) f st"
        obtain st1 q where d: "dispatchWithFallback n D task b ?st = (st1, q)" by fastforce
        have same: "untried D ?st = untried D st" by (simp add: untried_def count_fallback_def)
        have b: "ag_ID b \<in> untried D ?st" using GetAgent_Inr [OF Inr] False unfolding same by (auto simp: untried_def)
        have q: "cascade_result D b st1 q" using 4(3) [OF None False Inr b _ d] 4(5) same by simp
        have "card (untried D st1) \<le> card (untried D ?st)" by (rule untried_mono [OF dispatch_visited [OF d]])
        then have n: "card (untried D st1) \<le> n" using 4(5) same by simp
        show ?thesis
        proof (cases q)
          case (D_err e)
          show ?thesis using 4(4) [OF None False Inr d [symmetric] D_err n] 4(6) None False Inr d D_err by simp
        qed (use q d 4(6) None False Inr in \<open>auto simp: cascade_result_def\<close>)
      qed
    qed
  qed
qed

section \<open>Every fallback is tried\<close>

text \<open>The agents a configured agent falls back to.\<close>

definition fallbacks_of :: "'w Dispatcher \<Rightarrow> AgentConfig \<Rightarrow> string set" where
  "fallbacks_of D a = set (ag_FallbackAgentIDs a) \<inter> ag_ID ` set (config_agents D)"

lemma GetAgent_configured:
  assumes "distinct (map ag_ID (config_agents D))" and "b \<in> set (config_agents D)"
  shows "GetAgent D now (ag_ID b) = Inr b"
proof (cases "find (\<lambda>a. ag_ID a = ag_ID b) (config_agents D)")
  case None
  then show ?thesis using assms(2) by (auto simp: find_None_iff)
next
  case (Some c)
  then have "c \<in> set (config_agents D)" "ag_ID c = ag_ID b" by (auto dest: find_SomeD)
  then have "c = b" using assms by (simp add: distinct_map inj_on_def)
  then show ?thesis using Some by (simp add: GetAgent_def)
qed

lemma GetAgent_missing: "GetAgent D now f = Inl e \<Longrightarrow> f \<notin> ag_ID ` set (config_agents D)"
  by (auto simp: GetAgent_def find_None_iff split: option.splits)

text \<open>
  A failed cascade that was not cancelled has visited, with every agent it visited, the
  fallbacks of that agent.
\<close>

definition expanded :: "'w Dispatcher \<Rightarrow> ('w, 'm) dstate \<Rightarrow> ('w, 'm) dstate \<Rightarrow> bool" where
  "expanded D st st' \<longleftrightarrow> (\<forall>b\<in>set (config_agents D). ag_ID b \<in> set (ds_visited st') - set (ds_visited st)
     \<longrightarrow> fallbacks_of D b \<subseteq> set (ds_visited st'))"

lemma expanded_trans:
  "expanded D s t \<Longrightarrow> expanded D t u \<Longrightarrow> set (ds_visited t) \<subseteq> set (ds_visited u) \<Longrightarrow> expanded D s u"
  unfolding expanded_def by blast

lemma expanded_same: "set (ds_visited t) = set (ds_visited s) \<Longrightarrow> expanded D s t"
  by (simp add: expanded_def)

lemma loop_visited:
  assumes "fallback_loop n D task a err fs st = (st', r)"
  shows "set (ds_visited st) \<subseteq> set (ds_visited st')"
  using dispatch_dispatched(2) [of D UNIV fs st n task a err] by (auto simp: assms fallback_closed_UNIV dest: dispatched_visited)

lemma dispatch_expanded:
  shows "\<lbrakk>distinct (map ag_ID (config_agents D)); a \<in> set (config_agents D);
       dispatchWithFallback n D task a st = (st', D_err e); ctx_of D st' = None\<rbrakk>
      \<Longrightarrow> ag_ID a \<in> set (ds_visited st') \<and> expanded D st st'"
    and "\<lbrakk>distinct (map ag_ID (config_agents D)); fallback_loop n D task a err fs st = (st', D_err e); ctx_of D st' = None\<rbrakk>
      \<Longrightarrow> set fs \<inter> ag_ID ` set (config_agents D) \<subseteq> set (ds_visited st') \<and> expanded D st st'"
proof (induction n D task a st and n D task a err fs st arbitrary: st' e and st' e
    rule: dispatchWithFallback_fallback_loop.induct)
  case (1 D task a st)
  then show ?case by simp
next
  case (2 n D task a st)
  show ?case
  proof (cases "ag_ID a \<in> set (ds_visited st)")
    case True
    then show ?thesis using 2(4) by (auto simp: expanded_same)
  next
    case False
    obtain st1 q where i: "invokeAgentWithRetries D task a (visit (ag_ID a) st) = (st1, q)" by fastforce
    note v1 = invoke_visited [OF i]
    obtain e1 where q: "q = Inl e1" "ctx_of D st1 = None"
        and l: "fallback_loop n D task a (err_or_nil e1) (ag_FallbackAgentIDs a) st1 = (st', D_err e)"
      using 2(4,5) False i by (auto split: sum.splits option.splits)
    note IH = 2(1) [OF False i [symmetric] refl q 2(2) l 2(5)]
    have "fallbacks_of D b \<subseteq> set (ds_visited st')"
      if b: "b \<in> set (config_agents D)" "ag_ID b \<in> set (ds_visited st') - set (ds_visited st)" for b
    proof (cases "ag_ID b = ag_ID a")
      case True
      then have "b = a" using 2(2,3) b(1) by (simp add: distinct_map inj_on_def)
      then show ?thesis using IH unfolding fallbacks_of_def by blast
    next
      case False
      then show ?thesis using IH b v1 unfolding expanded_def by blast
    qed
    then have "expanded D st st'" unfolding expanded_def by blast
    then show ?thesis using loop_visited [OF l] v1 by blast
  qed
next
  case (3 n D task a err st)
  then show ?case by (simp add: expanded_same)
next
  case (4 n D task a err f fs st)
  note dist = 4(5) and res = 4(6) and ctx' = 4(7)
  show ?case
  proof (cases "ctx_of D st")
    case (Some c)
    then show ?thesis using res ctx' by simp
  next
    case None
    show ?thesis
    proof (cases "f \<in> set (ds_visited st)")
      case True
      have l: "fallback_loop n D task a err fs st = (st', D_err e)" using res None True by simp
      show ?thesis using 4(1) [OF None True dist l ctx'] loop_visited [OF l] True by auto
    next
      case False
      show ?thesis
      proof (cases "GetAgent D (now_of D st) f")
        case (Inl e1)
        have l: "fallback_loop n D task a err fs st = (st', D_err e)" using res None False Inl by simp
        show ?thesis using 4(2) [OF None False Inl dist l ctx'] GetAgent_missing [OF Inl] by auto
      next
        case (Inr b)
        let ?st = "count_fallback (ag_ID a) f st"
        obtain st1 q where d: "dispatchWithFallback n D task b ?st = (st1, q)" by fastforce
        obtain e1 where q: "q = D_err e1" and l: "fallback_loop n D task a err fs st1 = (st', D_err e)"
          using res None False Inr d by (auto split: dresult.splits)
        have c1: "ctx_of D st1 = None"
        proof (rule ccontr)
          assume "ctx_of D st1 \<noteq> None"
          then have "st' = st1" using l by (cases fs) (auto split: option.splits)
          then show False using ctx' \<open>ctx_of D st1 \<noteq> None\<close> by simp
        qed
        have b: "b \<in> set (config_agents D)" "ag_ID b = f" using GetAgent_Inr [OF Inr] by blast+
        have one: "f \<in> set (ds_visited st1)" "expanded D ?st st1"
          using 4(3) [OF None False Inr dist b(1) d [unfolded q] c1] b(2) by blast+
        have two: "set fs \<inter> ag_ID ` set (config_agents D) \<subseteq> set (ds_visited st')" "expanded D st1 st'"
          using 4(4) [OF None False Inr d [symmetric] q dist l ctx'] by blast+
        have "expanded D st st1" using one(2) by (simp add: expanded_def count_fallback_def)
        then show ?thesis using one two loop_visited [OF l] expanded_trans by auto
      qed
    qed
  qed
qed

section \<open>Streaming\<close>

text \<open>One streaming invocation: calls for one agent, then the events of the last one.\<close>

definition streamed :: "AgentConfig \<Rightarrow> nat \<Rightarrow> ('w, 'm) dstate \<Rightarrow> ('w, 'm) dstate \<Rightarrow> bool" where
  "streamed a n st st' \<longleftrightarrow> (\<exists>k\<le>n. \<exists>evs. ds_trace st' = ds_trace st @ calls a k @ map Emitted evs \<and>
     ds_visited st' = ds_visited st \<and> ds_hasEmitted st' = (ds_hasEmitted st \<or> evs \<noteq> []))"

lemma streamed_quiet: "quiet st st' \<Longrightarrow> streamed a n st st'"
  by (auto simp: streamed_def quiet_def calls_def intro!: exI [of _ 0])

lemma streamed_emit: "streamed a n st (emit_all evs (st\<lparr>ds_world := w\<rparr>))"
  by (auto simp: streamed_def emit_all_def calls_def intro!: exI [of _ 0])

lemma streamed_call:
  assumes "quiet st st2" and "call_client D a req st2 = (st3, p)" and "streamed a n st3 st'"
  shows "streamed a (Suc n) st st'"
proof -
  have st3: "ds_trace st3 = ds_trace st @ [Called (ag_ID a)]" "ds_visited st3 = ds_visited st"
    "ds_hasEmitted st3 = ds_hasEmitted st"
    using assms(1,2) by (auto simp: call_client_def quiet_def split: prod.splits)
  obtain k evs where k: "k \<le> n" "ds_trace st' = ds_trace st3 @ calls a k @ map Emitted evs"
      "ds_visited st' = ds_visited st3" "ds_hasEmitted st' = (ds_hasEmitted st3 \<or> evs \<noteq> [])"
    using assms(3) unfolding streamed_def by blast
  have "ds_trace st' = ds_trace st @ calls a (Suc k) @ map Emitted evs" using k(2) st3(1) by (simp add: calls_def)
  then show ?thesis using k st3 unfolding streamed_def by (metis Suc_le_mono)
qed

lemma stream_loop_streamed: "streamed a n st (fst (stream_loop D ad task a n k le st))"
proof (induction n arbitrary: k le st)
  case 0
  then show ?case by (simp add: streamed_quiet)
next
  case (Suc n)
  obtain st1 e where b: "before_attempt D a k st = (st1, e)" by fastforce
  note q1 = quiet_before_attempt [OF b]
  show ?case
  proof (cases e)
    case (Some c)
    then show ?thesis by (simp add: b streamed_quiet q1)
  next
    case None
    obtain w2 q where t: "ad_TranslateRequest ad (attempt_timeout a) a (task\<lparr>tr_Stream := True\<rparr>) (ds_world st1) = (w2, q)"
      by fastforce
    let ?st2 = "st1\<lparr>ds_world := w2\<rparr>"
    have q2: "quiet st ?st2" using quiet_trans [OF q1 quiet_world] .
    show ?thesis
    proof (cases q)
      case (Inl err)
      then show ?thesis by (simp add: b None t streamed_quiet q2)
    next
      case (Inr req)
      obtain st3 p where c: "call_client D a req ?st2 = (st3, p)" by fastforce
      note step = streamed_call [OF q2 c]
      show ?thesis
        using step [OF Suc.IH] step [OF streamed_quiet [OF quiet_refl]] step [OF streamed_emit]
        by (auto simp: b None t Inr c Let_def split: sum.splits option.splits prod.splits)
    qed
  qed
qed

lemma stream_invoke_streamed: "streamed a (Suc (max_retries a)) st (fst (invokeAgentStreamWithRetries D task a st))"
  using stream_loop_streamed [of a "Suc (max_retries a)" st D _ task 0 None]
  by (auto simp: invokeAgentStreamWithRetries_def streamed_quiet simp del: stream_loop.simps split: sum.splits)

lemma dispatched_streamed:
  assumes "streamed a (Suc (max_retries a)) (visit (ag_ID a) st) st'" and "ag_ID a \<notin> set (ds_visited st)" and "a \<in> A"
  shows "\<exists>k evs. dispatched A st st' [(a, k)] evs"
proof -
  obtain k evs where "k \<le> Suc (max_retries a)" "ds_trace st' = ds_trace st @ calls a k @ map Emitted evs"
      "ds_visited st' = ag_ID a # ds_visited st" "ds_hasEmitted st' = (ds_hasEmitted st \<or> evs \<noteq> [])"
    using assms(1) by (auto simp: streamed_def visit_def)
  then have "dispatched A st st' [(a, k)] evs"
    using assms(2,3) by (simp add: dispatched_def invocation_trace_def)
  then show ?thesis by blast
qed

lemma dispatched_none: "\<exists>invs evs. dispatched A st st invs evs"
  using dispatched_quiet [OF quiet_refl] by blast

lemma dispatched_emitted_iff: "dispatched A s t invs evs \<Longrightarrow> \<not> ds_hasEmitted s \<Longrightarrow> ds_hasEmitted t \<longleftrightarrow> evs \<noteq> []"
  unfolding dispatched_def by blast

lemma stream_dispatched:
  fixes A :: "AgentConfig set"
  shows "\<lbrakk>a \<in> A; fallback_closed D A; \<not> ds_hasEmitted st\<rbrakk> \<Longrightarrow>
      \<exists>invs evs. dispatched A st (fst (dispatchStreamWithFallback n D task a st)) invs evs"
    and "\<lbrakk>fallback_closed D A; resolves_in D A fs; \<not> ds_hasEmitted st\<rbrakk> \<Longrightarrow>
      \<exists>invs evs. dispatched A st (fst (stream_fallback_loop n D task a err fs st)) invs evs"
proof (induction n D task a st and n D task a err fs st rule: dispatchStreamWithFallback_stream_fallback_loop.induct)
  case (1 D task a st)
  then show ?case by (auto simp: dispatched_none)
next
  case (2 n D task a st)
  show ?case
  proof (cases "ag_ID a \<in> set (ds_visited st)")
    case True
    then show ?thesis by (auto simp: dispatched_none)
  next
    case False
    obtain st1 r where i: "invokeAgentStreamWithRetries D task a (visit (ag_ID a) st) = (st1, r)" by fastforce
    have "streamed a (Suc (max_retries a)) (visit (ag_ID a) st) st1"
      using stream_invoke_streamed [of a "visit (ag_ID a) st" D task] unfolding i by simp
    then obtain k evs where k: "dispatched A st st1 [(a, k)] evs"
      using dispatched_streamed [OF _ False 2(2)] by blast
    have "\<exists>invs evs. dispatched A st (fst (stream_fallback_loop n D task a e (ag_FallbackAgentIDs a) st1)) invs evs"
      if "r = Some e" "\<not> ds_hasEmitted st1" "ctx_of D st1 = None" for e
    proof -
      have "evs = []" using dispatched_emitted_iff [OF k 2(4)] that(2) by blast
      moreover have "resolves_in D A (ag_FallbackAgentIDs a)" using 2(2,3) by (simp add: fallback_closed_def)
      ultimately show ?thesis
        using 2(1) [OF False i [symmetric] refl that(1,2,3) 2(3) _ that(2)] dispatched_trans [of A st st1 "[(a, k)]"] k by blast
    qed
    then show ?thesis using False i k by (auto simp: Let_def split: option.splits)
  qed
next
  case (3 n D task a err st)
  then show ?case by (auto simp: dispatched_none)
next
  case (4 n D task a err f fs st)
  have emitted: "\<not> ds_hasEmitted st" by (fact 4(7))
  note rest = resolves_in_Cons(1) [OF 4(6)]
  show ?case
  proof (cases "ctx_of D st")
    case (Some c)
    then show ?thesis by (auto simp: dispatched_none)
  next
    case None
    show ?thesis
    proof (cases "f \<in> set (ds_visited st)")
      case True
      then show ?thesis using 4(1) [OF None emitted True 4(5) rest 4(7)] None emitted by simp
    next
      case False
      show ?thesis
      proof (cases "GetAgent D (now_of D st) f")
        case (Inl e)
        then show ?thesis using 4(2) [OF None emitted False Inl 4(5) rest 4(7)] None False emitted by simp
      next
        case (Inr b)
        let ?st = "count_fallback (ag_ID a) f st"
        have e0: "\<not> ds_hasEmitted ?st" using emitted by (simp add: count_fallback_def)
        obtain st1 r where d: "dispatchStreamWithFallback n D task b ?st = (st1, r)" by fastforce
        have "b \<in> A" by (rule resolves_in_Cons(2) [OF 4(6) Inr])
        then obtain invs evs where "dispatched A ?st st1 invs evs"
          using 4(3) [OF None emitted False Inr _ 4(5) e0] d by auto
        then have k: "dispatched A st st1 invs evs" by (rule dispatched_quiet_left [OF quiet_count_fallback])
        have "\<exists>invs evs. dispatched A st (fst (stream_fallback_loop n D task a err fs st1)) invs evs"
          if "r = D_err e" "\<not> ds_hasEmitted st1" for e
        proof -
          have "evs = []" using dispatched_emitted_iff [OF k emitted] that(2) by blast
          then show ?thesis
            using 4(4) [OF None emitted False Inr d [symmetric] that(1,2) 4(5) rest that(2)] dispatched_trans [of A st st1 invs] k
            by blast
        qed
        then show ?thesis using k None False Inr d emitted by (auto split: dresult.splits)
      qed
    qed
  qed
qed

definition stream_result :: "'w Dispatcher \<Rightarrow> AgentConfig \<Rightarrow> ('w, 'm) dstate \<Rightarrow> unit dresult \<Rightarrow> bool" where
  "stream_result D a st r \<longleftrightarrow> (case r of
     D_ok _ \<Rightarrow> True
   | D_err e \<Rightarrow> ds_hasEmitted st \<or> (\<exists>err. e = cascade_error D a err st)
   | D_fuel \<Rightarrow> False)"

lemma stream_ctx: "ctx_of D st = Some c \<Longrightarrow> stream_result D a st (D_err (Err_ctx c))"
  by (simp add: stream_result_def cascade_error_def)

lemma stream_emitted: "ds_hasEmitted st \<Longrightarrow> stream_result D a st (D_err e)"
  by (simp add: stream_result_def)

lemma stream_visited:
  assumes "dispatchStreamWithFallback n D task a st = (st', r)" and "\<not> ds_hasEmitted st"
  shows "set (ds_visited st) \<subseteq> set (ds_visited st')"
  using stream_dispatched(1) [of a UNIV D st n task] assms(2)
  by (auto simp: assms(1) fallback_closed_UNIV dest: dispatched_visited)

lemma stream_invoke_visited:
  assumes "invokeAgentStreamWithRetries D task a (visit (ag_ID a) st) = (st1, r)"
  shows "set (ds_visited st1) = insert (ag_ID a) (set (ds_visited st))"
  using stream_invoke_streamed [of a "visit (ag_ID a) st" D task] unfolding assms
  by (auto simp: streamed_def visit_def)

lemma dispatch_stream_result:
  shows "\<lbrakk>ag_ID a \<in> untried D st; card (untried D st) \<le> n; \<not> ds_hasEmitted st;
       dispatchStreamWithFallback n D task a st = (st', r)\<rbrakk> \<Longrightarrow> stream_result D a st' r"
    and "\<lbrakk>card (untried D st) \<le> n; \<not> ds_hasEmitted st; stream_fallback_loop n D task a err fs st = (st', r)\<rbrakk>
      \<Longrightarrow> stream_result D a st' r"
proof (induction n D task a st and n D task a err fs st arbitrary: st' r and st' r
    rule: dispatchStreamWithFallback_stream_fallback_loop.induct)
  case (1 D task a st)
  then have "card (untried D st) \<noteq> 0" by (subst card_0_eq) (auto simp: untried_def)
  then show ?case using 1 by simp
next
  case (2 n D task a st)
  have new: "ag_ID a \<notin> set (ds_visited st)" using 2(2) by (simp add: untried_def)
  obtain st1 q where i: "invokeAgentStreamWithRetries D task a (visit (ag_ID a) st) = (st1, q)" by fastforce
  have "card (untried D st1) < card (untried D st)"
    using untried_less [OF _ 2(2)] stream_invoke_visited [OF i] by blast
  then have n: "card (untried D st1) \<le> n" using 2(3) by simp
  show ?case
  proof (cases q)
    case None
    then show ?thesis using 2(5) i new by (auto simp: stream_result_def)
  next
    case (Some e)
    show ?thesis
    proof (cases "ds_hasEmitted st1 \<or> ctx_of D st1 \<noteq> None")
      case True
      then show ?thesis using 2(5) i new Some stream_ctx [of D st1] stream_emitted [of st1]
        by (auto split: if_splits option.splits)
    next
      case False
      then have f: "\<not> ds_hasEmitted st1" "ctx_of D st1 = None" by blast+
      show ?thesis using 2(1) [OF new i [symmetric] refl Some f n f(1)] 2(5) i new Some f by simp
    qed
  qed
next
  case (3 n D task a err st)
  then show ?case by (auto simp: stream_result_def)
next
  case (4 n D task a err f fs st)
  note emitted = 4(6)
  show ?case
  proof (cases "ctx_of D st")
    case (Some c)
    then show ?thesis using 4(7) stream_ctx [OF Some] by simp
  next
    case None
    show ?thesis
    proof (cases "f \<in> set (ds_visited st)")
      case True
      then show ?thesis using 4(1) [OF None emitted True 4(5,6)] 4(7) None emitted by simp
    next
      case False
      show ?thesis
      proof (cases "GetAgent D (now_of D st) f")
        case (Inl e)
        then show ?thesis using 4(2) [OF None emitted False Inl 4(5,6)] 4(7) None False emitted by simp
      next
        case (Inr b)
        let ?st = "count_fallback (ag_ID a) f st"
        obtain st1 q where d: "dispatchStreamWithFallback n D task b ?st = (st1, q)" by fastforce
        have same: "untried D ?st = untried D st" "ds_hasEmitted ?st = ds_hasEmitted st"
          by (simp_all add: untried_def count_fallback_def)
        have b: "ag_ID b \<in> untried D ?st" using GetAgent_Inr [OF Inr] False unfolding same by (auto simp: untried_def)
        have e0: "\<not> ds_hasEmitted ?st" using emitted same by simp
        have q: "stream_result D b st1 q" using 4(3) [OF None emitted False Inr b _ e0 d] 4(5) same by simp
        have "card (untried D st1) \<le> card (untried D ?st)" by (rule untried_mono [OF stream_visited [OF d e0]])
        then have n: "card (untried D st1) \<le> n" using 4(5) same by simp
        show ?thesis
        proof (cases q)
          case (D_err e)
          show ?thesis
          proof (cases "ds_hasEmitted st1")
            case True
            then show ?thesis using 4(7) emitted None False Inr d D_err stream_emitted by auto
          next
            case no: False
            show ?thesis using 4(4) [OF None emitted False Inr d [symmetric] D_err no n no] 4(7) emitted None False Inr d D_err no by simp
          qed
        qed (use q d 4(7) emitted None False Inr in \<open>auto simp: stream_result_def\<close>)
      qed
    qed
  qed
qed

section \<open>Single attempts\<close>

lemma single_attempt_trace:
  "\<exists>k\<le>1. ds_trace (fst (DispatchSingleAttempt D task st)) = ds_trace st @
     (case resolveAgent D (now_of D st) task of Inl _ \<Rightarrow> [] | Inr a \<Rightarrow> replicate k (Called (ag_ID a)))"
proof (cases "resolveAgent D (now_of D st) task")
  case (Inl e)
  then show ?thesis by (auto simp: DispatchSingleAttempt_def)
next
  case (Inr a0)
  let ?a = "a0\<lparr>ag_Retries := 0, ag_FallbackAgentIDs := []\<rparr>"
  obtain st1 r where i: "invokeAgentWithRetries D (the task) ?a st = (st1, r)" by fastforce
  have "fst (DispatchSingleAttempt D task st) = st1"
    by (simp add: DispatchSingleAttempt_def Inr i Let_def split: sum.splits)
  moreover have "invoked ?a 1 st st1"
    using invoke_invoked [of ?a st D "the task"] unfolding i by (simp add: max_retries_def)
  ultimately show ?thesis by (auto simp: Inr invoked_def calls_def)
qed

end
