(* ===== verification/Dispatcher_Claims.thy ===== *)
theory Dispatcher_Claims
  imports Dispatcher_Facts
begin

text \<open>
  The properties of the dispatcher: bounded work, termination and the errors a caller sees,
  completeness of the failover, and the order of calls and events of a stream.
\<close>

section \<open>Concrete agents\<close>

definition demo_auth :: AuthConfig where
  "demo_auth = \<lparr>auth_Type = [], auth_Token = [], auth_HeaderName = [], auth_HeaderValue = []\<rparr>"

definition demo_agent :: "string \<Rightarrow> string list \<Rightarrow> AgentConfig" where
  "demo_agent i fs = \<lparr>ag_ID = i, ag_Name = [], ag_Description = [], ag_Type = ''a2a'', ag_Endpoint = [],
     ag_Capabilities = [], ag_Tags = [], ag_TimeoutSeconds = 1, ag_Retries = 0, ag_FallbackAgentIDs = fs,
     ag_Auth = demo_auth, ag_Options = [], ag_Mapping = None\<rparr>"

definition demo_gateway :: Config where
  "demo_gateway = \<lparr>cfg_Role = [],
     cfg_Server = \<lparr>sv_Host = [], sv_Port = 0, sv_ReadTimeoutSeconds = 0, sv_WriteTimeoutSeconds = 0, sv_IdleTimeoutSeconds = 0\<rparr>,
     cfg_Worker = zero_worker, cfg_Security = \<lparr>sec_Enabled = False, sec_APIKeys = []\<rparr>,
     cfg_Agents = [demo_agent ''a'' [''b''], demo_agent ''b'' [''c''], demo_agent ''c'' []],
     cfg_Storage = \<lparr>st_Backend = [], st_Memory = \<lparr>mem_MaxTasks = 0\<rparr>, st_Postgres = zero_postgres\<rparr>\<rparr>"

text \<open>An adapter that passes requests on, in a world where every connection is refused.\<close>

definition demo_adapter :: "unit Adapter" where
  "demo_adapter = \<lparr>ad_Type = ''a2a'',
     ad_TranslateRequest = (\<lambda>_ _ _ w. (w, Inr \<lparr>q_Method = ''POST'', q_URL = [], q_Header = [], q_Body = []\<rparr>)),
     ad_TranslateResponse = (\<lambda>_ _ _ w. (w, Inl (Err_text ''no''))),
     ad_TranslateStream = (\<lambda>_ _ _ w. (w, [], None))\<rparr>"

definition demo_ops :: "unit world_ops" where
  "demo_ops = \<lparr>wo_ctx_err = (\<lambda>_. None), wo_now = (\<lambda>_. 0), wo_do = (\<lambda>_ _ w. (w, Inl (Err_text ''refused''))),
     wo_wait = (\<lambda>_ w. (w, None)), wo_random = (\<lambda>w. (w, []))\<rparr>"

definition demo_dispatcher :: "unit Dispatcher" where
  "demo_dispatcher = \<lparr>d_cfg = Some demo_gateway, d_reg = Adapter_Register demo_adapter [], d_ops = demo_ops,
     d_backoff = (\<lambda>_ _. 0), d_unicode = ascii_tables\<rparr>"

definition demo_task :: TaskRequest where
  "demo_task = \<lparr>tr_ID = [], tr_AgentID = ''a'', tr_RequiredCapability = [], tr_Input = None, tr_Context = [],
     tr_Metadata = [], tr_Stream = False\<rparr>"

definition demo_dstate :: "(unit, nat) dstate" where
  "demo_dstate = \<lparr>ds_world = (), ds_metrics = None, ds_visited = [], ds_hasEmitted = False, ds_trace = []\<rparr>"

lemmas dispatch_eval = demo_auth_def demo_agent_def demo_gateway_def demo_adapter_def demo_ops_def
  demo_dispatcher_def demo_task_def demo_dstate_def Dispatch_def resolveAgent_def GetAgent_def config_agents_def
  now_of_def ctx_of_def fuel_of_def visit_def invokeAgentWithRetries_def Adapter_Get_def Adapter_Register_def
  max_retries_def before_attempt_def call_client_def attempt_timeout_def err_or_nil_def count_fallback_def

lemma demo_dispatch_fails:
  "\<exists>e. Dispatch demo_dispatcher (Some demo_task) demo_dstate =
     (demo_dstate\<lparr>ds_visited := [''c'', ''b'', ''a''], ds_trace := [Called ''a'', Called ''b'', Called ''c'']\<rparr>, D_err e)"
  by (simp add: dispatch_eval eval_nat_numeral)

section \<open>Properties\<close>

lemma resolved_configured: "resolveAgent D now task = Inr a \<Longrightarrow> a \<in> set (config_agents D)"
  by (auto simp: resolveAgent_def FindAgentByCapability_def split: option.splits if_splits
      dest!: GetAgent_Inr find_SomeD)

lemma initially_untried:
  assumes "a \<in> set (config_agents D)"
  shows "ag_ID a \<in> untried D (st\<lparr>ds_visited := []\<rparr>)" "card (untried D (st\<lparr>ds_visited := []\<rparr>)) \<le> fuel_of D"
proof -
  show "ag_ID a \<in> untried D (st\<lparr>ds_visited := []\<rparr>)" using assms by (simp add: untried_def)
  show "card (untried D (st\<lparr>ds_visited := []\<rparr>)) \<le> fuel_of D"
    using card_image_le [of "set (config_agents D)" ag_ID] card_length [of "config_agents D"]
    by (simp add: untried_def fuel_of_def)
qed

definition within_retries :: "'w Dispatcher \<Rightarrow> invocations \<Rightarrow> bool" where
  "within_retries D invs \<longleftrightarrow>
     distinct (map (ag_ID \<circ> fst) invs) \<and> list_all (\<lambda>(b, k). b \<in> set (config_agents D) \<and> k \<le> Suc (max_retries b)) invs"

lemma dispatched_within:
  "dispatched (set (config_agents D)) st st' invs evs \<Longrightarrow>
     within_retries D invs \<and> ds_trace st' = ds_trace st @ invocation_trace invs @ map Emitted evs"
  unfolding dispatched_def within_retries_def list_all_iff by (simp add: split_def)

text \<open>
  C17. A dispatch does a bounded amount of work: its HTTP calls form one block per agent, no
  agent has two blocks, only configured agents are called, and an agent is called at most
  once more than its retries.
\<close>

theorem dispatch_bounded_calls:
  "\<exists>invs. ds_trace (fst (Dispatch D task st)) = ds_trace st @ invocation_trace invs \<and> within_retries D invs"
proof (cases "resolveAgent D (now_of D st) task")
  case (Inl e)
  then show ?thesis by (intro exI [of _ "[]"]) (simp add: Dispatch_def invocation_trace_def within_retries_def)
next
  case (Inr a)
  obtain invs where "dispatched (set (config_agents D)) (st\<lparr>ds_visited := []\<rparr>) (fst (Dispatch D task st)) invs []"
    using dispatch_dispatched(1) [OF resolved_configured [OF Inr] fallback_closed_config, of "st\<lparr>ds_visited := []\<rparr>" "fuel_of D" "the task"]
    by (auto simp: Dispatch_def Inr)
  from dispatched_within [OF this] show ?thesis by auto
qed

text \<open>
  C18. Every dispatch ends, with a response that has a task ID or with one of the documented
  errors: the request could not be resolved, the context is over, or the cascade from the
  resolved agent timed out or was unavailable. It never reports a cycle and the recursion
  over fallback agents is never deeper than the number of configured agents.
\<close>

theorem dispatch_outcome:
  "case Dispatch D task st of
     (st', D_ok resp) \<Rightarrow> resp_TaskID resp \<noteq> []
   | (st', D_err e) \<Rightarrow>
       (case resolveAgent D (now_of D st) task of
          Inl r \<Rightarrow> e = Err_a2a r
        | Inr a \<Rightarrow>
            (case ctx_of D st' of
               Some c \<Rightarrow> e = Err_ctx c
             | None \<Rightarrow> \<exists>r. e = Err_a2a r \<and> err_AgentID r = ag_ID a \<and>
                 (err_Code r, err_Status r) \<in> {(''DOWNSTREAM_TIMEOUT'', 504), (''DOWNSTREAM_UNAVAILABLE'', 502)}))
   | (st', D_fuel) \<Rightarrow> False"
proof (cases "resolveAgent D (now_of D st) task")
  case (Inl e)
  then show ?thesis by (simp add: Dispatch_def)
next
  case (Inr a)
  obtain st' r where d: "Dispatch D task st = (st', r)" by fastforce
  have "cascade_result D a st' r"
    using dispatch_cascade_result(1) [OF initially_untried [OF resolved_configured [OF Inr]]] d
    by (simp add: Dispatch_def Inr)
  then show ?thesis
    by (auto simp: d Inr cascade_result_def cascade_error_def split: dresult.splits option.splits)
qed

text \<open>The agents reachable over fallback lists.\<close>

definition falls_back :: "'w Dispatcher \<Rightarrow> AgentConfig \<Rightarrow> AgentConfig \<Rightarrow> bool" where
  "falls_back D x y \<longleftrightarrow> y \<in> set (config_agents D) \<and> ag_ID y \<in> set (ag_FallbackAgentIDs x)"

text \<open>
  C19. The failover is complete: when a dispatch fails although its context is alive, every
  agent reachable from the resolved one over the fallback lists was tried.
\<close>

theorem dispatch_tries_every_fallback:
  assumes "distinct (map ag_ID (config_agents D))" and "resolveAgent D (now_of D st) task = Inr a"
    and "Dispatch D task st = (st', D_err e)" and "ctx_of D st' = None" and "(falls_back D)\<^sup>*\<^sup>* a b"
  shows "ag_ID b \<in> set (ds_visited st')"
proof -
  have a: "a \<in> set (config_agents D)" by (rule resolved_configured [OF assms(2)])
  have start: "ag_ID a \<in> set (ds_visited st')" "expanded D (st\<lparr>ds_visited := []\<rparr>) st'"
    using dispatch_expanded(1) [OF assms(1) a _ assms(4)] assms(2,3) by (simp_all add: Dispatch_def)
  have "b \<in> set (config_agents D) \<and> ag_ID b \<in> set (ds_visited st')"
    using assms(5)
  proof induction
    case base
    then show ?case using a start by blast
  next
    case (step x y)
    then have "ag_ID y \<in> fallbacks_of D x" by (simp add: falls_back_def fallbacks_of_def)
    then show ?case using step start(2) by (auto simp: expanded_def falls_back_def)
  qed
  then show ?thesis by blast
qed

theorem dispatch_tries_every_fallback_witness:
  "\<exists>st' e. Dispatch demo_dispatcher (Some demo_task) demo_dstate = (st', D_err e) \<and> ''c'' \<in> set (ds_visited st')"
proof -
  obtain e where e: "Dispatch demo_dispatcher (Some demo_task) demo_dstate =
     (demo_dstate\<lparr>ds_visited := [''c'', ''b'', ''a''], ds_trace := [Called ''a'', Called ''b'', Called ''c'']\<rparr>, D_err e)"
    using demo_dispatch_fails by blast
  have "(falls_back demo_dispatcher)\<^sup>*\<^sup>* (demo_agent ''a'' [''b'']) (demo_agent ''c'' [])"
    by (rule rtranclp_trans [of _ _ "demo_agent ''b'' [''c'']"]; rule r_into_rtranclp) (simp_all add: falls_back_def dispatch_eval)
  then have "ag_ID (demo_agent ''c'' []) \<in> set (ds_visited (demo_dstate\<lparr>ds_visited := [''c'', ''b'', ''a''],
      ds_trace := [Called ''a'', Called ''b'', Called ''c'']\<rparr>))"
    by (intro dispatch_tries_every_fallback [OF _ _ e]) (simp_all add: dispatch_eval)
  then show ?thesis using e by (auto simp: demo_agent_def)
qed

text \<open>
  A streaming dispatch makes all its calls before it emits the first event, within the
  same bounds; once an event is out no other agent is called.
\<close>

lemma stream_calls_before_events:
  "\<exists>invs evs. ds_trace (fst (DispatchStream D task st)) = ds_trace st @ invocation_trace invs @ map Emitted evs \<and>
     within_retries D invs"
proof (cases "resolveAgent D (now_of D st) task")
  case (Inl e)
  then show ?thesis
    by (intro exI [of _ "[]"]) (simp add: DispatchStream_def invocation_trace_def within_retries_def)
next
  case (Inr a)
  let ?st = "st\<lparr>ds_visited := [], ds_hasEmitted := False\<rparr>"
  obtain invs evs where "dispatched (set (config_agents D)) ?st (fst (DispatchStream D task st)) invs evs"
    using stream_dispatched(1) [OF resolved_configured [OF Inr] fallback_closed_config, of ?st "fuel_of D" "the task"]
    by (auto simp: DispatchStream_def Inr)
  from dispatched_within [OF this] show ?thesis by auto
qed

text \<open>
  A streaming dispatch ends; an error before the first event is one of the documented
  ones, judged as for a plain dispatch.
\<close>

lemma stream_outcome:
  "case DispatchStream D task st of
     (st', D_ok _) \<Rightarrow> True
   | (st', D_err e) \<Rightarrow>
       (case resolveAgent D (now_of D st) task of
          Inl r \<Rightarrow> e = Err_a2a r
        | Inr a \<Rightarrow> ds_hasEmitted st' \<or> (\<exists>err. e = cascade_error D a err st'))
   | (st', D_fuel) \<Rightarrow> False"
proof (cases "resolveAgent D (now_of D st) task")
  case (Inl e)
  then show ?thesis by (simp add: DispatchStream_def)
next
  case (Inr a)
  let ?st = "st\<lparr>ds_visited := [], ds_hasEmitted := False\<rparr>"
  obtain st' r where d: "DispatchStream D task st = (st', r)" by fastforce
  have "ag_ID a \<in> untried D ?st" "card (untried D ?st) \<le> fuel_of D"
    using initially_untried [OF resolved_configured [OF Inr], of "st\<lparr>ds_hasEmitted := False\<rparr>"] by (simp_all add: untried_def)
  then have "stream_result D a st' r"
    using dispatch_stream_result(1) [of a D ?st "fuel_of D"] d by (simp add: DispatchStream_def Inr)
  then show ?thesis by (auto simp: d Inr stream_result_def split: dresult.splits)
qed

text \<open>
  A single attempt, as the durable workers use it, makes at most one call, to the resolved
  agent, whatever retries and fallbacks are configured.
\<close>

lemma single_attempt_one_call:
  "\<exists>k\<le>1. ds_trace (fst (DispatchSingleAttempt D task st)) = ds_trace st @
     (case resolveAgent D (now_of D st) task of Inl _ \<Rightarrow> [] | Inr a \<Rightarrow> replicate k (Called (ag_ID a)))"
  by (rule single_attempt_trace)

text \<open>
  An agent timeout above the range of \<open>time.Duration\<close> wraps around: with ten milliard
  seconds the deadline of every attempt lies in the past.
\<close>

lemma attempt_timeout_wraps:
  "attempt_timeout ((demo_agent ''a'' [])\<lparr>ag_TimeoutSeconds := 10000000000\<rparr>) = Some (- 8446744073709551616)"
  by (simp add: attempt_timeout_def second_def wrap64_def)

end
