(* ===== verification/Job_Executor.thy ===== *)
theory Job_Executor
  imports Dispatcher_Facts
begin

text \<open>
  The executor of durable jobs, pkg/worker/executor.go: a job is decoded, routed by the
  trusted columns of its row and dispatched once; every failure is mapped to a bounded code
  and message. The JSON decoder of a stored request is a parameter.
\<close>

section \<open>Failures\<close>

definition exec_error :: "string \<Rightarrow> string \<Rightarrow> bool \<Rightarrow> ExecutionError" where
  "exec_error c m r = \<lparr>xe_Code = c, xe_Message = m, xe_Retryable = r\<rparr>"

lemma exec_error_sel [simp]:
  "xe_Code (exec_error c m r) = c" "xe_Message (exec_error c m r) = m" "xe_Retryable (exec_error c m r) = r"
  by (simp_all add: exec_error_def)

definition mapDispatcherError :: "go_err \<Rightarrow> int \<Rightarrow> ExecutionError" where
  "mapDispatcherError err maxAttempts =
     (case as_a2a err of
        Some a \<Rightarrow>
          if err_Code a = ''DOWNSTREAM_TIMEOUT''
          then exec_error ''DOWNSTREAM_TIMEOUT'' ''downstream agent request timed out'' (maxAttempts > 1)
          else if err_Code a = ''DOWNSTREAM_UNAVAILABLE''
          then exec_error ''DOWNSTREAM_UNAVAILABLE'' ''downstream agent unavailable'' (maxAttempts > 1)
          else if err_Code a = ''AGENT_NOT_FOUND'' then exec_error ''AGENT_NOT_FOUND'' ''agent not found'' False
          else if err_Code a = ''CAPABILITY_NOT_FOUND''
          then exec_error ''CAPABILITY_NOT_FOUND'' ''agent capability not found'' False
          else if err_Code a = ''CYCLE_DETECTED'' then exec_error ''CYCLE_DETECTED'' ''fallback cycle detected'' False
          else if err_Code a = ''INVALID_REQUEST'' then exec_error ''INVALID_REQUEST'' ''invalid task request'' False
          else exec_error ''DOWNSTREAM_ERROR'' ''downstream execution failed'' False
      | None \<Rightarrow>
          if is_deadline err
          then exec_error ''DOWNSTREAM_TIMEOUT'' ''downstream agent request timed out'' (maxAttempts > 1)
          else exec_error ''INTERNAL_ERROR'' ''internal execution failure'' False)"

definition boundString :: "string \<Rightarrow> nat \<Rightarrow> string" where
  "boundString s maxRunes =
     (let t = trim_space s in
      if rune_count t \<le> maxRunes then t else of_runes (take maxRunes (runes t)))"

text \<open>\<open>None\<close> is the nil error.\<close>

definition SanitizeFailure :: "go_err option \<Rightarrow> int \<Rightarrow> string \<times> string \<times> bool" where
  "SanitizeFailure err maxAttempts =
     (case err of
        None \<Rightarrow> ([], [], False)
      | Some e \<Rightarrow>
          let x = (case as_exec e of Some x \<Rightarrow> x | None \<Rightarrow> mapDispatcherError e maxAttempts) in
          (boundString (xe_Code x) MaxFailureCodeLength, boundString (xe_Message x) MaxFailureMessageLength,
           xe_Retryable x \<and> maxAttempts > 1))"

section \<open>Execution\<close>

text \<open>\<open>DispatcherExecutor.Execute\<close>; a nil dispatcher or a nil job is \<open>None\<close>.\<close>

definition Execute ::
  "(bytes \<Rightarrow> TaskRequest option) \<Rightarrow> 'w Dispatcher option \<Rightarrow> Job option \<Rightarrow> ('w, 'm) dstate
     \<Rightarrow> ('w, 'm) dstate \<times> (go_err + TaskResponse)" where
  "Execute decode disp job st =
     (case disp of None \<Rightarrow> (st, Inl (Err_exec (exec_error ''NIL_DISPATCHER'' ''dispatcher is not configured'' False)))
      | Some D \<Rightarrow>
      (case job of None \<Rightarrow> (st, Inl (Err_exec (exec_error ''INVALID_JOB'' ''job cannot be nil'' False)))
      | Some j \<Rightarrow>
      if j_Request j = [] then (st, Inl (Err_exec (exec_error ''INVALID_PAYLOAD'' ''job request payload is empty'' False)))
      else (case decode (j_Request j) of
        None \<Rightarrow> (st, Inl (Err_exec (exec_error ''INVALID_PAYLOAD'' ''failed to decode job request payload'' False)))
      | Some req \<Rightarrow>
          if tr_Stream req
          then (st, Inl (Err_exec (exec_error ''STREAMING_NOT_SUPPORTED'' ''streaming jobs are not supported in durable worker'' False)))
          else
            let req' = req\<lparr>tr_ID := j_ID j, tr_AgentID := j_AgentID j, tr_RequiredCapability := j_RequiredCapability j\<rparr>;
                (st1, r) = DispatchSingleAttempt D (Some req') st in
            case r of
              Inl err \<Rightarrow>
                (case ctx_of D st1 of
                   Some c \<Rightarrow> (st1, Inl (Err_ctx c))
                 | None \<Rightarrow> (st1, Inl (Err_exec (mapDispatcherError err (j_MaxAttempts j)))))
            | Inr resp \<Rightarrow>
                if resp_Status resp = StatusFailed
                then (st1, Inl (Err_exec (exec_error ''TASK_FAILED'' ''downstream task reported failure'' False)))
                else (st1, Inr resp))))"

section \<open>Facts\<close>

lemma rune_count_boundString: "rune_count (boundString s n) \<le> n"
  by (simp add: boundString_def Let_def)

lemma SanitizeFailure_bounds:
  assumes "SanitizeFailure err m = (code, msg, r)"
  shows "rune_count code \<le> MaxFailureCodeLength" "rune_count msg \<le> MaxFailureMessageLength" "r \<Longrightarrow> 1 < m"
  using assms rune_count_boundString
  by (auto simp: SanitizeFailure_def Let_def split: option.splits)

section \<open>Fixed failure texts\<close>

text \<open>The codes and messages that an execution through the dispatcher can report.\<close>

definition failure_texts :: "(string \<times> string) list" where
  "failure_texts =
     [(''NIL_DISPATCHER'', ''dispatcher is not configured''), (''INVALID_JOB'', ''job cannot be nil''),
      (''INVALID_PAYLOAD'', ''job request payload is empty''), (''INVALID_PAYLOAD'', ''failed to decode job request payload''),
      (''STREAMING_NOT_SUPPORTED'', ''streaming jobs are not supported in durable worker''),
      (''TASK_FAILED'', ''downstream task reported failure''),
      (''DOWNSTREAM_TIMEOUT'', ''downstream agent request timed out''), (''DOWNSTREAM_UNAVAILABLE'', ''downstream agent unavailable''),
      (''AGENT_NOT_FOUND'', ''agent not found''), (''CAPABILITY_NOT_FOUND'', ''agent capability not found''),
      (''CYCLE_DETECTED'', ''fallback cycle detected''), (''INVALID_REQUEST'', ''invalid task request''),
      (''DOWNSTREAM_ERROR'', ''downstream execution failed''), (''INTERNAL_ERROR'', ''internal execution failure'')]"

text \<open>ASCII text without blanks at its ends is not changed by \<open>boundString\<close>.\<close>

definition plain_text :: "string \<Rightarrow> bool" where
  "plain_text s \<longleftrightarrow> s \<noteq> [] \<and> list_all (\<lambda>c. byte c < 128) s \<and> \<not> is_space (byte (hd s)) \<and> \<not> is_space (byte (last s))"

lemma segs_ascii: "list_all (\<lambda>c. byte c < 128) s \<Longrightarrow> segs s = map (\<lambda>c. (byte c, [c])) s"
  by (induction s) (simp_all add: Let_def)

lemma strip_ends: "xs \<noteq> [] \<Longrightarrow> \<not> P (hd xs) \<Longrightarrow> \<not> P (last xs) \<Longrightarrow> strip P xs = xs"
proof -
  assume "xs \<noteq> []" "\<not> P (hd xs)" "\<not> P (last xs)"
  then have "dropWhile P xs = xs" "dropWhile P (rev xs) = rev xs"
    by (auto simp: dropWhile_eq_self_iff hd_rev)
  then show ?thesis by (simp add: strip_def)
qed

lemma boundString_plain:
  assumes "plain_text s" and "length s \<le> n"
  shows "boundString s n = s"
proof -
  have segs: "segs s = map (\<lambda>c. (byte c, [c])) s" using assms(1) segs_ascii by (simp add: plain_text_def)
  have "strip (is_space \<circ> fst) (segs s) = segs s"
    using assms(1) by (intro strip_ends) (simp_all add: segs plain_text_def hd_map last_map)
  then have "trim_space s = s" by (simp add: trim_space_def)
  then show ?thesis using assms(2) rune_count_le_length [of s] by (simp add: boundString_def)
qed

lemma byte_ascii: "byte c < 128 \<longleftrightarrow> \<not> digit7 c"
  by (cases c) (simp add: of_char_def horner_sum_simps)

lemma failure_texts_plain:
  "list_all (\<lambda>(c, m). plain_text c \<and> plain_text m \<and> length c \<le> 128 \<and> length m \<le> 2048) failure_texts"
  by (simp add: failure_texts_def plain_text_def is_space_def byte_ascii)

lemma failure_texts_members:
  "(''NIL_DISPATCHER'', ''dispatcher is not configured'') \<in> set failure_texts"
  "(''INVALID_JOB'', ''job cannot be nil'') \<in> set failure_texts"
  "(''INVALID_PAYLOAD'', ''job request payload is empty'') \<in> set failure_texts"
  "(''INVALID_PAYLOAD'', ''failed to decode job request payload'') \<in> set failure_texts"
  "(''STREAMING_NOT_SUPPORTED'', ''streaming jobs are not supported in durable worker'') \<in> set failure_texts"
  "(''TASK_FAILED'', ''downstream task reported failure'') \<in> set failure_texts"
  by (simp_all add: failure_texts_def)

lemma mapDispatcherError_texts:
  "(xe_Code (mapDispatcherError e m), xe_Message (mapDispatcherError e m)) \<in> set failure_texts"
  by (simp add: mapDispatcherError_def exec_error_def failure_texts_def split: option.split)

lemma Execute_texts:
  assumes "Execute decode disp job st = (st', Inl err)"
  shows "(\<exists>c. err = Err_ctx c) \<or> (\<exists>x. err = Err_exec x \<and> (xe_Code x, xe_Message x) \<in> set failure_texts)"
  using assms
  by (auto simp: Execute_def Let_def mapDispatcherError_texts failure_texts_members
      split: option.splits if_splits prod.splits sum.splits)

lemma Sanitize_texts:
  assumes "SanitizeFailure (Some err) m = (code, msg, r)"
    and "(\<exists>c. err = Err_ctx c) \<or> (\<exists>x. err = Err_exec x \<and> (xe_Code x, xe_Message x) \<in> set failure_texts)"
  shows "(code, msg) \<in> set failure_texts"
proof -
  define x where "x = (case as_exec err of Some x \<Rightarrow> x | None \<Rightarrow> mapDispatcherError err m)"
  have x: "(xe_Code x, xe_Message x) \<in> set failure_texts"
    using assms(2) mapDispatcherError_texts unfolding x_def by auto
  then have "plain_text (xe_Code x)" "plain_text (xe_Message x)" "length (xe_Code x) \<le> 128" "length (xe_Message x) \<le> 2048"
    using failure_texts_plain by (auto simp: list_all_iff)
  then have "code = xe_Code x" "msg = xe_Message x"
    using assms(1) boundString_plain
    by (auto simp: SanitizeFailure_def x_def [symmetric] MaxFailureCodeLength_def MaxFailureMessageLength_def)
  then show ?thesis using x by simp
qed

end
