(* ===== verification/Worker_Engine.thy ===== *)
theory Worker_Engine
  imports Job_Executor
begin

text \<open>
  The durable worker engine, pkg/worker/worker.go. The engine reaches the outside through the
  interface \<open>JobRepository\<close>, through the executor and through the runtime (how many renewal
  ticks fire while a job executes, whether the drain deadline has canceled a job); all act on
  a state \<open>'w\<close> of the world, in which other workers may act at any time. A log records the
  calls that matter and the callbacks of the engine.
\<close>

section \<open>Interfaces\<close>

record 'w JobRepository =
  jr_GetJob :: "string \<Rightarrow> string \<Rightarrow> 'w \<Rightarrow> 'w \<times> (repo_error + Job)"
  jr_AcquireLeases :: "ctx_error option \<Rightarrow> string \<Rightarrow> int \<Rightarrow> go_duration \<Rightarrow> 'w \<Rightarrow> 'w \<times> (repo_error + Job option list)"
  jr_MarkRunning :: "ctx_error option \<Rightarrow> LeaseFence \<Rightarrow> 'w \<Rightarrow> 'w \<times> repo_error option"
  jr_RenewLease :: "LeaseFence \<Rightarrow> go_duration \<Rightarrow> 'w \<Rightarrow> 'w \<times> repo_error option"
  jr_CompleteJob :: "LeaseFence \<Rightarrow> payload \<Rightarrow> 'w \<Rightarrow> 'w \<times> repo_error option"
  jr_FailJob :: "FailJobInput \<Rightarrow> 'w \<Rightarrow> 'w \<times> repo_error option"
  jr_AcknowledgeCancellation :: "LeaseFence \<Rightarrow> 'w \<Rightarrow> 'w \<times> repo_error option"
  jr_ReclaimExpiredLeases :: "ctx_error option \<Rightarrow> int \<Rightarrow> go_duration \<Rightarrow> 'w \<Rightarrow> 'w \<times> (repo_error + nat)"

text \<open>A run of the executor returns a response or an error, or panics.\<close>

datatype exec_outcome = X_ok payload | X_err go_err | X_panic

text \<open>The second argument of \<open>Execute\<close> is the error of the job's context when it was canceled.\<close>

record 'w runtime =
  rt_repo :: "'w JobRepository"
  rt_Execute :: "ctx_error option \<Rightarrow> Job \<Rightarrow> 'w \<Rightarrow> 'w \<times> exec_outcome"
  rt_ticks :: "Job \<Rightarrow> 'w \<Rightarrow> nat"
  rt_forced :: "Job \<Rightarrow> 'w \<Rightarrow> bool"
  rt_ctx :: "'w \<Rightarrow> ctx_error option"        \<comment> \<open>\<open>ctx.Err()\<close> of the context of \<open>Run\<close>\<close>

datatype worker_event =
    Marked LeaseFence "repo_error option"
  | Executed Job
  | Renewed LeaseFence "repo_error option"
  | Acknowledged LeaseFence "repo_error option"
  | Completed LeaseFence payload "repo_error option"
  | Failed FailJobInput "repo_error option"
  | OnJobRunning Job | OnJobCompleted Job | OnJobFailed Job bool | OnJobCanceled Job

record 'w Engine =
  e_cfg :: WorkerConfig
  e_workerID :: string
  e_activeCancelFuncs :: "job_key list"
  e_shuttingDown :: bool
  e_world :: 'w
  e_log :: "worker_event list"

text \<open>\<open>NewEngine\<close>; the fallback for an empty worker ID (host, process and time) is an argument.\<close>

definition NewEngine :: "WorkerConfig \<Rightarrow> string \<Rightarrow> 'w \<Rightarrow> 'w Engine" where
  "NewEngine cfg fallbackID w = \<lparr>e_cfg = cfg,
     e_workerID = (if w_WorkerID cfg = [] then fallbackID else w_WorkerID cfg),
     e_activeCancelFuncs = [], e_shuttingDown = False, e_world = w, e_log = []\<rparr>"

definition log_event :: "worker_event \<Rightarrow> 'w Engine \<Rightarrow> 'w Engine" where
  "log_event ev e = e\<lparr>e_log := e_log e @ [ev]\<rparr>"

text \<open>A call that acts on the world, and a call whose error is logged.\<close>

definition on_world :: "('w \<Rightarrow> 'w \<times> 'a) \<Rightarrow> 'w Engine \<Rightarrow> 'w Engine \<times> 'a" where
  "on_world f e = (let (w, x) = f (e_world e) in (e\<lparr>e_world := w\<rparr>, x))"

definition logged :: "('a \<Rightarrow> worker_event) \<Rightarrow> ('w \<Rightarrow> 'w \<times> 'a) \<Rightarrow> 'w Engine \<Rightarrow> 'w Engine \<times> 'a" where
  "logged ev f e = (let (e', x) = on_world f e in (log_event (ev x) e', x))"

definition is_lost :: "repo_error \<Rightarrow> bool" where
  "is_lost err \<longleftrightarrow> err = ErrLeaseLost \<or> err = ErrJobNotFound"

section \<open>One job\<close>

text \<open>Acknowledging a cancellation, with the callback when it succeeded.\<close>

definition acknowledge :: "'w runtime \<Rightarrow> Job \<Rightarrow> 'w Engine \<Rightarrow> 'w Engine" where
  "acknowledge W j e =
     (let (e1, err) = logged (Acknowledged (Job_Fence j)) (jr_AcknowledgeCancellation (rt_repo W) (Job_Fence j)) e
      in if err = None then log_event (OnJobCanceled j) e1 else e1)"

text \<open>One tick of \<open>runLeaseRenewal\<close>; the flag says that the tick canceled the job.\<close>

definition renewal_tick :: "'w runtime \<Rightarrow> Job \<Rightarrow> 'w Engine \<Rightarrow> 'w Engine \<times> bool" where
  "renewal_tick W j e =
     (let (e1, snap) = on_world (jr_GetJob (rt_repo W) (j_TenantID j) (j_ID j)) e in
      if snap = Inl ErrJobNotFound then (e1, True)
      else if (case snap of Inr s \<Rightarrow> j_CancelRequestedAt s \<noteq> None | Inl _ \<Rightarrow> False)
      then (acknowledge W j e1, True)
      else
        let (e2, err) = logged (Renewed (Job_Fence j))
               (jr_RenewLease (rt_repo W) (Job_Fence j) (LeaseDuration (e_cfg e))) e1
        in (e2, case err of None \<Rightarrow> False | Some x \<Rightarrow> is_lost x))"

text \<open>\<open>runLeaseRenewal\<close> for the ticks that fire before the execution ends.\<close>

fun runLeaseRenewal :: "'w runtime \<Rightarrow> Job \<Rightarrow> nat \<Rightarrow> 'w Engine \<Rightarrow> 'w Engine \<times> bool" where
  "runLeaseRenewal W j 0 e = (e, False)"
| "runLeaseRenewal W j (Suc n) e =
     (let (e1, canceled) = renewal_tick W j e in
      if canceled then (e1, True) else runLeaseRenewal W j n e1)"

definition fail_input :: "Job \<Rightarrow> string \<Rightarrow> string \<Rightarrow> bool \<Rightarrow> go_duration \<Rightarrow> FailJobInput" where
  "fail_input j code msg retryable backoff =
     \<lparr>x_TenantID = j_TenantID j, x_JobID = j_ID j, x_LeaseOwner = f_LeaseOwner (Job_Fence j),
      x_LeaseToken = f_LeaseToken (Job_Fence j), x_FailureCode = code, x_FailureMessage = msg,
      x_Retryable = retryable, x_Backoff = backoff\<rparr>"

text \<open>Step 4 of \<open>processJob\<close>: the outcome is written with the fence of the job.\<close>

definition finish :: "'w runtime \<Rightarrow> Job \<Rightarrow> exec_outcome \<Rightarrow> 'w Engine \<Rightarrow> 'w Engine" where
  "finish W j outcome e =
     (case outcome of
        X_panic \<Rightarrow>
          (let x = fail_input j ''PANIC'' ''internal execution error occurred'' False 0
           in log_event (OnJobFailed j False) (fst (logged (Failed x) (jr_FailJob (rt_repo W) x) e)))
      | X_err err \<Rightarrow>
          (let (code, msg, retryable) = SanitizeFailure (Some err) (j_MaxAttempts j);
               x = fail_input j code msg retryable (RetryBackoff (e_cfg e))
           in log_event (OnJobFailed j retryable) (fst (logged (Failed x) (jr_FailJob (rt_repo W) x) e)))
      | X_ok resp \<Rightarrow>
          (let (e1, err) = logged (Completed (Job_Fence j) resp) (jr_CompleteJob (rt_repo W) (Job_Fence j) resp) e
           in if err = None then log_event (OnJobCompleted j) e1 else e1))"

text \<open>
  Steps 2 and 3: the execution with the renewal beside it. The ticks that fire before the
  execution ends come one after another, with the world evolving in between, and what the
  executor does to the world is placed after the last of them. The job's context is canceled
  by a tick or by the drain deadline; then nothing is written.
\<close>

definition run_job :: "'w runtime \<Rightarrow> Job \<Rightarrow> 'w Engine \<Rightarrow> 'w Engine" where
  "run_job W j e =
     (let (e1, canceled) = runLeaseRenewal W j (rt_ticks W j (e_world e)) (log_event (Executed j) e);
          ctx = (if canceled \<or> rt_forced W j (e_world e1) then Some Canceled else None);
          (e2, outcome) = on_world (rt_Execute W ctx j) e1
      in if canceled \<or> rt_forced W j (e_world e2) then e2 else finish W j outcome e2)"

definition job_key_of :: "Job \<Rightarrow> job_key" where
  "job_key_of j = (j_TenantID j, j_ID j)"

definition process_registered :: "'w runtime \<Rightarrow> Job \<Rightarrow> 'w Engine \<Rightarrow> 'w Engine" where
  "process_registered W j e =
     (let ctx = (if rt_forced W j (e_world e) then Some Canceled else None);
          (e1, err) = logged (Marked (Job_Fence j)) (jr_MarkRunning (rt_repo W) ctx (Job_Fence j)) e in
      case err of
        Some x \<Rightarrow> if x = ErrCancellationRequested then acknowledge W j e1 else e1
      | None \<Rightarrow> run_job W j (log_event (OnJobRunning j) e1))"

definition processJob :: "'w runtime \<Rightarrow> Job option \<Rightarrow> 'w Engine \<Rightarrow> 'w Engine" where
  "processJob W job e =
     (case job of
        None \<Rightarrow> e
      | Some j \<Rightarrow>
          if e_shuttingDown e then e
          else
            let e1 = process_registered W j (e\<lparr>e_activeCancelFuncs := List.insert (job_key_of j) (e_activeCancelFuncs e)\<rparr>)
            in e1\<lparr>e_activeCancelFuncs := remove1 (job_key_of j) (e_activeCancelFuncs e1)\<rparr>)"

section \<open>Reclamation\<close>

definition reclaimOnce :: "'w runtime \<Rightarrow> 'w Engine \<Rightarrow> 'w Engine" where
  "reclaimOnce W e =
     (case rt_ctx W (e_world e) of
        Some c \<Rightarrow> e
      | None \<Rightarrow> fst (on_world (jr_ReclaimExpiredLeases (rt_repo W) None (w_BatchSize (e_cfg e)) (RetryBackoff (e_cfg e))) e))"

text \<open>\<open>runReclamationLoop\<close> for a number of ticks, after the sweep at the start.\<close>

definition runReclamationLoop :: "'w runtime \<Rightarrow> nat \<Rightarrow> 'w Engine \<Rightarrow> 'w Engine" where
  "runReclamationLoop W n e = (reclaimOnce W ^^ Suc n) e"

section \<open>The checks of Run\<close>

definition Run_checks :: "bool \<Rightarrow> bool \<Rightarrow> bool \<Rightarrow> 'w Engine \<Rightarrow> string option" where
  "Run_checks hasCtx hasRepo hasExecutor e =
     (let c = e_cfg e in
      if \<not> hasCtx then Some ''worker context cannot be nil''
      else if \<not> hasRepo then Some ''job repository cannot be nil''
      else if \<not> hasExecutor then Some ''job executor cannot be nil''
      else if w_Concurrency c \<le> 0 then Some ''worker concurrency must be positive''
      else if w_Concurrency c > MaxJobBatchSize then Some (''worker concurrency must not exceed '' @ show_int MaxJobBatchSize)
      else if w_BatchSize c \<le> 0 then Some ''worker batch_size must be positive''
      else if w_BatchSize c > MaxJobBatchSize then Some (''worker batch_size must not exceed '' @ show_int MaxJobBatchSize)
      else if w_BatchSize c > w_Concurrency c
        then Some (''worker batch_size ('' @ show_int (w_BatchSize c) @ '') must not exceed concurrency ('' @ show_int (w_Concurrency c) @ '')'')
      else if w_PollIntervalMilliseconds c \<le> 0 then Some ''worker poll_interval_milliseconds must be positive''
      else if w_PollIntervalMilliseconds c > MaxWorkerPollIntervalMilliseconds
        then Some (''worker poll_interval_milliseconds must not exceed '' @ show_int MaxWorkerPollIntervalMilliseconds)
      else if w_LeaseDurationSeconds c < 2 then Some ''worker lease_duration_seconds must be at least 2''
      else if w_LeaseDurationSeconds c > MaxJobLeaseDuration div second
        then Some (''worker lease_duration_seconds must not exceed '' @ show_int (MaxJobLeaseDuration div second))
      else if w_RenewalIntervalSeconds c \<le> 0 then Some ''worker renewal_interval_seconds must be positive''
      else if w_RenewalIntervalSeconds c > go_div (w_LeaseDurationSeconds c) 2
        then Some (''worker renewal_interval_seconds ('' @ show_int (w_RenewalIntervalSeconds c)
               @ '') must be at most half of lease_duration_seconds ('' @ show_int (w_LeaseDurationSeconds c) @ '')'')
      else if w_RetryBackoffSeconds c \<le> 0 then Some ''worker retry_backoff_seconds must be positive''
      else if w_RetryBackoffSeconds c > MaxRetryBackoff div second
        then Some (''worker retry_backoff_seconds must not exceed '' @ show_int (MaxRetryBackoff div second))
      else if w_DrainTimeoutSeconds c \<le> 0 then Some ''worker drain_timeout_seconds must be positive''
      else if w_DrainTimeoutSeconds c > MaxWorkerDrainTimeoutSeconds
        then Some (''worker drain_timeout_seconds must not exceed '' @ show_int MaxWorkerDrainTimeoutSeconds)
      else if trim_space (e_workerID e) = [] then Some ''worker ID cannot be blank''
      else if rune_count (e_workerID e) > MaxLeaseOwnerLength
        then Some (''worker ID must not exceed '' @ show_int (int MaxLeaseOwnerLength) @ '' characters'')
      else None)"

end
