(* ===== verification/Worker_Facts.thy ===== *)
theory Worker_Facts
  imports Worker_Engine
begin

text \<open>
  What the engine does with one job: the protocol of its log as an inductive specification,
  and the proof that \<open>processJob\<close> follows it in every world.
\<close>

section \<open>The protocol of a job\<close>

definition ack_logs :: "Job \<Rightarrow> worker_event list set" where
  "ack_logs j = {[Acknowledged (Job_Fence j) (Some x)] | x. True} \<union> {[Acknowledged (Job_Fence j) None, OnJobCanceled j]}"

definition renewed :: "Job \<Rightarrow> bool \<Rightarrow> worker_event \<Rightarrow> bool" where
  "renewed j alive ev \<longleftrightarrow> (case ev of Renewed f err \<Rightarrow> f = Job_Fence j \<and>
     (alive \<longrightarrow> (case err of None \<Rightarrow> True | Some x \<Rightarrow> \<not> is_lost x)) | _ \<Rightarrow> False)"

definition finish_logs :: "Job \<Rightarrow> worker_event list set" where
  "finish_logs j = {[Completed (Job_Fence j) p None, OnJobCompleted j] | p. True}
     \<union> {[Completed (Job_Fence j) p (Some x)] | p x. True}
     \<union> {[Failed x err, OnJobFailed j (x_Retryable x)] | x err. FailJobInput_Fence x = Job_Fence j}"

inductive job_log :: "Job \<Rightarrow> worker_event list \<Rightarrow> bool" for j where
  log_shutdown: "job_log j []"
| log_refused: "x \<noteq> ErrCancellationRequested \<Longrightarrow> job_log j [Marked (Job_Fence j) (Some x)]"
| log_canceled: "ack \<in> ack_logs j \<Longrightarrow> job_log j (Marked (Job_Fence j) (Some ErrCancellationRequested) # ack)"
| log_aborted: "list_all (renewed j False) rs \<Longrightarrow> ack \<in> insert [] (ack_logs j) \<Longrightarrow>
    job_log j (Marked (Job_Fence j) None # OnJobRunning j # Executed j # rs @ ack)"
| log_finished: "list_all (renewed j True) rs \<Longrightarrow> fin \<in> finish_logs j \<Longrightarrow>
    job_log j (Marked (Job_Fence j) None # OnJobRunning j # Executed j # rs @ fin)"

text \<open>What the engine appends to its log.\<close>

definition appends :: "'w Engine \<Rightarrow> 'w Engine \<Rightarrow> worker_event list \<Rightarrow> bool" where
  "appends e e' evs \<longleftrightarrow> e_log e' = e_log e @ evs"

lemma appends_refl: "e_log e' = e_log e \<Longrightarrow> appends e e' []"
  by (simp add: appends_def)

lemma appends_trans: "appends a b xs \<Longrightarrow> appends b c ys \<Longrightarrow> appends a c (xs @ ys)"
  by (simp add: appends_def)

lemma appends_log_event: "appends e (log_event ev e) [ev]"
  by (simp add: appends_def log_event_def)

lemma on_world_appends: "on_world f e = (e', x) \<Longrightarrow> appends e e' []"
  by (auto simp: on_world_def appends_def split: prod.splits)

lemma logged_appends: "logged ev f e = (e', x) \<Longrightarrow> appends e e' [ev x]"
  by (auto simp: logged_def on_world_def log_event_def appends_def split: prod.splits)

lemma acknowledge_log: "\<exists>ack\<in>ack_logs j. appends e (acknowledge W j e) ack"
proof -
  obtain e1 err where l: "logged (Acknowledged (Job_Fence j)) (jr_AcknowledgeCancellation (rt_repo W) (Job_Fence j)) e = (e1, err)"
    by fastforce
  note one = logged_appends [OF l]
  show ?thesis
  proof (cases err)
    case None
    have "appends e (acknowledge W j e) ([Acknowledged (Job_Fence j) None] @ [OnJobCanceled j])"
      using appends_trans [OF one appends_log_event [of e1 "OnJobCanceled j"]] by (simp add: acknowledge_def l None)
    then show ?thesis by (auto simp: ack_logs_def)
  next
    case (Some x)
    then show ?thesis using one by (auto simp: acknowledge_def l ack_logs_def)
  qed
qed

lemma renewal_tick_log:
  assumes "renewal_tick W j e = (e', canceled)"
  shows "\<exists>evs. appends e e' evs \<and>
     (if canceled then evs \<in> insert [] (ack_logs j) \<or> (\<exists>ev. evs = [ev] \<and> renewed j False ev)
      else list_all (renewed j True) evs)"
proof -
  obtain e1 snap where g: "on_world (jr_GetJob (rt_repo W) (j_TenantID j) (j_ID j)) e = (e1, snap)" by fastforce
  obtain e2 err where r: "logged (Renewed (Job_Fence j)) (jr_RenewLease (rt_repo W) (Job_Fence j) (LeaseDuration (e_cfg e))) e1 = (e2, err)"
    by fastforce
  note g0 = on_world_appends [OF g]
  have ren: "appends e e2 [Renewed (Job_Fence j) err]" using appends_trans [OF g0 logged_appends [OF r]] by simp
  obtain ack where ack: "ack \<in> ack_logs j" "appends e1 (acknowledge W j e1) ack" using acknowledge_log by blast
  then have ack': "appends e (acknowledge W j e1) ack" using appends_trans [OF g0] by fastforce
  let ?canc = "case snap of Inr s \<Rightarrow> j_CancelRequestedAt s \<noteq> None | Inl _ \<Rightarrow> False"
  consider "snap = Inl ErrJobNotFound" | "snap \<noteq> Inl ErrJobNotFound" "?canc" | "snap \<noteq> Inl ErrJobNotFound" "\<not> ?canc"
    by blast
  then show ?thesis
  proof cases
    case 1
    then show ?thesis using assms g0 by (auto simp: renewal_tick_def g)
  next
    case 2
    then have "e' = acknowledge W j e1" "canceled" using assms by (auto simp: renewal_tick_def g)
    then show ?thesis using ack(1) ack' by auto
  next
    case 3
    then have "e' = e2" "canceled = (case err of None \<Rightarrow> False | Some x \<Rightarrow> is_lost x)"
      using assms by (simp_all add: renewal_tick_def g r)
    then show ?thesis using ren by (intro exI [of _ "[Renewed (Job_Fence j) err]"]) (auto simp: renewed_def split: option.splits)
  qed
qed

lemma runLeaseRenewal_log:
  "runLeaseRenewal W j n e = (e', canceled) \<Longrightarrow>
     \<exists>rs ack. appends e e' (rs @ ack) \<and> list_all (renewed j (\<not> canceled)) rs \<and>
       ack \<in> (if canceled then insert [] (ack_logs j) else {[]})"
proof (induction n arbitrary: e)
  case 0
  then show ?case by (auto simp: appends_refl intro!: exI [of _ "[]"])
next
  case (Suc n)
  have weaken: "renewed j b ev" if "renewed j True ev" for b ev
    using that by (auto simp: renewed_def split: worker_event.splits)
  obtain e1 c1 where t: "renewal_tick W j e = (e1, c1)" by fastforce
  obtain evs where evs: "appends e e1 evs"
      "if c1 then evs \<in> insert [] (ack_logs j) \<or> (\<exists>ev. evs = [ev] \<and> renewed j False ev) else list_all (renewed j True) evs"
    using renewal_tick_log [OF t] by blast
  show ?case
  proof (cases c1)
    case True
    then have e': "e' = e1" "canceled" using Suc.prems t by simp_all
    consider "evs \<in> insert [] (ack_logs j)" | ev where "evs = [ev]" "renewed j False ev" using evs(2) True by auto
    then show ?thesis
    proof cases
      case 1
      then show ?thesis using evs(1) e' by (intro exI [of _ "[]"] exI [of _ evs]) simp
    next
      case 2
      then show ?thesis using evs(1) e' by (intro exI [of _ "[ev]"] exI [of _ "[]"]) simp
    qed
  next
    case False
    then have "runLeaseRenewal W j n e1 = (e', canceled)" using Suc.prems t by simp
    then obtain rs ack where r: "appends e1 e' (rs @ ack)" "list_all (renewed j (\<not> canceled)) rs"
        "ack \<in> (if canceled then insert [] (ack_logs j) else {[]})" using Suc.IH by blast
    have "list_all (renewed j (\<not> canceled)) (evs @ rs)" using evs(2) False r(2) weaken by (auto simp: list_all_iff)
    moreover have "appends e e' ((evs @ rs) @ ack)" using appends_trans [OF evs(1) r(1)] by simp
    ultimately show ?thesis using r(3) by blast
  qed
qed

lemma fail_input_fence [simp]:
  "FailJobInput_Fence (fail_input j c m r b) = Job_Fence j" "x_Retryable (fail_input j c m r b) = r"
  by (simp_all add: fail_input_def FailJobInput_Fence_def Job_Fence_def)

lemma failed_log:
  assumes "FailJobInput_Fence x = Job_Fence j"
  shows "\<exists>fin\<in>finish_logs j. appends e (log_event (OnJobFailed j (x_Retryable x)) (fst (logged (Failed x) f e))) fin"
proof -
  obtain e1 err where l: "logged (Failed x) f e = (e1, err)" by fastforce
  show ?thesis
    using appends_trans [OF logged_appends [OF l] appends_log_event [of e1 "OnJobFailed j (x_Retryable x)"]] assms
    by (intro bexI [of _ "[Failed x err, OnJobFailed j (x_Retryable x)]"]) (auto simp: l finish_logs_def)
qed

lemma finish_log: "\<exists>fin\<in>finish_logs j. appends e (finish W j outcome e) fin"
proof (cases outcome)
  case (X_ok p)
  obtain e1 err where l: "logged (Completed (Job_Fence j) p) (jr_CompleteJob (rt_repo W) (Job_Fence j) p) e = (e1, err)"
    by fastforce
  note one = logged_appends [OF l]
  show ?thesis
  proof (cases err)
    case None
    have "appends e (finish W j outcome e) ([Completed (Job_Fence j) p None] @ [OnJobCompleted j])"
      using appends_trans [OF one appends_log_event [of e1 "OnJobCompleted j"]] by (simp add: finish_def X_ok l None)
    then show ?thesis by (auto simp: finish_logs_def)
  next
    case (Some x)
    then show ?thesis using one by (auto simp: finish_def X_ok l finish_logs_def)
  qed
next
  case (X_err err)
  obtain c m r where s: "SanitizeFailure (Some err) (j_MaxAttempts j) = (c, m, r)" by (metis prod_cases3)
  show ?thesis using failed_log [of "fail_input j c m r (RetryBackoff (e_cfg e))" j] by (simp add: finish_def X_err s Let_def)
next
  case X_panic
  show ?thesis
    using failed_log [of "fail_input j ''PANIC'' ''internal execution error occurred'' False 0" j]
    by (simp add: finish_def X_panic Let_def)
qed

lemma run_job_log:
  "\<exists>rs tail b. appends e (run_job W j e) (Executed j # rs @ tail) \<and> list_all (renewed j b) rs \<and>
     tail \<in> (if b then insert [] (finish_logs j) else insert [] (ack_logs j))"
proof -
  obtain e1 canceled where r: "runLeaseRenewal W j (rt_ticks W j (e_world e)) (log_event (Executed j) e) = (e1, canceled)"
    by fastforce
  obtain rs ack where l: "appends (log_event (Executed j) e) e1 (rs @ ack)" "list_all (renewed j (\<not> canceled)) rs"
      "ack \<in> (if canceled then insert [] (ack_logs j) else {[]})" using runLeaseRenewal_log [OF r] by blast
  define ctx where "ctx = (if canceled \<or> rt_forced W j (e_world e1) then Some Canceled else None)"
  obtain e2 outcome where x: "on_world (rt_Execute W ctx j) e1 = (e2, outcome)" by fastforce
  have e2: "appends e e2 (Executed j # rs @ ack)"
    using appends_trans [OF appends_trans [OF appends_log_event l(1)] on_world_appends [OF x]] by simp
  show ?thesis
  proof (cases "canceled \<or> rt_forced W j (e_world e2)")
    case True
    then have "run_job W j e = e2" by (simp add: run_job_def r Let_def ctx_def [symmetric] x)
    then show ?thesis using e2 l(2,3)
      by (intro exI [of _ rs] exI [of _ ack] exI [of _ "\<not> canceled"]) (auto split: if_splits)
  next
    case False
    then have eq: "run_job W j e = finish W j outcome e2" using x unfolding ctx_def by (simp add: run_job_def r Let_def)
    obtain fin where fin: "fin \<in> finish_logs j" "appends e2 (finish W j outcome e2) fin" using finish_log by blast
    have "appends e (run_job W j e) ((Executed j # rs @ ack) @ fin)"
      unfolding eq by (rule appends_trans [OF e2 fin(2)])
    then show ?thesis using False l(2,3) fin(1)
      by (intro exI [of _ rs] exI [of _ fin] exI [of _ True]) auto
  qed
qed

lemma list_all_renewed_weaken: "list_all (renewed j True) rs \<Longrightarrow> list_all (renewed j False) rs"
  by (auto simp: renewed_def list_all_iff split: worker_event.splits)

lemma process_registered_log: "\<exists>evs. appends e (process_registered W j e) evs \<and> job_log j evs"
proof -
  define ctx where "ctx = (if rt_forced W j (e_world e) then Some Canceled else None)"
  obtain e1 err where m: "logged (Marked (Job_Fence j)) (jr_MarkRunning (rt_repo W) ctx (Job_Fence j)) e = (e1, err)"
    by fastforce
  note one = logged_appends [OF m]
  show ?thesis
  proof (cases err)
    case (Some x)
    show ?thesis
    proof (cases "x = ErrCancellationRequested")
      case True
      obtain ack where "ack \<in> ack_logs j" "appends e1 (acknowledge W j e1) ack" using acknowledge_log by blast
      then have "appends e (acknowledge W j e1) (Marked (Job_Fence j) (Some ErrCancellationRequested) # ack)"
          "job_log j (Marked (Job_Fence j) (Some ErrCancellationRequested) # ack)"
        using appends_trans [OF one] Some True by (fastforce, blast intro: log_canceled)
      then show ?thesis using Some True m by (auto simp: process_registered_def ctx_def [symmetric])
    next
      case False
      then show ?thesis using Some m one log_refused [of x j] by (auto simp: process_registered_def ctx_def [symmetric])
    qed
  next
    case None
    let ?e2 = "log_event (OnJobRunning j) e1"
    have eq: "process_registered W j e = run_job W j ?e2" by (simp add: process_registered_def ctx_def [symmetric] m None)
    obtain rs tail b where r: "appends ?e2 (run_job W j ?e2) (Executed j # rs @ tail)" "list_all (renewed j b) rs"
        "tail \<in> (if b then insert [] (finish_logs j) else insert [] (ack_logs j))" using run_job_log by blast
    have "appends e (run_job W j ?e2) (Marked (Job_Fence j) None # OnJobRunning j # Executed j # rs @ tail)"
      using appends_trans [OF appends_trans [OF one appends_log_event] r(1)] None by simp
    moreover have "job_log j (Marked (Job_Fence j) None # OnJobRunning j # Executed j # rs @ tail)"
    proof (cases "b \<and> tail \<noteq> []")
      case True
      then show ?thesis using r by (intro log_finished) auto
    next
      case False
      then show ?thesis using r list_all_renewed_weaken by (intro log_aborted) (auto split: if_splits)
    qed
    ultimately show ?thesis unfolding eq by blast
  qed
qed

lemma processJob_log: "\<exists>evs. e_log (processJob W (Some j) e) = e_log e @ evs \<and> job_log j evs"
proof (cases "e_shuttingDown e")
  case True
  then show ?thesis using log_shutdown by (auto simp: processJob_def)
next
  case False
  then show ?thesis
    using process_registered_log [of "e\<lparr>e_activeCancelFuncs := List.insert (job_key_of j) (e_activeCancelFuncs e)\<rparr>" W j]
    by (auto simp: processJob_def Let_def appends_def)
qed

text \<open>What the protocol says about executions and writes.\<close>

definition executions :: "worker_event list \<Rightarrow> nat" where
  "executions evs = length (filter (\<lambda>ev. case ev of Executed _ \<Rightarrow> True | _ \<Rightarrow> False) evs)"

definition writes :: "worker_event list \<Rightarrow> nat" where
  "writes evs = length (filter (\<lambda>ev. case ev of Completed _ _ _ \<Rightarrow> True | Failed _ _ \<Rightarrow> True | _ \<Rightarrow> False) evs)"

lemma counts_append [simp]:
  "executions (xs @ ys) = executions xs + executions ys" "writes (xs @ ys) = writes xs + writes ys"
  by (simp_all add: executions_def writes_def)

lemma renewed_counts: "list_all (renewed j b) rs \<Longrightarrow> executions rs = 0 \<and> writes rs = 0"
  by (auto simp: executions_def writes_def renewed_def list_all_iff filter_empty_conv split: worker_event.splits)

lemma tail_counts:
  "ack \<in> ack_logs j \<Longrightarrow> executions ack = 0 \<and> writes ack = 0"
  "fin \<in> finish_logs j \<Longrightarrow> executions fin = 0 \<and> writes fin = 1"
  by (auto simp: executions_def writes_def ack_logs_def finish_logs_def)

lemma job_log_counts:
  assumes "job_log j evs"
  shows "executions evs = (if Marked (Job_Fence j) None \<in> set evs then 1 else 0) \<and> writes evs \<le> executions evs"
  using assms
proof cases
  case (log_canceled ack)
  then show ?thesis using tail_counts(1) by (auto simp: executions_def writes_def ack_logs_def)
next
  case (log_aborted rs ack)
  then show ?thesis using renewed_counts tail_counts(1) [of ack j]
    by (auto simp: executions_def writes_def)
next
  case (log_finished rs fin)
  then show ?thesis using renewed_counts tail_counts(2) [of fin j]
    by (auto simp: executions_def writes_def)
qed (simp_all add: executions_def writes_def)

end
