(* ===== verification/Worker_Contract.thy ===== *)
theory Worker_Contract
  imports Worker_Facts
begin

text \<open>
  The contract between the engine and its repository: every call lets the world evolve, and
  a lease can be started once. The client's results are proved from the contract alone: all
  the engine does is an evolution of the world, and an engine hands a lease to its executor at
  most once, whatever other clients of the repository do before each of its calls. One step
  of an engine processes one job; the executions of other engines are evolutions of the
  world and are not counted in its log.
\<close>

section \<open>Engines in a world\<close>

text \<open>A step of an engine: a job is processed, leases are reclaimed, or others act on the world.\<close>

inductive engine_step :: "'w runtime \<Rightarrow> ('w \<Rightarrow> 'w \<Rightarrow> bool) \<Rightarrow> 'w Engine \<Rightarrow> 'w Engine \<Rightarrow> bool" for W evolves where
  engine_process: "engine_step W evolves e (processJob W job e)"
| engine_reclaim: "engine_step W evolves e (reclaimOnce W e)"
| engine_shutdown: "engine_step W evolves e (e\<lparr>e_shuttingDown := True\<rparr>)"
| engine_world: "evolves (e_world e) w \<Longrightarrow> engine_step W evolves e (e\<lparr>e_world := w\<rparr>)"

inductive_cases engine_stepE: "engine_step W evolves e e'"

text \<open>How often a lease was executed.\<close>

definition executions_of :: "LeaseFence \<Rightarrow> worker_event list \<Rightarrow> nat" where
  "executions_of f evs = length (filter (\<lambda>ev. case ev of Executed j \<Rightarrow> Job_Fence j = f | _ \<Rightarrow> False) evs)"

lemma executions_of_append [simp]: "executions_of f (xs @ ys) = executions_of f xs + executions_of f ys"
  by (simp add: executions_of_def)

lemma renewed_executions_of: "list_all (renewed j b) rs \<Longrightarrow> executions_of f rs = 0"
  by (auto simp: executions_of_def renewed_def list_all_iff filter_empty_conv split: worker_event.splits)

lemma tail_executions_of:
  "ack \<in> ack_logs j \<Longrightarrow> executions_of f ack = 0" "fin \<in> finish_logs j \<Longrightarrow> executions_of f fin = 0"
  by (auto simp: executions_of_def ack_logs_def finish_logs_def)

lemma job_log_executions_of:
  assumes "job_log j evs"
  shows "executions_of f evs = (if f = Job_Fence j \<and> Marked f None \<in> set evs then 1 else 0)"
  using assms
proof cases
  case (log_canceled ack)
  then show ?thesis using tail_executions_of(1) by (auto simp: executions_of_def ack_logs_def)
next
  case (log_aborted rs ack)
  then show ?thesis using renewed_executions_of tail_executions_of(1) [of ack j]
    by (auto simp: executions_of_def renewed_def list_all_iff ack_logs_def split: worker_event.splits)
next
  case (log_finished rs fin)
  then show ?thesis using renewed_executions_of tail_executions_of(2) [of fin j]
    by (auto simp: executions_of_def renewed_def list_all_iff finish_logs_def split: worker_event.splits)
qed (simp_all add: executions_of_def)

lemma job_log_refused:
  assumes "job_log j (Marked f (Some x) # tail_evs)"
  shows "Marked g None \<notin> set tail_evs"
  using assms by cases (auto simp: ack_logs_def)

section \<open>The contract\<close>

locale job_repository =
  fixes repo :: "'w JobRepository"
    and evolves :: "'w \<Rightarrow> 'w \<Rightarrow> bool"
    and good :: "'w \<Rightarrow> bool"
    and spent :: "LeaseFence \<Rightarrow> 'w \<Rightarrow> bool"
  assumes evolves_refl: "evolves w w"
    and evolves_trans: "evolves u v \<Longrightarrow> evolves v w \<Longrightarrow> evolves u w"
    and GetJob_evolves: "evolves w (fst (jr_GetJob repo t i w))"
    and MarkRunning_evolves: "evolves w (fst (jr_MarkRunning repo ctx f w))"
    and RenewLease_evolves: "evolves w (fst (jr_RenewLease repo f d w))"
    and CompleteJob_evolves: "evolves w (fst (jr_CompleteJob repo f p w))"
    and FailJob_evolves: "evolves w (fst (jr_FailJob repo x w))"
    and Acknowledge_evolves: "evolves w (fst (jr_AcknowledgeCancellation repo f w))"
    and Reclaim_evolves: "evolves w (fst (jr_ReclaimExpiredLeases repo ctx n d w))"
    and good_evolves: "good w \<Longrightarrow> evolves w w' \<Longrightarrow> good w'"
    and spent_evolves: "good w \<Longrightarrow> spent f w \<Longrightarrow> evolves w w' \<Longrightarrow> spent f w'"
    and MarkRunning_spends: "good w \<Longrightarrow> snd (jr_MarkRunning repo ctx f w) = None \<Longrightarrow> spent f (fst (jr_MarkRunning repo ctx f w))"
    and spent_refused: "good w \<Longrightarrow> spent f w \<Longrightarrow> snd (jr_MarkRunning repo ctx f w) \<noteq> None"

text \<open>A host of the engine: the executor lets the world evolve too.\<close>

locale worker_host = job_repository "rt_repo W" evolves good spent
  for W :: "'w runtime" and evolves good spent +
  assumes Execute_evolves: "evolves w (fst (rt_Execute W c j w))"
begin

lemma on_world_evolves:
  assumes "on_world f e = (e', x)" and "\<And>w. evolves w (fst (f w))"
  shows "evolves (e_world e) (e_world e')"
  using assms(1) assms(2) [of "e_world e"] by (auto simp: on_world_def split: prod.splits)

lemma logged_evolves:
  assumes "logged ev f e = (e', x)" and "\<And>w. evolves w (fst (f w))"
  shows "evolves (e_world e) (e_world e')"
  using assms(1) assms(2) [of "e_world e"] by (auto simp: logged_def on_world_def log_event_def split: prod.splits)

lemma log_event_world [simp]: "e_world (log_event ev e) = e_world e"
  by (simp add: log_event_def)

lemma acknowledge_evolves: "evolves (e_world e) (e_world (acknowledge W j e))"
proof -
  obtain e1 err where l: "logged (Acknowledged (Job_Fence j)) (jr_AcknowledgeCancellation (rt_repo W) (Job_Fence j)) e = (e1, err)"
    by fastforce
  show ?thesis using logged_evolves [OF l Acknowledge_evolves] by (simp add: acknowledge_def l)
qed

lemma renewal_tick_evolves:
  assumes "renewal_tick W j e = (e', c)"
  shows "evolves (e_world e) (e_world e')"
proof -
  obtain e1 snap where g: "on_world (jr_GetJob (rt_repo W) (j_TenantID j) (j_ID j)) e = (e1, snap)" by fastforce
  obtain e2 err where r: "logged (Renewed (Job_Fence j)) (jr_RenewLease (rt_repo W) (Job_Fence j) (LeaseDuration (e_cfg e))) e1 = (e2, err)"
    by fastforce
  have "e' = e1 \<or> e' = e2 \<or> e' = acknowledge W j e1"
    using assms by (auto simp: renewal_tick_def g r split: if_splits)
  then show ?thesis
    using on_world_evolves [OF g GetJob_evolves] logged_evolves [OF r RenewLease_evolves] acknowledge_evolves [of e1 j]
      evolves_trans by blast
qed

lemma runLeaseRenewal_evolves: "runLeaseRenewal W j n e = (e', c) \<Longrightarrow> evolves (e_world e) (e_world e')"
proof (induction n arbitrary: e)
  case 0
  then show ?case by (simp add: evolves_refl)
next
  case (Suc n)
  obtain e1 c1 where t: "renewal_tick W j e = (e1, c1)" by fastforce
  show ?case
    using Suc.prems Suc.IH [of e1] renewal_tick_evolves [OF t] evolves_trans by (cases c1) (auto simp: t)
qed

lemma finish_evolves: "evolves (e_world e) (e_world (finish W j outcome e))"
proof -
  have fail: "evolves (e_world e) (e_world (fst (logged (Failed x) (jr_FailJob (rt_repo W) x) e)))" for x
    by (rule logged_evolves [OF surjective_pairing FailJob_evolves])
  have comp: "evolves (e_world e) (e_world e1)"
    if "logged (Completed (Job_Fence j) p) (jr_CompleteJob (rt_repo W) (Job_Fence j) p) e = (e1, err)" for p e1 err
    by (rule logged_evolves [OF that CompleteJob_evolves])
  show ?thesis
    using fail comp by (cases outcome) (auto simp: finish_def Let_def split: prod.splits)
qed

lemma run_job_evolves: "evolves (e_world e) (e_world (run_job W j e))"
proof -
  obtain e1 canceled where r: "runLeaseRenewal W j (rt_ticks W j (e_world e)) (log_event (Executed j) e) = (e1, canceled)"
    by fastforce
  define ctx where "ctx = (if canceled \<or> rt_forced W j (e_world e1) then Some Canceled else None)"
  obtain e2 outcome where x: "on_world (rt_Execute W ctx j) e1 = (e2, outcome)" by fastforce
  have "run_job W j e = e2 \<or> run_job W j e = finish W j outcome e2"
    using x unfolding ctx_def by (auto simp: run_job_def r Let_def)
  moreover have "evolves (e_world e) (e_world e2)"
    using runLeaseRenewal_evolves [OF r] on_world_evolves [OF x Execute_evolves] evolves_trans by simp
  ultimately show ?thesis using finish_evolves [of e2 j outcome] evolves_trans by metis
qed

text \<open>Processing a job: a start of the execution spends the lease, a spent lease does not start.\<close>

lemma process_registered_evolves:
  assumes "good (e_world e)"
  shows "evolves (e_world e) (e_world (process_registered W j e))" (is ?E)
    and "spent (Job_Fence j) (e_world e) \<Longrightarrow> executions_of f (e_log (process_registered W j e)) = executions_of f (e_log e)"
    and "executions_of (Job_Fence j) (e_log (process_registered W j e)) \<noteq> executions_of (Job_Fence j) (e_log e) \<Longrightarrow>
       spent (Job_Fence j) (e_world (process_registered W j e))"
proof -
  define ctx where "ctx = (if rt_forced W j (e_world e) then Some Canceled else None)"
  let ?mark = "jr_MarkRunning (rt_repo W) ctx (Job_Fence j)"
  obtain e1 err where m: "logged (Marked (Job_Fence j)) ?mark e = (e1, err)" by fastforce
  have w: "fst (?mark (e_world e)) = e_world e1" "snd (?mark (e_world e)) = err" and l1: "e_log e1 = e_log e @ [Marked (Job_Fence j) err]"
    using m by (auto simp: logged_def on_world_def log_event_def split: prod.splits)
  have one: "evolves (e_world e) (e_world e1)" by (rule logged_evolves [OF m MarkRunning_evolves])
  have good1: "good (e_world e1)" by (rule good_evolves [OF assms one])
  let ?e' = "process_registered W j e"
  have two: "evolves (e_world e1) (e_world ?e')"
    using acknowledge_evolves [of e1 j] run_job_evolves [of "log_event (OnJobRunning j) e1" j] evolves_refl [of "e_world e1"]
    by (auto simp: process_registered_def ctx_def [symmetric] m split: option.splits)
  show ?E by (rule evolves_trans [OF one two])
  obtain evs where evs: "e_log ?e' = e_log e @ evs" "job_log j evs"
    using process_registered_log [of e W j] by (auto simp: appends_def)
  have started: "err = None" if "Marked f None \<in> set evs" for f
  proof -
    obtain tail_evs where "e_log ?e' = e_log e @ Marked (Job_Fence j) err # tail_evs"
    proof (cases err)
      case (Some x)
      obtain ack where "appends e1 (acknowledge W j e1) ack" using acknowledge_log by blast
      then have "e_log (acknowledge W j e1) = e_log e @ Marked (Job_Fence j) err # ack" using l1 by (simp add: appends_def)
      then show ?thesis using that Some m l1
        by (cases "x = ErrCancellationRequested") (auto simp: process_registered_def ctx_def [symmetric])
    next
      case None
      obtain rest where "appends (log_event (OnJobRunning j) e1) (run_job W j (log_event (OnJobRunning j) e1)) rest"
        using run_job_log by blast
      then show ?thesis using that None m l1 by (auto simp: process_registered_def ctx_def [symmetric] appends_def log_event_def)
    qed
    then have "evs = Marked (Job_Fence j) err # tail_evs" using evs(1) by simp
    then show ?thesis using job_log_refused [of j "Job_Fence j" _ tail_evs] evs(2) that by (cases err) auto
  qed
  show "executions_of f (e_log ?e') = executions_of f (e_log e)" if "spent (Job_Fence j) (e_world e)"
    using started spent_refused [OF assms that, of ctx] w(2) job_log_executions_of [OF evs(2), of f] by (auto simp: evs(1))
  show "spent (Job_Fence j) (e_world ?e')" if "executions_of (Job_Fence j) (e_log ?e') \<noteq> executions_of (Job_Fence j) (e_log e)"
  proof -
    have "err = None" using that started job_log_executions_of [OF evs(2), of "Job_Fence j"] by (auto simp: evs(1) split: if_splits)
    then have "spent (Job_Fence j) (e_world e1)" using MarkRunning_spends [OF assms, of ctx "Job_Fence j"] w by simp
    then show ?thesis using spent_evolves [OF good1 _ two] by blast
  qed
qed

lemma processJob_evolves: "good (e_world e) \<Longrightarrow> evolves (e_world e) (e_world (processJob W job e))"
  using process_registered_evolves(1) [of "e\<lparr>e_activeCancelFuncs := a\<rparr>" for a]
  by (auto simp: processJob_def Let_def evolves_refl split: option.splits)

lemma reclaimOnce_evolves: "evolves (e_world e) (e_world (reclaimOnce W e))" "e_log (reclaimOnce W e) = e_log e"
  using Reclaim_evolves [of "e_world e" None "w_BatchSize (e_cfg e)" "RetryBackoff (e_cfg e)"]
  by (auto simp: reclaimOnce_def on_world_def evolves_refl split: option.splits prod.splits)

text \<open>At most one execution per lease.\<close>

definition once :: "LeaseFence \<Rightarrow> 'w Engine \<Rightarrow> bool" where
  "once f e \<longleftrightarrow> good (e_world e) \<and> executions_of f (e_log e) \<le> 1 \<and> (executions_of f (e_log e) = 1 \<longrightarrow> spent f (e_world e))"

lemma once_process_registered:
  assumes "once f e"
  shows "once f (process_registered W j e)"
proof -
  let ?e' = "process_registered W j e"
  have good: "good (e_world e)" using assms by (simp add: once_def)
  note steps = process_registered_evolves [OF good, of j]
  have good': "good (e_world ?e')" by (rule good_evolves [OF good steps(1)])
  obtain evs where evs: "e_log ?e' = e_log e @ evs" "job_log j evs"
    using process_registered_log [of e W j] by (auto simp: appends_def)
  have k: "executions_of f evs \<le> 1" using job_log_executions_of [OF evs(2), of f] by simp
  show ?thesis
  proof (cases "executions_of f evs = 0")
    case True
    then show ?thesis using assms good' evs spent_evolves [OF good _ steps(1), of f] by (auto simp: once_def)
  next
    case False
    then have f: "f = Job_Fence j" using job_log_executions_of [OF evs(2), of f] by (auto split: if_splits)
    then have "\<not> spent f (e_world e)" using steps(2) [of f] False evs(1) by auto
    then have "executions_of f (e_log e) = 0" using assms by (auto simp: once_def)
    moreover have "spent f (e_world ?e')" using steps(3) False evs(1) f by auto
    ultimately show ?thesis using good' k evs(1) by (simp add: once_def)
  qed
qed

lemma once_processJob: "once f e \<Longrightarrow> once f (processJob W job e)"
  using once_process_registered [of f "e\<lparr>e_activeCancelFuncs := a\<rparr>" for a]
  by (auto simp: processJob_def Let_def once_def split: option.splits)

lemma once_step:
  assumes "engine_step W evolves e e'" and "once f e"
  shows "once f e'"
  using assms(1)
proof cases
  case (engine_process job)
  then show ?thesis using once_processJob [OF assms(2)] by simp
next
  case engine_reclaim
  then show ?thesis using assms(2) reclaimOnce_evolves [of e] good_evolves spent_evolves by (auto simp: once_def)
next
  case engine_shutdown
  then show ?thesis using assms(2) by (simp add: once_def)
next
  case (engine_world w)
  then show ?thesis using assms(2) good_evolves spent_evolves by (auto simp: once_def)
qed

lemma once_history: "(engine_step W evolves)\<^sup>*\<^sup>* e e' \<Longrightarrow> once f e \<Longrightarrow> once f e'"
  by (induction rule: rtranclp_induct) (auto intro: once_step)

lemma engine_step_evolves:
  assumes "engine_step W evolves e e'" and "good (e_world e)"
  shows "evolves (e_world e) (e_world e')"
  using assms(1) processJob_evolves [OF assms(2)] reclaimOnce_evolves(1) by (auto elim!: engine_stepE simp: evolves_refl)

lemma engine_history_evolves:
  "(engine_step W evolves)\<^sup>*\<^sup>* e e' \<Longrightarrow> good (e_world e) \<Longrightarrow> evolves (e_world e) (e_world e')"
  by (induction rule: rtranclp_induct) (auto intro: evolves_refl evolves_trans engine_step_evolves good_evolves)

end

end
