(* ===== verification/Worker_Ledger.thy ===== *)
theory Worker_Ledger
  imports Worker_Contract Ledger_Behaviour
begin

text \<open>
  The durable job ledger as the repository of the worker engine, and the dispatcher as its
  executor: the composition of pkg/worker with pkg/storage and pkg/dispatcher. Before each
  call of the engine other clients of the database may run any sequence of operations; the
  clock, the database outcomes and the lock sets of every call are arbitrary. The contract
  of Worker_Contract is discharged here for this world.
\<close>

section \<open>Operations of other clients\<close>

datatype ledger_op =
    Op_create "ctx_error option" go_time db_outcome db_outcome CreateJobInput
  | Op_acquire "ctx_error option" go_time "job_key set" "durable_job \<Rightarrow> nat" db_outcome string int go_duration
  | Op_running "ctx_error option" go_time db_outcome db_outcome LeaseFence
  | Op_renew "ctx_error option" go_time db_outcome db_outcome LeaseFence go_duration
  | Op_complete "ctx_error option" go_time db_outcome db_outcome LeaseFence payload
  | Op_fail "ctx_error option" go_time db_outcome db_outcome FailJobInput
  | Op_cancel "ctx_error option" go_time db_outcome string string
  | Op_ack "ctx_error option" go_time db_outcome db_outcome LeaseFence
  | Op_reclaim "ctx_error option" go_time "job_key set" "durable_job \<Rightarrow> nat" db_outcome int go_duration

fun apply_op :: "ledger_env \<Rightarrow> ledger_op \<Rightarrow> JobRepo \<Rightarrow> JobRepo" where
  "apply_op E (Op_create ctx now o1 o2 c) R = fst (CreateJob E ctx now o1 o2 c R)"
| "apply_op E (Op_acquire ctx now l t o1 owner n d) R = fst (AcquireLeases ctx now l t o1 owner n d R)"
| "apply_op E (Op_running ctx now o1 o2 f) R = fst (MarkRunning ctx now o1 o2 f R)"
| "apply_op E (Op_renew ctx now o1 o2 f d) R = fst (RenewLease ctx now o1 o2 f d R)"
| "apply_op E (Op_complete ctx now o1 o2 f p) R = fst (CompleteJob E ctx now o1 o2 f p R)"
| "apply_op E (Op_fail ctx now o1 o2 x) R = fst (FailJob ctx now o1 o2 x R)"
| "apply_op E (Op_cancel ctx now o1 t j) R = fst (CancelJob ctx now o1 t j R)"
| "apply_op E (Op_ack ctx now o1 o2 f) R = fst (AcknowledgeCancellation ctx now o1 o2 f R)"
| "apply_op E (Op_reclaim ctx now l t o1 n d) R = fst (ReclaimExpiredLeases ctx now l t o1 n d R)"

lemma apply_op_step: "ledger_step E R (apply_op E op R)"
  by (cases op) (simp_all add: ledger_step.intros)

lemma apply_ops_history: "(ledger_step E)\<^sup>*\<^sup>* R (fold (apply_op E) ops R)"
proof (induction ops arbitrary: R)
  case (Cons op ops)
  then show ?case using apply_op_step [of E R op] by (simp add: converse_rtranclp_into_rtranclp)
qed simp

section \<open>The world of a worker\<close>

text \<open>What surrounds the n-th call of the engine.\<close>

record call_env =
  ce_others :: "ledger_op list"
  ce_now :: go_time
  ce_out1 :: db_outcome
  ce_out2 :: db_outcome
  ce_locked :: "job_key set"
  ce_tie :: "durable_job \<Rightarrow> nat"
  ce_ctx :: "ctx_error option"     \<comment> \<open>the context of \<open>Run\<close>\<close>
  ce_ticks :: nat
  ce_forced :: bool

record 'x ledger_world =
  lw_repo :: JobRepo
  lw_env :: "nat \<Rightarrow> call_env"
  lw_calls :: nat
  lw_rest :: 'x

definition env_of :: "'x ledger_world \<Rightarrow> call_env" where
  "env_of w = lw_env w (lw_calls w)"

text \<open>A call: the others act, then the operation runs.\<close>

definition ledger_call ::
  "ledger_env \<Rightarrow> (call_env \<Rightarrow> JobRepo \<Rightarrow> JobRepo \<times> 'a) \<Rightarrow> 'x ledger_world \<Rightarrow> 'x ledger_world \<times> 'a" where
  "ledger_call E op w =
     (let c = env_of w; (R, x) = op c (fold (apply_op E) (ce_others c) (lw_repo w))
      in (w\<lparr>lw_repo := R, lw_calls := lw_calls w + 1\<rparr>, x))"

definition ledger_repository :: "ledger_env \<Rightarrow> 'x ledger_world JobRepository" where
  "ledger_repository E =
     \<lparr>jr_GetJob = (\<lambda>t i. ledger_call E (\<lambda>c R. (R, GetJob None (ce_out1 c) t i R))),
      jr_AcquireLeases = (\<lambda>ctx owner n d. ledger_call E (\<lambda>c R.
        (case AcquireLeases ctx (ce_now c) (ce_locked c) (ce_tie c) (ce_out1 c) owner n d R of
           (R', Inl e) \<Rightarrow> (R', Inl e) | (R', Inr js) \<Rightarrow> (R', Inr (map Some js))))),
      jr_MarkRunning = (\<lambda>ctx f. ledger_call E (\<lambda>c. MarkRunning ctx (ce_now c) (ce_out1 c) (ce_out2 c) f)),
      jr_RenewLease = (\<lambda>f d. ledger_call E (\<lambda>c. RenewLease None (ce_now c) (ce_out1 c) (ce_out2 c) f d)),
      jr_CompleteJob = (\<lambda>f p. ledger_call E (\<lambda>c. CompleteJob E None (ce_now c) (ce_out1 c) (ce_out2 c) f p)),
      jr_FailJob = (\<lambda>x. ledger_call E (\<lambda>c. FailJob None (ce_now c) (ce_out1 c) (ce_out2 c) x)),
      jr_AcknowledgeCancellation = (\<lambda>f. ledger_call E (\<lambda>c. AcknowledgeCancellation None (ce_now c) (ce_out1 c) (ce_out2 c) f)),
      jr_ReclaimExpiredLeases = (\<lambda>ctx n d. ledger_call E
        (\<lambda>c. ReclaimExpiredLeases ctx (ce_now c) (ce_locked c) (ce_tie c) (ce_out1 c) n d))\<rparr>"

text \<open>
  The dispatcher as the executor. How a canceled context reaches the dispatcher and how a
  response is rendered as JSON are parameters.
\<close>

definition dispatcher_execute ::
  "(bytes \<Rightarrow> TaskRequest option) \<Rightarrow> (TaskResponse \<Rightarrow> json) \<Rightarrow> (ctx_error option \<Rightarrow> 'v \<Rightarrow> 'v) \<Rightarrow> 'v Dispatcher
     \<Rightarrow> ctx_error option \<Rightarrow> Job \<Rightarrow> ('v, 'm) dstate ledger_world \<Rightarrow> ('v, 'm) dstate ledger_world \<times> exec_outcome" where
  "dispatcher_execute decode render set_ctx D ctx j w =
     (let st = lw_rest w;
          (st', r) = Execute decode (Some D) (Some j) (st\<lparr>ds_world := set_ctx ctx (ds_world st)\<rparr>)
      in (w\<lparr>lw_rest := st'\<rparr>, case r of Inl err \<Rightarrow> X_err err | Inr resp \<Rightarrow> X_ok (PValue (render resp))))"

definition ledger_runtime ::
  "ledger_env \<Rightarrow> (bytes \<Rightarrow> TaskRequest option) \<Rightarrow> (TaskResponse \<Rightarrow> json) \<Rightarrow> (ctx_error option \<Rightarrow> 'v \<Rightarrow> 'v) \<Rightarrow> 'v Dispatcher
     \<Rightarrow> ('v, 'm) dstate ledger_world runtime" where
  "ledger_runtime E decode render set_ctx D =
     \<lparr>rt_repo = ledger_repository E, rt_Execute = dispatcher_execute decode render set_ctx D,
      rt_ticks = (\<lambda>_ w. ce_ticks (env_of w)), rt_forced = (\<lambda>_ w. ce_forced (env_of w)),
      rt_ctx = (\<lambda>w. ce_ctx (env_of w))\<rparr>"

section \<open>The contract holds\<close>

definition ledger_evolves :: "ledger_env \<Rightarrow> 'x ledger_world \<Rightarrow> 'x ledger_world \<Rightarrow> bool" where
  "ledger_evolves E w w' \<longleftrightarrow> (ledger_step E)\<^sup>*\<^sup>* (lw_repo w) (lw_repo w')"

definition ledger_good :: "'x ledger_world \<Rightarrow> bool" where
  "ledger_good w \<longleftrightarrow> ledger_inv (rows (lw_repo w))"

text \<open>A lease that cannot be started any more: it is over, or it runs already.\<close>

definition lease_spent :: "int \<Rightarrow> abstract_job \<Rightarrow> bool" where
  "lease_spent t a \<longleftrightarrow> t < a_token a \<or> t = a_token a \<and> a_state a \<noteq> JobStateLeased"

definition ledger_spent :: "LeaseFence \<Rightarrow> 'x ledger_world \<Rightarrow> bool" where
  "ledger_spent f w \<longleftrightarrow> (\<exists>r\<in>set (rows (lw_repo w)). row_key r = fence_key f \<and> lease_spent (f_LeaseToken f) (abs_job r))"

lemma lifecycle_lease_spent: "lifecycle a b \<Longrightarrow> lease_spent t a \<Longrightarrow> lease_spent t b"
  by (erule lifecycle.cases) (auto simp: lease_spent_def)

lemma evolve_lease_spent: "row_step\<^sup>*\<^sup>* r r' \<Longrightarrow> lease_spent t (abs_job r) \<Longrightarrow> lease_spent t (abs_job r')"
  by (induction rule: rtranclp_induct) (auto simp: row_step_def intro: lifecycle_lease_spent)

lemma history_spent:
  assumes "(ledger_step E)\<^sup>*\<^sup>* (lw_repo w) (lw_repo w')" and "ledger_good w" and "ledger_spent f w"
  shows "ledger_spent f w'"
proof -
  obtain r where r: "r \<in> set (rows (lw_repo w))" "row_key r = fence_key f" "lease_spent (f_LeaseToken f) (abs_job r)"
    using assms(3) by (auto simp: ledger_spent_def)
  obtain r' where "r' \<in> set (rows (lw_repo w'))" "row_step\<^sup>*\<^sup>* r r'"
    using history_row [OF assms(1) _ r(1)] assms(2) by (auto simp: ledger_good_def)
  then show ?thesis using r evolve_lease_spent evolve_key by (fastforce simp: ledger_spent_def)
qed

lemma MarkRunning_started:
  assumes "MarkRunning ctx now o1 o2 f R = (R', None)"
  shows "\<exists>r\<in>set (rows R'). row_key r = fence_key f \<and> lease_spent (f_LeaseToken f) (abs_job r)"
proof -
  let ?P = "\<lambda>r. fence_match f now r \<and> r_state r = JobStateLeased \<and> r_cancel_requested_at r = None"
  let ?g = "\<lambda>r. r\<lparr>r_state := JobStateRunning, r_updated_at := now\<rparr>"
  have "fenced_exec o1 o2 (update_where ?P ?g) (f_TenantID f) (f_JobID f) True R = (R', None)"
    using assms by (auto simp: MarkRunning_def markRunningSQL_def split: if_splits option.splits)
  then have rows: "rows R' = map (\<lambda>r. if ?P r then ?g r else r) (rows R)" and hit: "filter ?P (rows R) \<noteq> []"
    by (auto simp: fenced_exec_def exec_sql_def update_where_def Let_def
        split: db_outcome.splits sum.splits if_splits)
  obtain r where r: "r \<in> set (rows R)" "?P r" using hit unfolding filter_empty_conv by blast
  have "?g r \<in> set (rows R')" using r unfolding rows by force
  moreover have "row_key (?g r) = fence_key f" using r(2) by (simp add: row_key_def fence_key_def fence_match_def)
  moreover have "lease_spent (f_LeaseToken f) (abs_job (?g r))"
    using r(2) by (simp add: lease_spent_def abs_job_def fence_match_def)
  ultimately show ?thesis by blast
qed

lemma MarkRunning_spent_refused:
  assumes "ledger_inv (rows R)" and "r \<in> set (rows R)" and "row_key r = fence_key f"
    and "lease_spent (f_LeaseToken f) (abs_job r)"
  shows "snd (MarkRunning ctx now o1 o2 f R) \<noteq> None"
proof -
  have "\<not> (fence_match f now s \<and> r_state s = JobStateLeased \<and> r_cancel_requested_at s = None)" if "s \<in> set (rows R)" for s
  proof
    assume s: "fence_match f now s \<and> r_state s = JobStateLeased \<and> r_cancel_requested_at s = None"
    then have "row_key s = row_key r" using fence_match_key [of f now s] assms(3) by simp
    then have "s = r" using distinct_key_eq [OF ledger_invD(1) [OF assms(1)] that assms(2)] by blast
    then show False using s assms(4) by (auto simp: lease_spent_def abs_job_def fence_match_def)
  qed
  then have none: "markRunningSQL f now (rows R) = Inr (rows R, 0)" by (simp add: markRunningSQL_def update_where_none)
  show ?thesis using fenced_exec_none(2) [of "markRunningSQL f now" R] none by (auto simp: MarkRunning_def split: option.splits)
qed

lemma ledger_call_evolves:
  assumes "\<And>R. ledger_step E R (fst (op (env_of w) R)) \<or> fst (op (env_of w) R) = R"
  shows "ledger_evolves E w (fst (ledger_call E op w))"
  using apply_ops_history [of E "lw_repo w" "ce_others (env_of w)"] assms
  by (auto simp: ledger_evolves_def ledger_call_def Let_def split: prod.splits) (metis fst_conv rtranclp.simps)+

lemma ledger_calls_evolve:
  "ledger_evolves E w (fst (jr_GetJob (ledger_repository E) t i w))"
  "ledger_evolves E w (fst (jr_MarkRunning (ledger_repository E) ctx f w))"
  "ledger_evolves E w (fst (jr_RenewLease (ledger_repository E) f d w))"
  "ledger_evolves E w (fst (jr_CompleteJob (ledger_repository E) f p w))"
  "ledger_evolves E w (fst (jr_FailJob (ledger_repository E) x w))"
  "ledger_evolves E w (fst (jr_AcknowledgeCancellation (ledger_repository E) f w))"
  "ledger_evolves E w (fst (jr_ReclaimExpiredLeases (ledger_repository E) ctx n d w))"
  by (simp_all add: ledger_repository_def ledger_call_evolves ledger_step.intros)

lemma ledger_acquire_evolves: "ledger_evolves E w (fst (jr_AcquireLeases (ledger_repository E) ctx owner n d w))"
proof -
  have "fst (case AcquireLeases ctx now l t o1 owner n d R of (R', Inl e) \<Rightarrow> (R', Inl e) | (R', Inr js) \<Rightarrow> (R', Inr (map Some js)))
      = fst (AcquireLeases ctx now l t o1 owner n d R)" for now l t o1 R
    by (simp split: prod.split sum.split)
  then show ?thesis by (simp add: ledger_repository_def ledger_call_evolves ledger_step.intros)
qed

lemma others_good: "ledger_inv (rows (lw_repo w)) \<Longrightarrow> ledger_inv (rows (fold (apply_op E) ops (lw_repo w)))"
  by (rule ledger.inv_star [OF apply_ops_history])

interpretation ledger_repo: job_repository "ledger_repository E" "ledger_evolves E" ledger_good ledger_spent for E
proof
  show "ledger_evolves E w w" for w by (simp add: ledger_evolves_def)
  show "ledger_evolves E u v \<Longrightarrow> ledger_evolves E v w \<Longrightarrow> ledger_evolves E u w" for u v w
    by (simp add: ledger_evolves_def)
  show "ledger_good w \<Longrightarrow> ledger_evolves E w w' \<Longrightarrow> ledger_good w'" for w w'
    by (auto simp: ledger_good_def ledger_evolves_def intro: ledger.inv_star)
  show "ledger_good w \<Longrightarrow> ledger_spent f w \<Longrightarrow> ledger_evolves E w w' \<Longrightarrow> ledger_spent f w'" for f w w'
    using history_spent by (simp add: ledger_evolves_def)
  show "ledger_spent f (fst (jr_MarkRunning (ledger_repository E) ctx f w))"
    if "snd (jr_MarkRunning (ledger_repository E) ctx f w) = None" for ctx f w
    using that MarkRunning_started
    by (fastforce simp: ledger_repository_def ledger_call_def Let_def ledger_spent_def split: prod.splits)
  show "snd (jr_MarkRunning (ledger_repository E) ctx f w) \<noteq> None" if "ledger_good w" "ledger_spent f w" for ctx f w
  proof -
    let ?R = "fold (apply_op E) (ce_others (env_of w)) (lw_repo w)"
    have "ledger_spent f (w\<lparr>lw_repo := ?R\<rparr>)"
      by (rule history_spent [OF _ that, of E]) (simp add: apply_ops_history)
    then show ?thesis
      using MarkRunning_spent_refused [OF others_good [of w E "ce_others (env_of w)"]] that(1)
      by (auto simp: ledger_good_def ledger_spent_def ledger_repository_def ledger_call_def Let_def split: prod.splits)
        (metis snd_conv)
  qed
qed (simp_all add: ledger_calls_evolve)

lemma dispatcher_execute_evolves: "ledger_evolves E w (fst (dispatcher_execute decode render set_ctx D c j w))"
  by (simp add: dispatcher_execute_def ledger_evolves_def Let_def split: prod.split)

interpretation ledger_worker: worker_host "ledger_runtime E decode render set_ctx D" "ledger_evolves E" ledger_good ledger_spent
  for E decode render set_ctx D
  by (simp add: worker_host_def worker_host_axioms_def ledger_runtime_def ledger_repo.job_repository_axioms
      dispatcher_execute_evolves)

end
