(* ===== verification/Worker_Pool.thy ===== *)
theory Worker_Pool
  imports Worker_Engine
begin

text \<open>
  The polling loop and the shutdown of \<open>Engine.Run\<close> as a transition system: the semaphore of
  capacity tokens, the phases of the loop between its channel operations, the drain, and the
  goroutines that process jobs. Goroutines return their token at any moment, the context may be canceled at any
  moment, and the repository may answer anything, more jobs than requested and nil jobs
  included.
\<close>

section \<open>The loop\<close>

datatype loop_phase =
    L_top                                           \<comment> \<open>head of \<open>pollLoop\<close>\<close>
  | L_grab nat                                      \<comment> \<open>taking tokens without blocking\<close>
  | L_wait                                          \<comment> \<open>no capacity: blocked on a token\<close>
  | L_have nat                                      \<comment> \<open>\<open>hasTokens\<close>\<close>
  | L_got nat "repo_error + Job option list"        \<comment> \<open>\<open>AcquireLeases\<close> has returned\<close>
  | L_sleep                                         \<comment> \<open>waiting for the poll timer\<close>
  | L_exit                                          \<comment> \<open>after the loop\<close>
  | L_drain                                         \<comment> \<open>\<open>shuttingDown\<close> is set, active jobs drain\<close>
  | L_loops                                         \<comment> \<open>waiting for the reclamation loop\<close>
  | L_return                                        \<comment> \<open>\<open>Run\<close> has returned nil\<close>

record pool =
  p_tokens :: nat            \<comment> \<open>tokens in the channel\<close>
  p_loop :: loop_phase
  p_active :: "Job list"     \<comment> \<open>running goroutines\<close>
  p_done :: bool             \<comment> \<open>\<open>ctx.Err() != nil\<close>\<close>
  p_shuttingDown :: bool     \<comment> \<open>\<open>e.shuttingDown\<close>\<close>
  p_forced :: bool           \<comment> \<open>the drain deadline has canceled the active jobs\<close>

definition start_pool :: "WorkerConfig \<Rightarrow> pool" where
  "start_pool c = \<lparr>p_tokens = nat (w_Concurrency c), p_loop = L_top, p_active = [], p_done = False,
     p_shuttingDown = False, p_forced = False\<rparr>"

definition return_tokens :: "nat \<Rightarrow> loop_phase \<Rightarrow> pool \<Rightarrow> pool" where
  "return_tokens k l p = p\<lparr>p_tokens := p_tokens p + k, p_loop := l\<rparr>"

text \<open>
  The jobs of a batch: truncated to the tokens held, unused tokens and the tokens of nil
  jobs returned, one goroutine per valid job.
\<close>

definition valid_jobs :: "nat \<Rightarrow> Job option list \<Rightarrow> Job list" where
  "valid_jobs k js = map the (filter (\<lambda>j. j \<noteq> None) (take k js))"

definition launch :: "nat \<Rightarrow> Job option list \<Rightarrow> pool \<Rightarrow> pool" where
  "launch k js p =
     (let jobs = take k js;
          unused = k - length jobs;
          nils = length (filter (\<lambda>j. j = None) jobs)
      in p\<lparr>p_tokens := p_tokens p + unused + nils, p_active := p_active p @ valid_jobs k js, p_loop := L_top\<rparr>)"

inductive pool_step :: "nat \<Rightarrow> pool \<Rightarrow> pool \<Rightarrow> bool" for B where
  top_done: "p_loop p = L_top \<Longrightarrow> p_done p \<Longrightarrow> pool_step B p (p\<lparr>p_loop := L_exit\<rparr>)"
| top_grab: "p_loop p = L_top \<Longrightarrow> \<not> p_done p \<Longrightarrow> pool_step B p (p\<lparr>p_loop := L_grab 0\<rparr>)"
| grab_more: "p_loop p = L_grab k \<Longrightarrow> k < B \<Longrightarrow> p_tokens p > 0 \<Longrightarrow>
    pool_step B p (p\<lparr>p_tokens := p_tokens p - 1, p_loop := L_grab (k + 1)\<rparr>)"
| grab_end: "p_loop p = L_grab k \<Longrightarrow> \<not> k < B \<or> p_tokens p = 0 \<Longrightarrow>
    pool_step B p (p\<lparr>p_loop := (if k = 0 then L_wait else L_have k)\<rparr>)"
| wait_done: "p_loop p = L_wait \<Longrightarrow> p_done p \<Longrightarrow> pool_step B p (p\<lparr>p_loop := L_exit\<rparr>)"
| wait_token: "p_loop p = L_wait \<Longrightarrow> p_tokens p > 0 \<Longrightarrow>
    pool_step B p (p\<lparr>p_tokens := p_tokens p - 1, p_loop := L_grab 1\<rparr>)"
| have_done: "p_loop p = L_have k \<Longrightarrow> p_done p \<Longrightarrow> pool_step B p (return_tokens k L_exit p)"
| have_acquire: "p_loop p = L_have k \<Longrightarrow> \<not> p_done p \<Longrightarrow> pool_step B p (p\<lparr>p_loop := L_got k answer\<rparr>)"
| got_error: "p_loop p = L_got k (Inl e) \<Longrightarrow>
    pool_step B p (return_tokens k (if p_done p then L_exit else L_sleep) p)"
| got_late: "p_loop p = L_got k (Inr js) \<Longrightarrow> p_done p \<Longrightarrow> pool_step B p (return_tokens k L_exit p)"
| got_none: "p_loop p = L_got k (Inr []) \<Longrightarrow> \<not> p_done p \<Longrightarrow> pool_step B p (return_tokens k L_sleep p)"
| got_jobs: "p_loop p = L_got k (Inr js) \<Longrightarrow> \<not> p_done p \<Longrightarrow> js \<noteq> [] \<Longrightarrow> pool_step B p (launch k js p)"
| sleep_done: "p_loop p = L_sleep \<Longrightarrow> p_done p \<Longrightarrow> pool_step B p (p\<lparr>p_loop := L_exit\<rparr>)"
| sleep_timer: "p_loop p = L_sleep \<Longrightarrow> pool_step B p (p\<lparr>p_loop := L_top\<rparr>)"
| shutdown: "p_loop p = L_exit \<Longrightarrow> pool_step B p (p\<lparr>p_shuttingDown := True, p_loop := L_drain\<rparr>)"
| drained: "p_loop p = L_drain \<Longrightarrow> p_active p = [] \<Longrightarrow> pool_step B p (p\<lparr>p_loop := L_loops\<rparr>)"
| drain_deadline: "p_loop p = L_drain \<Longrightarrow> pool_step B p (p\<lparr>p_forced := True, p_loop := L_loops\<rparr>)"
| loops_ended: "p_loop p = L_loops \<Longrightarrow> p_done p \<Longrightarrow> pool_step B p (p\<lparr>p_loop := L_return\<rparr>)"
| job_finished: "p_active p = xs @ j # ys \<Longrightarrow>
    pool_step B p (p\<lparr>p_active := xs @ ys, p_tokens := p_tokens p + 1\<rparr>)"
| context_canceled: "pool_step B p (p\<lparr>p_done := True\<rparr>)"

inductive_cases pool_stepE: "pool_step B p p'"

section \<open>Capacity\<close>

text \<open>Tokens held by the loop.\<close>

fun held :: "loop_phase \<Rightarrow> nat" where
  "held (L_grab k) = k"
| "held (L_have k) = k"
| "held (L_got k _) = k"
| "held _ = 0"

text \<open>
  The shutdown begins only with the context canceled, \<open>shuttingDown\<close> is set exactly after the
  loop, and past the drain no job is left unless the deadline has canceled it.
\<close>

definition shutdown_inv :: "pool \<Rightarrow> bool" where
  "shutdown_inv p \<longleftrightarrow>
     (p_loop p \<in> {L_exit, L_drain, L_loops, L_return} \<longrightarrow> p_done p) \<and>
     (p_shuttingDown p \<longleftrightarrow> p_loop p \<in> {L_drain, L_loops, L_return}) \<and>
     (p_forced p \<longrightarrow> p_loop p \<in> {L_loops, L_return}) \<and>
     (p_loop p \<in> {L_loops, L_return} \<longrightarrow> p_active p = [] \<or> p_forced p)"

definition pool_inv :: "nat \<Rightarrow> nat \<Rightarrow> pool \<Rightarrow> bool" where
  "pool_inv C B p \<longleftrightarrow> p_tokens p + held (p_loop p) + length (p_active p) = C \<and> held (p_loop p) \<le> B \<and>
     (case p_loop p of L_have k \<Rightarrow> 0 < k | L_got k _ \<Rightarrow> 0 < k | _ \<Rightarrow> True)"

lemma length_valid_jobs:
  "length (valid_jobs k js) + (k - length (take k js)) + length (filter (\<lambda>j. j = None) (take k js)) = k"
  using sum_length_filter_compl [of "\<lambda>j. j = None" "take k js"] by (simp add: valid_jobs_def)

lemma launch_inv: "p_loop p = L_got k (Inr js) \<Longrightarrow> pool_inv C B p \<Longrightarrow> pool_inv C B (launch k js p)"
  using length_valid_jobs [of k js] by (auto simp: pool_inv_def launch_def Let_def)

lemma pool_step_inv:
  assumes "0 < B" and "pool_step B p p'" and "pool_inv C B p"
  shows "pool_inv C B p'"
  using assms(2)
proof cases
  case (got_jobs k js)
  then show ?thesis using launch_inv [OF _ assms(3)] by simp
qed (use assms(1,3) in \<open>auto simp: pool_inv_def return_tokens_def\<close>)

lemma shutdown_step_inv:
  assumes "pool_step B p p'" and "shutdown_inv p"
  shows "shutdown_inv p'"
  using assms by cases (auto simp: shutdown_inv_def return_tokens_def launch_def Let_def)

lemma start_shutdown_inv: "shutdown_inv (start_pool c)"
  by (simp add: shutdown_inv_def start_pool_def)

lemma start_pool_inv: "0 \<le> w_Concurrency c \<Longrightarrow> pool_inv (nat (w_Concurrency c)) B (start_pool c)"
  by (simp add: pool_inv_def start_pool_def)

interpretation shutdown: preserved "pool_step B" shutdown_inv for B
  by unfold_locales (rule shutdown_step_inv)

interpretation worker_pool: preserved "pool_step B" "\<lambda>p. 0 < B \<and> pool_inv C B p" for B C
  by unfold_locales (use pool_step_inv in blast)

end
