(* ===== verification/Worker_Claims.thy ===== *)
theory Worker_Claims
  imports Worker_Ledger Worker_Pool Dispatcher_Claims Config_Claims Ledger_Example
begin

text \<open>
  The properties of the durable worker: executions per lease, the protocol of a job, the
  capacity of the pool, and what is reported of a failure. Worker_Outcome adds what becomes of
  a leased job.
\<close>

section \<open>A concrete worker\<close>

definition demo_call :: call_env where
  "demo_call = \<lparr>ce_others = [], ce_now = 11, ce_out1 = Db_ok, ce_out2 = Db_ok, ce_locked = {}, ce_tie = (\<lambda>_. 0),
     ce_ctx = None, ce_ticks = 0, ce_forced = False\<rparr>"

definition demo_world :: "(unit, nat) dstate ledger_world" where
  "demo_world = \<lparr>lw_repo = demo_repo [demo_leased_row], lw_env = (\<lambda>_. demo_call), lw_calls = 0, lw_rest = demo_dstate\<rparr>"

definition demo_runtime :: "(unit, nat) dstate ledger_world runtime" where
  "demo_runtime = ledger_runtime demo_env (\<lambda>_. Some demo_task) (\<lambda>_. JNull) (\<lambda>_ w. w) demo_dispatcher"

definition demo_engine :: "(unit, nat) dstate ledger_world Engine" where
  "demo_engine = NewEngine (default_worker zero_worker) ''w'' demo_world"

section \<open>Leases and executions\<close>

text \<open>
  C2. A lease is executed at most once: whatever jobs an engine processes, in whatever order
  and however often, and whatever other workers and clients do to the database before each of
  its calls, the engine hands a given lease (job, owner and token) to the executor at most once.
\<close>

theorem lease_executed_once:
  assumes "ledger_inv (rows (lw_repo w))"
    and "(engine_step (ledger_runtime E decode render set_ctx D) (ledger_evolves E))\<^sup>*\<^sup>* (NewEngine cfg fallbackID w) e"
  shows "executions_of f (e_log e) \<le> 1"
proof -
  have "ledger_worker.once f (NewEngine cfg fallbackID w)"
    using assms(1) by (simp add: ledger_worker.once_def ledger_good_def NewEngine_def executions_of_def)
  from ledger_worker.once_history [OF assms(2) this] show ?thesis by (simp add: ledger_worker.once_def)
qed

lemma demo_fence_valid: "LeaseFence_Validate demo_fence = None"
  by (simp add: LeaseFence_Validate_def demo_fence_def string_eval job_limits)

lemma demo_job_fence: "Job_Fence (scanJob demo_leased_row) = demo_fence"
  by (simp add: Job_Fence_def demo_defs)

lemma demo_started: "snd (MarkRunning None 11 Db_ok Db_ok demo_fence (demo_repo [demo_leased_row])) = None"
proof -
  have "fence_match demo_fence 11 demo_leased_row" by (simp add: fence_match_def demo_defs)
  moreover have "r_state demo_leased_row = JobStateLeased" "r_cancel_requested_at demo_leased_row = None"
    by (simp_all add: demo_defs)
  ultimately show ?thesis
    using MarkRunning_hit [of "demo_repo [demo_leased_row]" demo_leased_row demo_fence 11 Db_ok] demo_inv(2) demo_fence_valid
    by simp
qed

lemma demo_executes: "executions (e_log (processJob demo_runtime (Some (scanJob demo_leased_row)) demo_engine)) = 1"
proof -
  let ?j = "scanJob demo_leased_row" and ?k = "job_key_of (scanJob demo_leased_row)"
  let ?e = "demo_engine\<lparr>e_activeCancelFuncs := [?k]\<rparr>"
  have "processJob demo_runtime (Some ?j) demo_engine = (process_registered demo_runtime ?j ?e)
      \<lparr>e_activeCancelFuncs := remove1 ?k (e_activeCancelFuncs (process_registered demo_runtime ?j ?e))\<rparr>"
    by (simp add: processJob_def demo_engine_def NewEngine_def Let_def)
  moreover obtain evs where evs: "e_log (process_registered demo_runtime ?j ?e) = e_log ?e @ evs" "job_log ?j evs"
    using process_registered_log [of ?e demo_runtime ?j] by (auto simp: appends_def)
  obtain e1 where m: "logged (Marked (Job_Fence ?j)) (jr_MarkRunning (rt_repo demo_runtime) None (Job_Fence ?j)) ?e = (e1, None)"
      and l: "e_log e1 = [Marked demo_fence None]"
  proof -
    obtain R' where "MarkRunning None 11 Db_ok Db_ok demo_fence (demo_repo [demo_leased_row]) = (R', None)"
      using demo_started by (metis prod.collapse)
    then show ?thesis
      using that
      by (simp add: logged_def on_world_def log_event_def demo_runtime_def ledger_runtime_def ledger_repository_def
          ledger_call_def env_of_def demo_world_def demo_call_def demo_engine_def NewEngine_def demo_job_fence Let_def)
  qed
  have "\<not> rt_forced demo_runtime ?j (e_world ?e)"
    by (simp add: demo_runtime_def ledger_runtime_def env_of_def demo_engine_def NewEngine_def demo_world_def demo_call_def)
  then have eq: "process_registered demo_runtime ?j ?e = run_job demo_runtime ?j (log_event (OnJobRunning ?j) e1)"
    by (simp add: process_registered_def m)
  obtain rest where "e_log (process_registered demo_runtime ?j ?e) = [Marked demo_fence None, OnJobRunning ?j] @ rest"
    using run_job_log [of "log_event (OnJobRunning ?j) e1" demo_runtime ?j] l
    unfolding eq by (auto simp: appends_def log_event_def)
  moreover have "e_log ?e = []" by (simp add: demo_engine_def NewEngine_def)
  ultimately have "e_log (processJob demo_runtime (Some ?j) demo_engine) = evs" "Marked demo_fence None \<in> set evs"
    using evs(1) by simp_all
  then show ?thesis using job_log_counts [OF evs(2)] by (simp add: demo_job_fence)
qed

theorem lease_executed_once_witness:
  "executions (e_log (processJob demo_runtime (Some (scanJob demo_leased_row)) demo_engine)) = 1 \<and>
   executions_of demo_fence (e_log (processJob demo_runtime (Some (scanJob demo_leased_row))
     (processJob demo_runtime (Some (scanJob demo_leased_row)) demo_engine))) \<le> 1"
proof -
  have "(engine_step demo_runtime (ledger_evolves demo_env))\<^sup>*\<^sup>* demo_engine
      (processJob demo_runtime (Some (scanJob demo_leased_row)) (processJob demo_runtime (Some (scanJob demo_leased_row)) demo_engine))"
    by (meson engine_process converse_rtranclp_into_rtranclp rtranclp.rtrancl_refl)
  then show ?thesis
    using lease_executed_once [of demo_world demo_env] demo_inv(2) demo_executes
    unfolding demo_runtime_def demo_engine_def by (auto simp: demo_world_def)
qed

text \<open>
  C20. The protocol of a job: \<open>processJob\<close> asks to start the job, executes it only after the
  ledger has agreed, renews and acknowledges only with the job's own fence, and writes at
  most one outcome, after the execution and only if no renewal has reported the lease lost.
\<close>

theorem job_protocol:
  "\<exists>evs. e_log (processJob W (Some j) e) = e_log e @ evs \<and> job_log j evs \<and>
     writes evs \<le> executions evs \<and> executions evs = (if Marked (Job_Fence j) None \<in> set evs then 1 else 0)"
  using processJob_log [of W j e] job_log_counts by blast

section \<open>Capacity\<close>

text \<open>
  C21. The semaphore of the polling loop is exact: the tokens in the channel, the tokens held
  by the loop and the running jobs always sum up to the configured concurrency. So there are
  never more running jobs than configured, returning a token never blocks, a lease request
  asks for between one and \<open>batch_size\<close> jobs, and the loop only waits for capacity while
  as many jobs run as configured. \<open>Run\<close> returns only after its context was canceled, and then
  every job has ended or the drain deadline has canceled it.
\<close>

theorem pool_capacity:
  assumes "0 < w_BatchSize c" and "w_BatchSize c \<le> w_Concurrency c"
    and "(pool_step (nat (w_BatchSize c)))\<^sup>*\<^sup>* (start_pool c) p"
  shows "int (p_tokens p) + int (held (p_loop p)) + int (length (p_active p)) = w_Concurrency c \<and>
    (\<forall>k. p_loop p = L_have k \<longrightarrow> 1 \<le> int k \<and> int k \<le> w_BatchSize c) \<and>
    (p_loop p = L_wait \<and> p_tokens p = 0 \<longrightarrow> int (length (p_active p)) = w_Concurrency c) \<and>
    (p_loop p = L_return \<longrightarrow> p_done p \<and> p_shuttingDown p \<and> (p_forced p \<or> int (p_tokens p) = w_Concurrency c))"
proof -
  have "pool_inv (nat (w_Concurrency c)) (nat (w_BatchSize c)) p"
    using worker_pool.inv_star [OF assms(3), of "nat (w_Concurrency c)"] start_pool_inv assms(1,2) by simp
  moreover have "shutdown_inv p"
    using shutdown.inv_star [OF assms(3)] start_shutdown_inv by blast
  ultimately show ?thesis using assms(1,2) by (auto simp: pool_inv_def shutdown_inv_def split: loop_phase.splits)
qed

theorem pool_capacity_witness:
  "int (p_tokens ((start_pool (default_worker zero_worker))\<lparr>p_loop := L_grab 0\<rparr>)) \<le> w_Concurrency (default_worker zero_worker)"
proof -
  have "(pool_step (nat (w_BatchSize (default_worker zero_worker))))\<^sup>*\<^sup>* (start_pool (default_worker zero_worker))
      ((start_pool (default_worker zero_worker))\<lparr>p_loop := L_grab 0\<rparr>)"
    by (intro r_into_rtranclp top_grab) (simp_all add: start_pool_def)
  then show ?thesis
    using pool_capacity [of "default_worker zero_worker" "(start_pool (default_worker zero_worker))\<lparr>p_loop := L_grab 0\<rparr>"]
    by (simp add: default_worker_def zero_worker_def dflt_def)
qed

section \<open>Configuration\<close>

text \<open>
  C22. The checks of \<open>Run\<close> and the validation of the configuration agree: given a generated
  worker ID that is a proper lease owner, the engine starts exactly with the settings the
  validation accepts.
\<close>

theorem run_checks_agree:
  assumes "proper_id MaxLeaseOwnerLength fallbackID"
  shows "Run_checks True True True (NewEngine cfg fallbackID w) = None \<longleftrightarrow> validate_worker_fields cfg = None"
  using assms
  by (auto simp: Run_checks_def NewEngine_def validate_worker_fields_def proper_id_def MaxJobBatchSize_def Let_def
      split: if_splits)

theorem run_checks_agree_witness:
  "Run_checks True True True demo_engine = None \<longleftrightarrow> validate_worker_fields (default_worker zero_worker) = None"
  unfolding demo_engine_def by (rule run_checks_agree) (use demo_owner in \<open>simp add: MaxLeaseOwnerLength_def\<close>)

section \<open>Execution and failures\<close>

text \<open>What one execution calls: nothing, or the agent that the columns of the job name.\<close>

lemma Execute_trace:
  "\<exists>t. ds_trace (fst (Execute decode (Some D) (Some j) st)) = ds_trace st \<or>
     tr_AgentID t = j_AgentID j \<and> tr_RequiredCapability t = j_RequiredCapability j \<and>
     ds_trace (fst (Execute decode (Some D) (Some j) st)) = ds_trace (fst (DispatchSingleAttempt D (Some t) st))"
proof (cases "decode (j_Request j)")
  case None
  then show ?thesis by (simp add: Execute_def)
next
  case (Some req)
  let ?t = "req\<lparr>tr_ID := j_ID j, tr_AgentID := j_AgentID j, tr_RequiredCapability := j_RequiredCapability j\<rparr>"
  show ?thesis
    by (rule exI [of _ ?t]) (auto simp: Execute_def Some Let_def split: prod.splits sum.splits option.splits)
qed

text \<open>
  C23. The stored request cannot redirect a job: an execution calls at most one agent, once;
  it is the agent of the job's row or, when the row names none, an agent with the required
  capability of the row.
\<close>

theorem execution_routed_by_row:
  "\<exists>k a. k \<le> 1 \<and> ds_trace (fst (Execute decode (Some D) (Some j) st)) = ds_trace st @ replicate k (Called (ag_ID a)) \<and>
     (k = 1 \<longrightarrow> a \<in> set (config_agents D) \<and>
       (if j_AgentID j \<noteq> [] then ag_ID a = j_AgentID j
        else has_capability (d_unicode D) (to_lower (d_unicode D) (trim_space (j_RequiredCapability j))) a))"
proof -
  obtain t where t: "ds_trace (fst (Execute decode (Some D) (Some j) st)) = ds_trace st \<or>
     tr_AgentID t = j_AgentID j \<and> tr_RequiredCapability t = j_RequiredCapability j \<and>
     ds_trace (fst (Execute decode (Some D) (Some j) st)) = ds_trace (fst (DispatchSingleAttempt D (Some t) st))"
    using Execute_trace by blast
  obtain k where k: "k \<le> 1" "ds_trace (fst (DispatchSingleAttempt D (Some t) st)) = ds_trace st @
     (case resolveAgent D (now_of D st) (Some t) of Inl _ \<Rightarrow> [] | Inr a \<Rightarrow> replicate k (Called (ag_ID a)))"
    using single_attempt_trace by blast
  show ?thesis
  proof (cases "ds_trace (fst (Execute decode (Some D) (Some j) st)) = ds_trace st")
    case True
    then show ?thesis by (intro exI [of _ 0]) simp
  next
    case False
    then obtain a where a: "resolveAgent D (now_of D st) (Some t) = Inr a" using t k(2) by (cases "resolveAgent D (now_of D st) (Some t)") auto
    have "a \<in> set (config_agents D)" by (rule resolved_configured [OF a])
    moreover have "if j_AgentID j \<noteq> [] then ag_ID a = j_AgentID j
        else has_capability (d_unicode D) (to_lower (d_unicode D) (trim_space (j_RequiredCapability j))) a"
      using a t False by (auto simp: resolveAgent_def FindAgentByCapability_def dest: GetAgent_Inr find_SomeD
          split: if_splits option.splits)
    ultimately show ?thesis using t False k a by (intro exI [of _ k] exI [of _ a]) auto
  qed
qed

theorem execution_routed_by_row_witness:
  "\<exists>k (a :: AgentConfig). k \<le> 1 \<and> ds_trace (fst (Execute (\<lambda>_. Some demo_task) (Some demo_dispatcher) (Some (scanJob demo_leased_row)) demo_dstate))
     = ds_trace demo_dstate @ replicate k (Called (ag_ID a))"
  using execution_routed_by_row [of "\<lambda>_. Some demo_task" demo_dispatcher "scanJob demo_leased_row" demo_dstate] by blast

text \<open>
  A failure report is always acceptable to the ledger: with validated settings and the
  fence of a lease, the input that \<open>processJob\<close> builds from any error, or from a panic,
  passes the validation of \<open>FailJob\<close>, and it asks for a retry only if the job may have one.
\<close>

lemma failure_reports_accepted:
  assumes "LeaseFence_Validate (Job_Fence j) = None" and "validate_worker_fields cfg = None"
    and "SanitizeFailure (Some err) (j_MaxAttempts j) = (code, msg, retryable)"
  shows "FailJobInput_Validate (fail_input j code msg retryable (RetryBackoff cfg)) = None \<and>
    FailJobInput_Validate (fail_input j ''PANIC'' ''internal execution error occurred'' False 0) = None \<and>
    (retryable \<longrightarrow> 1 < j_MaxAttempts j)"
proof -
  have "worker_ok cfg" by (rule validate_worker_fields_None [OF assms(2)])
  then have "0 \<le> RetryBackoff cfg" "RetryBackoff cfg \<le> MaxRetryBackoff" by (simp_all add: worker_ok_def)
  moreover have "rune_count ''PANIC'' \<le> MaxFailureCodeLength"
      "rune_count ''internal execution error occurred'' \<le> MaxFailureMessageLength"
    using rune_count_le_length [of "''PANIC''"] rune_count_le_length [of "''internal execution error occurred''"]
    by (simp_all add: job_limits)
  ultimately show ?thesis
    using SanitizeFailure_bounds [OF assms(3)] assms(1)
    by (simp add: FailJobInput_Validate_None) (simp add: fail_input_def job_limits)
qed

lemma default_worker_valid: "validate_worker_fields (default_worker zero_worker) = None"
  by (simp add: validate_worker_fields_def default_worker_def dflt_def zero_worker_def MaxJobBatchSize_def
      MaxWorkerPollIntervalMilliseconds_def MaxJobLeaseDuration_def MaxRetryBackoff_def MaxWorkerDrainTimeoutSeconds_def
      hour_def second_def go_div_nonneg)

lemma failure_reports_accepted_witness:
  "FailJobInput_Validate (fail_input (scanJob demo_leased_row) ''PANIC'' ''internal execution error occurred'' False 0) = None"
proof -
  obtain c m r where "SanitizeFailure (Some (Err_text [])) (j_MaxAttempts (scanJob demo_leased_row)) = (c, m, r)"
    by (metis prod_cases3)
  moreover have "LeaseFence_Validate (Job_Fence (scanJob demo_leased_row)) = None"
    unfolding demo_job_fence by (rule demo_fence_valid)
  ultimately show ?thesis using failure_reports_accepted [OF _ default_worker_valid] by blast
qed

text \<open>
  C24. No error text leaves the worker: whatever a dispatch returns, the code and the message
  that are stored with a failed job come from a fixed table of texts; error strings, URLs,
  credentials and response bodies are never part of them.
\<close>

theorem failures_never_leak:
  assumes "Execute decode disp job st = (st', Inl err)" and "SanitizeFailure (Some err) m = (code, msg, r)"
  shows "(code, msg) \<in> set failure_texts"
  by (rule Sanitize_texts [OF assms(2) Execute_texts [OF assms(1)]])

theorem failures_never_leak_witness:
  "\<exists>code msg r. SanitizeFailure (Some (Err_exec (exec_error ''INVALID_JOB'' ''job cannot be nil'' False))) 1 = (code, msg, r) \<and>
     (code, msg) \<in> set failure_texts"
proof -
  have e: "Execute (\<lambda>_. None) (Some demo_dispatcher) None demo_dstate =
     (demo_dstate, Inl (Err_exec (exec_error ''INVALID_JOB'' ''job cannot be nil'' False)))"
    by (simp add: Execute_def)
  obtain c m r where "SanitizeFailure (Some (Err_exec (exec_error ''INVALID_JOB'' ''job cannot be nil'' False))) 1 = (c, m, r)"
    by (metis prod_cases3)
  then show ?thesis using failures_never_leak [OF e] by blast
qed

end
