(* ===== verification/Worker_Outcome.thy ===== *)
theory Worker_Outcome
  imports Worker_Claims
begin

text \<open>
  What becomes of a leased job: the engine of pkg/worker on the ledger of pkg/storage with the
  executor of the dispatcher, followed call by call while the database answers, nobody else
  touches the job and no call comes later than the lease allows.
\<close>

section \<open>One row of the table\<close>

definition replaced :: "durable_job \<Rightarrow> durable_job \<Rightarrow> durable_job list \<Rightarrow> durable_job list" where
  "replaced r r' rs = map (\<lambda>s. if s = r then r' else s) rs"

text \<open>The row of a job that is executed, with the expiry of its lease and its last change.\<close>

definition started :: "durable_job \<Rightarrow> go_time \<Rightarrow> go_time \<Rightarrow> durable_job" where
  "started r x u = r\<lparr>r_state := JobStateRunning, r_lease_expires_at := Some x, r_updated_at := u\<rparr>"

lemma replaced_same [simp]: "replaced r r rs = rs"
  by (auto simp: replaced_def intro: map_idI)

lemma replaced_mem: "r \<in> set rs \<Longrightarrow> r' \<in> set (replaced r r' rs)"
  by (force simp: replaced_def)

lemma replaced_replaced:
  assumes "distinct (map row_key rs)" and "r \<in> set rs" and "row_key cur = row_key r"
  shows "replaced cur r' (replaced r cur rs) = replaced r r' rs"
proof -
  have "s = r" if "s \<in> set rs" "s = cur" for s
    using that assms distinct_key_eq [OF assms(1)] by blast
  then show ?thesis by (auto simp: replaced_def)
qed

text \<open>A job that a worker holds: its row is leased and the fence taken from it is valid.\<close>

definition job_held :: "JobRepo \<Rightarrow> durable_job \<Rightarrow> bool" where
  "job_held R r \<longleftrightarrow> ledger_inv (rows R) \<and> \<not> repo_closed R \<and> r \<in> set (rows R) \<and> r_state r = JobStateLeased \<and>
     LeaseFence_Validate (Job_Fence (scanJob r)) = None"

lemma job_heldD:
  assumes "job_held R r"
  shows "ledger_inv (rows R)" "\<not> repo_closed R" "r \<in> set (rows R)" "r_state r = JobStateLeased"
    "LeaseFence_Validate (Job_Fence (scanJob r)) = None" "\<exists>w. r_lease_owner r = Some w"
proof -
  show *: "ledger_inv (rows R)" "\<not> repo_closed R" "r \<in> set (rows R)" "r_state r = JobStateLeased"
    "LeaseFence_Validate (Job_Fence (scanJob r)) = None" using assms by (simp_all add: job_held_def)
  show "\<exists>w. r_lease_owner r = Some w"
    using ledger_invD(3) [OF *(1,3)] *(4) by (auto simp: row_ok_def lease_state_ok_def split: option.splits)
qed

lemma held_fence_match:
  assumes "job_held R r" and "now < x"
  shows "r_lease_expires_at r = Some x \<Longrightarrow> fence_match (Job_Fence (scanJob r)) now r"
    and "fence_match (Job_Fence (scanJob r)) now (started r x u)"
  using job_heldD(4,6) [OF assms(1)] assms(2) by (auto simp: fence_match_def Job_Fence_def started_def)

lemma held_fence_key: "fence_match (Job_Fence (scanJob r)) now s \<Longrightarrow> row_key s = row_key r"
  by (simp add: fence_match_def Job_Fence_def row_key_def)

lemma started_key [simp]: "row_key (started r x u) = row_key r"
  by (simp add: started_def row_key_def)

text \<open>A fenced statement on the row of a held job, in its present form \<open>cur\<close>.\<close>

lemma fenced_replaced:
  assumes "job_held R r" and "ledger_inv (replaced r cur (rows R))" and "row_key cur = row_key r" and "P cur"
    and "\<And>s. P s \<Longrightarrow> row_key s = row_key r" and "\<And>s. P s \<Longrightarrow> row_ok s \<Longrightarrow> row_ok (g s)"
  shows "fenced_exec Db_ok out2 (update_where P g) t j b (R\<lparr>rows := replaced r cur (rows R)\<rparr>) =
    (R\<lparr>rows := replaced r (g cur) (rows R)\<rparr>, None)"
proof -
  let ?R = "R\<lparr>rows := replaced r cur (rows R)\<rparr>"
  note h = job_heldD [OF assms(1)]
  have "fenced_exec Db_ok out2 (update_where P g) t j b ?R =
      (?R\<lparr>rows := map (\<lambda>s. if s = cur then g cur else s) (rows ?R)\<rparr>, None)"
    by (rule fenced_exec_hit) (use assms replaced_mem [OF h(3)] in auto)
  also have "map (\<lambda>s. if s = cur then g cur else s) (rows ?R) = replaced r (g cur) (rows R)"
    using replaced_replaced [OF ledger_invD(1) [OF h(1)] h(3) assms(3), of "g cur"] by (simp add: replaced_def)
  finally show ?thesis by simp
qed

section \<open>The calls of a worker\<close>

text \<open>The row after its outcome was written, and after a cancellation was acknowledged.\<close>

definition succeeded :: "durable_job \<Rightarrow> bytes \<Rightarrow> go_time \<Rightarrow> durable_job" where
  "succeeded r doc now = r\<lparr>r_state := JobStateSucceeded, r_response := Some doc, r_lease_owner := None,
     r_lease_expires_at := None, r_updated_at := now\<rparr>"

definition canceled :: "durable_job \<Rightarrow> go_time \<Rightarrow> durable_job" where
  "canceled r now = r\<lparr>r_state := JobStateCanceled, r_lease_owner := None, r_lease_expires_at := None, r_updated_at := now\<rparr>"

text \<open>What the database stores for a payload, if it can be marshalled and \<open>jsonb\<close> accepts it.\<close>

definition stored_payload :: "ledger_env \<Rightarrow> payload \<Rightarrow> bytes option" where
  "stored_payload E v = (case marshalJobPayload E v of Inl _ \<Rightarrow> None | Inr b \<Rightarrow> env_jsonb E b)"

lemma mark_call:
  assumes "job_held R r" and "r_cancel_requested_at r = None" and "r_lease_expires_at r = Some x" and "now < x"
  shows "MarkRunning None now Db_ok out2 (Job_Fence (scanJob r)) R = (R\<lparr>rows := replaced r (started r x now) (rows R)\<rparr>, None)"
    and "ledger_inv (replaced r (started r x now) (rows R))"
proof -
  note h = job_heldD [OF assms(1)]
  have "r\<lparr>r_state := JobStateRunning, r_updated_at := now\<rparr> = started r x now"
    using assms(3) by (cases r) (simp add: started_def)
  then show *: "MarkRunning None now Db_ok out2 (Job_Fence (scanJob r)) R = (R\<lparr>rows := replaced r (started r x now) (rows R)\<rparr>, None)" for out2
    using MarkRunning_hit [OF h(1-3) held_fence_match(1) [OF assms(1,4,3)] h(5,4) assms(2), of out2]
    by (simp add: replaced_def)
  show "ledger_inv (replaced r (started r x now) (rows R))"
    using ledger_step_inv [OF step_running h(1), of None now Db_ok Db_ok "Job_Fence (scanJob r)"] * by simp
qed

lemma renew_call:
  assumes "job_held R r" and "ledger_inv (replaced r (started r x u) (rows R))" and "now < x" and "validateLeaseDuration d = None"
  defines "R1 \<equiv> R\<lparr>rows := replaced r (started r x u) (rows R)\<rparr>" and "r2 \<equiv> started r (now + duration_ms d * 1000) now"
  shows "RenewLease None now Db_ok out2 (Job_Fence (scanJob r)) d R1 = (R\<lparr>rows := replaced r r2 (rows R)\<rparr>, None)"
    and "ledger_inv (replaced r r2 (rows R))"
proof -
  note h = job_heldD [OF assms(1)]
  let ?g = "\<lambda>s. s\<lparr>r_lease_expires_at := Some (now + duration_ms d * 1000), r_updated_at := now\<rparr>"
  have g: "?g (started r x u) = r2" by (simp add: started_def r2_def)
  show *: "RenewLease None now Db_ok out2 (Job_Fence (scanJob r)) d R1 = (R\<lparr>rows := replaced r r2 (rows R)\<rparr>, None)" for out2
    using fenced_replaced [OF assms(1,2) started_key, where P = "fence_match (Job_Fence (scanJob r)) now" and g = ?g,
        OF held_fence_match(2) [OF assms(1,3)] held_fence_key row_ok_renew] g h(2,5) assms(4)
    by (simp add: RenewLease_def renewLeaseSQL_def R1_def fence_match_lease)
  show "ledger_inv (replaced r r2 (rows R))"
    using ledger_step_inv [OF step_renew, of R1 None now Db_ok Db_ok "Job_Fence (scanJob r)" d] assms(2) * by (simp add: R1_def)
qed

lemma complete_call:
  assumes "job_held R r" and "ledger_inv (replaced r (started r x u) (rows R))" and "now < x"
  defines "R1 \<equiv> R\<lparr>rows := replaced r (started r x u) (rows R)\<rparr>"
  shows "stored_payload E v = Some doc \<Longrightarrow>
      CompleteJob E None now Db_ok out2 (Job_Fence (scanJob r)) v R1 = (R\<lparr>rows := replaced r (succeeded r doc now) (rows R)\<rparr>, None)"
    and "stored_payload E v = None \<Longrightarrow> \<exists>err. CompleteJob E None now Db_ok out2 (Job_Fence (scanJob r)) v R1 = (R1, Some err)"
proof -
  note h = job_heldD [OF assms(1)]
  let ?f = "Job_Fence (scanJob r)" and ?g = "\<lambda>s. succeeded s doc now"
  have g: "?g (started r x u) = succeeded r doc now" by (simp add: started_def succeeded_def)
  have ok: "row_ok s \<Longrightarrow> row_ok (?g s)" for s using row_ok_complete by (simp add: succeeded_def)
  show "CompleteJob E None now Db_ok out2 ?f v R1 = (R\<lparr>rows := replaced r (succeeded r doc now) (rows R)\<rparr>, None)"
    if st: "stored_payload E v = Some doc"
  proof -
    obtain b where b: "marshalJobPayload E v = Inr b" "env_jsonb E b = Some doc"
      using st by (auto simp: stored_payload_def split: sum.splits)
    have "completeJobSQL E ?f now b = update_where (fence_match ?f now) ?g"
      using completeJobSQL_Some [OF b(2)] by (simp add: succeeded_def)
    then show ?thesis
      using fenced_replaced [OF assms(1,2) started_key, where P = "fence_match ?f now" and g = ?g,
          OF held_fence_match(2) [OF assms(1,3)] held_fence_key ok] g h(2,5) b(1)
      by (simp add: CompleteJob_def R1_def)
  qed
  show "\<exists>err. CompleteJob E None now Db_ok out2 ?f v R1 = (R1, Some err)" if st: "stored_payload E v = None"
    using st h(2,5)
    by (auto simp: stored_payload_def CompleteJob_def R1_def fenced_exec_def exec_sql_def completeJobSQL_def Let_def split: sum.splits)
qed

lemma fail_call:
  assumes "job_held R r" and "ledger_inv (replaced r (started r x u) (rows R))" and "now < x"
    and "FailJobInput_Validate y = None" and "FailJobInput_Fence y = Job_Fence (scanJob r)"
  shows "FailJob None now Db_ok out2 y (R\<lparr>rows := replaced r (started r x u) (rows R)\<rparr>) =
    (R\<lparr>rows := replaced r (fail_row now y r) (rows R)\<rparr>, None)"
proof -
  note h = job_heldD [OF assms(1)]
  have g: "fail_row now y (started r x u) = fail_row now y r" by (simp add: started_def fail_row_def)
  show ?thesis
    using fenced_replaced [OF assms(1,2) started_key, where P = "fence_match (Job_Fence (scanJob r)) now" and g = "fail_row now y",
        OF held_fence_match(2) [OF assms(1,3)] held_fence_key row_ok_fail] g h(2) assms(4,5)
    by (simp add: FailJob_def failJobSQL_def)
qed

lemma cancel_calls:
  assumes "job_held R r" and "r_cancel_requested_at r \<noteq> None" and "r_lease_expires_at r = Some x"
  shows "MarkRunning None now Db_ok Db_ok (Job_Fence (scanJob r)) R = (R, Some ErrCancellationRequested)"
    and "now < x \<Longrightarrow> AcknowledgeCancellation None now Db_ok out2 (Job_Fence (scanJob r)) R =
      (R\<lparr>rows := replaced r (canceled r now) (rows R)\<rparr>, None)"
proof -
  note h = job_heldD [OF assms(1)]
  let ?f = "Job_Fence (scanJob r)"
  let ?P = "\<lambda>s. fence_match ?f now s \<and> r_cancel_requested_at s \<noteq> None"
  have "\<not> (fence_match ?f now s \<and> r_state s = JobStateLeased \<and> r_cancel_requested_at s = None)" if "s \<in> set (rows R)" for s
    using distinct_key_eq [OF ledger_invD(1) [OF h(1)] that h(3)] held_fence_key [of r now s] assms(2) by auto
  then have "markRunningSQL ?f now (rows R) = Inr (rows R, 0)"
    by (simp add: markRunningSQL_def update_where_none)
  moreover have "find (\<lambda>s. r_tenant_id s = f_TenantID ?f \<and> r_id s = f_JobID ?f) (rows R) = Some r"
    using find_key [OF h(1,3)] by (simp add: Job_Fence_def)
  moreover have "list_all row_ok (rows R)" using ledger_invD(3) [OF h(1)] by (simp add: list_all_iff)
  ultimately show "MarkRunning None now Db_ok Db_ok ?f R = (R, Some ErrCancellationRequested)"
    using h(2,5) assms(2)
    by (simp add: MarkRunning_def fenced_exec_def exec_sql_def query_sql_def handleLeaseMutationMiss_def Let_def)
  show "AcknowledgeCancellation None now Db_ok out2 ?f R = (R\<lparr>rows := replaced r (canceled r now) (rows R)\<rparr>, None)" if "now < x"
  proof -
    have g: "row_ok s \<Longrightarrow> row_ok (canceled s now)" for s using row_ok_ack by (simp add: canceled_def)
    have "ledger_inv (replaced r r (rows R))" using h(1) by simp
    then have "fenced_exec Db_ok out2 (update_where ?P (\<lambda>s. canceled s now)) (f_TenantID ?f) (f_JobID ?f) False
        (R\<lparr>rows := replaced r r (rows R)\<rparr>) = (R\<lparr>rows := replaced r (canceled r now) (rows R)\<rparr>, None)"
    proof (rule fenced_replaced [OF assms(1) _ refl])
      show "?P r" using held_fence_match(1) [OF assms(1) that assms(3)] assms(2) by blast
      show "row_key s = row_key r" if "?P s" for s using that held_fence_key by blast
      show "row_ok (canceled s now)" if "row_ok s" for s using that by (rule g)
    qed
    then show ?thesis using h(2,5) by (simp add: AcknowledgeCancellation_def ackCancelSQL_def canceled_def)
  qed
qed

section \<open>The world around the job\<close>

text \<open>The world at the n-th call, with the row of the job in its present form.\<close>

definition world_at :: "(nat \<Rightarrow> call_env) \<Rightarrow> JobRepo \<Rightarrow> durable_job \<Rightarrow> durable_job \<Rightarrow> nat \<Rightarrow> 'x \<Rightarrow> 'x ledger_world" where
  "world_at env R r cur n st = \<lparr>lw_repo = R\<lparr>rows := replaced r cur (rows R)\<rparr>, lw_env = env, lw_calls = n, lw_rest = st\<rparr>"

text \<open>
  Undisturbed calls from the n-th on: the database answers, no other client acts, the drain
  deadline does not cancel the job, the first three calls come before the lease expires, and
  between a call and the next two less time passes than a lease lasts.
\<close>

definition undisturbed :: "(nat \<Rightarrow> call_env) \<Rightarrow> nat \<Rightarrow> go_time \<Rightarrow> int \<Rightarrow> bool" where
  "undisturbed env n0 x lease \<longleftrightarrow>
     (\<forall>n\<ge>n0. ce_others (env n) = [] \<and> ce_out1 (env n) = Db_ok \<and> ce_out2 (env n) = Db_ok \<and> \<not> ce_forced (env n) \<and>
        ce_now (env (n + 1)) < ce_now (env n) + lease \<and> ce_now (env (n + 2)) < ce_now (env n) + lease) \<and>
     ce_now (env n0) < x \<and> ce_now (env (n0 + 1)) < x \<and> ce_now (env (n0 + 2)) < x"

lemma undisturbedD:
  assumes "undisturbed env n0 x lease" and "n0 \<le> n"
  shows "ce_others (env n) = []" "ce_out1 (env n) = Db_ok" "ce_out2 (env n) = Db_ok" "\<not> ce_forced (env n)"
    "ce_now (env (n + 1)) < ce_now (env n) + lease" "ce_now (env (n + 2)) < ce_now (env n) + lease"
  using assms by (simp_all add: undisturbed_def)

lemma quiet_call:
  assumes "ce_others (env n) = []" and "op (env n) (R\<lparr>rows := replaced r cur (rows R)\<rparr>) = (R\<lparr>rows := replaced r cur' (rows R)\<rparr>, y)"
  shows "ledger_call E op (world_at env R r cur n st) = (world_at env R r cur' (Suc n) st, y)"
  using assms by (simp add: ledger_call_def env_of_def world_at_def Let_def)

lemma logged_call: "f (e_world e) = (w, y) \<Longrightarrow> logged ev f e = (e\<lparr>e_world := w, e_log := e_log e @ [ev y]\<rparr>, y)"
  by (simp add: logged_def on_world_def log_event_def Let_def)

text \<open>One tick of the renewal, and all of them: the lease is prolonged and never lost.\<close>

lemma tick_undisturbed:
  fixes e :: "('v, 'm) dstate ledger_world Engine"
  assumes held: "job_held R r" and q: "undisturbed env n0 x0 lease" "n0 \<le> n" and c: "r_cancel_requested_at r = None"
    and inv: "ledger_inv (replaced r (started r x u) (rows R))" and t: "ce_now (env (n + 1)) < x"
    and d: "validateLeaseDuration (LeaseDuration (e_cfg e)) = None" and w: "e_world e = world_at env R r (started r x u) n st"
  defines "now \<equiv> ce_now (env (n + 1))"
  defines "r2 \<equiv> started r (now + duration_ms (LeaseDuration (e_cfg e)) * 1000) now"
  shows "renewal_tick (ledger_runtime E decode render set_ctx D) (scanJob r) e =
      (e\<lparr>e_world := world_at env R r r2 (n + 2) st, e_log := e_log e @ [Renewed (Job_Fence (scanJob r)) None]\<rparr>, False)"
    and "ledger_inv (replaced r r2 (rows R))"
proof -
  note h = job_heldD [OF held] and q0 = undisturbedD [OF q(1,2)]
  have q1: "ce_others (env (n + 1)) = []" "ce_out1 (env (n + 1)) = Db_ok" "ce_out2 (env (n + 1)) = Db_ok"
    using undisturbedD [OF q(1), of "n + 1"] q(2) by simp_all
  let ?R1 = "R\<lparr>rows := replaced r (started r x u) (rows R)\<rparr>" and ?cur = "started r x u"
  have "?cur \<in> set (rows ?R1)" "ledger_inv (rows ?R1)" "\<not> repo_closed ?R1" using inv h(2) replaced_mem [OF h(3)] by simp_all
  from GetJob_row [OF this(2,3,1)] have "GetJob None Db_ok (r_tenant_id r) (r_id r) ?R1 = Inr (scanJob ?cur)" by (simp add: started_def)
  then have g: "jr_GetJob (ledger_repository E) (r_tenant_id r) (r_id r) (world_at env R r ?cur n st) =
      (world_at env R r ?cur (Suc n) st, Inr (scanJob ?cur))"
    unfolding ledger_repository_def using q0(1,2) by (simp add: quiet_call)
  note rn = renew_call [OF held inv t d]
  show "ledger_inv (replaced r r2 (rows R))" using rn(2) by (simp add: r2_def now_def)
  have "jr_RenewLease (ledger_repository E) (Job_Fence (scanJob r)) (LeaseDuration (e_cfg e)) (world_at env R r ?cur (Suc n) st) =
      (world_at env R r r2 (Suc (Suc n)) st, None)"
    unfolding ledger_repository_def using q1 rn(1) [of Db_ok] by (simp add: quiet_call r2_def now_def)
  then show "renewal_tick (ledger_runtime E decode render set_ctx D) (scanJob r) e =
      (e\<lparr>e_world := world_at env R r r2 (n + 2) st, e_log := e_log e @ [Renewed (Job_Fence (scanJob r)) None]\<rparr>, False)"
    using g w c by (simp add: renewal_tick_def on_world_def logged_call ledger_runtime_def started_def)
qed

lemma renewals_undisturbed:
  fixes e :: "('v, 'm) dstate ledger_world Engine"
  assumes held: "job_held R r" and q: "undisturbed env n0 x0 (duration_ms (LeaseDuration cfg) * 1000)" and c: "r_cancel_requested_at r = None"
    and d: "validateLeaseDuration (LeaseDuration cfg) = None"
  shows "n0 \<le> n \<Longrightarrow> ledger_inv (replaced r (started r x u) (rows R)) \<Longrightarrow> ce_now (env n) < x \<Longrightarrow> ce_now (env (n + 1)) < x \<Longrightarrow>
    e_cfg e = cfg \<Longrightarrow> e_world e = world_at env R r (started r x u) n st \<Longrightarrow>
    \<exists>x' u'. runLeaseRenewal (ledger_runtime E decode render set_ctx D) (scanJob r) k e =
      (e\<lparr>e_world := world_at env R r (started r x' u') (n + 2 * k) st,
         e_log := e_log e @ replicate k (Renewed (Job_Fence (scanJob r)) None)\<rparr>, False) \<and>
      ce_now (env (n + 2 * k)) < x' \<and> ledger_inv (replaced r (started r x' u') (rows R))"
proof (induction k arbitrary: n x u e)
  case 0
  have "e\<lparr>e_world := e_world e, e_log := e_log e\<rparr> = e" by simp
  then show ?case using 0 by (intro exI [of _ x] exI [of _ u]) simp
next
  case (Suc k)
  let ?now = "ce_now (env (n + 1))" and ?L = "duration_ms (LeaseDuration cfg) * 1000"
  let ?e = "e\<lparr>e_world := world_at env R r (started r (?now + ?L) ?now) (n + 2) st,
    e_log := e_log e @ [Renewed (Job_Fence (scanJob r)) None]\<rparr>"
  note tick = tick_undisturbed [OF held q Suc.prems(1) c Suc.prems(2,4) _ Suc.prems(6)]
  have step: "renewal_tick (ledger_runtime E decode render set_ctx D) (scanJob r) e = (?e, False)"
      and inv: "ledger_inv (replaced r (started r (?now + ?L) ?now) (rows R))"
    using tick d Suc.prems(5) by simp_all
  have le: "n0 \<le> n + 1" using Suc.prems(1) by simp
  have t: "ce_now (env (n + 2)) < ?now + ?L" "ce_now (env (n + 2 + 1)) < ?now + ?L"
    using undisturbedD(5,6) [OF q le] by (simp_all add: numeral_eq_Suc)
  obtain x' u' where "runLeaseRenewal (ledger_runtime E decode render set_ctx D) (scanJob r) k ?e =
      (?e\<lparr>e_world := world_at env R r (started r x' u') (n + 2 + 2 * k) st,
         e_log := e_log ?e @ replicate k (Renewed (Job_Fence (scanJob r)) None)\<rparr>, False)"
      "ce_now (env (n + 2 + 2 * k)) < x'" "ledger_inv (replaced r (started r x' u') (rows R))"
    using Suc.IH [of "n + 2" "?now + ?L" ?now ?e] inv t Suc.prems(1,5) by auto
  then show ?case using step by (intro exI [of _ x'] exI [of _ u']) simp
qed

section \<open>The outcome\<close>

text \<open>
  The row and the last events of a job whose execution returned \<open>res\<close>: a failure is recorded with
  the sanitized code and message and sends the job back to the queue after the backoff, to the
  dead letters or to the failed jobs; a response is stored and the job has succeeded. If the
  response cannot be stored, the job stays as it was, running until its lease expires.
\<close>

definition recorded ::
  "ledger_env \<Rightarrow> WorkerConfig \<Rightarrow> go_time \<Rightarrow> durable_job \<Rightarrow> go_err + payload \<Rightarrow> durable_job \<Rightarrow> worker_event list \<Rightarrow> bool" where
  "recorded E cfg now r res r' evs \<longleftrightarrow>
     row_key r' = row_key r \<and> r_attempt r' = r_attempt r \<and> r_lease_token r' = r_lease_token r \<and>
     (case res of
        Inl err \<Rightarrow>
          (case SanitizeFailure (Some err) (r_max_attempts r) of (code, msg, retryable) \<Rightarrow>
             evs = [Failed (fail_input (scanJob r) code msg retryable (RetryBackoff cfg)) None, OnJobFailed (scanJob r) retryable] \<and>
             r_state r' = (if \<not> retryable then JobStateFailed
                           else if r_attempt r < r_max_attempts r then JobStateQueued else JobStateDeadLetter) \<and>
             r_next_run_at r' = (if retryable \<and> r_attempt r < r_max_attempts r
                                 then now + duration_ms (RetryBackoff cfg) * 1000 else r_next_run_at r) \<and>
             r_failure_code r' = nullif_trim code \<and> r_failure_message r' = nullif_trim msg \<and>
             r_response r' = r_response r \<and> r_lease_owner r' = None)
      | Inr p \<Rightarrow>
          (case stored_payload E p of
             Some doc \<Rightarrow> evs = [Completed (Job_Fence (scanJob r)) p None, OnJobCompleted (scanJob r)] \<and>
               r_state r' = JobStateSucceeded \<and> r_response r' = Some doc \<and> r_lease_owner r' = None
           | None \<Rightarrow> (\<exists>err. evs = [Completed (Job_Fence (scanJob r)) p (Some err)]) \<and>
               r_state r' = JobStateRunning \<and> r_response r' = r_response r \<and> r_lease_owner r' = r_lease_owner r))"

lemma recorded_rows:
  "SanitizeFailure (Some err) (r_max_attempts r) = (code, msg, b) \<Longrightarrow>
     y = fail_input (scanJob r) code msg b (RetryBackoff cfg) \<Longrightarrow>
     recorded E cfg now r (Inl err) (fail_row now y r) [Failed y None, OnJobFailed (scanJob r) b]"
  "stored_payload E p = Some doc \<Longrightarrow>
     recorded E cfg now r (Inr p) (succeeded r doc now) [Completed (Job_Fence (scanJob r)) p None, OnJobCompleted (scanJob r)]"
  "stored_payload E p = None \<Longrightarrow>
     recorded E cfg now r (Inr p) (started r x u) [Completed (Job_Fence (scanJob r)) p (Some err')]"
  by (simp_all add: recorded_def row_key_def fail_row_def fail_input_def succeeded_def started_def)

lemma finish_undisturbed:
  fixes e :: "('v, 'm) dstate ledger_world Engine"
  assumes held: "job_held R r" and q: "undisturbed env n0 x0 lease" "n0 \<le> n"
    and inv: "ledger_inv (replaced r (started r x u) (rows R))" and t: "ce_now (env n) < x"
    and v: "validate_worker_fields (e_cfg e) = None" and w: "e_world e = world_at env R r (started r x u) n st"
  shows "\<exists>r' evs. finish (ledger_runtime E decode render set_ctx D) (scanJob r) (case res of Inl err \<Rightarrow> X_err err | Inr p \<Rightarrow> X_ok p) e =
      e\<lparr>e_world := world_at env R r r' (Suc n) st, e_log := e_log e @ evs\<rparr> \<and>
      recorded E (e_cfg e) (ce_now (env n)) r res r' evs"
proof (cases res)
  case (Inl err)
  obtain code msg b where sf: "SanitizeFailure (Some err) (r_max_attempts r) = (code, msg, b)" by (metis prod_cases3)
  define y where "y = fail_input (scanJob r) code msg b (RetryBackoff (e_cfg e))"
  have y: "FailJobInput_Validate y = None" "FailJobInput_Fence y = Job_Fence (scanJob r)"
    using failure_reports_accepted [OF job_heldD(5) [OF held] v, of err] sf
    by (simp_all add: y_def fail_input_def FailJobInput_Fence_def Job_Fence_def)
  have "jr_FailJob (ledger_repository E) y (world_at env R r (started r x u) n st) =
      (world_at env R r (fail_row (ce_now (env n)) y r) (Suc n) st, None)"
    unfolding ledger_repository_def using fail_call [OF held inv t y] undisturbedD(1-3) [OF q] by (simp add: quiet_call)
  then have "finish (ledger_runtime E decode render set_ctx D) (scanJob r) (X_err err) e =
      e\<lparr>e_world := world_at env R r (fail_row (ce_now (env n)) y r) (Suc n) st,
        e_log := e_log e @ [Failed y None, OnJobFailed (scanJob r) b]\<rparr>"
    using w sf by (simp add: finish_def logged_call log_event_def ledger_runtime_def y_def Let_def)
  then show ?thesis using recorded_rows(1) [OF sf y_def] Inl by auto
next
  case (Inr p)
  let ?f = "Job_Fence (scanJob r)" and ?now = "ce_now (env n)"
  note call = complete_call [OF held inv t, of E p] and u = undisturbedD(1-3) [OF q]
  show ?thesis
  proof (cases "stored_payload E p")
    case (Some doc)
    have "jr_CompleteJob (ledger_repository E) ?f p (world_at env R r (started r x u) n st) =
        (world_at env R r (succeeded r doc ?now) (Suc n) st, None)"
      unfolding ledger_repository_def using call(1) [OF Some] u by (simp add: quiet_call)
    then have "finish (ledger_runtime E decode render set_ctx D) (scanJob r) (X_ok p) e =
        e\<lparr>e_world := world_at env R r (succeeded r doc ?now) (Suc n) st,
          e_log := e_log e @ [Completed ?f p None, OnJobCompleted (scanJob r)]\<rparr>"
      using w by (simp add: finish_def logged_call log_event_def ledger_runtime_def)
    then show ?thesis
      using recorded_rows(2) [OF Some] Inr by (intro exI [of _ "succeeded r doc ?now"] exI [of _ "[Completed ?f p None, OnJobCompleted (scanJob r)]"]) simp
  next
    case None
    then obtain err where "CompleteJob E None ?now Db_ok Db_ok ?f p (R\<lparr>rows := replaced r (started r x u) (rows R)\<rparr>) =
        (R\<lparr>rows := replaced r (started r x u) (rows R)\<rparr>, Some err)" using call(2) by blast
    then have "jr_CompleteJob (ledger_repository E) ?f p (world_at env R r (started r x u) n st) =
        (world_at env R r (started r x u) (Suc n) st, Some err)"
      unfolding ledger_repository_def using u by (simp add: quiet_call)
    then have "finish (ledger_runtime E decode render set_ctx D) (scanJob r) (X_ok p) e =
        e\<lparr>e_world := world_at env R r (started r x u) (Suc n) st, e_log := e_log e @ [Completed ?f p (Some err)]\<rparr>"
      using w by (simp add: finish_def logged_call log_event_def ledger_runtime_def)
    then show ?thesis
      using recorded_rows(3) [OF None] Inr by (intro exI [of _ "started r x u"] exI [of _ "[Completed ?f p (Some err)]"]) simp
  qed
qed

text \<open>An execution with its renewals, from the row just marked as running.\<close>

lemma run_job_undisturbed:
  fixes e :: "('v, 'm) dstate ledger_world Engine"
  assumes held: "job_held R r" and q: "undisturbed env n0 x0 (duration_ms (LeaseDuration (e_cfg e)) * 1000)" "n0 \<le> n"
    and c: "r_cancel_requested_at r = None" and inv: "ledger_inv (replaced r (started r x u) (rows R))"
    and t: "ce_now (env n) < x" "ce_now (env (n + 1)) < x" and v: "validate_worker_fields (e_cfg e) = None"
    and w: "e_world e = world_at env R r (started r x u) n st"
    and ex: "Execute decode (Some D) (Some (scanJob r)) (st\<lparr>ds_world := set_ctx None (ds_world st)\<rparr>) = (st', res)"
  defines "k \<equiv> ce_ticks (env n)"
  shows "\<exists>r' evs. run_job (ledger_runtime E decode render set_ctx D) (scanJob r) e =
      e\<lparr>e_world := world_at env R r r' (Suc (n + 2 * k)) st',
        e_log := e_log e @ Executed (scanJob r) # replicate k (Renewed (Job_Fence (scanJob r)) None) @ evs\<rparr> \<and>
      recorded E (e_cfg e) (ce_now (env (n + 2 * k))) r (map_sum id (\<lambda>resp. PValue (render resp)) res) r' evs"
proof -
  let ?W = "ledger_runtime E decode render set_ctx D :: ('v, 'm) dstate ledger_world runtime" and ?e0 = "log_event (Executed (scanJob r)) e"
  let ?res = "map_sum id (\<lambda>resp. PValue (render resp)) res"
  have d: "validateLeaseDuration (LeaseDuration (e_cfg e)) = None"
    using validate_worker_fields_None [OF v] unfolding worker_ok_def by blast
  obtain x' u' where ren: "runLeaseRenewal ?W (scanJob r) k ?e0 =
      (?e0\<lparr>e_world := world_at env R r (started r x' u') (n + 2 * k) st,
         e_log := e_log ?e0 @ replicate k (Renewed (Job_Fence (scanJob r)) None)\<rparr>, False)"
      and t': "ce_now (env (n + 2 * k)) < x'" and inv': "ledger_inv (replaced r (started r x' u') (rows R))"
    using renewals_undisturbed [OF held q(1) c d q(2) inv t, of ?e0 st E decode render set_ctx D k] w
    by (auto simp: log_event_def)
  define e1 where "e1 = e\<lparr>e_world := world_at env R r (started r x' u') (n + 2 * k) st,
      e_log := e_log e @ Executed (scanJob r) # replicate k (Renewed (Job_Fence (scanJob r)) None)\<rparr>"
  let ?e2 = "e1\<lparr>e_world := world_at env R r (started r x' u') (n + 2 * k) st'\<rparr>"
  have ren1: "runLeaseRenewal ?W (scanJob r) k ?e0 = (e1, False)" using ren by (simp add: e1_def log_event_def)
  have nf: "\<not> ce_forced (env (n + 2 * k))" using undisturbedD(4) [OF q(1), of "n + 2 * k"] q(2) by simp
  have rt: "rt_ticks ?W (scanJob r) (e_world e) = k" "\<not> rt_forced ?W (scanJob r) (e_world e1)"
    "\<not> rt_forced ?W (scanJob r) (e_world ?e2)" "rt_Execute ?W = dispatcher_execute decode render set_ctx D"
    using nf w by (simp_all add: ledger_runtime_def env_of_def world_at_def e1_def k_def)
  have "on_world (dispatcher_execute decode render set_ctx D None (scanJob r)) e1 = (?e2, case ?res of Inl err \<Rightarrow> X_err err | Inr p \<Rightarrow> X_ok p)"
    using ex by (cases res) (simp_all add: on_world_def dispatcher_execute_def e1_def world_at_def Let_def)
  then have "run_job ?W (scanJob r) e = finish ?W (scanJob r) (case ?res of Inl err \<Rightarrow> X_err err | Inr p \<Rightarrow> X_ok p) ?e2"
    using ren1 rt by (simp add: run_job_def)
  moreover obtain r' evs where "finish ?W (scanJob r) (case ?res of Inl err \<Rightarrow> X_err err | Inr p \<Rightarrow> X_ok p) ?e2 =
      ?e2\<lparr>e_world := world_at env R r r' (Suc (n + 2 * k)) st', e_log := e_log ?e2 @ evs\<rparr>"
      "recorded E (e_cfg e) (ce_now (env (n + 2 * k))) r ?res r' evs"
    using finish_undisturbed [OF held q(1) _ inv' t', of ?e2 st' E decode render set_ctx D ?res] q(2) v
    by (auto simp: e1_def)
  ultimately show ?thesis by (intro exI [of _ r'] exI [of _ evs]) (simp add: e1_def)
qed

text \<open>Starting a job, and the end of a job whose cancellation was requested.\<close>

lemma process_started:
  fixes e :: "('v, 'm) dstate ledger_world Engine" and E :: ledger_env
    and D :: "'v Dispatcher" and decode :: "bytes \<Rightarrow> TaskRequest option" and render :: "TaskResponse \<Rightarrow> json"
    and set_ctx :: "ctx_error option \<Rightarrow> 'v \<Rightarrow> 'v"
  assumes held: "job_held R r" and x: "r_lease_expires_at r = Some x" and c: "r_cancel_requested_at r = None"
    and q: "undisturbed env n x lease" and w: "e_world e = world_at env R r r n st"
  defines "W \<equiv> ledger_runtime E decode render set_ctx D" and "f \<equiv> Job_Fence (scanJob r)" and "cur \<equiv> started r x (ce_now (env n))"
  shows "process_registered W (scanJob r) e =
      run_job W (scanJob r) (e\<lparr>e_world := world_at env R r cur (Suc n) st, e_log := e_log e @ [Marked f None, OnJobRunning (scanJob r)]\<rparr>)"
    and "ledger_inv (replaced r cur (rows R))"
proof -
  have t: "ce_now (env n) < x" using q by (simp add: undisturbed_def)
  note m = mark_call [OF held c x t] and u = undisturbedD [OF q, of n]
  show "ledger_inv (replaced r cur (rows R))" using m(2) by (simp add: cur_def)
  have "jr_MarkRunning (ledger_repository E) None f (world_at env R r r n st) = (world_at env R r cur (Suc n) st, None)"
    unfolding ledger_repository_def using m(1) u(1-3) by (simp add: quiet_call f_def cur_def)
  moreover have "\<not> rt_forced W (scanJob r) (e_world e)" using u(4) w by (simp add: W_def ledger_runtime_def env_of_def world_at_def)
  ultimately show "process_registered W (scanJob r) e =
      run_job W (scanJob r) (e\<lparr>e_world := world_at env R r cur (Suc n) st, e_log := e_log e @ [Marked f None, OnJobRunning (scanJob r)]\<rparr>)"
    using w by (simp add: process_registered_def logged_call log_event_def W_def ledger_runtime_def f_def)
qed

lemma process_canceled:
  fixes e :: "('v, 'm) dstate ledger_world Engine" and E :: ledger_env
    and D :: "'v Dispatcher" and decode :: "bytes \<Rightarrow> TaskRequest option" and render :: "TaskResponse \<Rightarrow> json"
    and set_ctx :: "ctx_error option \<Rightarrow> 'v \<Rightarrow> 'v"
  assumes held: "job_held R r" and x: "r_lease_expires_at r = Some x" and c: "r_cancel_requested_at r \<noteq> None"
    and q: "undisturbed env n x lease" and w: "e_world e = world_at env R r r n st"
  defines "W \<equiv> ledger_runtime E decode render set_ctx D" and "f \<equiv> Job_Fence (scanJob r)"
  shows "process_registered W (scanJob r) e =
      e\<lparr>e_world := world_at env R r (canceled r (ce_now (env (n + 1)))) (n + 2) st,
        e_log := e_log e @ [Marked f (Some ErrCancellationRequested), Acknowledged f None, OnJobCanceled (scanJob r)]\<rparr>"
proof -
  have t: "ce_now (env (n + 1)) < x" using q by (simp add: undisturbed_def)
  note m = cancel_calls [OF held c x] and u = undisturbedD [OF q, of n] and u1 = undisturbedD [OF q, of "n + 1"]
  have "jr_MarkRunning (ledger_repository E) None f (world_at env R r r n st) =
      (world_at env R r r (Suc n) st, Some ErrCancellationRequested)"
    unfolding ledger_repository_def using m(1) u(1-3) by (simp add: quiet_call f_def)
  moreover have "jr_AcknowledgeCancellation (ledger_repository E) f (world_at env R r r (Suc n) st) =
      (world_at env R r (canceled r (ce_now (env (n + 1)))) (Suc (Suc n)) st, None)"
    unfolding ledger_repository_def using m(2) [OF t] u1(1-3) by (simp add: quiet_call f_def)
  moreover have "\<not> rt_forced W (scanJob r) (e_world e)" using u(4) w by (simp add: W_def ledger_runtime_def env_of_def world_at_def)
  ultimately show ?thesis
    using w by (simp add: process_registered_def acknowledge_def logged_call log_event_def W_def ledger_runtime_def f_def)
qed

text \<open>
  C3. What becomes of a leased job. The engine works on the ledger with the dispatcher as its
  executor; it holds a valid lease of the job, the database answers, nobody else acts on the
  database, and no call comes later than the lease, as renewed, allows. Then \<open>processJob\<close> brings
  the job to its outcome, and changes no other row. If its cancellation was requested, the job is
  canceled and never executed. Otherwise it is executed exactly once, its lease is renewed at
  every tick, and the result of the execution is what the row records: the response of the
  agent, or the sanitized failure with the job queued again, dead or failed as its attempts
  allow. (Only a response that cannot be stored as JSON leaves the job running.)
\<close>

theorem job_outcome_recorded:
  fixes e :: "('v, 'm) dstate ledger_world Engine" and E :: ledger_env and render :: "TaskResponse \<Rightarrow> json"
  assumes held: "job_held (lw_repo (e_world e)) r" and x: "r_lease_expires_at r = Some x"
    and q: "undisturbed (lw_env (e_world e)) (lw_calls (e_world e)) x (duration_ms (LeaseDuration (e_cfg e)) * 1000)"
    and v: "validate_worker_fields (e_cfg e) = None" and s: "\<not> e_shuttingDown e"
    and ex: "Execute decode (Some D) (Some (scanJob r)) ((lw_rest (e_world e))\<lparr>ds_world := set_ctx None (ds_world (lw_rest (e_world e)))\<rparr>)
      = (st', res)"
  defines "e' \<equiv> processJob (ledger_runtime E decode render set_ctx D) (Some (scanJob r)) e"
    and "now \<equiv> \<lambda>i. ce_now (lw_env (e_world e) (lw_calls (e_world e) + i))"
    and "k \<equiv> ce_ticks (lw_env (e_world e) (lw_calls (e_world e) + 1))"
    and "f \<equiv> Job_Fence (scanJob r)"
  shows "\<exists>r' evs. rows (lw_repo (e_world e')) = map (\<lambda>s. if s = r then r' else s) (rows (lw_repo (e_world e))) \<and>
    e_log e' = e_log e @ evs \<and>
    (if r_cancel_requested_at r \<noteq> None
     then evs = [Marked f (Some ErrCancellationRequested), Acknowledged f None, OnJobCanceled (scanJob r)] \<and>
       r' = r\<lparr>r_state := JobStateCanceled, r_lease_owner := None, r_lease_expires_at := None, r_updated_at := now 1\<rparr> \<and>
       lw_rest (e_world e') = lw_rest (e_world e)
     else lw_rest (e_world e') = st' \<and>
       (\<exists>last. evs = [Marked f None, OnJobRunning (scanJob r), Executed (scanJob r)] @ replicate k (Renewed f None) @ last \<and>
          recorded E (e_cfg e) (now (2 * k + 1)) r (map_sum id (\<lambda>resp. PValue (render resp)) res) r' last))"
proof -
  let ?w = "e_world e" and ?W = "ledger_runtime E decode render set_ctx D :: ('v, 'm) dstate ledger_world runtime" and ?j = "scanJob r"
  let ?R = "lw_repo ?w" and ?env = "lw_env ?w" and ?n = "lw_calls ?w" and ?st = "lw_rest ?w"
  define e0 where "e0 = e\<lparr>e_activeCancelFuncs := List.insert (job_key_of ?j) (e_activeCancelFuncs e)\<rparr>"
  have e': "e_world e' = e_world (process_registered ?W ?j e0)" "e_log e' = e_log (process_registered ?W ?j e0)"
    using s by (simp_all add: e'_def processJob_def e0_def Let_def)
  have e0: "e_world e0 = world_at ?env ?R r r ?n ?st" "e_log e0 = e_log e" by (simp_all add: e0_def world_at_def)
  show ?thesis
  proof (cases "r_cancel_requested_at r = None")
    case True
    let ?cur = "started r x (now 0)"
    define e1 where "e1 = e0\<lparr>e_world := world_at ?env ?R r ?cur (?n + 1) ?st, e_log := e_log e0 @ [Marked f None, OnJobRunning ?j]\<rparr>"
    note ps = process_started [OF held x True q e0(1)]
    have p: "process_registered ?W ?j e0 = run_job ?W ?j e1" and inv: "ledger_inv (replaced r ?cur (rows ?R))"
      using ps(1) [of E decode render set_ctx D] ps(2) by (simp_all add: e1_def f_def now_def)
    have e1: "e_cfg e1 = e_cfg e" "e_world e1 = world_at ?env ?R r ?cur (?n + 1) ?st" by (simp_all add: e1_def e0_def)
    have t: "ce_now (?env (?n + 1)) < x" "ce_now (?env (?n + 1 + 1)) < x" using q by (simp_all add: undisturbed_def numeral_2_eq_2)
    obtain r' last where rj: "run_job ?W ?j e1 = e1\<lparr>e_world := world_at ?env ?R r r' (Suc (?n + 1 + 2 * k)) st',
        e_log := e_log e1 @ Executed ?j # replicate k (Renewed f None) @ last\<rparr>"
        "recorded E (e_cfg e) (now (2 * k + 1)) r (map_sum id (\<lambda>resp. PValue (render resp)) res) r' last"
      using run_job_undisturbed [where env = ?env and n = "?n + 1" and set_ctx = set_ctx and st = ?st and ?n0.0 = ?n and ?x0.0 = x and e = e1 and E = E and render = render,
          OF held _ _ True inv t _ e1(2) ex] q v e1(1)
      by (auto simp: k_def f_def now_def add.assoc add.commute)
    show ?thesis
      by (rule exI [of _ r'], rule exI [of _ "[Marked f None, OnJobRunning ?j, Executed ?j] @ replicate k (Renewed f None) @ last"])
        (use p e' e0(2) True rj in \<open>simp add: world_at_def replaced_def e1_def\<close>)
  next
    case False
    note process_canceled [OF held x False q e0(1), of E decode render set_ctx D]
    then show ?thesis
      using e' e0(2) False by (intro exI [of _ "canceled r (now 1)"] exI) (simp add: world_at_def replaced_def canceled_def f_def now_def)
  qed
qed

text \<open>The job of the example, executed while two renewal ticks fire.\<close>

definition demo_ticking :: "(unit, nat) dstate ledger_world Engine" where
  "demo_ticking = NewEngine (default_worker zero_worker) ''w'' (demo_world\<lparr>lw_env := (\<lambda>_. demo_call\<lparr>ce_ticks := 2\<rparr>)\<rparr>)"

theorem job_outcome_recorded_witness:
  "\<exists>r' last res. rows (lw_repo (e_world (processJob demo_runtime (Some (scanJob demo_leased_row)) demo_ticking))) = [r'] \<and>
     e_log (processJob demo_runtime (Some (scanJob demo_leased_row)) demo_ticking) =
       [Marked demo_fence None, OnJobRunning (scanJob demo_leased_row), Executed (scanJob demo_leased_row),
        Renewed demo_fence None, Renewed demo_fence None] @ last \<and>
     recorded demo_env (default_worker zero_worker) 11 demo_leased_row res r' last"
proof -
  let ?e = demo_ticking and ?r = demo_leased_row
  obtain st' res where ex: "Execute (\<lambda>_. Some demo_task) (Some demo_dispatcher) (Some (scanJob ?r))
      ((lw_rest (e_world ?e))\<lparr>ds_world := (\<lambda>_ w. w) (None :: ctx_error option) (ds_world (lw_rest (e_world ?e)))\<rparr>) = (st', res)"
    by (metis prod.collapse)
  have held: "job_held (lw_repo (e_world ?e)) ?r"
    using demo_inv(2) demo_fence_valid demo_job_fence
    by (simp add: job_held_def demo_ticking_def NewEngine_def demo_world_def) (simp add: demo_defs)
  have x: "r_lease_expires_at ?r = Some 30000010" by (simp add: demo_defs)
  have cfg: "e_cfg ?e = default_worker zero_worker" "\<not> e_shuttingDown ?e" by (simp_all add: demo_ticking_def NewEngine_def)
  have lease: "duration_ms (LeaseDuration (default_worker zero_worker)) = 30000"
    by (simp add: LeaseDuration_def default_worker_def dflt_def zero_worker_def duration_ms_def wrap64_def second_def millisecond_def go_div_nonneg)
  have q: "undisturbed (lw_env (e_world ?e)) (lw_calls (e_world ?e)) 30000010 (duration_ms (LeaseDuration (e_cfg ?e)) * 1000)"
    unfolding cfg lease by (simp add: undisturbed_def demo_ticking_def NewEngine_def demo_world_def demo_call_def)
  have "r_cancel_requested_at ?r = None" by (simp add: demo_defs)
  then obtain r' last where "rows (lw_repo (e_world (processJob demo_runtime (Some (scanJob ?r)) ?e))) =
        map (\<lambda>s. if s = ?r then r' else s) (rows (lw_repo (e_world ?e)))"
      "e_log (processJob demo_runtime (Some (scanJob ?r)) ?e) =
        e_log ?e @ [Marked demo_fence None, OnJobRunning (scanJob ?r), Executed (scanJob ?r)] @ replicate 2 (Renewed demo_fence None) @ last"
      "recorded demo_env (default_worker zero_worker) 11 ?r (map_sum id (\<lambda>_. PValue JNull) res) r' last"
    using job_outcome_recorded [where set_ctx = "\<lambda>_ w. w" and e = demo_ticking and E = demo_env and render = "\<lambda>_. JNull", OF held x q _ cfg(2) ex] default_worker_valid
    unfolding demo_job_fence cfg demo_runtime_def by (auto simp: demo_ticking_def NewEngine_def demo_world_def demo_call_def)
  moreover have "rows (lw_repo (e_world ?e)) = [?r]" "e_log ?e = []" by (simp_all add: demo_ticking_def NewEngine_def demo_world_def)
  ultimately show ?thesis by (auto simp: numeral_2_eq_2)
qed

end
