(* ===== verification/Access_Control.thy ===== *)
theory Access_Control
  imports Config_Model Metrics_Registry
begin

text \<open>
  Requests, replies and the middleware of pkg/server/middleware.go: API keys, the agents a
  client may use, the agent a request names, and the chain around the router. A request
  carries the unescaped segments of its path, as the router matches them; \<open>r.URL.Path\<close> is
  their concatenation. Handlers return the pattern that the router has written into the
  request, as the caller of the handler sees it. Panics and the request log are the subject of
  Panic_Recovery; redirects of paths that are not in canonical form are not modelled.
\<close>

section \<open>Requests and replies\<close>

record ClientCredentials =
  cc_ClientID :: string
  cc_AllowedAgents :: "string list"

record http_in =
  in_Method :: string
  in_Segs :: "string list"
  in_Header :: "string \<Rightarrow> string"            \<comment> \<open>\<open>r.Header.Get\<close>\<close>
  in_Query :: "string \<Rightarrow> string"             \<comment> \<open>\<open>r.URL.Query().Get\<close>\<close>
  in_Body :: "bytes \<times> string option"         \<comment> \<open>what can be read, and the error at its end\<close>
  in_PathValue :: "string \<Rightarrow> string"
  in_RequestID :: string                     \<comment> \<open>context value \<open>RequestIDKey\<close>\<close>
  in_Credentials :: "ClientCredentials option"   \<comment> \<open>context value \<open>ClientCredentialsKey\<close>\<close>

definition url_path :: "http_in \<Rightarrow> string" where
  "url_path r = concat (map (\<lambda>s. CHR ''/'' # s) (in_Segs r))"

datatype body =
    B_error string string string int        \<comment> \<open>code, message, agent, status of an \<open>A2AError\<close>\<close>
  | B_cards "AgentCard list"
  | B_card AgentCard
  | B_task TaskResponse
  | B_events "StreamEvent list"
  | B_health string "string option" "nat option"
  | B_text string
  | B_none

record reply =
  rp_Status :: int
  rp_Header :: "(string \<times> string) list"
  rp_Body :: body

type_synonym 'g handler = "http_in \<Rightarrow> 'g \<Rightarrow> 'g \<times> reply \<times> string"

definition json_reply :: "int \<Rightarrow> body \<Rightarrow> reply" where
  "json_reply status b = \<lparr>rp_Status = status, rp_Header = [(''Content-Type'', ''application/json'')], rp_Body = b\<rparr>"

definition writeA2AError :: "string \<Rightarrow> string \<Rightarrow> string \<Rightarrow> int \<Rightarrow> reply" where
  "writeA2AError code message agentID status = json_reply status (B_error code message agentID status)"

section \<open>Credentials\<close>

fun IsAgentAllowed :: "string list \<Rightarrow> string \<Rightarrow> bool" where
  "IsAgentAllowed [] agentID = False"
| "IsAgentAllowed (a # allowed) agentID = (if a = ''*'' \<or> a = agentID then True else IsAgentAllowed allowed agentID)"

definition Allows :: "ClientCredentials \<Rightarrow> string \<Rightarrow> bool" where
  "Allows c agentID = IsAgentAllowed (cc_AllowedAgents c) agentID"

definition GetClientID :: "http_in \<Rightarrow> string" where
  "GetClientID r = (case in_Credentials r of Some c \<Rightarrow> cc_ClientID c | None \<Rightarrow> [])"

definition extractAPIKey :: "unicode_tables \<Rightarrow> http_in \<Rightarrow> string" where
  "extractAPIKey U r =
     (let authHeader = in_Header r ''Authorization'';
          bearer = (if authHeader \<noteq> [] \<and> has_prefix (to_lower U authHeader) ''bearer ''
                    then trim_space (drop 7 authHeader) else [])
      in if bearer \<noteq> [] then bearer else trim_space (in_Header r ''X-API-Key''))"

definition isPublicEndpoint :: "string \<Rightarrow> bool" where
  "isPublicEndpoint p \<longleftrightarrow> p = ''/healthz'' \<or> p = ''/readyz'' \<or> p = ''/metrics''"

section \<open>The agent of a request\<close>

text \<open>\<open>strings.Split(s, "/")\<close>.\<close>

fun split_slash :: "string \<Rightarrow> string list" where
  "split_slash [] = [[]]"
| "split_slash (c # s) = (if c = CHR ''/'' then [] # split_slash s
     else case split_slash s of [] \<Rightarrow> [[c]] | x # xs \<Rightarrow> (c # x) # xs)"

text \<open>
  The elements of \<open>path.Clean\<close>: empty elements and dots vanish, a double dot takes the element
  before it back; at the root it vanishes too.
\<close>

fun clean_elems :: "bool \<Rightarrow> string list \<Rightarrow> string list \<Rightarrow> string list" where
  "clean_elems rooted acc [] = acc"
| "clean_elems rooted acc (e # es) =
     (if e = [] \<or> e = ''.'' then clean_elems rooted acc es
      else if e = ''..'' then
        (if acc \<noteq> [] \<and> last acc \<noteq> ''..'' then clean_elems rooted (butlast acc) es
         else if rooted then clean_elems rooted acc es
         else clean_elems rooted (acc @ [e]) es)
      else clean_elems rooted (acc @ [e]) es)"

text \<open>The parts of the cleaned path, without the slashes at its ends.\<close>

definition path_parts :: "string \<Rightarrow> string list" where
  "path_parts p =
     (let rooted = (p \<noteq> [] \<and> hd p = CHR ''/''); es = clean_elems rooted [] (split_slash p)
      in if es = [] then [if rooted then [] else ''.''] else es)"

definition extractAgentID :: "http_in \<Rightarrow> string" where
  "extractAgentID r =
     (if in_Query r ''agent_id'' \<noteq> [] then in_Query r ''agent_id''
      else if in_PathValue r ''agent_id'' \<noteq> [] then in_PathValue r ''agent_id''
      else
        let parts = path_parts (url_path r) in
        if length parts \<ge> 4 \<and> parts ! 0 = ''api'' \<and> parts ! 1 = ''v1'' \<and> (parts ! 2 = ''invoke'' \<or> parts ! 2 = ''stream'')
        then parts ! 3
        else if length parts \<ge> 4 \<and> parts ! 0 = ''a2a'' \<and> parts ! 1 = ''v1'' \<and> parts ! 2 = ''agents''
        then parts ! 3
        else [])"

section \<open>Middleware\<close>

definition AuthMiddleware :: "unicode_tables \<Rightarrow> SecurityConfig option \<Rightarrow> 'g handler \<Rightarrow> 'g handler" where
  "AuthMiddleware U cfg next_handler r g =
     (case cfg of None \<Rightarrow> next_handler r g | Some c \<Rightarrow>
      if \<not> sec_Enabled c then next_handler r g
      else if isPublicEndpoint (url_path r) then next_handler r g
      else
        let apiKey = extractAPIKey U r in
        if apiKey = [] then (g, writeA2AError ''UNAUTHORIZED'' ''Missing or invalid API key'' [] 401, [])
        else (case find (\<lambda>k. key_Key k = apiKey) (sec_APIKeys c) of
           None \<Rightarrow> (g, writeA2AError ''UNAUTHORIZED'' ''Invalid API key'' [] 401, [])
         | Some k \<Rightarrow>
             let creds = \<lparr>cc_ClientID = key_ClientID k, cc_AllowedAgents = key_AllowedAgents k\<rparr>;
                 agentID = extractAgentID r in
             if agentID \<noteq> [] \<and> \<not> Allows creds agentID
             then (g, writeA2AError ''FORBIDDEN'' (''Access to agent '' @ [CHR 0x27] @ agentID @ [CHR 0x27] @ '' is forbidden'') agentID 403, [])
             else (let (g', p, _) = next_handler (r\<lparr>in_Credentials := Some creds\<rparr>) g in (g', p, []))))"

text \<open>
  With credentials the next handler gets a copy of the request, so the pattern it writes is
  not seen by the handlers around it.
\<close>

definition uuid_v4 :: "bytes \<Rightarrow> string" where
  "uuid_v4 b =
     (let b6 = char_of (byte (b ! 6) mod 16 + 64);
          b8 = char_of (byte (b ! 8) mod 64 + 128);
          c = b[6 := b6, 8 := b8];
          h = (\<lambda>i j. hex_encode (take (j - i) (drop i c)))
      in h 0 4 @ ''-'' @ h 4 6 @ ''-'' @ h 6 8 @ ''-'' @ h 8 10 @ ''-'' @ h 10 16)"

text \<open>\<open>generateRequestID\<close>, with sixteen random bytes or the clock as a fallback.\<close>

definition generateRequestID :: "bytes option \<Rightarrow> int \<Rightarrow> string" where
  "generateRequestID rnd nanos = (case rnd of Some b \<Rightarrow> uuid_v4 b | None \<Rightarrow> ''req-'' @ show_int nanos)"

definition RequestIDMiddleware :: "('g \<Rightarrow> bytes option \<times> int) \<Rightarrow> 'g handler \<Rightarrow> 'g handler" where
  "RequestIDMiddleware entropy next_handler r g =
     (let given = in_Header r ''X-Request-ID'';
          reqID = (if given = [] then (case entropy g of (rnd, nanos) \<Rightarrow> generateRequestID rnd nanos) else given);
          (g', p, _) = next_handler (r\<lparr>in_RequestID := reqID\<rparr>) g
      in (g', p\<lparr>rp_Header := (''X-Request-ID'', reqID) # rp_Header p\<rparr>, []))"

text \<open>\<open>MetricsMiddleware\<close>: the label is the pattern without its method, or the path.\<close>

definition metric_path :: "http_in \<Rightarrow> string \<Rightarrow> string" where
  "metric_path r pattern =
     (if pattern \<noteq> []
      then (if CHR '' '' \<in> set pattern then tl (dropWhile (\<lambda>c. c \<noteq> CHR '' '') pattern) else pattern)
      else url_path r)"

definition MetricsMiddleware ::
  "'f float_ops \<Rightarrow> ('g \<Rightarrow> 'g \<Rightarrow> 'f) \<Rightarrow> (('f Registry \<Rightarrow> 'f Registry) \<Rightarrow> 'g \<Rightarrow> 'g) \<Rightarrow> 'g handler \<Rightarrow> 'g handler" where
  "MetricsMiddleware F elapsed on_metrics next_handler r g =
     (let (g', p, pattern) = next_handler r g;
          path = metric_path r pattern
      in (on_metrics (ObserveDuration F (in_Method r) path (elapsed g g') \<circ> IncRequests (in_Method r) path (rp_Status p)) g',
          p, pattern))"

section \<open>The status a handler writes\<close>

text \<open>\<open>responseWriterWrapper\<close>: only the first status is kept and passed on.\<close>

record response_writer =
  rw_statusCode :: int
  rw_written :: bool
  rw_sent :: "int list"            \<comment> \<open>\<open>WriteHeader\<close> calls of the underlying writer\<close>
  rw_body :: bytes

definition new_writer :: response_writer where
  "new_writer = \<lparr>rw_statusCode = 200, rw_written = False, rw_sent = [], rw_body = []\<rparr>"

definition WriteHeader :: "int \<Rightarrow> response_writer \<Rightarrow> response_writer" where
  "WriteHeader code w =
     (if rw_written w then w
      else w\<lparr>rw_statusCode := code, rw_written := True, rw_sent := rw_sent w @ [code]\<rparr>)"

definition Write :: "bytes \<Rightarrow> response_writer \<Rightarrow> response_writer" where
  "Write b w =
     (let w' = (if rw_written w then w else WriteHeader 200 w) in w'\<lparr>rw_body := rw_body w' @ b\<rparr>)"

end
