(* ===== verification/Gateway.thy ===== *)
theory Gateway
  imports Access_Control Dispatcher Memory_Store
begin

text \<open>
  The HTTP handlers and the router of pkg/server: a2a_handler.go, rest_handler.go,
  health_handler.go, request_body.go, stream_emitter.go and router.go, with the server-sent
  events of pkg/stream. A handler acts on the state of a dispatch and on the task store. JSON
  decoding and the float arithmetic of the metrics are parameters; the task store is a record
  of its operations.
\<close>

section \<open>Environment\<close>

record 's TaskStore =
  ts_Save :: "ctx_error option \<Rightarrow> TaskResponse option \<Rightarrow> string list \<Rightarrow> 's \<Rightarrow> 's \<times> store_error option"
  ts_Load :: "ctx_error option \<Rightarrow> string \<Rightarrow> 's \<Rightarrow> store_error + TaskResponse"

record ('w, 'm, 's) gateway =
  gw_d :: "('w, 'm) dstate"
  gw_store :: 's

record ('w, 'm, 's) gateway_env =
  ge_cfg :: "Config option"
  ge_disp :: "'w Dispatcher"
  ge_tasks :: "'s TaskStore"
  ge_decode_task :: "bytes \<Rightarrow> string + TaskRequest"    \<comment> \<open>\<open>json.Unmarshal\<close> into a \<open>TaskRequest\<close>\<close>
  ge_decode_json :: "bytes \<Rightarrow> string + json"           \<comment> \<open>\<open>json.Unmarshal\<close> into \<open>any\<close>\<close>
  ge_ping :: "('w \<Rightarrow> string option) option"            \<comment> \<open>the health checker of the store, if it has one\<close>
  ge_floats :: "'m float_ops"
  ge_elapsed :: "('w, 'm, 's) gateway \<Rightarrow> ('w, 'm, 's) gateway \<Rightarrow> 'm"
  ge_entropy :: "('w, 'm, 's) gateway \<Rightarrow> bytes option \<times> int"

type_synonym ('w, 'm, 's) gate_handler = "http_in \<Rightarrow> ('w, 'm, 's) gateway \<Rightarrow> ('w, 'm, 's) gateway \<times> reply"

definition g_ctx :: "('w, 'm, 's) gateway_env \<Rightarrow> ('w, 'm, 's) gateway \<Rightarrow> ctx_error option" where
  "g_ctx G g = ctx_of (ge_disp G) (gw_d g)"

definition g_now :: "('w, 'm, 's) gateway_env \<Rightarrow> ('w, 'm, 's) gateway \<Rightarrow> go_time" where
  "g_now G g = now_of (ge_disp G) (gw_d g)"

definition on_metrics :: "('m Registry \<Rightarrow> 'm Registry) \<Rightarrow> ('w, 'm, 's) gateway \<Rightarrow> ('w, 'm, 's) gateway" where
  "on_metrics f g = g\<lparr>gw_d := (gw_d g)\<lparr>ds_metrics := map_option f (ds_metrics (gw_d g))\<rparr>\<rparr>"

section \<open>Request bodies\<close>

definition maxRequestBodyBytes :: nat where "maxRequestBodyBytes = 10485760"

datatype body_error = TooLarge | Read_failed string

definition readRequestBody :: "bytes \<times> string option \<Rightarrow> body_error + bytes" where
  "readRequestBody b =
     (if length (fst b) > maxRequestBodyBytes then Inl TooLarge
      else case snd b of Some e \<Rightarrow> Inl (Read_failed e) | None \<Rightarrow> Inr (fst b))"

definition too_large_text :: string where "too_large_text = ''request body exceeds 10 MiB limit''"

section \<open>Replies\<close>

definition a2a_reply :: "A2AError \<Rightarrow> reply" where
  "a2a_reply e = writeA2AError (err_Code e) (err_Message e) (err_AgentID e) (err_Status e)"

definition error_reply :: "go_err \<Rightarrow> string \<Rightarrow> reply" where
  "error_reply err agentID = (case as_a2a err of
     Some e \<Rightarrow> a2a_reply e
   | None \<Rightarrow> writeA2AError ''INTERNAL_ERROR'' (err_string err) agentID 500)"

definition forbidden :: "string \<Rightarrow> reply" where
  "forbidden i = writeA2AError ''FORBIDDEN'' (''Access to agent '' @ squote i @ '' is forbidden'') i 403"

definition storage_unavailable :: "string \<Rightarrow> reply" where
  "storage_unavailable i = writeA2AError ''TASK_STORAGE_UNAVAILABLE'' ''task storage is temporarily unavailable'' i 503"

definition agent_card :: "AgentConfig \<Rightarrow> AgentCard" where
  "agent_card a = \<lparr>card_ID = ag_ID a, card_Name = ag_Name a, card_Description = ag_Description a,
     card_Capabilities = ag_Capabilities a, card_Tags = ag_Tags a\<rparr>"

section \<open>The A2A handler\<close>

definition permitted :: "http_in \<Rightarrow> string \<Rightarrow> bool" where
  "permitted r agentID = (case in_Credentials r of None \<Rightarrow> True | Some c \<Rightarrow> Allows c agentID)"

definition ListAgents :: "('w, 'm, 's) gateway_env \<Rightarrow> ('w, 'm, 's) gate_handler" where
  "ListAgents G r g =
     (g, json_reply 200 (B_cards (case ge_cfg G of
        None \<Rightarrow> [] | Some c \<Rightarrow> map agent_card (filter (\<lambda>a. permitted r (ag_ID a)) (cfg_Agents c)))))"

definition Handle_GetAgent :: "('w, 'm, 's) gateway_env \<Rightarrow> ('w, 'm, 's) gate_handler" where
  "Handle_GetAgent G r g =
     (let i = (if in_PathValue r ''id'' \<noteq> [] then in_PathValue r ''id'' else extractAgentID r) in
      case GetAgent (ge_disp G) (g_now G g) i of
        Inl e \<Rightarrow> (g, a2a_reply e)
      | Inr a \<Rightarrow> (g, json_reply 200 (B_card (agent_card a))))"

text \<open>Reading a task from the body, and giving it an identifier.\<close>

definition read_task :: "('w, 'm, 's) gateway_env \<Rightarrow> http_in \<Rightarrow> ('w, 'm, 's) gateway \<Rightarrow> ('w, 'm, 's) gateway \<times> (reply + TaskRequest)" where
  "read_task G r g =
     (case readRequestBody (in_Body r) of
        Inl TooLarge \<Rightarrow> (g, Inl (writeA2AError ''REQUEST_TOO_LARGE'' too_large_text [] 413))
      | Inl (Read_failed e) \<Rightarrow> (g, Inl (writeA2AError ''INVALID_REQUEST'' (''Failed to read request body: '' @ e) [] 400))
      | Inr body \<Rightarrow>
          (case ge_decode_task G body of
             Inl e \<Rightarrow> (g, Inl (writeA2AError ''INVALID_REQUEST'' (''Failed to parse JSON body: '' @ e) [] 400))
           | Inr task \<Rightarrow>
               if tr_ID task = []
               then (let (w, i) = generateTaskID (d_ops (ge_disp G)) (ds_world (gw_d g))
                     in (g\<lparr>gw_d := (gw_d g)\<lparr>ds_world := w\<rparr>\<rparr>, Inr (task\<lparr>tr_ID := i\<rparr>)))
               else (g, Inr task)))"

text \<open>The check of the client's agents against the payload of a task.\<close>

definition task_rbac :: "('w, 'm, 's) gateway_env \<Rightarrow> http_in \<Rightarrow> TaskRequest \<Rightarrow> ('w, 'm, 's) gateway \<Rightarrow> reply option" where
  "task_rbac G r task g =
     (case in_Credentials r of None \<Rightarrow> None | Some creds \<Rightarrow>
      (let target = (if tr_AgentID task = [] \<and> tr_RequiredCapability task \<noteq> []
                     then (case FindAgentByCapability (ge_disp G) (g_now G g) (tr_RequiredCapability task) of
                             Inl e \<Rightarrow> Inl e | Inr a \<Rightarrow> Inr (ag_ID a))
                     else Inr (tr_AgentID task)) in
       case target of
         Inl e \<Rightarrow> Some (a2a_reply e)
       | Inr t \<Rightarrow> if t \<noteq> [] \<and> \<not> Allows creds t then Some (forbidden t) else None))"

text \<open>A failed dispatch as an error; the fuel of a dispatch never ends.\<close>

definition dispatch_error :: "'a dresult \<Rightarrow> go_err" where
  "dispatch_error r = (case r of D_err e \<Rightarrow> e | _ \<Rightarrow> Err_text [])"

definition run_dispatch ::
  "('w, 'm, 's) gateway_env \<Rightarrow> TaskRequest \<Rightarrow> ('w, 'm, 's) gateway \<Rightarrow> ('w, 'm, 's) gateway \<times> TaskResponse dresult" where
  "run_dispatch G task g = (let (d, r) = Dispatch (ge_disp G) (Some task) (gw_d g) in (g\<lparr>gw_d := d\<rparr>, r))"

definition saveTask ::
  "('w, 'm, 's) gateway_env \<Rightarrow> TaskResponse \<Rightarrow> string list \<Rightarrow> ('w, 'm, 's) gateway \<Rightarrow> ('w, 'm, 's) gateway \<times> store_error option" where
  "saveTask G resp aliases g =
     (let (s, e) = ts_Save (ge_tasks G) (g_ctx G g) (Some resp) aliases (gw_store g) in (g\<lparr>gw_store := s\<rparr>, e))"

text \<open>\<open>StoreTask\<close>: without a context, errors ignored.\<close>

definition StoreTask :: "('w, 'm, 's) gateway_env \<Rightarrow> TaskResponse option \<Rightarrow> ('w, 'm, 's) gateway \<Rightarrow> ('w, 'm, 's) gateway" where
  "StoreTask G resp g =
     (case resp of None \<Rightarrow> g | Some p \<Rightarrow>
      if resp_TaskID p = [] then g else g\<lparr>gw_store := fst (ts_Save (ge_tasks G) None (Some p) [] (gw_store g))\<rparr>)"

text \<open>The end of \<open>DispatchTask\<close> and \<open>InvokeAgent\<close>: persist the response, then answer.\<close>

definition persist_reply ::
  "('w, 'm, 's) gateway_env \<Rightarrow> string \<Rightarrow> TaskResponse \<Rightarrow> string list \<Rightarrow> ('w, 'm, 's) gateway \<Rightarrow> ('w, 'm, 's) gateway \<times> reply" where
  "persist_reply G agentID resp aliases g =
     (let (g', e) = saveTask G resp aliases g in
      if e \<noteq> None then (g', storage_unavailable agentID) else (g', json_reply 200 (B_task resp)))"

definition DispatchTask :: "('w, 'm, 's) gateway_env \<Rightarrow> ('w, 'm, 's) gate_handler" where
  "DispatchTask G r g =
     (let (g1, t) = read_task G r g in
      case t of Inl p \<Rightarrow> (g1, p) | Inr task \<Rightarrow>
      (case task_rbac G r task g1 of Some p \<Rightarrow> (g1, p) | None \<Rightarrow>
       (let (g2, res) = run_dispatch G task g1 in
        case res of
          D_ok resp \<Rightarrow> persist_reply G (tr_AgentID task) resp
            (if tr_ID task \<noteq> [] \<and> resp_TaskID resp \<noteq> tr_ID task then [tr_ID task] else []) g2
        | _ \<Rightarrow> (g2, error_reply (dispatch_error res) (tr_AgentID task)))))"

section \<open>Streams\<close>

definition emitted :: "dispatch_event list \<Rightarrow> StreamEvent list" where
  "emitted tr = concat (map (\<lambda>e. case e of Emitted ev \<Rightarrow> [ev] | Called _ \<Rightarrow> []) tr)"

text \<open>\<open>errorTrackingEmitter\<close>: whether an error event has gone through.\<close>

definition errorEmitted :: "StreamEvent list \<Rightarrow> bool" where
  "errorEmitted evs \<longleftrightarrow> (\<exists>ev\<in>set evs. ev_Type ev = EventTaskError)"

text \<open>
  \<open>NewSSEResponseWriter\<close>: status and headers of a stream. The writers of the middleware can
  flush, so its error does not occur.
\<close>

definition NewSSEResponseWriter :: "StreamEvent list \<Rightarrow> reply" where
  "NewSSEResponseWriter evs = \<lparr>rp_Status = 200, rp_Header = [(''Content-Type'', ''text/event-stream''), (''Cache-Control'', ''no-cache''),
     (''Connection'', ''keep-alive''), (''X-Accel-Buffering'', ''no'')], rp_Body = B_events evs\<rparr>"

text \<open>
  The common part of the two streaming handlers: count the stream, dispatch, and report an
  error as an event unless the adapter has emitted one (\<open>errorTrackingEmitter\<close>).
\<close>

definition run_stream :: "('w, 'm, 's) gateway_env \<Rightarrow> TaskRequest \<Rightarrow> ('w, 'm, 's) gateway \<Rightarrow> ('w, 'm, 's) gateway \<times> reply" where
  "run_stream G task g =
     (let g1 = on_metrics IncActiveStreams g;
          (d, res) = DispatchStream (ge_disp G) (Some (task\<lparr>tr_Stream := True\<rparr>)) (gw_d g1);
          g2 = g1\<lparr>gw_d := d\<rparr>;
          evs = emitted (drop (length (ds_trace (gw_d g1))) (ds_trace d));
          failed = (case res of D_ok _ \<Rightarrow> False | _ \<Rightarrow> True);
          out = (if failed \<and> \<not> errorEmitted evs
                 then evs @ [\<lparr>ev_Type = EventTaskError, ev_Data = Some (JObj [(''error'', JStr (err_string (dispatch_error res)))])\<rparr>]
                 else evs)
      in (on_metrics DecActiveStreams g2, NewSSEResponseWriter out))"

definition DispatchTaskStream :: "('w, 'm, 's) gateway_env \<Rightarrow> ('w, 'm, 's) gate_handler" where
  "DispatchTaskStream G r g =
     (let (g1, t) = read_task G r g in
      case t of Inl p \<Rightarrow> (g1, p) | Inr task \<Rightarrow>
      (case task_rbac G r task g1 of Some p \<Rightarrow> (g1, p) | None \<Rightarrow> run_stream G task g1))"

definition GetTask :: "('w, 'm, 's) gateway_env \<Rightarrow> ('w, 'm, 's) gate_handler" where
  "GetTask G r g =
     (let taskID = (if in_PathValue r ''task_id'' \<noteq> [] then in_PathValue r ''task_id''
                    else drop (length ''/a2a/v1/tasks/'') (url_path r)) in
      case ts_Load (ge_tasks G) (g_ctx G g) taskID (gw_store g) of
        Inl ErrTaskNotFound \<Rightarrow> (g, writeA2AError ''TASK_NOT_FOUND'' (''task '' @ squote taskID @ '' not found'') [] 404)
      | Inl _ \<Rightarrow> (g, storage_unavailable [])
      | Inr val \<Rightarrow>
          if \<not> permitted r (resp_AgentID val) then (g, forbidden (resp_AgentID val))
          else (g, json_reply 200 (B_task val)))"

section \<open>The REST handler\<close>

fun obj_get :: "string \<Rightarrow> (string \<times> json) list \<Rightarrow> json option" where
  "obj_get k [] = None"
| "obj_get k ((k', v) # m) = (if k' = k then Some v else obj_get k m)"

definition as_obj :: "json option \<Rightarrow> (string \<times> json) list" where
  "as_obj v = (case v of Some (JObj m) \<Rightarrow> m | _ \<Rightarrow> [])"

text \<open>\<open>any\<close>: the JSON null is the nil value.\<close>

definition any_of :: "json \<Rightarrow> json option" where
  "any_of v = (if v = JNull then None else Some v)"

definition task_of_body :: "json option \<Rightarrow> json option \<times> (string \<times> json) list \<times> (string \<times> json) list" where
  "task_of_body raw =
     (case raw of
        None \<Rightarrow> (None, [], [])
      | Some (JObj m) \<Rightarrow>
          (case obj_get ''input'' m of
             Some inVal \<Rightarrow> (any_of inVal, as_obj (obj_get ''context'' m), as_obj (obj_get ''metadata'' m))
           | None \<Rightarrow> (Some (JObj m), [], []))
      | Some v \<Rightarrow> (any_of v, [], []))"

definition buildTaskFromBody ::
  "('w, 'm, 's) gateway_env \<Rightarrow> http_in \<Rightarrow> string \<Rightarrow> ('w, 'm, 's) gateway \<Rightarrow> ('w, 'm, 's) gateway \<times> (reply + TaskRequest)" where
  "buildTaskFromBody G r agentID g =
     (case readRequestBody (in_Body r) of
        Inl TooLarge \<Rightarrow> (g, Inl (writeA2AError ''REQUEST_TOO_LARGE'' (''failed to read body: '' @ too_large_text) agentID 413))
      | Inl (Read_failed e) \<Rightarrow> (g, Inl (writeA2AError ''INVALID_REQUEST'' (''failed to read body: '' @ e) agentID 400))
      | Inr body \<Rightarrow>
          (case (if body = [] then Inr None else map_sum id Some (ge_decode_json G body)) of
             Inl e \<Rightarrow> (g, Inl (writeA2AError ''INVALID_REQUEST'' (''failed to parse JSON body: '' @ e) agentID 400))
           | Inr raw \<Rightarrow>
               (let (input, context, meta) = task_of_body raw;
                    (w, i) = generateTaskID (d_ops (ge_disp G)) (ds_world (gw_d g))
                in (g\<lparr>gw_d := (gw_d g)\<lparr>ds_world := w\<rparr>\<rparr>,
                    Inr \<lparr>tr_ID = i, tr_AgentID = agentID, tr_RequiredCapability = [], tr_Input = input,
                         tr_Context = context, tr_Metadata = meta, tr_Stream = False\<rparr>))))"

text \<open>The checks that both REST handlers make before they read the body.\<close>

definition rest_target :: "('w, 'm, 's) gateway_env \<Rightarrow> http_in \<Rightarrow> ('w, 'm, 's) gateway \<Rightarrow> reply + string" where
  "rest_target G r g =
     (let agentID = (if in_PathValue r ''agent_id'' \<noteq> [] then in_PathValue r ''agent_id'' else extractAgentID r) in
      case GetAgent (ge_disp G) (g_now G g) agentID of
        Inl e \<Rightarrow> Inl (a2a_reply e)
      | Inr _ \<Rightarrow> if \<not> permitted r agentID then Inl (forbidden agentID) else Inr agentID)"

definition InvokeAgent :: "('w, 'm, 's) gateway_env \<Rightarrow> ('w, 'm, 's) gate_handler" where
  "InvokeAgent G r g =
     (case rest_target G r g of Inl p \<Rightarrow> (g, p) | Inr agentID \<Rightarrow>
      (let (g1, t) = buildTaskFromBody G r agentID g in
       case t of Inl p \<Rightarrow> (g1, p) | Inr task \<Rightarrow>
       (let (g2, res) = run_dispatch G task g1 in
        case res of
          D_ok resp \<Rightarrow> persist_reply G agentID resp [] g2
        | _ \<Rightarrow> (g2, error_reply (dispatch_error res) agentID))))"

definition StreamAgent :: "('w, 'm, 's) gateway_env \<Rightarrow> ('w, 'm, 's) gate_handler" where
  "StreamAgent G r g =
     (case rest_target G r g of Inl p \<Rightarrow> (g, p) | Inr agentID \<Rightarrow>
      (let (g1, t) = buildTaskFromBody G r agentID g in
       case t of Inl p \<Rightarrow> (g1, p) | Inr task \<Rightarrow> run_stream G task g1))"

section \<open>Health\<close>

definition Healthz :: "('w, 'm, 's) gate_handler" where
  "Healthz r g = (g, json_reply 200 (B_health ''healthy'' None None))"

definition Readyz :: "('w, 'm, 's) gateway_env \<Rightarrow> ('w, 'm, 's) gate_handler" where
  "Readyz G r g =
     (let n = Adapter_Count (d_reg (ge_disp G)) in
      if ge_cfg G = None \<or> n = 0
      then (g, json_reply 503 (B_health ''not ready'' (Some ''no adapters registered or configuration missing'') (Some n)))
      else if (case ge_ping G of None \<Rightarrow> False | Some ping \<Rightarrow> ping (ds_world (gw_d g)) \<noteq> None)
      then (g, json_reply 503 (B_health ''not ready'' (Some ''storage unavailable'') (Some n)))
      else (g, json_reply 200 (B_health ''ready'' None (Some n))))"

definition Metrics_Handler :: "('w, 'm, 's) gateway_env \<Rightarrow> ('w, 'm, 's) gate_handler" where
  "Metrics_Handler G r g =
     (g, \<lparr>rp_Status = 200, rp_Header = [(''Content-Type'', ''text/plain; version=0.0.4; charset=utf-8'')],
          rp_Body = B_text (case ds_metrics (gw_d g) of None \<Rightarrow> [] | Some m \<Rightarrow> Gather (ge_floats G) m)\<rparr>)"

section \<open>The router\<close>

text \<open>
  The patterns of \<open>http.ServeMux\<close> that the router registers: literal segments and wildcards for
  one segment, which is not empty. A pattern for GET matches HEAD too. No two of the patterns
  overlap, so their order does not matter.
\<close>

datatype seg = Lit string | Wild string

fun match_segs :: "seg list \<Rightarrow> string list \<Rightarrow> (string \<times> string) list option" where
  "match_segs [] [] = Some []"
| "match_segs (Lit l # ps) (s # ss) = (if l = s then match_segs ps ss else None)"
| "match_segs (Wild n # ps) (s # ss) = (if s = [] then None else map_option ((#) (n, s)) (match_segs ps ss))"
| "match_segs _ _ = None"

definition routes :: "('w, 'm, 's) gateway_env \<Rightarrow> (string \<times> seg list \<times> string \<times> ('w, 'm, 's) gate_handler) list" where
  "routes G =
     [(''GET'', [Lit ''a2a'', Lit ''v1'', Lit ''agents''], ''GET /a2a/v1/agents'', ListAgents G),
      (''GET'', [Lit ''a2a'', Lit ''v1'', Lit ''agents'', Wild ''id''], ''GET /a2a/v1/agents/{id}'', Handle_GetAgent G),
      (''POST'', [Lit ''a2a'', Lit ''v1'', Lit ''tasks''], ''POST /a2a/v1/tasks'', DispatchTask G),
      (''POST'', [Lit ''a2a'', Lit ''v1'', Lit ''tasks'', Lit ''stream''], ''POST /a2a/v1/tasks/stream'', DispatchTaskStream G),
      (''GET'', [Lit ''a2a'', Lit ''v1'', Lit ''tasks'', Wild ''task_id''], ''GET /a2a/v1/tasks/{task_id}'', GetTask G),
      (''POST'', [Lit ''api'', Lit ''v1'', Lit ''invoke'', Wild ''agent_id''], ''POST /api/v1/invoke/{agent_id}'', InvokeAgent G),
      (''POST'', [Lit ''api'', Lit ''v1'', Lit ''stream'', Wild ''agent_id''], ''POST /api/v1/stream/{agent_id}'', StreamAgent G),
      (''GET'', [Lit ''healthz''], ''GET /healthz'', Healthz),
      (''GET'', [Lit ''readyz''], ''GET /readyz'', Readyz G),
      (''GET'', [Lit ''metrics''], ''GET /metrics'', Metrics_Handler G)]"

definition method_ok :: "string \<Rightarrow> string \<Rightarrow> bool" where
  "method_ok pattern m \<longleftrightarrow> m = pattern \<or> pattern = ''GET'' \<and> m = ''HEAD''"

definition serve_mux :: "('w, 'm, 's) gateway_env \<Rightarrow> ('w, 'm, 's) gateway handler" where
  "serve_mux G r g =
     (case find (\<lambda>(m, ps, _, _). method_ok m (in_Method r) \<and> match_segs ps (in_Segs r) \<noteq> None) (routes G) of
        Some (m, ps, pattern, h) \<Rightarrow>
          (let vals = the (match_segs ps (in_Segs r));
               (g', p) = h (r\<lparr>in_PathValue := (\<lambda>n. case map_of vals n of None \<Rightarrow> [] | Some v \<Rightarrow> v)\<rparr>) g
           in (g', p, pattern))
      | None \<Rightarrow>
          (g, if \<exists>(_, ps, _, _)\<in>set (routes G). match_segs ps (in_Segs r) \<noteq> None
              then \<lparr>rp_Status = 405, rp_Header = [], rp_Body = B_text ''Method Not Allowed''\<rparr>
              else \<lparr>rp_Status = 404, rp_Header = [], rp_Body = B_text ''404 page not found''\<rparr>, []))"

text \<open>\<open>SetupRouter\<close>: request ID, metrics, authentication, routes, from the outside inwards.\<close>

definition SetupRouter :: "('w, 'm, 's) gateway_env \<Rightarrow> ('w, 'm, 's) gateway handler" where
  "SetupRouter G =
     RequestIDMiddleware (ge_entropy G)
       (MetricsMiddleware (ge_floats G) (ge_elapsed G) on_metrics
         (AuthMiddleware (d_unicode (ge_disp G)) (map_option cfg_Security (ge_cfg G)) (serve_mux G)))"

section \<open>Server-sent events\<close>

fun event_name :: "StreamEventType \<Rightarrow> string" where
  "event_name EventTaskStarted = ''task_started''"
| "event_name EventStepProgress = ''step_progress''"
| "event_name EventTokenDelta = ''token_delta''"
| "event_name EventTaskCompleted = ''task_completed''"
| "event_name EventTaskError = ''task_error''"

text \<open>\<open>SSEResponseWriter.Emit\<close>: the frame of an event; \<open>marshal\<close> is \<open>json.Marshal\<close>.\<close>

definition sse_frame :: "(json option \<Rightarrow> string + bytes) \<Rightarrow> StreamEvent \<Rightarrow> string + bytes" where
  "sse_frame marshal ev =
     (case marshal (ev_Data ev) of
        Inl e \<Rightarrow> Inl e
      | Inr d \<Rightarrow> Inr (''event: '' @ event_name (ev_Type ev) @ nl @ ''data: '' @ d @ nl @ nl))"

end
