(* ===== verification/Gateway_Claims.thy ===== *)
theory Gateway_Claims
  imports Gateway Dispatcher_Claims
begin

text \<open>
  The properties of the HTTP surface: authentication, the agents a client can reach, what a
  client can read, and that an answered task can be read back. The last one is proved for
  every task store that keeps the contract of the locale \<open>task_store\<close>.
\<close>

section \<open>Calls of a dispatch\<close>

lemma Called_trace: "Called i \<in> set (invocation_trace invs) \<Longrightarrow> \<exists>(b, k)\<in>set invs. ag_ID b = i"
  by (auto simp: invocation_trace_def calls_def)

lemma reachable_closed: "fallback_closed D {b. (falls_back D)\<^sup>*\<^sup>* a b}"
proof -
  have "(falls_back D)\<^sup>*\<^sup>* a b"
    if "(falls_back D)\<^sup>*\<^sup>* a x" "f \<in> set (ag_FallbackAgentIDs x)" "GetAgent D now f = Inr b" for x f now b
  proof -
    have "falls_back D x b" using GetAgent_Inr [OF that(3)] that(2) by (simp add: falls_back_def)
    then show ?thesis using that(1) by (rule rtranclp.rtrancl_into_rtrancl [rotated])
  qed
  then show ?thesis by (auto simp: fallback_closed_def resolves_in_def)
qed

lemma dispatched_calls:
  assumes "dispatched {b. (falls_back D)\<^sup>*\<^sup>* a b} st st' invs evs"
    and "Called i \<in> set (drop (length (ds_trace st)) (ds_trace st'))"
  shows "\<exists>b. (falls_back D)\<^sup>*\<^sup>* a b \<and> ag_ID b = i"
proof -
  have "ds_trace st' = ds_trace st @ invocation_trace invs @ map Emitted evs"
    using assms(1) unfolding dispatched_def by blast
  then have "Called i \<in> set (invocation_trace invs)" using assms(2) by auto
  then obtain b k where "(b, k) \<in> set invs" "ag_ID b = i" using Called_trace by blast
  then show ?thesis using assms(1) unfolding dispatched_def by blast
qed

lemma Dispatch_calls:
  assumes "Called i \<in> set (drop (length (ds_trace st)) (ds_trace (fst (Dispatch D task st))))"
  shows "\<exists>a b. resolveAgent D (now_of D st) task = Inr a \<and> (falls_back D)\<^sup>*\<^sup>* a b \<and> ag_ID b = i"
proof (cases "resolveAgent D (now_of D st) task")
  case (Inl e)
  then show ?thesis using assms by (simp add: Dispatch_def)
next
  case (Inr a)
  let ?st = "st\<lparr>ds_visited := []\<rparr>"
  obtain invs where "dispatched {b. (falls_back D)\<^sup>*\<^sup>* a b} ?st (fst (Dispatch D task st)) invs []"
    using dispatch_dispatched(1) [OF _ reachable_closed [of D a], of a ?st "fuel_of D" "the task"] by (auto simp: Dispatch_def Inr)
  from dispatched_calls [OF this] show ?thesis using assms Inr by auto
qed

lemma DispatchStream_calls:
  assumes "Called i \<in> set (drop (length (ds_trace st)) (ds_trace (fst (DispatchStream D task st))))"
  shows "\<exists>a b. resolveAgent D (now_of D st) task = Inr a \<and> (falls_back D)\<^sup>*\<^sup>* a b \<and> ag_ID b = i"
proof (cases "resolveAgent D (now_of D st) task")
  case (Inl e)
  then show ?thesis using assms by (simp add: DispatchStream_def)
next
  case (Inr a)
  let ?st = "st\<lparr>ds_visited := [], ds_hasEmitted := False\<rparr>"
  obtain invs evs where "dispatched {b. (falls_back D)\<^sup>*\<^sup>* a b} ?st (fst (DispatchStream D task st)) invs evs"
    using stream_dispatched(1) [OF _ reachable_closed [of D a], of a ?st "fuel_of D" "the task"] by (auto simp: DispatchStream_def Inr)
  from dispatched_calls [OF this] show ?thesis using assms Inr by auto
qed

section \<open>What the handlers dispatch\<close>

definition trace_of :: "('w, 'm, 's) gateway \<Rightarrow> dispatch_event list" where
  "trace_of g = ds_trace (gw_d g)"

lemma read_task_quiet: "read_task G r g = (g', t) \<Longrightarrow> trace_of g' = trace_of g"
  by (auto simp: read_task_def trace_of_def Let_def split: sum.splits body_error.splits if_splits prod.splits)

lemma build_task_quiet:
  "buildTaskFromBody G r agentID g = (g', t) \<Longrightarrow> trace_of g' = trace_of g \<and>
     (case t of Inl _ \<Rightarrow> True | Inr task \<Rightarrow> tr_AgentID task = agentID \<and> tr_RequiredCapability task = [])"
  by (auto simp: buildTaskFromBody_def trace_of_def Let_def split: sum.splits body_error.splits if_splits prod.splits)

lemma persist_quiet: "persist_reply G i resp al g = (g', p) \<Longrightarrow> trace_of g' = trace_of g"
  by (auto simp: persist_reply_def saveTask_def trace_of_def Let_def split: prod.splits if_splits)

lemma persist_trace: "ds_trace (gw_d (fst (persist_reply G i resp al g))) = ds_trace (gw_d g)"
  using persist_quiet [OF surjective_pairing] by (simp add: trace_of_def)

lemma on_metrics_simps [simp]:
  "gw_store (on_metrics f g) = gw_store g" "trace_of (on_metrics f g) = trace_of g" "g_now G (on_metrics f g) = g_now G g"
  "ds_trace (gw_d (on_metrics f g)) = ds_trace (gw_d g)" "now_of D (gw_d (on_metrics f g)) = now_of D (gw_d g)"
  by (simp_all add: on_metrics_def trace_of_def g_now_def now_of_def)

text \<open>A task is dispatched to an agent of the client, or to an agent it falls back to.\<close>

definition reaches :: "'w Dispatcher \<Rightarrow> (string \<Rightarrow> bool) \<Rightarrow> string \<Rightarrow> bool" where
  "reaches D allowed i \<longleftrightarrow> (\<exists>a b. a \<in> set (config_agents D) \<and> allowed (ag_ID a) \<and> (falls_back D)\<^sup>*\<^sup>* a b \<and> ag_ID b = i)"

definition new_calls :: "('w, 'm, 's) gateway \<Rightarrow> ('w, 'm, 's) gateway \<Rightarrow> string set" where
  "new_calls g g' = {i. Called i \<in> set (drop (length (trace_of g)) (trace_of g'))}"

lemma task_rbac_resolved:
  assumes "task_rbac G r task g = None" and "in_Credentials r = Some c"
    and "resolveAgent (ge_disp G) (g_now G g) (Some task) = Inr a" and "ag_ID a \<noteq> []"
  shows "Allows c (ag_ID a)"
proof (cases "tr_AgentID task = []")
  case True
  then have "tr_RequiredCapability task \<noteq> []"
      "FindAgentByCapability (ge_disp G) (g_now G g) (tr_RequiredCapability task) = Inr a"
    using assms(3) by (auto simp: resolveAgent_def split: if_splits)
  then show ?thesis using assms(1,2,4) True by (auto simp: task_rbac_def Let_def split: if_splits)
next
  case False
  then have "GetAgent (ge_disp G) (g_now G g) (tr_AgentID task) = Inr a" using assms(3) by (simp add: resolveAgent_def)
  then have "ag_ID a = tr_AgentID task" using GetAgent_Inr by blast
  then show ?thesis using assms(1,2) False by (auto simp: task_rbac_def Let_def split: if_splits)
qed

lemma run_dispatch_calls:
  assumes "run_dispatch G task g = (g', res)" and "i \<in> new_calls g g'"
  shows "\<exists>a b. resolveAgent (ge_disp G) (g_now G g) (Some task) = Inr a \<and> (falls_back (ge_disp G))\<^sup>*\<^sup>* a b \<and> ag_ID b = i"
proof -
  have "gw_d g' = fst (Dispatch (ge_disp G) (Some task) (gw_d g))"
    using assms(1) by (auto simp: run_dispatch_def split: prod.splits)
  then show ?thesis
    using Dispatch_calls [of i "gw_d g" "ge_disp G" "Some task"] assms(2) by (simp add: new_calls_def trace_of_def g_now_def)
qed

lemma run_stream_calls:
  assumes "run_stream G task g = (g', p)" and "i \<in> new_calls g g'"
  shows "\<exists>a b. resolveAgent (ge_disp G) (g_now G g) (Some task) = Inr a \<and> (falls_back (ge_disp G))\<^sup>*\<^sup>* a b \<and> ag_ID b = i"
proof -
  let ?g1 = "on_metrics IncActiveStreams g" and ?t = "task\<lparr>tr_Stream := True\<rparr>"
  have "trace_of g' = ds_trace (fst (DispatchStream (ge_disp G) (Some ?t) (gw_d ?g1)))"
    using assms(1) by (auto simp: run_stream_def trace_of_def Let_def split: prod.splits)
  moreover have "resolveAgent D n (Some ?t) = resolveAgent D n (Some task)" for D :: "'a Dispatcher" and n
    by (simp add: resolveAgent_def)
  ultimately show ?thesis
    using DispatchStream_calls [of i "gw_d ?g1" "ge_disp G" "Some ?t"] assms(2)
    by (simp add: new_calls_def trace_of_def g_now_def)
qed

lemma new_calls_quiet: "trace_of g1 = trace_of g \<Longrightarrow> trace_of g3 = trace_of g2 \<Longrightarrow> new_calls g g3 = new_calls g1 g2"
  by (simp add: new_calls_def)

lemma new_calls_same: "trace_of g' = trace_of g \<Longrightarrow> new_calls g g' = {}"
  by (simp add: new_calls_def)

text \<open>The two kinds of handlers: a task of the client, and the agent of the route.\<close>

lemma task_handler_calls:
  assumes ids: "\<forall>a\<in>set (config_agents (ge_disp G)). ag_ID a \<noteq> []" and cr: "in_Credentials r = Some c"
    and h: "DispatchTask G r g = (g', p) \<or> DispatchTaskStream G r g = (g', p)" and i: "i \<in> new_calls g g'"
  shows "reaches (ge_disp G) (Allows c) i"
proof -
  obtain g1 t where rt: "read_task G r g = (g1, t)" by fastforce
  note q1 = read_task_quiet [OF rt]
  have "g' \<noteq> g1" using i new_calls_same [OF q1] by auto
  then obtain task where t: "t = Inr task" and rb: "task_rbac G r task g1 = None"
    using h by (auto simp: DispatchTask_def DispatchTaskStream_def rt split: sum.splits option.splits)
  have "\<exists>a b. resolveAgent (ge_disp G) (g_now G g1) (Some task) = Inr a \<and> (falls_back (ge_disp G))\<^sup>*\<^sup>* a b \<and> ag_ID b = i"
    using h
  proof
    assume "DispatchTask G r g = (g', p)"
    moreover obtain g2 res where d: "run_dispatch G task g1 = (g2, res)" by fastforce
    ultimately have "trace_of g' = trace_of g2"
      using persist_quiet by (fastforce simp: DispatchTask_def rt t rb split: dresult.splits)
    then show ?thesis using run_dispatch_calls [OF d] i new_calls_quiet [OF q1] by metis
  next
    assume "DispatchTaskStream G r g = (g', p)"
    then have "run_stream G task g1 = (g', p)" by (simp add: DispatchTaskStream_def rt t rb)
    then show ?thesis using run_stream_calls i new_calls_quiet [OF q1] by metis
  qed
  then obtain a b where ab: "resolveAgent (ge_disp G) (g_now G g1) (Some task) = Inr a" "(falls_back (ge_disp G))\<^sup>*\<^sup>* a b" "ag_ID b = i"
    by blast
  then show ?thesis
    using task_rbac_resolved [OF rb cr ab(1)] resolved_configured [OF ab(1)] ids by (auto simp: reaches_def)
qed

lemma route_handler_calls:
  assumes cr: "in_Credentials r = Some c"
    and h: "InvokeAgent G r g = (g', p) \<or> StreamAgent G r g = (g', p)" and i: "i \<in> new_calls g g'"
  shows "reaches (ge_disp G) (Allows c) i"
proof -
  have "g' \<noteq> g" using i new_calls_same [of g g] by auto
  then obtain agentID where ta: "rest_target G r g = Inr agentID"
    using h by (auto simp: InvokeAgent_def StreamAgent_def split: sum.splits)
  then have al: "Allows c agentID" using cr by (auto simp: rest_target_def permitted_def Let_def split: sum.splits if_splits)
  obtain g1 t where bt: "buildTaskFromBody G r agentID g = (g1, t)" by fastforce
  note q1 = build_task_quiet [OF bt]
  have "g' \<noteq> g1" using i new_calls_same [of g1 g] q1 by auto
  then obtain task where t: "t = Inr task"
    using h by (auto simp: InvokeAgent_def StreamAgent_def ta bt split: sum.splits)
  then have task: "tr_AgentID task = agentID" "tr_RequiredCapability task = []" and tr: "trace_of g1 = trace_of g" using q1 by auto
  have "\<exists>a b. resolveAgent (ge_disp G) (g_now G g1) (Some task) = Inr a \<and> (falls_back (ge_disp G))\<^sup>*\<^sup>* a b \<and> ag_ID b = i"
    using h
  proof
    assume "InvokeAgent G r g = (g', p)"
    moreover obtain g2 res where d: "run_dispatch G task g1 = (g2, res)" by fastforce
    ultimately have "trace_of g' = trace_of g2"
      using persist_quiet by (fastforce simp: InvokeAgent_def ta bt t split: dresult.splits)
    then show ?thesis using run_dispatch_calls [OF d] i new_calls_quiet [OF tr] by metis
  next
    assume "StreamAgent G r g = (g', p)"
    then have "run_stream G task g1 = (g', p)" by (simp add: StreamAgent_def ta bt t)
    then show ?thesis using run_stream_calls i new_calls_quiet [OF tr] by metis
  qed
  then obtain a b where ab: "resolveAgent (ge_disp G) (g_now G g1) (Some task) = Inr a" "(falls_back (ge_disp G))\<^sup>*\<^sup>* a b" "ag_ID b = i"
    by blast
  moreover have "ag_ID a = agentID"
    using ab(1) task GetAgent_Inr by (auto simp: resolveAgent_def split: if_splits)
  ultimately show ?thesis using al resolved_configured [OF ab(1)] by (auto simp: reaches_def)
qed

section \<open>Handlers over a task store\<close>

lemma dispatch_ok_id:
  assumes "Dispatch D task st = (st', D_ok resp)"
  shows "resp_TaskID resp \<noteq> []"
proof (cases "resolveAgent D (now_of D st) task")
  case (Inl e)
  then show ?thesis using assms by (simp add: Dispatch_def)
next
  case (Inr a)
  have "cascade_result D a st' (D_ok resp)"
    using dispatch_cascade_result(1) [OF initially_untried [OF resolved_configured [OF Inr]]] assms
    by (simp add: Dispatch_def Inr)
  then show ?thesis by (simp add: cascade_result_def)
qed

text \<open>An answered task was dispatched and stored.\<close>

lemma error_bodies:
  "rp_Body (error_reply e i) \<noteq> B_task resp" "rp_Body (a2a_reply x) \<noteq> B_task resp"
  "rp_Body (forbidden i) \<noteq> B_task resp" "rp_Body (writeA2AError cd m i n) \<noteq> B_task resp"
  "rp_Body (storage_unavailable i) \<noteq> B_task resp"
  by (simp_all add: error_reply_def a2a_reply_def forbidden_def storage_unavailable_def writeA2AError_def json_reply_def
      split: option.split)

lemma read_task_error: "read_task G r g = (g1, Inl p) \<Longrightarrow> rp_Body p \<noteq> B_task resp"
  by (auto simp: read_task_def Let_def error_bodies split: sum.splits body_error.splits if_splits prod.splits)

lemma task_rbac_error: "task_rbac G r task g = Some p \<Longrightarrow> rp_Body p \<noteq> B_task resp"
  by (auto simp: task_rbac_def Let_def error_bodies split: option.splits sum.splits if_splits)

lemma rest_target_error: "rest_target G r g = Inl p \<Longrightarrow> rp_Body p \<noteq> B_task resp"
  by (auto simp: rest_target_def Let_def error_bodies split: sum.splits if_splits)

lemma build_task_error: "buildTaskFromBody G r i g = (g1, Inl p) \<Longrightarrow> rp_Body p \<noteq> B_task resp"
  by (auto simp: buildTaskFromBody_def Let_def error_bodies split: sum.splits body_error.splits if_splits prod.splits)

lemma read_store:
  "read_task G r g = (g1, t) \<Longrightarrow> gw_store g1 = gw_store g"
  "buildTaskFromBody G r i g = (g1, t) \<Longrightarrow> gw_store g1 = gw_store g"
  by (auto simp: read_task_def buildTaskFromBody_def Let_def split: sum.splits body_error.splits if_splits prod.splits)

lemma run_dispatch_store:
  "run_dispatch G task g1 = (g2, res) \<Longrightarrow> gw_store g2 = gw_store g1"
  "run_dispatch G task g1 = (g2, D_ok resp) \<Longrightarrow> resp_TaskID resp \<noteq> []"
  by (auto simp: run_dispatch_def dest: dispatch_ok_id split: prod.splits)

lemma persist_body: "persist_reply G i resp' al g2 = (g', p) \<Longrightarrow> rp_Body p = B_task resp \<Longrightarrow> resp' = resp"
  by (auto simp: persist_reply_def json_reply_def Let_def error_bodies split: prod.splits if_splits)

lemma answered_DispatchTask:
  assumes "DispatchTask G r g = (g', p)" and "rp_Body p = B_task resp"
  shows "\<exists>i al g2. gw_store g2 = gw_store g \<and> persist_reply G i resp al g2 = (g', p) \<and> resp_TaskID resp \<noteq> []"
proof -
  obtain g1 t where rt: "read_task G r g = (g1, t)" by fastforce
  show ?thesis
  proof (cases t)
    case (Inl q)
    then show ?thesis using assms rt read_task_error by (fastforce simp: DispatchTask_def)
  next
    case (Inr task)
    show ?thesis
    proof (cases "task_rbac G r task g1")
      case (Some q)
      then show ?thesis using assms rt Inr task_rbac_error by (fastforce simp: DispatchTask_def)
    next
      case None
      obtain g2 res where rd: "run_dispatch G task g1 = (g2, res)" by fastforce
      show ?thesis
      proof (cases res)
        case (D_ok resp')
        then have "persist_reply G (tr_AgentID task) resp'
            (if tr_ID task \<noteq> [] \<and> resp_TaskID resp' \<noteq> tr_ID task then [tr_ID task] else []) g2 = (g', p)"
          using assms(1) rt Inr None rd by (simp add: DispatchTask_def)
        then show ?thesis
          using persist_body [OF _ assms(2)] run_dispatch_store [OF rd [unfolded D_ok]] read_store(1) [OF rt] by metis
      qed (use assms rt Inr None rd error_bodies in \<open>auto simp: DispatchTask_def\<close>)
    qed
  qed
qed

lemma answered_InvokeAgent:
  assumes "InvokeAgent G r g = (g', p)" and "rp_Body p = B_task resp"
  shows "\<exists>i al g2. gw_store g2 = gw_store g \<and> persist_reply G i resp al g2 = (g', p) \<and> resp_TaskID resp \<noteq> []"
proof -
  obtain agentID where ta: "rest_target G r g = Inr agentID"
    using assms rest_target_error by (fastforce simp: InvokeAgent_def split: sum.splits)
  obtain g1 t where rt: "buildTaskFromBody G r agentID g = (g1, t)" by fastforce
  show ?thesis
  proof (cases t)
    case (Inl q)
    then show ?thesis using assms rt ta build_task_error by (fastforce simp: InvokeAgent_def)
  next
    case (Inr task)
    obtain g2 res where rd: "run_dispatch G task g1 = (g2, res)" by fastforce
    show ?thesis
    proof (cases res)
      case (D_ok resp')
      then have "persist_reply G agentID resp' [] g2 = (g', p)"
        using assms(1) rt ta Inr rd by (simp add: InvokeAgent_def)
      then show ?thesis
        using persist_body [OF _ assms(2)] run_dispatch_store [OF rd [unfolded D_ok]] read_store(2) [OF rt] by metis
    qed (use assms rt ta Inr rd error_bodies in \<open>auto simp: InvokeAgent_def\<close>)
  qed
qed

context task_store
begin

lemma answered_task_readable:
  assumes tasks: "ge_tasks G = \<lparr>ts_Save = save, ts_Load = load\<rparr>" and "ok (gw_store g)"
    and "DispatchTask G r g = (g', p) \<or> InvokeAgent G r g = (g', p)" and "rp_Body p = B_task resp"
    and "in_PathValue r' ''task_id'' = resp_TaskID resp" and "permitted r' (resp_AgentID resp')" and "g_ctx G g' = None"
    and "view resp = Inr resp'"
  shows "GetTask G r' g' = (g', json_reply 200 (B_task resp'))"
proof -
  obtain i al g2 where g2: "gw_store g2 = gw_store g" "persist_reply G i resp al g2 = (g', p)" "resp_TaskID resp \<noteq> []"
    using assms(3) answered_DispatchTask [OF _ assms(4)] answered_InvokeAgent [OF _ assms(4)] by blast
  obtain s e where sv: "save (g_ctx G g2) (Some resp) al (gw_store g2) = (s, e)" by fastforce
  have "e = None" "gw_store g' = s"
    using g2(2) assms(4) by (auto simp: persist_reply_def saveTask_def tasks sv storage_unavailable_def writeA2AError_def
        json_reply_def split: if_splits)
  then have "load None (resp_TaskID resp) (gw_store g') = Inr resp'"
    using save_load [of "gw_store g2"] sv assms(2,8) g2(1) by (simp add: saved_ids_def)
  then show ?thesis using g2(3) assms(5-7) by (simp add: GetTask_def tasks)
qed

end

section \<open>A concrete gateway\<close>

definition demo_secured :: Config where
  "demo_secured = demo_gateway\<lparr>cfg_Security := \<lparr>sec_Enabled = True,
     sec_APIKeys = [\<lparr>key_Key = ''k1'', key_ClientID = ''c1'', key_AllowedAgents = [''a'']\<rparr>]\<rparr>\<rparr>"

definition demo_floats :: "nat float_ops" where
  "demo_floats = \<lparr>f_zero = 0, f_add = (+), f_print6 = (\<lambda>_. [])\<rparr>"

text \<open>A gateway whose downstream answers every call with an empty completed task.\<close>

definition demo_answer :: TaskResponse where
  "demo_answer = \<lparr>resp_TaskID = [], resp_AgentID = [], resp_Status = StatusCompleted, resp_Output = None, resp_Artifacts = [],
     resp_Error = None, resp_Timestamp = 0\<rparr>"

definition demo_online :: "unit Dispatcher" where
  "demo_online = demo_dispatcher
     \<lparr>d_cfg := Some demo_secured,
      d_reg := [(''a2a'', demo_adapter\<lparr>ad_TranslateResponse := (\<lambda>_ _ _ w. (w, Inr demo_answer))\<rparr>)],
      d_ops := demo_ops\<lparr>wo_do := (\<lambda>_ _ w. (w, Inr \<lparr>p_StatusCode = 200, p_Header = [], p_Body = []\<rparr>))\<rparr>\<rparr>"

definition demo_gate_env :: "(unit, nat, MemoryTaskStore) gateway_env" where
  "demo_gate_env = \<lparr>ge_cfg = Some demo_secured, ge_disp = demo_online,
     ge_tasks = \<lparr>ts_Save = Memory_Save, ts_Load = Memory_Load\<rparr>,
     ge_decode_task = (\<lambda>_. Inr (demo_task\<lparr>tr_ID := ''t1''\<rparr>)), ge_decode_json = (\<lambda>_. Inr JNull), ge_ping = None,
     ge_floats = demo_floats, ge_elapsed = (\<lambda>_ _. 0), ge_entropy = (\<lambda>_. (None, 0))\<rparr>"

definition demo_gate :: "(unit, nat, MemoryTaskStore) gateway" where
  "demo_gate = \<lparr>gw_d = demo_dstate, gw_store = NewMemoryTaskStore 2\<rparr>"

definition demo_request :: "string \<Rightarrow> string list \<Rightarrow> http_in" where
  "demo_request m path = \<lparr>in_Method = m, in_Segs = path, in_Header = (\<lambda>n. if n = ''X-API-Key'' then ''k1'' else []),
     in_Query = (\<lambda>_. []), in_Body = ([], None), in_PathValue = (\<lambda>_. []), in_RequestID = [], in_Credentials = None\<rparr>"

definition demo_client :: ClientCredentials where
  "demo_client = \<lparr>cc_ClientID = ''c1'', cc_AllowedAgents = [''a'']\<rparr>"

lemmas gate_eval = demo_secured_def demo_floats_def demo_answer_def demo_online_def demo_gate_env_def demo_gate_def
  demo_request_def demo_client_def demo_gateway_def demo_agent_def demo_auth_def demo_dispatcher_def demo_adapter_def
  demo_ops_def demo_task_def demo_dstate_def

section \<open>Authentication and authorisation\<close>

text \<open>
  C25. Without a configured API key nothing happens: with security enabled, a request outside
  the three public endpoints whose key is missing or unknown is answered with 401, whatever
  its path and body, and neither the store nor the state of the dispatcher changes (the
  metrics apart).
\<close>

theorem unauthenticated_rejected:
  assumes "ge_cfg G = Some cfg" and "sec_Enabled (cfg_Security cfg)" and "\<not> isPublicEndpoint (url_path r)"
    and "extractAPIKey (d_unicode (ge_disp G)) r = [] \<or>
      extractAPIKey (d_unicode (ge_disp G)) r \<notin> key_Key ` set (sec_APIKeys (cfg_Security cfg))"
    and "SetupRouter G r g = (g', p, pattern)"
  shows "rp_Status p = 401 \<and> gw_store g' = gw_store g \<and> (\<exists>m. gw_d g' = (gw_d g)\<lparr>ds_metrics := m\<rparr>)"
proof -
  have refused: "\<exists>m. AuthMiddleware (d_unicode (ge_disp G)) (Some (cfg_Security cfg)) h r1 g = (g, writeA2AError ''UNAUTHORIZED'' m [] 401, [])"
    if "r1 = r\<lparr>in_RequestID := x\<rparr>" for h x r1
  proof -
    have "url_path r1 = url_path r" "extractAPIKey (d_unicode (ge_disp G)) r1 = extractAPIKey (d_unicode (ge_disp G)) r"
      by (simp add: that url_path_def, simp add: that extractAPIKey_def Let_def)
    moreover have "find (\<lambda>k. key_Key k = extractAPIKey (d_unicode (ge_disp G)) r) (sec_APIKeys (cfg_Security cfg)) = None"
      if "extractAPIKey (d_unicode (ge_disp G)) r \<notin> key_Key ` set (sec_APIKeys (cfg_Security cfg))"
      using that unfolding find_None_iff by (metis imageI)
    ultimately show ?thesis using assms(2-4) by (auto simp: AuthMiddleware_def Let_def)
  qed
  define reqID where "reqID = (if in_Header r ''X-Request-ID'' = [] then (case ge_entropy G g of (rnd, nanos) \<Rightarrow> generateRequestID rnd nanos)
      else in_Header r ''X-Request-ID'')"
  obtain m where m: "AuthMiddleware (d_unicode (ge_disp G)) (Some (cfg_Security cfg)) (serve_mux G)
      (r\<lparr>in_RequestID := reqID\<rparr>) g = (g, writeA2AError ''UNAUTHORIZED'' m [] 401, [])"
    using refused [OF refl] by blast
  show ?thesis
    using assms(1,5)
    by (simp add: SetupRouter_def RequestIDMiddleware_def MetricsMiddleware_def on_metrics_def Let_def m
        reqID_def [symmetric] writeA2AError_def json_reply_def) auto
qed

theorem unauthenticated_rejected_witness:
  "rp_Status (fst (snd (SetupRouter demo_gate_env
     ((demo_request ''POST'' [''a2a'', ''v1'', ''tasks''])\<lparr>in_Header := (\<lambda>_. [])\<rparr>) demo_gate))) = 401"
proof -
  let ?r = "(demo_request ''POST'' [''a2a'', ''v1'', ''tasks''])\<lparr>in_Header := (\<lambda>_. [])\<rparr>"
  have "extractAPIKey ascii_tables ?r = []" by (simp add: extractAPIKey_def trim_space_def strip_def)
  moreover obtain g' p q where "SetupRouter demo_gate_env ?r demo_gate = (g', p, q)" by (metis prod_cases3)
  ultimately show ?thesis
    using unauthenticated_rejected [of demo_gate_env demo_secured ?r demo_gate]
    by (simp add: isPublicEndpoint_def url_path_def gate_eval)
qed

text \<open>
  C26. A client reaches only its agents: on the four endpoints that start work, an authenticated
  client causes calls only to agents it is allowed to use and to agents that these fall back
  to. (The failover does not check the client's permissions again.)
\<close>

theorem calls_respect_permissions:
  assumes "\<forall>a\<in>set (config_agents (ge_disp G)). ag_ID a \<noteq> []" and "in_Credentials r = Some c"
    and "(g', p) \<in> {DispatchTask G r g, DispatchTaskStream G r g, InvokeAgent G r g, StreamAgent G r g}"
    and "Called i \<in> set (drop (length (ds_trace (gw_d g))) (ds_trace (gw_d g')))"
  shows "\<exists>a b. a \<in> set (config_agents (ge_disp G)) \<and> Allows c (ag_ID a) \<and> (falls_back (ge_disp G))\<^sup>*\<^sup>* a b \<and> ag_ID b = i"
proof -
  have i: "i \<in> new_calls g g'" using assms(4) by (simp add: new_calls_def trace_of_def)
  have "reaches (ge_disp G) (Allows c) i"
    using assms(3) task_handler_calls [OF assms(1,2) _ i] route_handler_calls [OF assms(2) _ i] by (metis insert_iff empty_iff)
  then show ?thesis by (simp add: reaches_def)
qed

definition demo_post :: http_in where
  "demo_post = (demo_request ''POST'' [])\<lparr>in_Credentials := Some demo_client\<rparr>"

definition demo_stored :: TaskResponse where
  "demo_stored = demo_answer\<lparr>resp_TaskID := ''t1'', resp_AgentID := ''a''\<rparr>"

lemma demo_DispatchTask:
  "DispatchTask demo_gate_env demo_post demo_gate = persist_reply demo_gate_env ''a'' demo_stored []
     (demo_gate\<lparr>gw_d := demo_dstate\<lparr>ds_visited := [''a''], ds_trace := [Called ''a'']\<rparr>\<rparr>)"
proof -
  let ?t = "demo_task\<lparr>tr_ID := ''t1''\<rparr>"
  have rt: "read_task demo_gate_env demo_post demo_gate = (demo_gate, Inr ?t)"
    by (simp add: demo_post_def read_task_def readRequestBody_def gate_eval)
  have rb: "task_rbac demo_gate_env demo_post ?t demo_gate = None"
    by (simp add: demo_post_def task_rbac_def Allows_def gate_eval)
  have rd: "run_dispatch demo_gate_env ?t demo_gate =
      (demo_gate\<lparr>gw_d := demo_dstate\<lparr>ds_visited := [''a''], ds_trace := [Called ''a'']\<rparr>\<rparr>, D_ok demo_stored)"
    by (simp add: run_dispatch_def dispatch_eval gate_eval demo_stored_def complete_response_def eval_nat_numeral)
  have "resp_TaskID demo_stored = ''t1''" "tr_AgentID demo_task = ''a''" by (simp_all add: demo_stored_def demo_task_def)
  then show ?thesis by (simp add: DispatchTask_def rt rb rd)
qed

lemma demo_online_calls:
  "ds_trace (gw_d (fst (DispatchTask demo_gate_env demo_post demo_gate))) = [Called ''a'']"
  by (simp add: demo_DispatchTask persist_trace)

theorem calls_respect_permissions_witness: "\<exists>b. (falls_back demo_online)\<^sup>*\<^sup>* (demo_agent ''a'' [''b'']) b \<and> ag_ID b = ''a''"
proof -
  obtain g' p where d: "DispatchTask demo_gate_env demo_post demo_gate = (g', p)" by fastforce
  have "Called ''a'' \<in> set (drop (length (ds_trace (gw_d demo_gate))) (ds_trace (gw_d g')))"
    using demo_online_calls by (simp add: d) (simp add: demo_gate_def demo_dstate_def)
  moreover have "\<forall>a\<in>set (config_agents (ge_disp demo_gate_env)). ag_ID a \<noteq> []" "ge_disp demo_gate_env = demo_online"
      "in_Credentials demo_post = Some demo_client"
    by (simp_all add: config_agents_def demo_post_def gate_eval)
  ultimately obtain a b where "a \<in> set (config_agents demo_online)" "Allows demo_client (ag_ID a)" "(falls_back demo_online)\<^sup>*\<^sup>* a b"
      "ag_ID b = ''a''"
    using calls_respect_permissions [of demo_gate_env demo_post demo_client g' p demo_gate "''a''"] d by auto
  moreover have "a = demo_agent ''a'' [''b'']"
    using calculation(1,2) by (auto simp: config_agents_def Allows_def gate_eval)
  ultimately show ?thesis by blast
qed

text \<open>
  C27. A client reads only about its agents: the list of agents shows an authenticated client
  no other agents, and a stored task is returned only when the client may use the agent that
  answered it.
\<close>

theorem reads_respect_permissions:
  assumes "in_Credentials r = Some c"
  shows "(ListAgents G r g = (g1, p1) \<and> rp_Body p1 = B_cards cards \<and> ac \<in> set cards \<longrightarrow> Allows c (card_ID ac)) \<and>
    (GetTask G r g = (g2, p2) \<and> rp_Body p2 = B_task resp \<longrightarrow> Allows c (resp_AgentID resp))"
proof (intro conjI impI; elim conjE)
  assume l: "ListAgents G r g = (g1, p1)" and b: "rp_Body p1 = B_cards cards" and c: "ac \<in> set cards"
  from l b have "cards = (case ge_cfg G of None \<Rightarrow> [] | Some c \<Rightarrow> map agent_card (filter (\<lambda>a. permitted r (ag_ID a)) (cfg_Agents c)))"
    by (auto simp: ListAgents_def json_reply_def)
  then show "Allows c (card_ID ac)"
    using c assms by (auto simp: agent_card_def permitted_def split: option.splits)
next
  assume l: "GetTask G r g = (g2, p2)" and b: "rp_Body p2 = B_task resp"
  define tid where "tid = (if in_PathValue r ''task_id'' \<noteq> [] then in_PathValue r ''task_id''
      else drop (length ''/a2a/v1/tasks/'') (url_path r))"
  obtain val where val: "ts_Load (ge_tasks G) (g_ctx G g) tid (gw_store g) = Inr val"
    using l b error_bodies by (auto simp: GetTask_def tid_def [symmetric] Let_def split: sum.splits store_error.splits)
  show "Allows c (resp_AgentID resp)"
    using l b assms error_bodies
    by (auto simp: GetTask_def tid_def [symmetric] Let_def val permitted_def json_reply_def split: if_splits)
qed

theorem reads_respect_permissions_witness:
  "Allows demo_client (card_ID (agent_card (demo_agent ''a'' [''b''])))"
proof -
  let ?r = "(demo_request ''GET'' [])\<lparr>in_Credentials := Some demo_client\<rparr>"
  have "ListAgents demo_gate_env ?r demo_gate = (demo_gate, json_reply 200 (B_cards [agent_card (demo_agent ''a'' [''b''])]))"
    by (simp add: ListAgents_def permitted_def Allows_def gate_eval)
  then show ?thesis
    using reads_respect_permissions [of ?r demo_client demo_gate_env demo_gate demo_gate
        "json_reply 200 (B_cards [agent_card (demo_agent ''a'' [''b''])])" "[agent_card (demo_agent ''a'' [''b''])]"
        "agent_card (demo_agent ''a'' [''b''])"] by (simp add: json_reply_def)
qed

section \<open>Answered tasks are stored\<close>

text \<open>
  C28. Read your task: once \<open>POST /a2a/v1/tasks\<close> or \<open>POST /api/v1/invoke/{agent_id}\<close> has answered
  with a task, \<open>GET /a2a/v1/tasks/{task_id}\<close> returns the same response, to every client that may
  use the agent.
\<close>

theorem answered_task_can_be_read:
  assumes "ge_tasks G = \<lparr>ts_Save = Memory_Save, ts_Load = Memory_Load\<rparr>" and "store_ok (gw_store g)"
    and "(g', p) \<in> {DispatchTask G r g, InvokeAgent G r g}" and "rp_Body p = B_task resp"
    and "in_PathValue r' ''task_id'' = resp_TaskID resp" and "permitted r' (resp_AgentID resp)" and "g_ctx G g' = None"
  shows "GetTask G r' g' = (g', json_reply 200 (B_task resp))"
  using memory.answered_task_readable [OF assms(1,2) _ assms(4-7) refl] assms(3) by (metis empty_iff insert_iff)

lemma demo_save: "snd (Memory_Save None (Some r) [] (NewMemoryTaskStore 2)) = None" if "resp_TaskID r \<noteq> []"
  using that by (auto simp: Memory_Save_def NewMemoryTaskStore_def Let_def split: prod.splits)

theorem answered_task_can_be_read_witness:
  "\<exists>g' p. DispatchTask demo_gate_env demo_post demo_gate = (g', p) \<and>
     GetTask demo_gate_env ((demo_request ''GET'' [])\<lparr>in_PathValue := (\<lambda>_. ''t1'')\<rparr>) g' = (g', json_reply 200 (B_task demo_stored))"
proof -
  let ?r' = "(demo_request ''GET'' [])\<lparr>in_PathValue := (\<lambda>_. ''t1'')\<rparr>"
  obtain g' p where d: "DispatchTask demo_gate_env demo_post demo_gate = (g', p)" by fastforce
  have "resp_TaskID demo_stored \<noteq> []" by (simp add: demo_stored_def)
  then obtain s' where sv: "Memory_Save None (Some demo_stored) [] (NewMemoryTaskStore 2) = (s', None)"
    using demo_save by (metis prod.collapse)
  have c: "g_ctx demo_gate_env g = None" for g by (simp add: g_ctx_def ctx_of_def gate_eval)
  have "ge_tasks demo_gate_env = \<lparr>ts_Save = Memory_Save, ts_Load = Memory_Load\<rparr>" "gw_store demo_gate = NewMemoryTaskStore 2"
    by (simp_all add: demo_gate_env_def demo_gate_def)
  then have p: "p = json_reply 200 (B_task demo_stored)"
    using d sv c by (simp add: demo_DispatchTask persist_reply_def saveTask_def)
  have "GetTask demo_gate_env ?r' g' = (g', json_reply 200 (B_task demo_stored))"
    by (rule answered_task_can_be_read [of demo_gate_env demo_gate g' p demo_post demo_stored ?r'])
      (use d p c NewMemoryTaskStore_ok in \<open>simp_all add: json_reply_def permitted_def demo_stored_def demo_gate_env_def
         demo_gate_def demo_request_def\<close>)
  then show ?thesis using d by blast
qed

section \<open>Two deviations\<close>

text \<open>
  The card of an agent is not protected by the route: the middleware checks the agent of the
  query parameter, the handler serves the agent of the path. Here the client may use only
  agent \<open>a\<close>, and reads the card of agent \<open>b\<close>.
\<close>

lemma agent_card_unprotected:
  "let r = (demo_request ''GET'' [''a2a'', ''v1'', ''agents'', ''b''])\<lparr>in_Query := (\<lambda>n. if n = ''agent_id'' then ''a'' else [])\<rparr>;
       p = fst (snd (SetupRouter demo_gate_env r demo_gate))
   in rp_Status p = 200 \<and> rp_Body p = B_card (agent_card (demo_agent ''b'' [''c''])) \<and> \<not> Allows demo_client ''b''"
proof -
  let ?r = "(demo_request ''GET'' [''a2a'', ''v1'', ''agents'', ''b''])\<lparr>in_Query := (\<lambda>n. if n = ''agent_id'' then ''a'' else [])\<rparr>"
  have key: "extractAPIKey ascii_tables (?r\<lparr>in_RequestID := x\<rparr>) = ''k1''" for x
    by (simp add: extractAPIKey_def trim_space_def strip_def is_space_def demo_request_def)
  have agent: "extractAgentID (?r\<lparr>in_RequestID := x\<rparr>) = ''a''" for x by (simp add: extractAgentID_def)
  have public: "\<not> isPublicEndpoint (url_path (?r\<lparr>in_RequestID := x\<rparr>))" for x
    by (simp add: isPublicEndpoint_def url_path_def demo_request_def)
  have mux: "serve_mux demo_gate_env (?r\<lparr>in_RequestID := x, in_Credentials := Some demo_client\<rparr>) demo_gate =
      (demo_gate, json_reply 200 (B_card (agent_card (demo_agent ''b'' [''c'']))), ''GET /a2a/v1/agents/{id}'')" for x
    by (simp add: serve_mux_def routes_def method_ok_def Handle_GetAgent_def GetAgent_def config_agents_def gate_eval)
  have auth: "\<exists>q. AuthMiddleware ascii_tables (Some (cfg_Security demo_secured)) (serve_mux demo_gate_env) (?r\<lparr>in_RequestID := x\<rparr>) demo_gate =
      (demo_gate, json_reply 200 (B_card (agent_card (demo_agent ''b'' [''c'']))), q)" for x
    using mux [of x] key [of x] agent [of x] public [of x]
    by (auto simp: AuthMiddleware_def demo_secured_def demo_client_def Allows_def Let_def)
  obtain q where q: "AuthMiddleware ascii_tables (Some (cfg_Security demo_secured)) (serve_mux demo_gate_env)
      (?r\<lparr>in_RequestID := generateRequestID None 0\<rparr>) demo_gate = (demo_gate, json_reply 200 (B_card (agent_card (demo_agent ''b'' [''c'']))), q)"
    using auth by blast
  have id: "ge_entropy demo_gate_env demo_gate = (None, 0)" "in_Header (demo_request m path) ''X-Request-ID'' = []"
      "d_unicode (ge_disp demo_gate_env) = ascii_tables" "ge_cfg demo_gate_env = Some demo_secured" for m path
    by (simp_all add: demo_request_def demo_gate_env_def demo_online_def demo_dispatcher_def)
  show ?thesis
    by (simp add: SetupRouter_def RequestIDMiddleware_def MetricsMiddleware_def Let_def id q)
      (simp add: json_reply_def Allows_def demo_client_def)
qed

text \<open>
  With security enabled the router works on a copy of the request, so the metrics never see
  the pattern of the route: the label is the path as the client sent it.
\<close>

lemma secured_metric_path:
  assumes "sec_Enabled c" and "\<not> isPublicEndpoint (url_path r)" and "AuthMiddleware U (Some c) h r g = (g', p, pattern)"
  shows "pattern = [] \<and> metric_path r pattern = url_path r"
  using assms by (auto simp: AuthMiddleware_def metric_path_def Let_def split: if_splits option.splits prod.splits)

end
