(* ===== verification/Adapter_Base.thy ===== *)
theory Adapter_Base
  imports Dispatcher Redaction "HOL-Library.AList"
begin

text \<open>
  What the adapters of pkg/adapter share: the environment (JSON coding, the gjson package, the
  response body, the emitter, the context of the attempt and the clock), request headers
  with the credentials of an agent, and the reading of an event stream line by line. The
  type variable \<open>'r\<close> is the result type of gjson, \<open>'t\<close> the type of parsed templates.
\<close>

section \<open>Environment\<close>

record 'r gjson =
  gj_Get :: "string \<Rightarrow> string \<Rightarrow> 'r"
  gj_Valid :: "string \<Rightarrow> bool"
  gj_Parse :: "string \<Rightarrow> 'r"
  gr_Exists :: "'r \<Rightarrow> bool"
  gr_IsNull :: "'r \<Rightarrow> bool"          \<comment> \<open>\<open>Type == gjson.Null\<close>\<close>
  gr_String :: "'r \<Rightarrow> string"
  gr_Value :: "'r \<Rightarrow> json option"
  gr_Get :: "'r \<Rightarrow> string \<Rightarrow> 'r"
  gr_IsArray :: "'r \<Rightarrow> bool"
  gr_IsObject :: "'r \<Rightarrow> bool"
  gr_Array :: "'r \<Rightarrow> 'r list"

text \<open>The functions that body templates can call.\<close>

record template_funcs =
  tf_toJson :: "json option \<Rightarrow> string + string"
  tf_default :: "json option \<Rightarrow> json option \<Rightarrow> json option"
  tf_env :: "string \<Rightarrow> string"

type_synonym 't template_cache = "(string \<times> 't) list"

record ('w, 'r, 't) adapter_env =
  ae_gjson :: "'r gjson"
  ae_unicode :: unicode_tables
  ae_Marshal :: "json \<Rightarrow> string + bytes"
  ae_Unmarshal :: "bytes \<Rightarrow> json option"                       \<comment> \<open>None: an error\<close>
  ae_NewRequest :: "string \<Rightarrow> string \<Rightarrow> string option"         \<comment> \<open>the error of \<open>http.NewRequestWithContext\<close>\<close>
  ae_ReadAll :: "http_response \<Rightarrow> 'w \<Rightarrow> 'w \<times> bytes \<times> go_err option"
  ae_tick :: "'w \<Rightarrow> 'w"                                         \<comment> \<open>waiting for the next line of a stream\<close>
  ae_ctx :: "go_duration option \<Rightarrow> 'w \<Rightarrow> ctx_error option"     \<comment> \<open>the context of the attempt\<close>
  ae_now :: "'w \<Rightarrow> go_time"
  ae_emit :: "StreamEvent \<Rightarrow> 'w \<Rightarrow> 'w \<times> go_err option"
  ae_Getenv :: "string \<Rightarrow> string"
  ae_ParseTemplate :: "template_funcs \<Rightarrow> string \<Rightarrow> string + 't"
  ae_ExecuteTemplate :: "'t \<Rightarrow> TaskRequest \<Rightarrow> AgentConfig \<Rightarrow> string + bytes"
  ae_cache :: "'w \<Rightarrow> 't template_cache"
  ae_set_cache :: "'t template_cache \<Rightarrow> 'w \<Rightarrow> 'w"

section \<open>Values\<close>

text \<open>A nil value of type \<open>any\<close> is marshalled as null, and null is unmarshalled to nil.\<close>

definition json_of_any :: "json option \<Rightarrow> json" where
  "json_of_any v = (case v of None \<Rightarrow> JNull | Some j \<Rightarrow> j)"

definition any_of_json :: "json \<Rightarrow> json option" where
  "any_of_json v = (if v = JNull then None else Some v)"

text \<open>\<open>m[k].(string)\<close> with the guard that the string is not empty.\<close>

definition opt_string :: "string \<Rightarrow> (string \<times> json) list \<Rightarrow> string option" where
  "opt_string k m = (case map_of m k of Some (JStr s) \<Rightarrow> if s \<noteq> [] then Some s else None | _ \<Rightarrow> None)"

definition or_else :: "'a \<Rightarrow> 'a option \<Rightarrow> 'a" where
  "or_else d v = (case v of None \<Rightarrow> d | Some x \<Rightarrow> x)"

text \<open>\<open>payload[k] = v\<close> for the entries of a map whose key is not reserved.\<close>

definition add_options :: "string list \<Rightarrow> (string \<times> json) list \<Rightarrow> (string \<times> json) list \<Rightarrow> (string \<times> json) list" where
  "add_options reserved opts payload =
     fold (\<lambda>(k, v) p. if k \<notin> set reserved then AList.update k v p else p) opts payload"

fun status_string :: "TaskStatus \<Rightarrow> string" where
  "status_string StatusPending = ''PENDING''"
| "status_string StatusInProgress = ''IN_PROGRESS''"
| "status_string StatusCompleted = ''COMPLETED''"
| "status_string StatusFailed = ''FAILED''"
| "status_string StatusCanceled = ''CANCELED''"
| "status_string (OtherStatus s) = s"

section \<open>Requests\<close>

text \<open>
  \<open>textproto.CanonicalMIMEHeaderKey\<close>: the first letter and each letter after a hyphen in
  upper case, the others in lower case; a key with an invalid byte is left alone.
\<close>

definition upper_byte :: "char \<Rightarrow> char" where
  "upper_byte c = (if 97 \<le> byte c \<and> byte c \<le> 122 then char_of (byte c - 32) else c)"

definition lower_byte :: "char \<Rightarrow> char" where
  "lower_byte c = (if 65 \<le> byte c \<and> byte c \<le> 90 then char_of (byte c + 32) else c)"

fun canonical_bytes :: "bool \<Rightarrow> string \<Rightarrow> string" where
  "canonical_bytes up [] = []"
| "canonical_bytes up (c # s) = (if up then upper_byte c else lower_byte c) # canonical_bytes (c = CHR ''-'') s"

definition canonical_key :: "string \<Rightarrow> string" where
  "canonical_key k = (if list_all isValidHeaderFieldByte k then canonical_bytes True k else k)"

definition Header_Set :: "string \<Rightarrow> string \<Rightarrow> (string \<times> string) list \<Rightarrow> (string \<times> string) list" where
  "Header_Set k v h = AList.update (canonical_key k) v h"

definition Header_Get :: "string \<Rightarrow> (string \<times> string) list \<Rightarrow> string" where
  "Header_Get k h = or_else [] (map_of h (canonical_key k))"

definition applyOutboundAuth :: "AuthConfig \<Rightarrow> http_request \<Rightarrow> http_request" where
  "applyOutboundAuth auth req =
     (if auth_Type auth = ''bearer'' then
        (if auth_Token auth \<noteq> []
         then req\<lparr>q_Header := Header_Set ''Authorization'' (''Bearer '' @ auth_Token auth) (q_Header req)\<rparr> else req)
      else if auth_Type auth = ''header'' then
        (if auth_HeaderName auth \<noteq> [] \<and> auth_HeaderValue auth \<noteq> []
         then req\<lparr>q_Header := Header_Set (auth_HeaderName auth) (auth_HeaderValue auth) (q_Header req)\<rparr> else req)
      else req)"

text \<open>
  The end of \<open>TranslateRequest\<close> in the adapters that send JSON: the payload is marshalled and
  posted to the endpoint. The name of the adapter is part of an error text.
\<close>

definition post_json ::
  "('w, 'r, 't) adapter_env \<Rightarrow> string \<Rightarrow> AgentConfig \<Rightarrow> TaskRequest \<Rightarrow> (string \<times> json) list \<Rightarrow> go_err + http_request" where
  "post_json E name agent task payload =
     (case ae_Marshal E (JObj payload) of
        Inl e \<Rightarrow> Inl (Err_wrap (''failed to marshal '' @ name @ '' request payload'') (Err_text e))
      | Inr body \<Rightarrow>
          (case ae_NewRequest E ''POST'' (ag_Endpoint agent) of
             Some e \<Rightarrow> Inl (Err_wrap ''failed to create http request'' (Err_text e))
           | None \<Rightarrow>
               (let h = Header_Set ''Content-Type'' ''application/json'' [];
                    h' = (if tr_Stream task then Header_Set ''Accept'' ''text/event-stream'' h else h)
                in Inr (applyOutboundAuth (ag_Auth agent)
                     \<lparr>q_Method = ''POST'', q_URL = ag_Endpoint agent, q_Header = h', q_Body = body\<rparr>))))"

section \<open>Responses\<close>

definition status_text :: "int \<Rightarrow> bytes \<Rightarrow> string" where
  "status_text code body = ''upstream returned status '' @ show_int code @ '': '' @ body"

text \<open>
  The checks of \<open>TranslateResponse\<close> and the reading of the body; the continuation gets the
  body and a response with the agent, the time and the status COMPLETED.
\<close>

definition read_response ::
  "('w, 'r, 't) adapter_env \<Rightarrow> AgentConfig option \<Rightarrow> http_response option \<Rightarrow> 'w
     \<Rightarrow> (AgentConfig \<Rightarrow> http_response \<Rightarrow> bytes \<Rightarrow> TaskResponse \<Rightarrow> TaskResponse) \<Rightarrow> 'w \<times> (go_err + TaskResponse)" where
  "read_response E agent resp w f =
     (case agent of None \<Rightarrow> (w, Inl (Err_text ''agent must not be nil'')) | Some a \<Rightarrow>
      case resp of None \<Rightarrow> (w, Inl (Err_text ''response or response body is nil'')) | Some p \<Rightarrow>
      (let (w1, body, err) = ae_ReadAll E p w in
       case err of
         Some e \<Rightarrow> (w1, Inl (Err_wrap ''failed to read response body'' e))
       | None \<Rightarrow> (w1, Inr (f a p body
           \<lparr>resp_TaskID = [], resp_AgentID = ag_ID a, resp_Status = StatusCompleted, resp_Output = None,
            resp_Artifacts = [], resp_Error = None, resp_Timestamp = ae_now E w1\<rparr>))))"

text \<open>The string at the first path that exists, for the error of a failed call.\<close>

fun first_string :: "'r gjson \<Rightarrow> string \<Rightarrow> string list \<Rightarrow> string \<Rightarrow> string" where
  "first_string g body [] d = d"
| "first_string g body (p # ps) d =
     (if gr_Exists g (gj_Get g body p) then gr_String g (gj_Get g body p) else first_string g body ps d)"

definition failed_response :: "'r gjson \<Rightarrow> string list \<Rightarrow> int \<Rightarrow> bytes \<Rightarrow> TaskResponse \<Rightarrow> TaskResponse" where
  "failed_response g paths code body r =
     r\<lparr>resp_Status := StatusFailed, resp_Error := Some (first_string g body paths (status_text code body))\<rparr>"

text \<open>The value at the first path that exists, and otherwise the whole body.\<close>

definition whole_body :: "('w, 'r, 't) adapter_env \<Rightarrow> bytes \<Rightarrow> json option" where
  "whole_body E body = (case ae_Unmarshal E body of Some j \<Rightarrow> any_of_json j | None \<Rightarrow> Some (JStr body))"

fun first_value :: "'r gjson \<Rightarrow> string \<Rightarrow> string list \<Rightarrow> json option \<Rightarrow> json option" where
  "first_value g body [] d = d"
| "first_value g body (p # ps) d =
     (if gr_Exists g (gj_Get g body p) then gr_Value g (gj_Get g body p) else first_value g body ps d)"

section \<open>Streams\<close>

text \<open>
  \<open>bufio.Scanner\<close> with \<open>ScanLines\<close> and a buffer of at most 10 MiB: the lines of the body without
  their line ends; a line that fills the buffer ends the scan with an error. Data read
  before an error of the reader is still split into lines.
\<close>

definition max_token :: nat where "max_token = 10485760"

fun raw_lines :: "bytes \<Rightarrow> string \<Rightarrow> string list" where
  "raw_lines [] cur = (if cur = [] then [] else [cur])"
| "raw_lines (c # s) cur = (if c = CHR 0x0A then cur # raw_lines s [] else raw_lines s (cur @ [c]))"

definition drop_cr :: "string \<Rightarrow> string" where
  "drop_cr s = (if s \<noteq> [] \<and> last s = CHR 0x0D then butlast s else s)"

definition scan_lines :: "bytes \<Rightarrow> go_err option \<Rightarrow> string list \<times> go_err option" where
  "scan_lines body err =
     (let raw = raw_lines body [];
          good = takeWhile (\<lambda>l. length l < max_token) raw
      in (map drop_cr good,
          if length good < length raw then Some (Err_text ''bufio.Scanner: token too long'') else err))"

text \<open>What an adapter does with one line; a state is carried from line to line.\<close>

datatype line_action = Skip | Emit StreamEventType json | Stop | Fail string

definition error_event :: "AgentConfig \<Rightarrow> string \<Rightarrow> StreamEvent" where
  "error_event agent msg = \<lparr>ev_Type = EventTaskError, ev_Data = Some (JObj [(''error'', JStr msg), (''agent_id'', JStr (ag_ID agent))])\<rparr>"

fun scan_loop ::
  "('w, 'r, 't) adapter_env \<Rightarrow> go_duration option \<Rightarrow> ('s \<Rightarrow> string \<Rightarrow> 's \<times> line_action) \<Rightarrow> AgentConfig
     \<Rightarrow> string list \<Rightarrow> go_err option \<Rightarrow> 's \<Rightarrow> 'w \<Rightarrow> 'w \<times> StreamEvent list \<times> go_err option" where
  "scan_loop E d f agent [] scan_err s w =
     (case scan_err of
        Some e \<Rightarrow> (w, [], Some e)
      | None \<Rightarrow>
          (let ev = \<lparr>ev_Type = EventTaskCompleted, ev_Data = Some (JObj [(''status'', JStr (status_string StatusCompleted))])\<rparr>;
               (w1, e) = ae_emit E ev w in (w1, [ev], e)))"
| "scan_loop E d f agent (l # ls) scan_err s w =
     (let w1 = ae_tick E w in
      case ae_ctx E d w1 of Some c \<Rightarrow> (w1, [], Some (Err_ctx c)) | None \<Rightarrow>
      (let (s1, act) = f s (trim_space l) in
       case act of
         Skip \<Rightarrow> scan_loop E d f agent ls scan_err s1 w1
       | Stop \<Rightarrow> scan_loop E d f agent [] None s1 w1
       | Fail msg \<Rightarrow>
           (let ev = error_event agent msg; (w2, _) = ae_emit E ev w1
            in (w2, [ev], Some (Err_text (''upstream stream error: '' @ msg))))
       | Emit t data \<Rightarrow>
           (let ev = \<lparr>ev_Type = t, ev_Data = Some data\<rparr>; (w2, e) = ae_emit E ev w1 in
            case e of
              Some err \<Rightarrow> (w2, [ev], Some err)
            | None \<Rightarrow> (let (w3, evs, r) = scan_loop E d f agent ls scan_err s1 w2 in (w3, ev # evs, r)))))"

text \<open>\<open>TranslateStream\<close> around the loop over the lines.\<close>

definition translate_stream ::
  "('w, 'r, 't) adapter_env \<Rightarrow> ('s \<Rightarrow> string \<Rightarrow> 's \<times> line_action) \<Rightarrow> 's \<Rightarrow> go_duration option
     \<Rightarrow> AgentConfig option \<Rightarrow> http_response option \<Rightarrow> 'w \<Rightarrow> 'w \<times> StreamEvent list \<times> go_err option" where
  "translate_stream E f s d agent resp w =
     (case agent of None \<Rightarrow> (w, [], Some (Err_text ''agent must not be nil'')) | Some a \<Rightarrow>
      case resp of None \<Rightarrow> (w, [], Some (Err_text ''response or response body is nil'')) | Some p \<Rightarrow>
      if p_StatusCode p \<ge> 400 then
        (let (w1, body, _) = ae_ReadAll E p w; msg = status_text (p_StatusCode p) body;
             ev = error_event a msg; (w2, _) = ae_emit E ev w1
         in (w2, [ev], Some (Err_text msg)))
      else
        (let ev = \<lparr>ev_Type = EventTaskStarted, ev_Data = Some (JObj [(''agent_id'', JStr (ag_ID a))])\<rparr>;
             (w1, e) = ae_emit E ev w in
         case e of Some err \<Rightarrow> (w1, [ev], Some err) | None \<Rightarrow>
         (let (w2, body, rd) = ae_ReadAll E p w1; (ls, scan_err) = scan_lines body rd;
              (w3, evs, r) = scan_loop E d f a ls scan_err s w2
          in (w3, ev # evs, r))))"

text \<open>The payload of a line \<open>data: ...\<close>, and the text of an error inside it.\<close>

definition data_of :: "string \<Rightarrow> string option" where
  "data_of line = (if has_prefix line ''data:'' then Some (trim_space (trim_prefix line ''data:'')) else None)"

definition stream_error :: "'r gjson \<Rightarrow> 'r \<Rightarrow> string" where
  "stream_error g v =
     (let m = gr_Get g v ''message'';
          msg = (if gr_Exists g m \<and> gr_String g m \<noteq> [] then gr_String g m else gr_String g v)
      in if msg = [] then ''unknown stream error'' else msg)"

end
