(* ===== verification/Agent_Adapters.thy ===== *)
theory Agent_Adapters
  imports Adapter_Base
begin

text \<open>
  The adapters for OpenAI, LangGraph, CrewAI and AutoGen, pkg/adapter/openai.go, langgraph.go,
  crewai.go and autogen.go: the payload of a request, the reading of a response, and what
  each line of an event stream means. Nil agents, tasks and responses are \<open>None\<close>.
\<close>

definition on_task ::
  "AgentConfig option \<Rightarrow> TaskRequest option \<Rightarrow> (AgentConfig \<Rightarrow> TaskRequest \<Rightarrow> go_err + http_request) \<Rightarrow> go_err + http_request" where
  "on_task agent task f =
     (case (agent, task) of (Some a, Some t) \<Rightarrow> f a t | _ \<Rightarrow> Inl (Err_text ''agent and task must not be nil''))"

section \<open>OpenAI\<close>

definition user_message :: "json option \<Rightarrow> json" where
  "user_message v = JObj [(''role'', JStr ''user''), (''content'', json_of_any v)]"

definition openai_messages :: "json option \<Rightarrow> json list" where
  "openai_messages input =
     (case input of
        Some (JArr v) \<Rightarrow> v
      | Some (JObj m) \<Rightarrow> (case map_of m ''messages'' of Some (JArr v) \<Rightarrow> v | _ \<Rightarrow> [user_message input])
      | _ \<Rightarrow> [user_message input])"

definition openai_payload :: "AgentConfig \<Rightarrow> TaskRequest \<Rightarrow> (string \<times> json) list" where
  "openai_payload agent task =
     (let modelName = or_else ''gpt-4o'' (opt_string ''model'' (ag_Options agent));
          system1 = or_else [] (opt_string ''system_prompt'' (ag_Options agent));
          systemPrompt = or_else system1 (opt_string ''system'' (tr_Context task));
          messages = (if systemPrompt \<noteq> [] then [JObj [(''role'', JStr ''system''), (''content'', JStr systemPrompt)]] else [])
            @ openai_messages (tr_Input task);
          payload = [(''model'', JStr modelName), (''messages'', JArr messages)]
            @ (if tr_Stream task then [(''stream'', JBool True)] else [])
      in add_options [''model'', ''system_prompt'', ''messages'', ''stream''] (ag_Options agent) payload)"

definition OpenAI_TranslateRequest ::
  "('w, 'r, 't) adapter_env \<Rightarrow> AgentConfig option \<Rightarrow> TaskRequest option \<Rightarrow> go_err + http_request" where
  "OpenAI_TranslateRequest E agent task =
     on_task agent task (\<lambda>a t. post_json E ''openai'' a t (openai_payload a t))"

definition openai_output :: "('w, 'r, 't) adapter_env \<Rightarrow> bytes \<Rightarrow> json option" where
  "openai_output E body =
     (let g = ae_gjson E;
          val = gj_Get g body ''choices.0.message.content'';
          toolCalls = gj_Get g body ''choices.0.message.tool_calls'';
          txt = gj_Get g body ''choices.0.text''
      in if gr_Exists g val \<and> \<not> gr_IsNull g val \<and> gr_String g val \<noteq> [] then Some (JStr (gr_String g val))
         else if gr_Exists g toolCalls \<and> \<not> gr_IsNull g toolCalls then gr_Value g toolCalls
         else if gr_Exists g txt \<and> \<not> gr_IsNull g txt \<and> gr_String g txt \<noteq> [] then Some (JStr (gr_String g txt))
         else whole_body E body)"

definition OpenAI_TranslateResponse ::
  "('w, 'r, 't) adapter_env \<Rightarrow> AgentConfig option \<Rightarrow> http_response option \<Rightarrow> 'w \<Rightarrow> 'w \<times> (go_err + TaskResponse)" where
  "OpenAI_TranslateResponse E agent resp w = read_response E agent resp w (\<lambda>a p body r.
     if p_StatusCode p \<ge> 400 then failed_response (ae_gjson E) [''error.message'', ''message''] (p_StatusCode p) body r
     else r\<lparr>resp_Output := openai_output E body\<rparr>)"

definition openai_line :: "'r gjson \<Rightarrow> unit \<Rightarrow> string \<Rightarrow> unit \<times> line_action" where
  "openai_line g s line =
     (s, case data_of line of None \<Rightarrow> Skip | Some data \<Rightarrow>
       if data = ''[DONE]'' then Stop
       else if gr_Exists g (gj_Get g data ''error'') then Fail (stream_error g (gj_Get g data ''error''))
       else
         let delta = gj_Get g data ''choices.0.delta.content'' in
         if gr_Exists g delta \<and> gr_String g delta \<noteq> []
         then Emit EventTokenDelta (JObj [(''delta'', JStr (gr_String g delta))]) else Skip)"

definition OpenAI_TranslateStream ::
  "('w, 'r, 't) adapter_env \<Rightarrow> go_duration option \<Rightarrow> AgentConfig option \<Rightarrow> http_response option \<Rightarrow> 'w
     \<Rightarrow> 'w \<times> StreamEvent list \<times> go_err option" where
  "OpenAI_TranslateStream E = translate_stream E (openai_line (ae_gjson E)) ()"

section \<open>LangGraph\<close>

text \<open>The two maps that the loop over the option \<open>config\<close> fills.\<close>

definition merge_config ::
  "string \<Rightarrow> (string \<times> json) list \<Rightarrow> (string \<times> json) list \<times> (string \<times> json) list
     \<Rightarrow> (string \<times> json) list \<times> (string \<times> json) list" where
  "merge_config threadID optCfg st =
     fold (\<lambda>(k, v) (configurable, configMap).
       case (k = ''configurable'', v) of
         (True, JObj optConf) \<Rightarrow>
           (fold (\<lambda>(ck, cv) c. if ck = ''thread_id'' \<and> threadID \<noteq> [] then c else AList.update ck cv c) optConf configurable,
            configMap)
       | _ \<Rightarrow> (configurable, AList.update k v configMap)) optCfg st"

text \<open>
  \<open>configMap\<close> refers to the map \<open>configurable\<close>, so its entry has the final contents, unless the
  option replaces it by a value that is not an object.
\<close>

definition langgraph_payload :: "AgentConfig \<Rightarrow> TaskRequest \<Rightarrow> (string \<times> json) list" where
  "langgraph_payload agent task =
     (let threadID = or_else (tr_ID task) (opt_string ''thread_id'' (tr_Context task));
          conf0 = (if threadID \<noteq> [] then [(''thread_id'', JStr threadID)] else []);
          opts = ag_Options agent;
          (conf, cfg) = (case map_of opts ''config'' of
             Some (JObj optCfg) \<Rightarrow> merge_config threadID optCfg (conf0, [])
           | _ \<Rightarrow> (conf0, []));
          configMap = (if map_of cfg ''configurable'' = None then (''configurable'', JObj conf) # cfg else cfg)
      in [(''input'', json_of_any (tr_Input task)), (''config'', JObj configMap)]
         @ (case map_of opts ''assistant_id'' of Some v \<Rightarrow> [(''assistant_id'', v)] | None \<Rightarrow> [])
         @ (case map_of opts ''stream_mode'' of Some v \<Rightarrow> [(''stream_mode'', v)] | None \<Rightarrow> []))"

definition LangGraph_TranslateRequest ::
  "('w, 'r, 't) adapter_env \<Rightarrow> AgentConfig option \<Rightarrow> TaskRequest option \<Rightarrow> go_err + http_request" where
  "LangGraph_TranslateRequest E agent task =
     on_task agent task (\<lambda>a t. post_json E ''langgraph'' a t (langgraph_payload a t))"

definition LangGraph_TranslateResponse ::
  "('w, 'r, 't) adapter_env \<Rightarrow> AgentConfig option \<Rightarrow> http_response option \<Rightarrow> 'w \<Rightarrow> 'w \<times> (go_err + TaskResponse)" where
  "LangGraph_TranslateResponse E agent resp w = read_response E agent resp w (\<lambda>a p body r.
     if p_StatusCode p \<ge> 400 then failed_response (ae_gjson E) [''detail'', ''error'', ''message''] (p_StatusCode p) body r
     else r\<lparr>resp_Output := first_value (ae_gjson E) body [''output'', ''values''] (whole_body E body)\<rparr>)"

text \<open>The state is \<open>currentEvent\<close>.\<close>

definition parsed_or_text :: "'r gjson \<Rightarrow> string \<Rightarrow> json" where
  "parsed_or_text g data = (if gj_Valid g data then json_of_any (gr_Value g (gj_Parse g data)) else JStr data)"

definition langgraph_data :: "'r gjson \<Rightarrow> string \<Rightarrow> string \<Rightarrow> line_action" where
  "langgraph_data g event data =
     (if data = ''[DONE]'' \<or> event = ''end'' then Stop
      else if event = ''error'' then
        (let msg = (if gj_Valid g data then first_string g data [''message'', ''error''] data else data)
         in Fail (if msg = [] then ''unknown stream error'' else msg))
      else if event \<in> {''messages'', ''message'', ''token''} then
        Emit EventTokenDelta (JObj [(''delta'',
          if gj_Valid g data
          then json_of_any (first_value g data [''0.content'', ''content''] (gr_Value g (gj_Parse g data)))
          else JStr data)])
      else if event \<in> {''values'', ''updates'', ''steps'', ''step''} then
        Emit EventStepProgress (JObj [(''step'', JStr event), (''data'', parsed_or_text g data)])
      else if gj_Valid g data \<and> gr_Exists g (gj_Get g data ''delta'') then
        Emit EventTokenDelta (JObj [(''delta'', json_of_any (gr_Value g (gj_Get g data ''delta'')))])
      else Emit EventStepProgress (JObj [(''step'', JStr ''progress''), (''data'', parsed_or_text g data)]))"

definition langgraph_line :: "'r gjson \<Rightarrow> string \<Rightarrow> string \<Rightarrow> string \<times> line_action" where
  "langgraph_line g event line =
     (if line = [] then ([], Skip)
      else if has_prefix line ''event:'' then (trim_space (trim_prefix line ''event:''), Skip)
      else (event, case data_of line of None \<Rightarrow> Skip | Some data \<Rightarrow> langgraph_data g event data))"

definition LangGraph_TranslateStream ::
  "('w, 'r, 't) adapter_env \<Rightarrow> go_duration option \<Rightarrow> AgentConfig option \<Rightarrow> http_response option \<Rightarrow> 'w
     \<Rightarrow> 'w \<times> StreamEvent list \<times> go_err option" where
  "LangGraph_TranslateStream E = translate_stream E (langgraph_line (ae_gjson E)) []"

section \<open>CrewAI\<close>

definition crewai_payload :: "AgentConfig \<Rightarrow> TaskRequest \<Rightarrow> (string \<times> json) list" where
  "crewai_payload agent task =
     (let inputs = (case tr_Input task of Some (JObj m) \<Rightarrow> JObj m | v \<Rightarrow> JObj [(''input'', json_of_any v)])
      in add_options [''inputs''] (ag_Options agent) [(''inputs'', inputs)])"

definition CrewAI_TranslateRequest ::
  "('w, 'r, 't) adapter_env \<Rightarrow> AgentConfig option \<Rightarrow> TaskRequest option \<Rightarrow> go_err + http_request" where
  "CrewAI_TranslateRequest E agent task =
     on_task agent task (\<lambda>a t. post_json E ''crewai'' a t (crewai_payload a t))"

text \<open>The status in the body of a response that is not an HTTP error.\<close>

definition crewai_status :: "('w, 'r, 't) adapter_env \<Rightarrow> bytes \<Rightarrow> TaskResponse \<Rightarrow> TaskResponse" where
  "crewai_status E body r =
     (let g = ae_gjson E; st = gj_Get g body ''status''; s = to_lower (ae_unicode E) (gr_String g st) in
      if gr_Exists g st \<and> (s = ''failed'' \<or> s = ''error'')
      then r\<lparr>resp_Status := StatusFailed,
             resp_Error := (if resp_Error r = None
               then Some (first_string g body [''error.message'', ''error'', ''message''] (''crewai execution status: '' @ s))
               else resp_Error r)\<rparr>
      else r)"

definition CrewAI_TranslateResponse ::
  "('w, 'r, 't) adapter_env \<Rightarrow> AgentConfig option \<Rightarrow> http_response option \<Rightarrow> 'w \<Rightarrow> 'w \<times> (go_err + TaskResponse)" where
  "CrewAI_TranslateResponse E agent resp w = read_response E agent resp w (\<lambda>a p body r.
     if p_StatusCode p \<ge> 400 then failed_response (ae_gjson E) [''error'', ''message''] (p_StatusCode p) body r
     else crewai_status E body
       (r\<lparr>resp_Output := first_value (ae_gjson E) body [''result'', ''raw'', ''output'', ''tasks_output''] (whole_body E body)\<rparr>))"

definition crewai_line :: "'r gjson \<Rightarrow> unit \<Rightarrow> string \<Rightarrow> unit \<times> line_action" where
  "crewai_line g s line =
     (s, case data_of line of None \<Rightarrow> Skip | Some data \<Rightarrow>
       let has = (\<lambda>p. gr_Exists g (gj_Get g data p));
           delta = (\<lambda>v. Emit EventTokenDelta (JObj [(''delta'', json_of_any v)])) in
       if data = ''[DONE]'' then Stop
       else if gj_Valid g data then
         (if has ''error'' then Fail (stream_error g (gj_Get g data ''error''))
          else if has ''thought'' \<or> has ''action'' \<or> has ''step'' then
            Emit EventStepProgress (JObj [(''step'', JStr (if has ''thought'' then ''thought'' else if has ''action'' then ''action'' else ''step'')),
              (''data'', json_of_any (gr_Value g (gj_Parse g data)))])
          else delta (first_value g data [''delta'', ''output''] (gr_Value g (gj_Parse g data))))
       else delta (Some (JStr data)))"

definition CrewAI_TranslateStream ::
  "('w, 'r, 't) adapter_env \<Rightarrow> go_duration option \<Rightarrow> AgentConfig option \<Rightarrow> http_response option \<Rightarrow> 'w
     \<Rightarrow> 'w \<times> StreamEvent list \<times> go_err option" where
  "CrewAI_TranslateStream E = translate_stream E (crewai_line (ae_gjson E)) ()"

section \<open>AutoGen\<close>

definition autogen_payload :: "AgentConfig \<Rightarrow> TaskRequest \<Rightarrow> (string \<times> json) list" where
  "autogen_payload agent task =
     (let opts = ag_Options agent; ctx = tr_Context task;
          sender = or_else (or_else ''user'' (opt_string ''sender'' opts)) (opt_string ''sender'' ctx);
          name = (if ag_ID agent = [] then ag_Name agent else ag_ID agent);
          recipient = or_else (or_else name (opt_string ''recipient'' opts)) (opt_string ''recipient'' ctx)
      in add_options [''sender'', ''recipient'', ''message''] opts
           [(''sender'', JStr sender), (''recipient'', JStr recipient), (''message'', json_of_any (tr_Input task))])"

definition AutoGen_TranslateRequest ::
  "('w, 'r, 't) adapter_env \<Rightarrow> AgentConfig option \<Rightarrow> TaskRequest option \<Rightarrow> go_err + http_request" where
  "AutoGen_TranslateRequest E agent task =
     on_task agent task (\<lambda>a t. post_json E ''autogen'' a t (autogen_payload a t))"

text \<open>The last message of the chat history, when there is one.\<close>

definition autogen_history :: "('w, 'r, 't) adapter_env \<Rightarrow> bytes \<Rightarrow> json option" where
  "autogen_history E body =
     (let g = ae_gjson E; hist = gj_Get g body ''chat_history''; arr = gr_Array g hist in
      if gr_Exists g hist \<and> gr_IsArray g hist \<and> arr \<noteq> []
      then (let content = gr_Get g (last arr) ''content''
            in if gr_Exists g content then gr_Value g content else gr_Value g (last arr))
      else whole_body E body)"

definition AutoGen_TranslateResponse ::
  "('w, 'r, 't) adapter_env \<Rightarrow> AgentConfig option \<Rightarrow> http_response option \<Rightarrow> 'w \<Rightarrow> 'w \<times> (go_err + TaskResponse)" where
  "AutoGen_TranslateResponse E agent resp w = read_response E agent resp w (\<lambda>a p body r.
     if p_StatusCode p \<ge> 400 then failed_response (ae_gjson E) [''error'', ''message''] (p_StatusCode p) body r
     else r\<lparr>resp_Output := first_value (ae_gjson E) body [''reply'', ''response'', ''summary'', ''message''] (autogen_history E body)\<rparr>)"

definition autogen_line :: "'r gjson \<Rightarrow> unit \<Rightarrow> string \<Rightarrow> unit \<times> line_action" where
  "autogen_line g s line =
     (s, case data_of line of None \<Rightarrow> Skip | Some data \<Rightarrow>
       let has = (\<lambda>p. gr_Exists g (gj_Get g data p));
           delta = (\<lambda>v. Emit EventTokenDelta (JObj [(''delta'', json_of_any v)])) in
       if data = ''[DONE]'' then Stop
       else if gj_Valid g data then
         (if has ''error'' then Fail (stream_error g (gj_Get g data ''error''))
          else if has ''step'' then
            Emit EventStepProgress (JObj [(''step'', JStr ''step''), (''data'', json_of_any (gr_Value g (gj_Parse g data)))])
          else delta (first_value g data [''delta'', ''content'', ''message''] (gr_Value g (gj_Parse g data))))
       else delta (Some (JStr data)))"

definition AutoGen_TranslateStream ::
  "('w, 'r, 't) adapter_env \<Rightarrow> go_duration option \<Rightarrow> AgentConfig option \<Rightarrow> http_response option \<Rightarrow> 'w
     \<Rightarrow> 'w \<times> StreamEvent list \<times> go_err option" where
  "AutoGen_TranslateStream E = translate_stream E (autogen_line (ae_gjson E)) ()"

end
