(* ===== verification/Custom_Adapter.thy ===== *)
theory Custom_Adapter
  imports Agent_Adapters
begin

text \<open>
  The configurable adapter, pkg/adapter/custom.go: JSON paths in the notation of the
  configuration are normalised for gjson, request bodies come from templates, which are
  cached, and the parts of a response are found at configured paths. At the end, the
  adapters as records of their methods, and the registry of cmd/proxy/main.go.
\<close>

section \<open>Paths\<close>

definition is_quote :: "char \<Rightarrow> bool" where
  "is_quote c \<longleftrightarrow> c = CHR 0x27 \<or> c = CHR 0x22"

definition is_digit :: "char \<Rightarrow> bool" where
  "is_digit c \<longleftrightarrow> 48 \<le> byte c \<and> byte c \<le> 57"

text \<open>
  A match of \<open>jsonPathPropRegex\<close> at the beginning of a string: the property between the
  quotes. The run of bytes that are not quotes is maximal, so there is at most one match.
\<close>

definition match_prop :: "string \<Rightarrow> string option" where
  "match_prop s =
     (let name = takeWhile (\<lambda>c. \<not> is_quote c) (drop 2 s); rest = dropWhile (\<lambda>c. \<not> is_quote c) (drop 2 s) in
      if 2 \<le> length s \<and> s ! 0 = CHR ''['' \<and> is_quote (s ! 1) \<and> name \<noteq> [] \<and> 2 \<le> length rest \<and> rest ! 1 = CHR '']''
      then Some name else None)"

text \<open>The same for \<open>jsonPathIndexRegex\<close>.\<close>

definition match_index :: "string \<Rightarrow> string option" where
  "match_index s =
     (let num = takeWhile is_digit (drop 1 s); rest = dropWhile is_digit (drop 1 s) in
      if s \<noteq> [] \<and> s ! 0 = CHR ''['' \<and> num \<noteq> [] \<and> rest \<noteq> [] \<and> rest ! 0 = CHR '']''
      then Some num else None)"

text \<open>
  \<open>ReplaceAllString(p, ".$1")\<close>: leftmost matches, from left to right. A match is longer than
  its group by the brackets and quotes, \<open>k + 1\<close> bytes.
\<close>

fun replace_matches :: "(string \<Rightarrow> string option) \<Rightarrow> nat \<Rightarrow> string \<Rightarrow> string" where
  "replace_matches m k [] = []"
| "replace_matches m k (c # s) =
     (case m (c # s) of
        Some g \<Rightarrow> ''.'' @ g @ replace_matches m k (drop (length g + k) s)
      | None \<Rightarrow> c # replace_matches m k s)"

text \<open>The loop that replaces two dots by one until there are none; each round shortens the path.\<close>

lemma length_replace_dots:
  "length (replace_all ''..'' ''.'' s) \<le> length s \<and>
   (contains s ''..'' \<longrightarrow> length (replace_all ''..'' ''.'' s) < length s)"
proof (induction "''..''" "''.''" s rule: replace_all.induct)
  case (2 c s)
  then show ?case
    using length_drop [of 1 s] by (cases s) (auto simp: has_prefix_def)
qed simp

function collapse_dots :: "string \<Rightarrow> string" where
  "collapse_dots p = (if contains p ''..'' then collapse_dots (replace_all ''..'' ''.'' p) else p)"
  by pat_completeness auto
termination
  by (relation "measure length") (use length_replace_dots in auto)

declare collapse_dots.simps [simp del]

definition normalizeJSONPath :: "string \<Rightarrow> string" where
  "normalizeJSONPath p =
     (let p0 = trim_space p in
      if p0 = [] then []
      else
        let p1 = trim_prefix (trim_prefix p0 ''$.'') ''$'';
            p2 = replace_matches match_prop 3 p1;
            p3 = replace_matches match_index 1 p2
        in trim_prefix (collapse_dots p3) ''.'')"

section \<open>Templates\<close>

definition template_default :: "json option \<Rightarrow> json option \<Rightarrow> json option" where
  "template_default def val = (case val of None \<Rightarrow> def | Some (JStr s) \<Rightarrow> if s = [] then def else val | _ \<Rightarrow> val)"

definition templateFuncs :: "('w, 'r, 't) adapter_env \<Rightarrow> template_funcs" where
  "templateFuncs E = \<lparr>tf_toJson = (\<lambda>v. ae_Marshal E (json_of_any v)), tf_default = template_default, tf_env = ae_Getenv E\<rparr>"

text \<open>The cache is part of the world; the adapter keeps it from call to call.\<close>

definition getTemplate :: "('w, 'r, 't) adapter_env \<Rightarrow> string \<Rightarrow> 'w \<Rightarrow> 'w \<times> (string + 't)" where
  "getTemplate E body w =
     (case map_of (ae_cache E w) body of
        Some t \<Rightarrow> (w, Inr t)
      | None \<Rightarrow>
          (case ae_ParseTemplate E (templateFuncs E) body of
             Inl e \<Rightarrow> (w, Inl e)
           | Inr t \<Rightarrow> (ae_set_cache E ((body, t) # ae_cache E w) w, Inr t)))"

section \<open>The adapter\<close>

text \<open>The body of a request: None when the template is blank.\<close>

definition custom_body ::
  "('w, 'r, 't) adapter_env \<Rightarrow> AgentConfig \<Rightarrow> TaskRequest \<Rightarrow> string \<Rightarrow> 'w \<Rightarrow> 'w \<times> (go_err + bytes)" where
  "custom_body E a t body w =
     (if trim_space body = [] then (w, Inr [])
      else
        let (w1, tmpl) = getTemplate E body w in
        case tmpl of
          Inl e \<Rightarrow> (w1, Inl (Err_wrap ''failed to parse body template'' (Err_text e)))
        | Inr x \<Rightarrow>
            (w1, case ae_ExecuteTemplate E x t a of
               Inl e \<Rightarrow> Inl (Err_wrap ''failed to execute body template'' (Err_text e))
             | Inr b \<Rightarrow> Inr b))"

definition Custom_TranslateRequest ::
  "('w, 'r, 't) adapter_env \<Rightarrow> AgentConfig option \<Rightarrow> TaskRequest option \<Rightarrow> 'w \<Rightarrow> 'w \<times> (go_err + http_request)" where
  "Custom_TranslateRequest E agent task w =
     (case (agent, task) of
        (Some a, Some t) \<Rightarrow>
          (case ag_Mapping a of
             None \<Rightarrow> (w, Inl (Err_text (''custom agent '' @ ag_ID a @ '' missing mapping config'')))
           | Some m \<Rightarrow>
               (let req = cm_Request m;
                    meth = (if rt_Method req = [] then ''POST'' else rt_Method req);
                    (w1, b) = custom_body E a t (rt_BodyTemplate req) w in
                case b of Inl e \<Rightarrow> (w1, Inl e) | Inr body \<Rightarrow>
                (case ae_NewRequest E meth (ag_Endpoint a) of
                   Some e \<Rightarrow> (w1, Inl (Err_wrap ''failed to create http request'' (Err_text e)))
                 | None \<Rightarrow>
                     (let h = fold (\<lambda>(k, v) h. Header_Set k v h) (rt_Headers req) [];
                          h' = (if tr_Stream t then Header_Set ''Accept'' ''text/event-stream'' h else h)
                      in (w1, Inr (applyOutboundAuth (ag_Auth a)
                           \<lparr>q_Method = meth, q_URL = ag_Endpoint a, q_Header = h', q_Body = body\<rparr>))))))
      | _ \<Rightarrow> (w, Inl (Err_text ''agent and task must not be nil'')))"

definition path_get :: "'r gjson \<Rightarrow> bytes \<Rightarrow> string \<Rightarrow> 'r" where
  "path_get g body path = gj_Get g body (normalizeJSONPath path)"

definition custom_status :: "string \<Rightarrow> TaskStatus \<Rightarrow> TaskStatus" where
  "custom_status s old =
     (if s \<in> {''error'', ''failed''} then StatusFailed
      else if s \<in> {''canceled'', ''cancelled''} then StatusCanceled
      else if s \<in> {''in_progress'', ''running''} then StatusInProgress
      else if s = ''pending'' then StatusPending
      else if s \<in> {''success'', ''completed'', ''done''} then StatusCompleted
      else old)"

definition custom_artifact :: "'r gjson \<Rightarrow> 'r \<Rightarrow> Artifact" where
  "custom_artifact g item = \<lparr>art_Name = gr_String g (gr_Get g item ''name''), art_MimeType = gr_String g (gr_Get g item ''mime_type''),
     art_URI = gr_String g (gr_Get g item ''uri''), art_Data = gr_Value g (gr_Get g item ''data'')\<rparr>"

text \<open>A response with status below 400: output, status, error and artifacts, in this order.\<close>

definition custom_output :: "'r gjson \<Rightarrow> string \<Rightarrow> bytes \<Rightarrow> TaskResponse \<Rightarrow> TaskResponse" where
  "custom_output g path body r =
     (if path \<noteq> [] then
        (let v = path_get g body path in if gr_Exists g v then r\<lparr>resp_Output := gr_Value g v\<rparr> else r)
      else r\<lparr>resp_Output := Some (JStr body)\<rparr>)"

definition custom_set_status :: "unicode_tables \<Rightarrow> 'r gjson \<Rightarrow> string \<Rightarrow> bytes \<Rightarrow> TaskResponse \<Rightarrow> TaskResponse" where
  "custom_set_status U g path body r =
     (let v = path_get g body path in
      if path \<noteq> [] \<and> gr_Exists g v then r\<lparr>resp_Status := custom_status (to_lower U (gr_String g v)) (resp_Status r)\<rparr> else r)"

definition custom_set_error :: "'r gjson \<Rightarrow> string \<Rightarrow> bytes \<Rightarrow> TaskResponse \<Rightarrow> TaskResponse" where
  "custom_set_error g path body r =
     (if resp_Status r = StatusFailed \<and> path \<noteq> [] \<and> resp_Error r = None then
        (let v = path_get g body path in if gr_Exists g v then r\<lparr>resp_Error := Some (gr_String g v)\<rparr> else r)
      else r)"

definition custom_set_artifacts :: "'r gjson \<Rightarrow> string \<Rightarrow> bytes \<Rightarrow> TaskResponse \<Rightarrow> TaskResponse" where
  "custom_set_artifacts g path body r =
     (let v = path_get g body path in
      if path \<noteq> [] \<and> gr_Exists g v \<and> gr_IsArray g v
      then r\<lparr>resp_Artifacts := map (custom_artifact g) (filter (gr_IsObject g) (gr_Array g v))\<rparr> else r)"

definition custom_success :: "('w, 'r, 't) adapter_env \<Rightarrow> ResponseMapping \<Rightarrow> bytes \<Rightarrow> TaskResponse \<Rightarrow> TaskResponse" where
  "custom_success E m body r =
     (let g = ae_gjson E;
          r1 = custom_output g (rm_OutputPath m) body r;
          r2 = custom_set_status (ae_unicode E) g (rm_StatusPath m) body r1;
          r3 = custom_set_error g (rm_ErrorPath m) body r2
      in custom_set_artifacts g (rm_ArtifactsPath m) body r3)"

definition Custom_TranslateResponse ::
  "('w, 'r, 't) adapter_env \<Rightarrow> AgentConfig option \<Rightarrow> http_response option \<Rightarrow> 'w \<Rightarrow> 'w \<times> (go_err + TaskResponse)" where
  "Custom_TranslateResponse E agent resp w =
     (case (agent, resp) of
        (Some a, Some p) \<Rightarrow>
          (case ag_Mapping a of
             None \<Rightarrow> (w, Inl (Err_text (''custom agent '' @ ag_ID a @ '' missing mapping config'')))
           | Some m \<Rightarrow> read_response E agent resp w (\<lambda>a p body r.
               if p_StatusCode p \<ge> 400 then
                 failed_response (ae_gjson E)
                   (if rm_ErrorPath (cm_Response m) \<noteq> [] then [normalizeJSONPath (rm_ErrorPath (cm_Response m))] else [])
                   (p_StatusCode p) body r
               else custom_success E (cm_Response m) body r))
      | _ \<Rightarrow> read_response E agent resp w (\<lambda>a p body r. r))"

definition custom_line :: "'r gjson \<Rightarrow> StreamMapping \<Rightarrow> unit \<Rightarrow> string \<Rightarrow> unit \<times> line_action" where
  "custom_line g m s line =
     (s, case data_of line of None \<Rightarrow> Skip | Some data \<Rightarrow>
       if sm_DoneSentinel m \<noteq> [] \<and> data = sm_DoneSentinel m then Stop
       else
         let v = path_get g data (sm_DataPath m) in
         Emit EventTokenDelta (JObj [(''delta'',
           if sm_DataPath m \<noteq> [] \<and> gr_Exists g v then json_of_any (gr_Value g v) else JStr data)]))"

definition Custom_TranslateStream ::
  "('w, 'r, 't) adapter_env \<Rightarrow> go_duration option \<Rightarrow> AgentConfig option \<Rightarrow> http_response option \<Rightarrow> 'w
     \<Rightarrow> 'w \<times> StreamEvent list \<times> go_err option" where
  "Custom_TranslateStream E d agent resp w =
     translate_stream E (custom_line (ae_gjson E) (case Option.bind agent ag_Mapping of
        Some m \<Rightarrow> cm_Stream m | None \<Rightarrow> \<lparr>sm_DataPath = [], sm_DoneSentinel = []\<rparr>)) () d agent resp w"

section \<open>The registry\<close>

definition stateless_adapter ::
  "string \<Rightarrow> (AgentConfig option \<Rightarrow> TaskRequest option \<Rightarrow> go_err + http_request)
     \<Rightarrow> (AgentConfig option \<Rightarrow> http_response option \<Rightarrow> 'w \<Rightarrow> 'w \<times> (go_err + TaskResponse))
     \<Rightarrow> (go_duration option \<Rightarrow> AgentConfig option \<Rightarrow> http_response option \<Rightarrow> 'w \<Rightarrow> 'w \<times> StreamEvent list \<times> go_err option)
     \<Rightarrow> 'w Adapter" where
  "stateless_adapter ty req resp str = \<lparr>ad_Type = ty,
     ad_TranslateRequest = (\<lambda>d a t w. (w, req (Some a) (Some t))),
     ad_TranslateResponse = (\<lambda>d a p w. resp (Some a) (Some p) w),
     ad_TranslateStream = (\<lambda>d a p w. str d (Some a) (Some p) w)\<rparr>"

definition OpenAIAdapter :: "('w, 'r, 't) adapter_env \<Rightarrow> 'w Adapter" where
  "OpenAIAdapter E = stateless_adapter ''openai'' (OpenAI_TranslateRequest E) (OpenAI_TranslateResponse E) (OpenAI_TranslateStream E)"

definition LangGraphAdapter :: "('w, 'r, 't) adapter_env \<Rightarrow> 'w Adapter" where
  "LangGraphAdapter E = stateless_adapter ''langgraph'' (LangGraph_TranslateRequest E) (LangGraph_TranslateResponse E) (LangGraph_TranslateStream E)"

definition CrewAIAdapter :: "('w, 'r, 't) adapter_env \<Rightarrow> 'w Adapter" where
  "CrewAIAdapter E = stateless_adapter ''crewai'' (CrewAI_TranslateRequest E) (CrewAI_TranslateResponse E) (CrewAI_TranslateStream E)"

definition AutoGenAdapter :: "('w, 'r, 't) adapter_env \<Rightarrow> 'w Adapter" where
  "AutoGenAdapter E = stateless_adapter ''autogen'' (AutoGen_TranslateRequest E) (AutoGen_TranslateResponse E) (AutoGen_TranslateStream E)"

definition CustomAdapter :: "('w, 'r, 't) adapter_env \<Rightarrow> 'w Adapter" where
  "CustomAdapter E = \<lparr>ad_Type = ''custom'',
     ad_TranslateRequest = (\<lambda>d a t w. Custom_TranslateRequest E (Some a) (Some t) w),
     ad_TranslateResponse = (\<lambda>d a p w. Custom_TranslateResponse E (Some a) (Some p) w),
     ad_TranslateStream = (\<lambda>d a p w. Custom_TranslateStream E d (Some a) (Some p) w)\<rparr>"

definition gateway_adapters :: "('w, 'r, 't) adapter_env \<Rightarrow> 'w adapters" where
  "gateway_adapters E = fold Adapter_Register
     [CustomAdapter E, LangGraphAdapter E, CrewAIAdapter E, AutoGenAdapter E, OpenAIAdapter E] []"

end
