(* ===== verification/Adapter_Facts.thy ===== *)
theory Adapter_Facts
  imports Custom_Adapter Dispatcher_Facts
begin

text \<open>
  The contract of the adapters: the order of the events of a stream, proved once for every
  meaning of a line (locale \<open>stream_reader\<close>) and interpreted for the five adapters, and what a
  streaming dispatch over such adapters emits.
\<close>

section \<open>The events of one stream\<close>

definition progress_event :: "StreamEvent \<Rightarrow> bool" where
  "progress_event ev \<longleftrightarrow> ev_Type ev \<in> {EventStepProgress, EventTokenDelta}"

definition of_type :: "StreamEventType \<Rightarrow> StreamEvent \<Rightarrow> bool" where
  "of_type t ev \<longleftrightarrow> ev_Type ev = t"

text \<open>
  The events after the first one: progress, then the end. Without an error the end is a
  completion; with an error it is an error event, nothing (the stream broke off), or a
  completion that could not be delivered.
\<close>

definition stream_end :: "bool \<Rightarrow> StreamEvent list \<Rightarrow> go_err option \<Rightarrow> bool" where
  "stream_end reliable fin err \<longleftrightarrow> (case err of
     None \<Rightarrow> \<exists>ev. fin = [ev] \<and> of_type EventTaskCompleted ev
   | Some _ \<Rightarrow> fin = [] \<or> (\<exists>ev. fin = [ev] \<and>
       (of_type EventTaskError ev \<or> \<not> reliable \<and> of_type EventTaskCompleted ev)))"

definition stream_tail :: "bool \<Rightarrow> StreamEvent list \<Rightarrow> go_err option \<Rightarrow> bool" where
  "stream_tail reliable evs err \<longleftrightarrow>
     (\<exists>body fin. evs = body @ fin \<and> list_all progress_event body \<and> stream_end reliable fin err)"

definition stream_protocol :: "bool \<Rightarrow> StreamEvent list \<Rightarrow> go_err option \<Rightarrow> bool" where
  "stream_protocol reliable evs err \<longleftrightarrow>
     (\<exists>ev. evs = [ev] \<and> of_type EventTaskError ev \<and> err \<noteq> None) \<or>
     (\<exists>ev. evs = [ev] \<and> of_type EventTaskStarted ev \<and> \<not> reliable \<and> err \<noteq> None) \<or>
     (\<exists>ev evs'. evs = ev # evs' \<and> of_type EventTaskStarted ev \<and> stream_tail reliable evs' err)"

text \<open>The emitter accepts every event.\<close>

definition reliable_emitter :: "('w, 'r, 't) adapter_env \<Rightarrow> bool" where
  "reliable_emitter E \<longleftrightarrow> (\<forall>ev w. snd (ae_emit E ev w) = None)"

lemma stream_tail_fin: "stream_end b fin err \<Longrightarrow> stream_tail b fin err"
  unfolding stream_tail_def by (intro exI [of _ "[]"] exI [of _ fin]) simp

lemma stream_tail_Nil: "stream_tail b [] (Some e)"
  by (simp add: stream_tail_fin stream_end_def)

lemma stream_tail_end: "of_type EventTaskError ev \<Longrightarrow> stream_tail b [ev] (Some e)"
  by (simp add: stream_tail_fin stream_end_def)

lemma stream_tail_Cons:
  assumes "progress_event ev" and "stream_tail b evs err"
  shows "stream_tail b (ev # evs) err"
proof -
  obtain body fin where "evs = body @ fin" "list_all progress_event body" "stream_end b fin err"
    using assms(2) unfolding stream_tail_def by blast
  then show ?thesis using assms(1) unfolding stream_tail_def
    by (intro exI [of _ "ev # body"] exI [of _ fin]) simp
qed

lemma stream_tail_broken: "progress_event ev \<Longrightarrow> stream_tail b [ev] (Some e)"
  using stream_tail_Cons [OF _ stream_tail_Nil] .

lemma stream_tail_completed:
  "of_type EventTaskCompleted ev \<Longrightarrow> (b \<Longrightarrow> e = None) \<Longrightarrow> stream_tail b [ev] e"
  by (rule stream_tail_fin) (auto simp: stream_end_def split: option.splits)

lemma of_type_error_event [simp]: "of_type EventTaskError (error_event a msg)"
  by (simp add: of_type_def error_event_def)

locale stream_reader =
  fixes line :: "'s \<Rightarrow> string \<Rightarrow> 's \<times> line_action"
  assumes emits_progress: "snd (line s l) = Emit t data \<Longrightarrow> t \<in> {EventStepProgress, EventTokenDelta}"
begin

lemma scan_end:
  assumes "b \<longrightarrow> reliable_emitter E" and "scan_loop E d line a [] serr s w = (w', evs, r)"
  shows "stream_tail b evs r"
proof (cases serr)
  case None
  let ?ev = "\<lparr>ev_Type = EventTaskCompleted, ev_Data = Some (JObj [(''status'', JStr (status_string StatusCompleted))])\<rparr>"
  have "evs = [?ev]" and "r = snd (ae_emit E ?ev w)"
    using assms(2) None by (auto simp: Let_def split: prod.splits)
  then show ?thesis using stream_tail_completed [of ?ev b r] assms(1) by (simp add: of_type_def reliable_emitter_def)
qed (use assms in \<open>auto simp: stream_tail_Nil\<close>)

lemma scan_loop_tail:
  assumes "b \<longrightarrow> reliable_emitter E"
  shows "scan_loop E d line a ls serr s w = (w', evs, r) \<Longrightarrow> stream_tail b evs r"
proof (induction ls arbitrary: serr s w evs)
  case Nil
  then show ?case using scan_end [OF assms] by blast
next
  case (Cons l ls)
  let ?w = "ae_tick E w"
  show ?case
  proof (cases "ae_ctx E d ?w")
    case (Some c)
    then show ?thesis using Cons.prems by (auto simp: stream_tail_Nil)
  next
    case None
    obtain s1 act where l: "line s (trim_space l) = (s1, act)" by fastforce
    show ?thesis
    proof (cases act)
      case Skip
      then show ?thesis using Cons None l by simp
    next
      case Stop
      then have "scan_loop E d line a [] None s1 ?w = (w', evs, r)"
        using Cons.prems None l by (simp del: scan_loop.simps(1))
      then show ?thesis by (rule scan_end [OF assms])
    next
      case (Fail msg)
      then show ?thesis using Cons.prems None l stream_tail_end by (auto simp: Let_def split: prod.splits)
    next
      case (Emit t data)
      let ?ev = "\<lparr>ev_Type = t, ev_Data = Some data\<rparr>"
      have p: "progress_event ?ev" using emits_progress [of s "trim_space l" t data] l Emit by (simp add: progress_event_def)
      obtain w2 e where em: "ae_emit E ?ev ?w = (w2, e)" by fastforce
      show ?thesis
      proof (cases e)
        case (Some err)
        then show ?thesis using Cons.prems None l Emit em stream_tail_broken [OF p] by auto
      next
        case none: None
        obtain w3 evs' r' where rec: "scan_loop E d line a ls serr s1 w2 = (w3, evs', r')" using prod_cases3 by blast
        then have "evs = ?ev # evs'" "r' = r" "w3 = w'" using Cons.prems None l Emit em none by (auto simp: Let_def)
        then show ?thesis using stream_tail_Cons [OF p] Cons.IH [of serr s1 w2 evs'] rec by blast
      qed
    qed
  qed
qed

lemma translate_protocol:
  assumes "b \<longrightarrow> reliable_emitter E" and "translate_stream E line s d (Some a) (Some p) w = (w', evs, r)"
  shows "stream_protocol b evs r"
proof (cases "p_StatusCode p \<ge> 400")
  case True
  then show ?thesis using assms(2) by (auto simp: translate_stream_def stream_protocol_def Let_def split: prod.splits)
next
  case False
  let ?ev = "\<lparr>ev_Type = EventTaskStarted, ev_Data = Some (JObj [(''agent_id'', JStr (ag_ID a))])\<rparr>"
  obtain w1 e where em: "ae_emit E ?ev w = (w1, e)" by fastforce
  have st: "of_type EventTaskStarted ?ev" by (simp add: of_type_def)
  show ?thesis
  proof (cases e)
    case (Some err)
    then have "\<not> b" using assms(1) em unfolding reliable_emitter_def by (metis option.distinct(1) snd_conv)
    moreover have "evs = [?ev]" "r = Some err" using assms(2) False em Some by (auto simp: translate_stream_def)
    ultimately show ?thesis using st by (simp add: stream_protocol_def)
  next
    case None
    obtain w2 body rd where rd: "ae_ReadAll E p w1 = (w2, body, rd)" using prod_cases3 by blast
    obtain ls serr where sl: "scan_lines body rd = (ls, serr)" by fastforce
    obtain w3 evs' r' where lp: "scan_loop E d line a ls serr s w2 = (w3, evs', r')" using prod_cases3 by blast
    have "evs = ?ev # evs'" "r = r'" using assms(2) False em None rd sl lp by (auto simp: translate_stream_def Let_def)
    then show ?thesis using st scan_loop_tail [OF assms(1) lp] unfolding stream_protocol_def by blast
  qed
qed

end

section \<open>The adapters keep the contract\<close>

interpretation openai_reader: stream_reader "openai_line g" for g
  by unfold_locales (auto simp: openai_line_def Let_def split: option.splits if_splits)

interpretation langgraph_reader: stream_reader "langgraph_line g" for g
  by unfold_locales (auto simp: langgraph_line_def langgraph_data_def Let_def split: option.splits if_splits)

interpretation crewai_reader: stream_reader "crewai_line g" for g
  by unfold_locales (auto simp: crewai_line_def Let_def split: option.splits if_splits)

interpretation autogen_reader: stream_reader "autogen_line g" for g
  by unfold_locales (auto simp: autogen_line_def Let_def split: option.splits if_splits)

interpretation custom_reader: stream_reader "custom_line g m" for g m
  by unfold_locales (auto simp: custom_line_def Let_def split: option.splits if_splits)

text \<open>The adapters of the registry by their types.\<close>

lemmas adapter_defs = CustomAdapter_def LangGraphAdapter_def CrewAIAdapter_def AutoGenAdapter_def OpenAIAdapter_def
  stateless_adapter_def

lemma gateway_adapters_list:
  "gateway_adapters E = [(''custom'', CustomAdapter E), (''langgraph'', LangGraphAdapter E), (''crewai'', CrewAIAdapter E),
     (''autogen'', AutoGenAdapter E), (''openai'', OpenAIAdapter E)]"
  by (simp add: gateway_adapters_def Adapter_Register_def adapter_defs)

lemma adapter_stream:
  assumes "b \<longrightarrow> reliable_emitter E" and "(ty, ad) \<in> set (gateway_adapters E)"
    and "ad_TranslateStream ad d a p w = (w', evs, r)"
  shows "stream_protocol b evs r"
proof -
  consider "ad = CustomAdapter E" | "ad = LangGraphAdapter E" | "ad = CrewAIAdapter E" | "ad = AutoGenAdapter E"
    | "ad = OpenAIAdapter E"
    using assms(2) by (auto simp: gateway_adapters_list)
  then show ?thesis
  proof cases
    case 1
    show ?thesis by (rule custom_reader.translate_protocol [OF assms(1)])
      (use assms(3) 1 in \<open>simp add: CustomAdapter_def Custom_TranslateStream_def\<close>)
  next
    case 2
    show ?thesis by (rule langgraph_reader.translate_protocol [OF assms(1)])
      (use assms(3) 2 in \<open>simp add: adapter_defs LangGraph_TranslateStream_def\<close>)
  next
    case 3
    show ?thesis by (rule crewai_reader.translate_protocol [OF assms(1)])
      (use assms(3) 3 in \<open>simp add: adapter_defs CrewAI_TranslateStream_def\<close>)
  next
    case 4
    show ?thesis by (rule autogen_reader.translate_protocol [OF assms(1)])
      (use assms(3) 4 in \<open>simp add: adapter_defs AutoGen_TranslateStream_def\<close>)
  next
    case 5
    show ?thesis by (rule openai_reader.translate_protocol [OF assms(1)])
      (use assms(3) 5 in \<open>simp add: adapter_defs OpenAI_TranslateStream_def\<close>)
  qed
qed

section \<open>Streaming over adapters that keep a contract\<close>

text \<open>Calls, then the given events; the flag of the tracking emitter follows them.\<close>

definition stream_adds :: "('w, 'm) dstate \<Rightarrow> ('w, 'm) dstate \<Rightarrow> StreamEvent list \<Rightarrow> bool" where
  "stream_adds st st' evs \<longleftrightarrow> (\<exists>cs. ds_trace st' = ds_trace st @ map Called cs @ map Emitted evs) \<and>
     ds_hasEmitted st' = (ds_hasEmitted st \<or> evs \<noteq> [])"

lemma adds_quiet: "quiet st st' \<Longrightarrow> stream_adds st st' []"
  by (simp add: stream_adds_def quiet_def)

lemma adds_trans:
  assumes "stream_adds st st1 []" and "stream_adds st1 st2 evs"
  shows "stream_adds st st2 evs"
proof -
  obtain cs where "ds_trace st1 = ds_trace st @ map Called cs @ map Emitted []"
    using assms(1) unfolding stream_adds_def by blast
  moreover obtain cs' where "ds_trace st2 = ds_trace st1 @ map Called cs' @ map Emitted evs"
    using assms(2) unfolding stream_adds_def by blast
  ultimately have "ds_trace st2 = ds_trace st @ map Called (cs @ cs') @ map Emitted evs" by simp
  moreover have "ds_hasEmitted st2 = (ds_hasEmitted st \<or> evs \<noteq> [])" using assms by (simp add: stream_adds_def)
  ultimately show ?thesis unfolding stream_adds_def by blast
qed

lemma adds_call: "call_client D a req st = (st', p) \<Longrightarrow> stream_adds st st' []"
  by (auto simp: stream_adds_def call_client_def intro: exI [of _ "[ag_ID a]"] split: prod.splits)

lemma adds_emit: "stream_adds st (emit_all evs (st\<lparr>ds_world := w\<rparr>)) evs"
  by (auto simp: stream_adds_def emit_all_def intro: exI [of _ "[]"])

locale streaming =
  fixes D :: "'w Dispatcher" and P :: "StreamEvent list \<Rightarrow> go_err option \<Rightarrow> bool"
  assumes keeps: "(ty, ad) \<in> set (d_reg D) \<Longrightarrow> ad_TranslateStream ad d a p w = (w', evs, r) \<Longrightarrow> P evs r"
begin

definition adds_result :: "('w, 'm) dstate \<Rightarrow> ('w, 'm) dstate \<Rightarrow> go_err option \<Rightarrow> bool" where
  "adds_result st st' e \<longleftrightarrow> (\<exists>evs. stream_adds st st' evs \<and> (P evs e \<or> evs = [] \<and> e \<noteq> None))"

lemma adds_result_quiet: "stream_adds st st' [] \<Longrightarrow> adds_result st st' (Some e)"
  unfolding adds_result_def by blast

lemma adds_result_trans: "stream_adds st st1 [] \<Longrightarrow> adds_result st1 st2 e \<Longrightarrow> adds_result st st2 e"
  unfolding adds_result_def using adds_trans by blast

lemma stream_loop_adds:
  assumes "(ty, ad) \<in> set (d_reg D)"
  shows "n \<noteq> 0 \<or> le \<noteq> None \<Longrightarrow> stream_loop D ad task a n k le st = (st', e) \<Longrightarrow> adds_result st st' e"
proof (induction n arbitrary: k le st)
  case 0
  then show ?case using adds_result_quiet [OF adds_quiet [OF quiet_refl]] by auto
next
  case (Suc n)
  obtain st1 c where b: "before_attempt D a k st = (st1, c)" by fastforce
  note q1 = quiet_before_attempt [OF b]
  show ?case
  proof (cases c)
    case (Some c')
    then show ?thesis using Suc.prems(2) adds_result_quiet [OF adds_quiet [OF q1]] by (auto simp: b)
  next
    case None
    obtain w2 q where t: "ad_TranslateRequest ad (attempt_timeout a) a (task\<lparr>tr_Stream := True\<rparr>) (ds_world st1) = (w2, q)"
      by fastforce
    let ?st2 = "st1\<lparr>ds_world := w2\<rparr>"
    have q2: "stream_adds st ?st2 []" by (rule adds_quiet [OF quiet_trans [OF q1 quiet_world]])
    show ?thesis
    proof (cases q)
      case (Inl err)
      then show ?thesis using Suc.prems(2) adds_result_quiet [OF q2] by (auto simp: b None t)
    next
      case (Inr req)
      obtain st3 p where c: "call_client D a req ?st2 = (st3, p)" by fastforce
      have q3: "stream_adds st st3 []" by (rule adds_trans [OF q2 adds_call [OF c]])
      show ?thesis
      proof (cases p)
        case err: (Inl err)
        show ?thesis
        proof (cases "ctx_of D st3")
          case none: None
          then have "stream_loop D ad task a n (k + 1) (Some err) st3 = (st', e)"
            using Suc.prems(2) by (simp add: b None t Inr c err)
          from Suc.IH [OF _ this] show ?thesis using adds_result_trans [OF q3] by simp
        qed (use Suc.prems(2) adds_result_quiet [OF q3] in \<open>auto simp: b None t Inr c err\<close>)
      next
        case resp: (Inr resp)
        show ?thesis
        proof (cases "p_StatusCode resp \<ge> 500")
          case True
          then have "stream_loop D ad task a n (k + 1) (Some (status_error (p_StatusCode resp))) st3 = (st', e)"
            using Suc.prems(2) by (simp add: b None t Inr c resp)
          from Suc.IH [OF _ this] show ?thesis using adds_result_trans [OF q3] by simp
        next
          case False
          obtain w4 evs x where s: "ad_TranslateStream ad (attempt_timeout a) a resp (ds_world st3) = (w4, evs, x)"
            using prod_cases3 by blast
          have "st' = emit_all evs (st3\<lparr>ds_world := w4\<rparr>)" "e = x"
            using Suc.prems(2) False s by (simp_all add: b None t Inr c resp)
          then show ?thesis using keeps [OF assms s] adds_trans [OF q3 adds_emit] unfolding adds_result_def by blast
        qed
      qed
    qed
  qed
qed

lemma stream_invoke_adds:
  assumes "invokeAgentStreamWithRetries D task a st = (st', e)"
  shows "adds_result st st' e"
proof (cases "Adapter_Get (ag_Type a) (d_reg D)")
  case (Inl err)
  then show ?thesis
    using assms adds_result_quiet [OF adds_quiet [OF quiet_refl]] by (auto simp: invokeAgentStreamWithRetries_def)
next
  case (Inr ad)
  then have "(ag_Type a, ad) \<in> set (d_reg D)" by (auto simp: Adapter_Get_def map_of_SomeD split: option.splits)
  moreover have "stream_loop D ad task a (Suc (max_retries a)) 0 None st = (st', e)"
    using assms Inr by (simp add: invokeAgentStreamWithRetries_def)
  ultimately show ?thesis using stream_loop_adds by blast
qed

text \<open>The whole dispatch: at most one agent emits, and its events have the shape of the contract.\<close>

definition dispatch_adds :: "('w, 'm) dstate \<Rightarrow> ('w, 'm) dstate \<Rightarrow> unit dresult \<Rightarrow> bool" where
  "dispatch_adds st st' r \<longleftrightarrow> (case r of
     D_ok _ \<Rightarrow> \<exists>evs. stream_adds st st' evs \<and> P evs None
   | D_err e \<Rightarrow> \<exists>evs. stream_adds st st' evs \<and> (evs = [] \<or> P evs (Some e))
   | D_fuel \<Rightarrow> stream_adds st st' [])"

lemma dispatch_adds_err: "stream_adds st st' [] \<Longrightarrow> dispatch_adds st st' (D_err e)"
  by (auto simp: dispatch_adds_def)

lemma dispatch_adds_trans: "stream_adds st st1 [] \<Longrightarrow> dispatch_adds st1 st2 r \<Longrightarrow> dispatch_adds st st2 r"
  unfolding dispatch_adds_def by (cases r) (simp; blast intro: adds_trans)+

lemma adds_none: "stream_adds st st' evs \<Longrightarrow> \<not> ds_hasEmitted st' \<Longrightarrow> evs = []"
  by (simp add: stream_adds_def)

lemma dispatch_adds_none: "dispatch_adds st st' (D_err e) \<Longrightarrow> \<not> ds_hasEmitted st' \<Longrightarrow> stream_adds st st' []"
  unfolding dispatch_adds_def using adds_none by fastforce

lemma dispatch_stream_adds:
  shows "\<not> ds_hasEmitted st \<Longrightarrow> D' = D \<Longrightarrow> dispatchStreamWithFallback n D' task a st = (st', r) \<Longrightarrow> dispatch_adds st st' r"
    and "\<not> ds_hasEmitted st \<Longrightarrow> D' = D \<Longrightarrow> stream_fallback_loop n D' task a err fs st = (st', r) \<Longrightarrow> dispatch_adds st st' r"
proof (induction n D' task a st and n D' task a err fs st arbitrary: st' r and st' r
    rule: dispatchStreamWithFallback_stream_fallback_loop.induct)
  case (1 D' task a st)
  then show ?case by (auto simp: dispatch_adds_def adds_quiet)
next
  case (2 n D' task a st)
  have same: "stream_adds st (visit (ag_ID a) st) []" by (simp add: stream_adds_def visit_def)
  obtain st1 e where i: "invokeAgentStreamWithRetries D task a (visit (ag_ID a) st) = (st1, e)" by fastforce
  have inv: "adds_result st st1 e" by (rule adds_result_trans [OF same stream_invoke_adds [OF i]])
  show ?case
  proof (cases "ag_ID a \<in> set (ds_visited st)")
    case True
    then show ?thesis using 2(4) dispatch_adds_err [OF adds_quiet [OF quiet_refl]] by auto
  next
    case False
    show ?thesis
    proof (cases e)
      case None
      then show ?thesis using 2(3,4) False i inv by (auto simp: dispatch_adds_def adds_result_def)
    next
      case (Some x)
      obtain evs where evs: "stream_adds st st1 evs" "evs = [] \<or> P evs (Some x)"
        using inv Some unfolding adds_result_def by blast
      consider "ds_hasEmitted st1" | c where "\<not> ds_hasEmitted st1" "ctx_of D st1 = Some c"
        | "\<not> ds_hasEmitted st1" "ctx_of D st1 = None" by (cases "ctx_of D st1") auto
      then show ?thesis
      proof cases
        case 1
        then show ?thesis using 2(3,4) False i Some evs by (auto simp: dispatch_adds_def)
      next
        case (2 c)
        then show ?thesis using "2.prems" False i Some dispatch_adds_err adds_none [OF evs(1)] evs(1) by auto
      next
        case 3
        have "stream_fallback_loop n D task a x (ag_FallbackAgentIDs a) st1 = (st', r)"
          using "2.prems" False i Some 3 by simp
        then have "dispatch_adds st1 st' r"
          using "2.IH" [OF False _ refl Some] 3 i "2.prems"(2) by simp
        then show ?thesis using dispatch_adds_trans adds_none [OF evs(1) 3(1)] evs(1) by blast
      qed
    qed
  qed
next
  case (3 n D' task a err st)
  then show ?case using dispatch_adds_err [OF adds_quiet [OF quiet_refl]] by auto
next
  case (4 n D' task a err f fs st)
  note emitted = 4(5) and D = 4(6)
  show ?case
  proof (cases "ctx_of D st")
    case (Some c)
    then show ?thesis using 4(7) D dispatch_adds_err [OF adds_quiet [OF quiet_refl]] by auto
  next
    case None
    note None' = None [folded D]
    show ?thesis
    proof (cases "f \<in> set (ds_visited st)")
      case True
      then show ?thesis using 4(1) [OF None' emitted True emitted D] 4(7) None D emitted by simp
    next
      case False
      show ?thesis
      proof (cases "GetAgent D (now_of D st) f")
        case (Inl e)
        then show ?thesis using 4(2) [OF None' emitted False _ emitted D] 4(7) None False D emitted by simp
      next
        case (Inr b)
        let ?st = "count_fallback (ag_ID a) f st"
        have same: "stream_adds st ?st []" by (rule adds_quiet [OF quiet_count_fallback])
        have e0: "\<not> ds_hasEmitted ?st" using emitted by (simp add: count_fallback_def)
        obtain st1 q where d: "dispatchStreamWithFallback n D task b ?st = (st1, q)" by fastforce
        have q: "dispatch_adds st st1 q"
          using dispatch_adds_trans [OF same] 4(3) [OF None' emitted False _ e0 D] Inr d D by blast
        show ?thesis
        proof (cases "\<exists>e. q = D_err e \<and> \<not> ds_hasEmitted st1")
          case True
          then obtain e where e: "q = D_err e" "\<not> ds_hasEmitted st1" by blast
          have "stream_fallback_loop n D task a err fs st1 = (st', r)"
            using 4(7) D None False Inr d e emitted by simp
          then have "dispatch_adds st1 st' r"
            using 4(4) [OF None' emitted False _ _ e e(2) D] Inr d D by metis
          then show ?thesis using dispatch_adds_trans dispatch_adds_none q e by blast
        next
          case no: False
          have "st' = st1 \<and> r = q" using 4(7) D None False Inr d no emitted by (auto split: dresult.splits if_splits)
          then show ?thesis using q by simp
        qed
      qed
    qed
  qed
qed

lemma DispatchStream_adds:
  assumes "DispatchStream D task st = (st', r)"
  shows "\<exists>cs evs. ds_trace st' = ds_trace st @ map Called cs @ map Emitted evs \<and>
    (case r of D_ok _ \<Rightarrow> P evs None | D_err e \<Rightarrow> evs = [] \<or> P evs (Some e) | D_fuel \<Rightarrow> evs = [])"
proof (cases "resolveAgent D (now_of D st) task")
  case (Inl e)
  then show ?thesis using assms by (auto simp: DispatchStream_def intro!: exI [of _ "[]"])
next
  case (Inr a)
  let ?st = "st\<lparr>ds_visited := [], ds_hasEmitted := False\<rparr>"
  have "dispatch_adds ?st st' r"
    using dispatch_stream_adds(1) [OF _ refl, of ?st] assms by (simp add: DispatchStream_def Inr)
  then obtain evs where "stream_adds ?st st' evs"
    "case r of D_ok _ \<Rightarrow> P evs None | D_err e \<Rightarrow> evs = [] \<or> P evs (Some e) | D_fuel \<Rightarrow> evs = []"
    unfolding dispatch_adds_def by (cases r) auto
  then show ?thesis by (auto simp: stream_adds_def)
qed

end

text \<open>The adapters of the gateway keep the protocol of a stream.\<close>

interpretation gateway_streaming: streaming "D\<lparr>d_reg := gateway_adapters E\<rparr>" "stream_protocol (reliable_emitter E)" for D E
proof
  fix ty and ad :: "'a Adapter" and d a p w w' evs r
  assume "(ty, ad) \<in> set (d_reg (D\<lparr>d_reg := gateway_adapters E\<rparr>))" and t: "ad_TranslateStream ad d a p w = (w', evs, r)"
  then have "(ty, ad) \<in> set (gateway_adapters E)" by simp
  from adapter_stream [OF _ this t, of "reliable_emitter E"] show "stream_protocol (reliable_emitter E) evs r" by simp
qed

end
