(* ===== verification/Adapter_Claims.thy ===== *)
theory Adapter_Claims
  imports Adapter_Facts Gateway_Claims Config_Claims
begin

text \<open>
  The properties of the adapters: the events a client of a stream sees, the credentials of
  outgoing requests, the payload, responses of failed calls, JSON paths and the cache of
  templates.
\<close>

section \<open>Streams\<close>

text \<open>
  A stream as a client should see it: an error alone, or a start, progress, and one end.
\<close>

definition well_formed_stream :: "StreamEvent list \<Rightarrow> bool" where
  "well_formed_stream evs \<longleftrightarrow>
     (\<exists>ev. evs = [ev] \<and> of_type EventTaskError ev) \<or>
     (\<exists>st body fin. evs = st # body @ [fin] \<and> of_type EventTaskStarted st \<and> list_all progress_event body \<and>
        (of_type EventTaskCompleted fin \<or> of_type EventTaskError fin))"

lemma errorEmitted_progress: "list_all progress_event body \<Longrightarrow> \<not> errorEmitted body"
  by (auto simp: errorEmitted_def list_all_iff progress_event_def)

lemma errorEmitted_simps [simp]:
  "errorEmitted [] = False"
  "errorEmitted (ev # evs) = (of_type EventTaskError ev \<or> errorEmitted evs)"
  "errorEmitted (xs @ ys) = (errorEmitted xs \<or> errorEmitted ys)"
  by (auto simp: errorEmitted_def of_type_def)

text \<open>What the streaming handlers add after the dispatch completes a stream.\<close>

lemma protocol_completed:
  assumes "stream_protocol True evs None"
  shows "well_formed_stream evs"
  using assms by (auto simp: stream_protocol_def stream_tail_def stream_end_def well_formed_stream_def)

lemma protocol_failed:
  assumes "stream_protocol True evs (Some e)" and "of_type EventTaskError ev"
  shows "well_formed_stream (if errorEmitted evs then evs else evs @ [ev])"
proof -
  consider x where "evs = [x]" "of_type EventTaskError x"
    | st body fin where "evs = st # body @ fin" "of_type EventTaskStarted st" "list_all progress_event body"
      "stream_end True fin (Some e)"
    using assms(1) unfolding stream_protocol_def stream_tail_def by blast
  then show ?thesis
  proof cases
    case 1
    then show ?thesis by (simp add: well_formed_stream_def)
  next
    case 2
    consider "fin = []" | x where "fin = [x]" "of_type EventTaskError x"
      using 2(4) by (auto simp: stream_end_def)
    then show ?thesis
    proof cases
      case 1
      then have "\<not> errorEmitted evs" using 2 errorEmitted_progress by (auto simp: of_type_def)
      then show ?thesis using 1 2 assms(2) by (auto simp: well_formed_stream_def)
    next
      case 2: (2 x)
      then show ?thesis using \<open>evs = st # body @ fin\<close> \<open>of_type EventTaskStarted st\<close> \<open>list_all progress_event body\<close>
        by (auto simp: well_formed_stream_def)
    qed
  qed
qed

lemma emitted_calls: "emitted (map Called cs @ map Emitted evs) = evs"
  by (simp add: emitted_def comp_def)

lemma run_stream_well_formed:
  assumes "d_reg (ge_disp G) = gateway_adapters E" and "reliable_emitter E"
    and "run_stream G task g = (g', p)" and "rp_Body p = B_events out"
  shows "well_formed_stream out"
proof -
  let ?D = "ge_disp G" and ?g = "on_metrics IncActiveStreams g" and ?t = "task\<lparr>tr_Stream := True\<rparr>"
  let ?st = "gw_d ?g"
  have D: "?D\<lparr>d_reg := gateway_adapters E\<rparr> = ?D" using assms(1) by simp
  obtain d res where ds: "DispatchStream ?D (Some ?t) ?st = (d, res)" by fastforce
  define evs where "evs = emitted (drop (length (ds_trace ?st)) (ds_trace d))"
  define ev where "ev = \<lparr>ev_Type = EventTaskError, ev_Data = Some (JObj [(''error'', JStr (err_string (dispatch_error res)))])\<rparr>"
  have out: "out = (if (case res of D_ok _ \<Rightarrow> False | _ \<Rightarrow> True) \<and> \<not> errorEmitted evs then evs @ [ev] else evs)"
    using assms(3,4) ds unfolding evs_def ev_def by (auto simp: run_stream_def NewSSEResponseWriter_def Let_def)
  have ev: "of_type EventTaskError ev" by (simp add: ev_def of_type_def)
  have alone: "well_formed_stream out" if "evs = []" "\<exists>e. res = D_err e"
    using that out ev by (auto simp: well_formed_stream_def)
  have nofuel: "res \<noteq> D_fuel"
    using stream_outcome [where D = ?D and task = "Some ?t" and st = ?st] ds by (auto split: dresult.splits)
  from gateway_streaming.DispatchStream_adds [where D = ?D and E = E and task = "Some ?t" and st = ?st and st' = d and r = res]
  obtain cs x where "ds_trace d = ds_trace ?st @ map Called cs @ map Emitted x"
    and x: "case res of D_ok _ \<Rightarrow> stream_protocol (reliable_emitter E) x None
      | D_err e \<Rightarrow> x = [] \<or> stream_protocol (reliable_emitter E) x (Some e) | D_fuel \<Rightarrow> x = []"
    unfolding D using ds by blast
  then have "evs = x" by (simp add: evs_def emitted_calls)
  then show ?thesis
    using x out alone nofuel assms(2) protocol_completed [of x] protocol_failed [OF _ ev, of x] by (cases res) auto
qed

text \<open>Replies that reject a request are not streams.\<close>

lemma error_not_stream: "rp_Body (writeA2AError c m a s) \<noteq> B_events out"
  by (simp add: writeA2AError_def json_reply_def)

lemma read_task_no_stream: "read_task G r g = (g1, Inl p) \<Longrightarrow> rp_Body p \<noteq> B_events out"
  by (auto simp: read_task_def error_not_stream split: sum.splits body_error.splits if_splits prod.splits)

lemma task_rbac_no_stream: "task_rbac G r task g = Some p \<Longrightarrow> rp_Body p \<noteq> B_events out"
  unfolding task_rbac_def Let_def
  by (auto simp: error_not_stream forbidden_def a2a_reply_def split: option.splits sum.splits if_splits)

lemma rest_target_no_stream: "rest_target G r g = Inl p \<Longrightarrow> rp_Body p \<noteq> B_events out"
  unfolding rest_target_def Let_def
  by (auto simp: error_not_stream forbidden_def a2a_reply_def split: sum.splits if_splits)

lemma build_task_no_stream: "buildTaskFromBody G r i g = (g1, Inl p) \<Longrightarrow> rp_Body p \<noteq> B_events out"
  by (auto simp: buildTaskFromBody_def error_not_stream Let_def split: sum.splits body_error.splits if_splits prod.splits)

text \<open>
  C29. A client of a stream sees a proper stream: whatever the agents answer, which fallbacks
  are taken and where a stream breaks off, the events of a reply are a single error, or a
  start event, progress events and exactly one final event, a completion or an error. This
  holds for the five adapters of the gateway and both streaming routes, as long as events
  can be delivered.
\<close>

theorem streamed_reply_well_formed:
  assumes "d_reg (ge_disp G) = gateway_adapters E" and "reliable_emitter E"
    and "DispatchTaskStream G r g = (g', p) \<or> StreamAgent G r g = (g', p)" and "rp_Body p = B_events out"
  shows "well_formed_stream out"
proof -
  have "\<exists>task h. run_stream G task h = (g', p)"
    using assms(3)
  proof
    assume h: "DispatchTaskStream G r g = (g', p)"
    obtain g1 t where rt: "read_task G r g = (g1, t)" by fastforce
    show ?thesis
    proof (cases t)
      case (Inl q)
      then show ?thesis using h rt read_task_no_stream [of G r g g1 q out] assms(4) by (simp add: DispatchTaskStream_def)
    next
      case (Inr task)
      have "task_rbac G r task g1 = None"
        using h rt Inr task_rbac_no_stream [of G r task g1 _ out] assms(4) by (auto simp: DispatchTaskStream_def split: option.splits)
      then show ?thesis using h rt Inr by (auto simp: DispatchTaskStream_def)
    qed
  next
    assume h: "StreamAgent G r g = (g', p)"
    then obtain agentID where ta: "rest_target G r g = Inr agentID"
      using assms(4) rest_target_no_stream [of G r g _ out] by (cases "rest_target G r g") (auto simp: StreamAgent_def)
    obtain g1 t where bt: "buildTaskFromBody G r agentID g = (g1, t)" by fastforce
    show ?thesis
      using h ta bt build_task_no_stream [of G r agentID g g1 _ out] assms(4) by (cases t) (auto simp: StreamAgent_def)
  qed
  then show ?thesis using run_stream_well_formed [OF assms(1,2)] assms(4) by blast
qed

section \<open>Requests\<close>

lemma Header_Get_Set: "Header_Get k (Header_Set k v h) = v"
  by (simp add: Header_Get_def Header_Set_def or_else_def update_conv')

text \<open>What the credentials of an agent make of a request.\<close>

definition carries_credentials :: "AuthConfig \<Rightarrow> http_request \<Rightarrow> bool" where
  "carries_credentials auth req \<longleftrightarrow>
     (auth_Type auth = ''bearer'' \<longrightarrow> Header_Get ''Authorization'' (q_Header req) = ''Bearer '' @ auth_Token auth) \<and>
     (auth_Type auth = ''header'' \<longrightarrow> Header_Get (auth_HeaderName auth) (q_Header req) = auth_HeaderValue auth)"

lemma applyOutboundAuth_carries:
  assumes "auth_Type auth = ''bearer'' \<Longrightarrow> auth_Token auth \<noteq> []"
    and "auth_Type auth = ''header'' \<Longrightarrow> auth_HeaderName auth \<noteq> [] \<and> auth_HeaderValue auth \<noteq> []"
  shows "carries_credentials auth (applyOutboundAuth auth req)"
  using assms by (auto simp: carries_credentials_def applyOutboundAuth_def Header_Get_Set)

lemma applyOutboundAuth_simps [simp]:
  "q_URL (applyOutboundAuth auth req) = q_URL req" "q_Body (applyOutboundAuth auth req) = q_Body req"
  "q_Method (applyOutboundAuth auth req) = q_Method req"
  by (simp_all add: applyOutboundAuth_def)

lemma post_json_request:
  assumes "post_json E name a t payload = Inr req"
  shows "\<exists>req0. req = applyOutboundAuth (ag_Auth a) req0 \<and> q_URL req0 = ag_Endpoint a \<and> q_Method req0 = ''POST'' \<and>
    ae_Marshal E (JObj payload) = Inr (q_Body req0)"
  using assms by (auto simp: post_json_def Let_def split: sum.splits option.splits)

text \<open>The adapters by their requests.\<close>

lemma adapter_request:
  assumes "(ty, ad) \<in> set (gateway_adapters E)" and "ad_TranslateRequest ad d a t w = (w', Inr req)"
  shows "\<exists>req0. req = applyOutboundAuth (ag_Auth a) req0 \<and> q_URL req0 = ag_Endpoint a"
proof -
  consider "ad = CustomAdapter E" | "ad = LangGraphAdapter E" | "ad = CrewAIAdapter E" | "ad = AutoGenAdapter E"
    | "ad = OpenAIAdapter E"
    using assms(1) by (auto simp: gateway_adapters_list)
  then show ?thesis
  proof cases
    case 1
    then show ?thesis using assms(2)
      by (auto simp: CustomAdapter_def Custom_TranslateRequest_def Let_def split: option.splits prod.splits sum.splits)
  qed (use assms(2) post_json_request in \<open>fastforce simp: adapter_defs LangGraph_TranslateRequest_def
      CrewAI_TranslateRequest_def AutoGen_TranslateRequest_def OpenAI_TranslateRequest_def on_task_def\<close>)+
qed

text \<open>
  C30. Every agent of an accepted configuration has an adapter, and every request that the
  adapter builds for it goes to the agent's endpoint and carries exactly the configured
  credential: no header of a custom mapping, in whatever spelling, can replace it.
\<close>

theorem requests_carry_credentials:
  assumes "Load U parse_url rf env um path = Inr c" and "a \<in> set (cfg_Agents c)"
  shows "\<exists>ad. Adapter_Get (ag_Type a) (gateway_adapters E) = Inr ad \<and> ad_Type ad = ag_Type a \<and>
    (\<forall>d t w w' req. ad_TranslateRequest ad d a t w = (w', Inr req) \<longrightarrow>
       q_URL req = ag_Endpoint a \<and> carries_credentials (ag_Auth a) req)"
proof -
  have "Validate U parse_url c = None" using Load_accepted [OF assms(1)] by blast
  then have ok: "agent_ok a"
    using validate_agents_None [of U parse_url "[]" "cfg_Agents c"] assms(2) by (simp add: Validate_None)
  then have "ag_Type a \<in> agent_types" by (simp add: agent_ok_def)
  then obtain ad where ad: "map_of (gateway_adapters E) (ag_Type a) = Some ad" "ad_Type ad = ag_Type a"
    by (auto simp: agent_types_def gateway_adapters_list adapter_defs)
  have "q_URL req = ag_Endpoint a \<and> carries_credentials (ag_Auth a) req"
    if r: "ad_TranslateRequest ad d a t w = (w', Inr req)" for d t w w' req
  proof -
    obtain req0 where req: "req = applyOutboundAuth (ag_Auth a) req0" "q_URL req0 = ag_Endpoint a"
      using adapter_request [OF map_of_SomeD [OF ad(1)] r] by blast
    have "carries_credentials (ag_Auth a) (applyOutboundAuth (ag_Auth a) req0)"
      by (rule applyOutboundAuth_carries) (use ok in \<open>auto simp: agent_ok_def isValidHeaderFieldName_def\<close>)
    then show ?thesis using req by simp
  qed
  then show ?thesis using ad by (auto simp: Adapter_Get_def)
qed

section \<open>Payloads\<close>

lemma add_options_other:
  "distinct (map fst opts) \<Longrightarrow> map_of (add_options reserved opts payload) k =
     (if k \<notin> set reserved \<and> map_of opts k \<noteq> None then map_of opts k else map_of payload k)"
proof (induction opts arbitrary: payload)
  case (Cons kv opts)
  obtain k' v where kv: "kv = (k', v)" by fastforce
  have "k' \<notin> set (map fst opts)" using Cons.prems kv by simp
  then have "map_of opts k' = None" by (simp add: map_of_eq_None_iff)
  then show ?case using Cons kv by (auto simp: add_options_def update_conv')
qed (simp add: add_options_def)

text \<open>
  The payload of an OpenAI request: options of the agent are passed on, but can replace
  neither the messages nor the stream flag; the model comes from the options or is gpt-4o;
  a system prompt of the task takes precedence over the one of the agent and comes first.
\<close>

lemma openai_payload_fields:
  assumes "distinct (map fst (ag_Options a))"
  shows "map_of (openai_payload a t) ''messages'' = Some (JArr
      ((case (opt_string ''system'' (tr_Context t), opt_string ''system_prompt'' (ag_Options a)) of
          (Some s, _) \<Rightarrow> [JObj [(''role'', JStr ''system''), (''content'', JStr s)]]
        | (None, Some s) \<Rightarrow> [JObj [(''role'', JStr ''system''), (''content'', JStr s)]]
        | (None, None) \<Rightarrow> []) @ openai_messages (tr_Input t))) \<and>
    map_of (openai_payload a t) ''stream'' = (if tr_Stream t then Some (JBool True) else None) \<and>
    map_of (openai_payload a t) ''model'' = Some (JStr (or_else ''gpt-4o'' (opt_string ''model'' (ag_Options a)))) \<and>
    (\<forall>k. k \<notin> {''model'', ''system_prompt'', ''messages'', ''stream''} \<longrightarrow> map_of (openai_payload a t) k = map_of (ag_Options a) k)"
proof -
  have ne: "opt_string k m = Some s \<Longrightarrow> s \<noteq> []" for k m s
    by (auto simp: opt_string_def split: option.splits json.splits if_splits)
  show ?thesis
    using ne [of "''system''" "tr_Context t"] ne [of "''system_prompt''" "ag_Options a"]
    unfolding openai_payload_def Let_def add_options_other [OF assms]
    by (auto simp: or_else_def split: option.splits)
qed

section \<open>Responses\<close>

lemma read_response_Inr:
  assumes "read_response E (Some a) (Some p) w f = (w', Inr r)"
  shows "\<exists>body t. r = f a p body \<lparr>resp_TaskID = [], resp_AgentID = ag_ID a, resp_Status = StatusCompleted, resp_Output = None,
            resp_Artifacts = [], resp_Error = None, resp_Timestamp = t\<rparr>"
  using assms by (auto simp: read_response_def split: prod.splits option.splits)

lemma failed_response_fields [simp]:
  "resp_AgentID (failed_response g ps code body r) = resp_AgentID r"
  "resp_Status (failed_response g ps code body r) = StatusFailed"
  "resp_Error (failed_response g ps code body r) = Some (first_string g body ps (status_text code body))"
  by (simp_all add: failed_response_def)

lemma custom_success_fields:
  assumes "resp_Error r = None"
  shows "resp_AgentID (custom_success E m body r) = resp_AgentID r"
    and "resp_Error (custom_success E m body r) \<noteq> None \<Longrightarrow> resp_Status (custom_success E m body r) = StatusFailed"
proof -
  have out: "resp_AgentID (custom_output g path body x) = resp_AgentID x" "resp_Error (custom_output g path body x) = resp_Error x"
    for g :: "'b gjson" and path x by (simp_all add: custom_output_def Let_def)
  have st: "resp_AgentID (custom_set_status U g path body x) = resp_AgentID x" "resp_Error (custom_set_status U g path body x) = resp_Error x"
    for U and g :: "'b gjson" and path x by (simp_all add: custom_set_status_def Let_def)
  have er: "resp_AgentID (custom_set_error g path body x) = resp_AgentID x"
      "resp_Error x = None \<Longrightarrow> resp_Error (custom_set_error g path body x) \<noteq> None \<Longrightarrow> resp_Status (custom_set_error g path body x) = StatusFailed"
    for g :: "'b gjson" and path x by (auto simp: custom_set_error_def Let_def)
  have ar: "resp_AgentID (custom_set_artifacts g path body x) = resp_AgentID x" "resp_Error (custom_set_artifacts g path body x) = resp_Error x"
      "resp_Status (custom_set_artifacts g path body x) = resp_Status x"
    for g :: "'b gjson" and path x by (simp_all add: custom_set_artifacts_def Let_def)
  show "resp_AgentID (custom_success E m body r) = resp_AgentID r"
    by (simp add: custom_success_def Let_def out st er ar)
  show "resp_Error (custom_success E m body r) \<noteq> None \<Longrightarrow> resp_Status (custom_success E m body r) = StatusFailed"
    unfolding custom_success_def Let_def ar by (rule er(2)) (simp_all add: out st assms)
qed

lemma crewai_status_fields:
  assumes "resp_Error r = None" and "resp_Status r = StatusCompleted"
  shows "resp_AgentID (crewai_status E body r) = resp_AgentID r"
    and "resp_Status (crewai_status E body r) \<in> {StatusCompleted, StatusFailed}"
    and "resp_Status (crewai_status E body r) = StatusFailed \<longleftrightarrow> resp_Error (crewai_status E body r) \<noteq> None"
  using assms by (simp_all add: crewai_status_def Let_def)

text \<open>
  C31. A translated response belongs to the agent that was called; an HTTP error is a failed
  task with an error text, and an error text occurs only in failed tasks. The adapters with a
  fixed format answer with a completed or a failed task, and never with a failure that has
  no text.
\<close>

theorem failures_explained:
  assumes "(ty, ad) \<in> set (gateway_adapters E)" and "ad_TranslateResponse ad d a p w = (w', Inr r)"
  shows "resp_AgentID r = ag_ID a \<and>
    (p_StatusCode p \<ge> 400 \<longrightarrow> resp_Status r = StatusFailed \<and> resp_Error r \<noteq> None) \<and>
    (resp_Error r \<noteq> None \<longrightarrow> resp_Status r = StatusFailed) \<and>
    (ty \<noteq> ''custom'' \<longrightarrow> resp_Status r \<in> {StatusCompleted, StatusFailed} \<and>
       (resp_Status r = StatusFailed \<longrightarrow> resp_Error r \<noteq> None))"
proof -
  consider "ty = ''custom''" "ad = CustomAdapter E" | "ad = LangGraphAdapter E" | "ad = CrewAIAdapter E"
    | "ad = AutoGenAdapter E" | "ad = OpenAIAdapter E"
    using assms(1) by (auto simp: gateway_adapters_list)
  then show ?thesis
  proof cases
    case 1
    then obtain m where m: "ag_Mapping a = Some m"
      using assms(2) by (cases "ag_Mapping a") (auto simp: CustomAdapter_def Custom_TranslateResponse_def)
    show ?thesis
      using assms(2) 1 by (auto simp: CustomAdapter_def Custom_TranslateResponse_def m custom_success_fields
          dest!: read_response_Inr split: if_splits)
  next
    case 2
    then show ?thesis using assms(2)
      by (auto simp: adapter_defs LangGraph_TranslateResponse_def dest!: read_response_Inr split: if_splits)
  next
    case 3
    have f: "resp_Error (x\<lparr>resp_Output := y\<rparr>) = resp_Error x" "resp_Status (x\<lparr>resp_Output := y\<rparr>) = resp_Status x"
      for x :: TaskResponse and y by simp_all
    obtain body t where r: "r = (if p_StatusCode p \<ge> 400 then failed_response (ae_gjson E) [''error'', ''message''] (p_StatusCode p) body t
        else crewai_status E body (t\<lparr>resp_Output := first_value (ae_gjson E) body [''result'', ''raw'', ''output'', ''tasks_output'']
          (whole_body E body)\<rparr>))" "resp_Error t = None" "resp_Status t = StatusCompleted" "resp_AgentID t = ag_ID a"
      using assms(2) 3 by (auto simp: adapter_defs CrewAI_TranslateResponse_def dest!: read_response_Inr)
    show ?thesis
      using r(2-4) crewai_status_fields [of "t\<lparr>resp_Output := first_value (ae_gjson E) body [''result'', ''raw'', ''output'', ''tasks_output'']
          (whole_body E body)\<rparr>" E body]
      unfolding r(1) by auto
  next
    case 4
    then show ?thesis using assms(2)
      by (auto simp: adapter_defs AutoGen_TranslateResponse_def dest!: read_response_Inr split: if_splits)
  next
    case 5
    then show ?thesis using assms(2)
      by (auto simp: adapter_defs OpenAI_TranslateResponse_def dest!: read_response_Inr split: if_splits)
  qed
qed

section \<open>JSON paths\<close>

lemma collapse_dots_none: "\<not> contains (collapse_dots p) ''..''"
proof (induction p rule: collapse_dots.induct)
  case (1 p)
  then show ?case by (cases "contains p ''..''") (simp_all add: collapse_dots.simps [of p])
qed

lemma collapse_dots_id: "\<not> contains p ''..'' \<Longrightarrow> collapse_dots p = p"
  by (simp add: collapse_dots.simps)

lemma contains_tl: "contains s p \<Longrightarrow> contains (c # s) p"
  by simp

lemma match_bracket: "c \<noteq> CHR ''['' \<Longrightarrow> match_prop (c # s) = None" "c \<noteq> CHR ''['' \<Longrightarrow> match_index (c # s) = None"
  by (simp_all add: match_prop_def match_index_def Let_def)

lemma replace_plain:
  "CHR ''['' \<notin> set s \<Longrightarrow> (\<And>c t. c \<noteq> CHR ''['' \<Longrightarrow> m (c # t) = None) \<Longrightarrow>
     replace_matches m k (s @ t) = s @ replace_matches m k t"
proof (induction s)
  case (Cons c s)
  have "m (c # s @ t) = None" by (rule Cons.prems(2)) (use Cons.prems(1) in auto)
  moreover have "replace_matches m k (s @ t) = s @ replace_matches m k t"
    by (rule Cons.IH) (use Cons.prems in auto)
  ultimately show ?case by simp
qed simp

lemma match_index_group:
  assumes "n \<noteq> []" and "list_all is_digit n"
  shows "match_index (''['' @ n @ '']'' @ t) = Some n"
proof -
  have d: "\<not> is_digit CHR '']''" by (simp add: is_digit_def)
  have "takeWhile is_digit (n @ CHR '']'' # t) = n" "dropWhile is_digit (n @ CHR '']'' # t) = CHR '']'' # t"
    using assms(2) d by (simp_all add: takeWhile_append dropWhile_append list_all_iff)
  then show ?thesis using assms(1) by (simp add: match_index_def Let_def)
qed

lemma match_prop_digits: "list_all is_digit n \<Longrightarrow> n \<noteq> [] \<Longrightarrow> match_prop (''['' @ n @ t) = None"
proof (cases n)
  case (Cons c cs)
  moreover assume "list_all is_digit n"
  ultimately have "\<not> is_quote c" by (auto simp: is_digit_def is_quote_def)
  then show ?thesis by (simp add: match_prop_def Let_def Cons)
qed simp

lemma collapse_normal:
  "\<not> contains (trim_prefix (collapse_dots p) ''.'') ''..'' \<and> \<not> has_prefix (trim_prefix (collapse_dots p) ''.'') ''.''"
proof -
  let ?q = "collapse_dots p"
  show ?thesis
  proof (cases "has_prefix ?q ''.''")
    case True
    then obtain s where s: "?q = CHR ''.'' # s" by (auto simp: has_prefix_iff)
    then show ?thesis using collapse_dots_none [of p] by (auto simp: trim_prefix_def has_prefix_def)
  qed (simp add: trim_prefix_def collapse_dots_none)
qed

lemma digits_plain: "list_all is_digit n \<Longrightarrow> CHR ''['' \<notin> set n \<and> CHR ''.'' \<notin> set n"
  by (auto simp: list_all_iff is_digit_def)

lemma one_dot: "CHR ''.'' \<notin> set s \<Longrightarrow> CHR ''.'' \<notin> set t \<Longrightarrow> \<not> contains (s @ CHR ''.'' # t) ''..''"
proof -
  have no: "\<not> contains t ''..''" if "CHR ''.'' \<notin> set t" for t
    using that by (induction t) (auto simp: has_prefix_def)
  show "CHR ''.'' \<notin> set s \<Longrightarrow> CHR ''.'' \<notin> set t \<Longrightarrow> \<not> contains (s @ CHR ''.'' # t) ''..''"
  proof (induction s)
    case Nil
    then show ?case using no [of t] by (cases t) (auto simp: has_prefix_def)
  qed (auto simp: has_prefix_def)
qed

text \<open>
  Normalised paths are in the dotted form of gjson: no empty component in the middle and
  no leading dot. A path in that form is left as it is, and the bracket notation of the
  configuration \<open>$.name[n]\<close> means \<open>name.n\<close>.
\<close>

lemma normalized_paths:
  shows "\<not> contains (normalizeJSONPath p) ''..'' \<and> \<not> has_prefix (normalizeJSONPath p) ''.'' \<and>
    (trim_space p = p \<and> CHR ''['' \<notin> set p \<and> \<not> has_prefix p ''$'' \<and> \<not> has_prefix p ''.'' \<and> \<not> contains p ''..'' \<longrightarrow>
       normalizeJSONPath p = p) \<and>
    (trim_space (''$.'' @ name @ ''['' @ n @ '']'') = ''$.'' @ name @ ''['' @ n @ '']'' \<and> name \<noteq> [] \<and> n \<noteq> [] \<and>
       CHR ''['' \<notin> set name \<and> \<not> has_prefix name ''$'' \<and> CHR ''.'' \<notin> set name \<and> list_all is_digit n \<longrightarrow>
       normalizeJSONPath (''$.'' @ name @ ''['' @ n @ '']'') = name @ ''.'' @ n)"
proof (intro conjI impI)
  show "\<not> contains (normalizeJSONPath p) ''..''" and "\<not> has_prefix (normalizeJSONPath p) ''.''"
    using collapse_normal by (simp_all add: normalizeJSONPath_def Let_def has_prefix_def)
next
  assume p: "trim_space p = p \<and> CHR ''['' \<notin> set p \<and> \<not> has_prefix p ''$'' \<and> \<not> has_prefix p ''.'' \<and> \<not> contains p ''..''"
  have "trim_prefix (trim_prefix p ''$.'') ''$'' = p"
    using p by (cases p) (auto simp: trim_prefix_def has_prefix_def)
  moreover have "replace_matches match_prop 3 p = p" "replace_matches match_index 1 p = p"
    using replace_plain [of p match_prop 3 "[]"] replace_plain [of p match_index 1 "[]"] match_bracket p by simp_all
  ultimately show "normalizeJSONPath p = p"
    using p by (simp add: normalizeJSONPath_def Let_def collapse_dots_id trim_prefix_def)
next
  assume a: "trim_space (''$.'' @ name @ ''['' @ n @ '']'') = ''$.'' @ name @ ''['' @ n @ '']'' \<and> name \<noteq> [] \<and> n \<noteq> [] \<and>
       CHR ''['' \<notin> set name \<and> \<not> has_prefix name ''$'' \<and> CHR ''.'' \<notin> set name \<and> list_all is_digit n"
  let ?q = "name @ ''['' @ n @ '']''"
  have p1: "trim_prefix (trim_prefix (''$.'' @ ?q) ''$.'') ''$'' = ?q"
    using a by (cases name) (auto simp: trim_prefix_def has_prefix_def)
  have "replace_matches match_prop 3 (''['' @ n @ '']'') = ''['' @ replace_matches match_prop 3 (n @ '']'')"
    using match_prop_digits [of n "'']''"] a by simp
  also have "replace_matches match_prop 3 (n @ '']'') = n @ '']''"
    using replace_plain [of "n @ '']''" match_prop 3 "[]"] match_bracket a digits_plain by simp
  finally have p2: "replace_matches match_prop 3 ?q = ?q"
    using replace_plain [of name match_prop 3 "''['' @ n @ '']''"] match_bracket a by simp
  have p3: "replace_matches match_index 1 ?q = name @ ''.'' @ n"
    using replace_plain [of name match_index 1 "''['' @ n @ '']''"] match_bracket match_index_group [of n "[]"] a by simp
  have p4: "collapse_dots (name @ ''.'' @ n) = name @ ''.'' @ n"
    by (rule collapse_dots_id) (use a digits_plain one_dot in auto)
  have p5: "trim_prefix (name @ ''.'' @ n) ''.'' = name @ ''.'' @ n"
    using a by (cases name) (auto simp: trim_prefix_def has_prefix_def)
  have p0: "trim_space (''$.'' @ ?q) = ''$.'' @ ?q" using a by blast
  show "normalizeJSONPath (''$.'' @ ?q) = name @ ''.'' @ n"
    unfolding normalizeJSONPath_def Let_def p0 p1 p2 p3 p4 p5 by simp
qed

section \<open>Templates\<close>

text \<open>Every cached template is the parsed form of its text.\<close>

definition cache_ok :: "('w, 'r, 't) adapter_env \<Rightarrow> 'w \<Rightarrow> bool" where
  "cache_ok E w \<longleftrightarrow> (\<forall>(body, t)\<in>set (ae_cache E w). ae_ParseTemplate E (templateFuncs E) body = Inr t)"

text \<open>
  The template cache is transparent: on a world whose cache holds parsed templates, the
  adapter gets the same template, or the same error, as if it had parsed the text, and the
  cache stays so. The hypothesis says that the world keeps the cache it is given.
\<close>

lemma template_cache_transparent:
  assumes "\<And>c w. ae_cache E (ae_set_cache E c w) = c" and "cache_ok E w"
  shows "snd (getTemplate E body w) = ae_ParseTemplate E (templateFuncs E) body \<and> cache_ok E (fst (getTemplate E body w))"
proof (cases "map_of (ae_cache E w) body")
  case None
  then show ?thesis using assms by (auto simp: getTemplate_def cache_ok_def split: sum.splits)
next
  case (Some t)
  then show ?thesis using assms(2) map_of_SomeD [OF Some] by (auto simp: getTemplate_def cache_ok_def)
qed

section \<open>A concrete environment\<close>

text \<open>
  A gjson whose results are texts that may be missing, which finds the content of a message
  and of a delta only; the world is the template cache.
\<close>

definition demo_gjson :: "string option gjson" where
  "demo_gjson = \<lparr>gj_Get = (\<lambda>s p. if p = ''choices.0.delta.content'' then Some s else None), gj_Valid = (\<lambda>_. False),
     gj_Parse = Some, gr_Exists = (\<lambda>r. r \<noteq> None), gr_IsNull = (\<lambda>_. False), gr_String = or_else [],
     gr_Value = map_option JStr, gr_Get = (\<lambda>_ _. None), gr_IsArray = (\<lambda>_. False), gr_IsObject = (\<lambda>_. False),
     gr_Array = (\<lambda>_. [])\<rparr>"

definition demo_adapter_env :: "(unit, string option, string) adapter_env" where
  "demo_adapter_env = \<lparr>ae_gjson = demo_gjson, ae_unicode = ascii_tables, ae_Marshal = (\<lambda>_. Inr ''{}''), ae_Unmarshal = (\<lambda>_. None),
     ae_NewRequest = (\<lambda>_ _. None), ae_ReadAll = (\<lambda>p w. (w, p_Body p, None)), ae_tick = id, ae_ctx = (\<lambda>_ _. None),
     ae_now = (\<lambda>_. 0), ae_emit = (\<lambda>_ w. (w, None)), ae_Getenv = (\<lambda>_. []), ae_ParseTemplate = (\<lambda>_ s. Inr s),
     ae_ExecuteTemplate = (\<lambda>s _ _. Inr s), ae_cache = (\<lambda>_. []), ae_set_cache = (\<lambda>_ w. w)\<rparr>"

definition demo_cache_env :: "(string template_cache, string option, string) adapter_env" where
  "demo_cache_env = \<lparr>ae_gjson = demo_gjson, ae_unicode = ascii_tables, ae_Marshal = (\<lambda>_. Inr ''{}''), ae_Unmarshal = (\<lambda>_. None),
     ae_NewRequest = (\<lambda>_ _. None), ae_ReadAll = (\<lambda>p w. (w, p_Body p, None)), ae_tick = id, ae_ctx = (\<lambda>_ _. None),
     ae_now = (\<lambda>_. 0), ae_emit = (\<lambda>_ w. (w, None)), ae_Getenv = (\<lambda>_. []), ae_ParseTemplate = (\<lambda>_ s. Inr s),
     ae_ExecuteTemplate = (\<lambda>s _ _. Inr s), ae_cache = id, ae_set_cache = (\<lambda>c _. c)\<rparr>"

lemma template_cache_transparent_witness:
  "snd (getTemplate demo_cache_env ''x'' [(''x'', ''x'')]) = Inr ''x''"
  using template_cache_transparent [of demo_cache_env "[(''x'', ''x'')]" "''x''"]
  by (simp add: demo_cache_env_def cache_ok_def)

definition demo_openai_agent :: AgentConfig where
  "demo_openai_agent = (demo_agent ''a'' [])\<lparr>ag_Type := ''openai'', ag_Endpoint := ''http://a'',
     ag_Auth := demo_auth\<lparr>auth_Type := ''bearer'', auth_Token := ''s''\<rparr>\<rparr>"

definition demo_openai_config :: Config where
  "demo_openai_config = empty_config\<lparr>cfg_Agents := [demo_openai_agent]\<rparr>"

theorem failures_explained_witness:
  "resp_Status (case snd (ad_TranslateResponse (OpenAIAdapter demo_adapter_env) None demo_openai_agent
      \<lparr>p_StatusCode = 404, p_Header = [], p_Body = ''gone''\<rparr> ()) of Inr r \<Rightarrow> r | Inl _ \<Rightarrow> demo_answer) = StatusFailed"
proof -
  let ?p = "\<lparr>p_StatusCode = 404, p_Header = [], p_Body = ''gone''\<rparr>"
  obtain w r where r: "ad_TranslateResponse (OpenAIAdapter demo_adapter_env) None demo_openai_agent ?p () = (w, Inr r)"
    by (simp add: adapter_defs OpenAI_TranslateResponse_def read_response_def demo_adapter_env_def)
  have "(''openai'', OpenAIAdapter demo_adapter_env) \<in> set (gateway_adapters demo_adapter_env)"
    by (simp add: gateway_adapters_list)
  from failures_explained [OF this r] show ?thesis by (simp add: r)
qed

lemma openai_payload_fields_witness:
  "map_of (openai_payload demo_openai_agent demo_task) ''model'' = Some (JStr ''gpt-4o'')"
  using openai_payload_fields [of demo_openai_agent demo_task]
  by (simp add: demo_openai_agent_def demo_agent_def opt_string_def or_else_def)

lemma normalized_paths_witness: "normalizeJSONPath ''$.a[0]'' = ''a.0''"
proof -
  have "trim_space ''$.a[0]'' = ''$.a[0]''" by (simp add: trim_space_def strip_def is_space_def)
  then show ?thesis using normalized_paths [of "''a''" "''a''" "''0''"] by (simp add: has_prefix_def is_digit_def)
qed

text \<open>An accepted configuration with one OpenAI agent.\<close>

definition demo_url :: "string \<Rightarrow> url option" where
  "demo_url s = Some \<lparr>url_Scheme = ''http'', url_Hostname = ''a'', url_has_User = False, url_Fragment = []\<rparr>"

lemma demo_openai_loads:
  "Load ascii_tables demo_url (\<lambda>_. Some []) (\<lambda>_. []) (\<lambda>_. Some demo_openai_config) [] = Inr (applyDefaults demo_openai_config)"
proof -
  have "validate_agents ascii_tables demo_url [] (cfg_Agents (applyDefaults demo_openai_config)) = None"
    by (simp add: validate_agent_def validate_endpoint_def validate_auth_def validate_mapping_def agent_types_def
        applyDefaults_def default_agent_def dflt_def demo_openai_config_def demo_openai_agent_def demo_agent_def demo_auth_def
        empty_config_def demo_url_def trim_space_def strip_def is_space_def has_prefix_def)
  moreover have "validate_fallbacks (applyDefaults demo_openai_config) = None"
    by (simp add: validate_fallbacks_def adj_of_def applyDefaults_def default_agent_def demo_openai_config_def
        demo_openai_agent_def demo_agent_def empty_config_def agent_ids_def)
  moreover have "validate_role (applyDefaults demo_openai_config) = None \<and> validate_security (applyDefaults demo_openai_config) = None \<and>
      validate_storage (applyDefaults demo_openai_config) = None \<and> validate_worker (applyDefaults demo_openai_config) = None"
    by (simp add: validate_role_def validate_security_def validate_storage_def
        validate_worker_def validate_worker_fields_def effective_role_def effective_backend_def demo_openai_config_def
        applyDefaults_def default_worker_def default_server_def default_storage_def dflt_def empty_config_def
        zero_worker_def zero_postgres_def MaxJobBatchSize_def MaxWorkerPollIntervalMilliseconds_def
        MaxJobLeaseDuration_def MaxRetryBackoff_def MaxWorkerDrainTimeoutSeconds_def hour_def second_def
        go_div_nonneg Let_def)
  ultimately have "Validate ascii_tables demo_url (applyDefaults demo_openai_config) = None" by (simp add: Validate_None)
  then show ?thesis by (simp add: Load_def Let_def)
qed

theorem requests_carry_credentials_witness:
  "\<exists>ad. Adapter_Get ''openai'' (gateway_adapters demo_adapter_env) = Inr ad \<and> ad_Type ad = ''openai''"
proof -
  let ?a = "default_agent demo_openai_agent"
  have "?a \<in> set (cfg_Agents (applyDefaults demo_openai_config))"
    by (simp add: applyDefaults_def demo_openai_config_def empty_config_def)
  from requests_carry_credentials [OF demo_openai_loads this, of demo_adapter_env] show ?thesis
    by (auto simp: default_agent_def demo_openai_agent_def)
qed

text \<open>A gateway whose OpenAI agent streams one token.\<close>

definition demo_stream_config :: Config where
  "demo_stream_config = demo_gateway\<lparr>cfg_Agents := [demo_openai_agent]\<rparr>"

definition demo_stream_env :: "(unit, nat, MemoryTaskStore) gateway_env" where
  "demo_stream_env = demo_gate_env\<lparr>ge_cfg := Some demo_stream_config,
     ge_disp := demo_dispatcher\<lparr>d_cfg := Some demo_stream_config, d_reg := gateway_adapters demo_adapter_env,
       d_ops := demo_ops\<lparr>wo_do := (\<lambda>_ _ w. (w, Inr \<lparr>p_StatusCode = 200, p_Header = [], p_Body = ''data: x''\<rparr>))\<rparr>\<rparr>\<rparr>"

lemma demo_scan: "scan_lines ''data: x'' None = ([''data: x''], None)"
  by (simp add: scan_lines_def drop_cr_def max_token_def Let_def)

lemma demo_line: "trim_space ''data: x'' = ''data: x''" "data_of ''data: x'' = Some ''x''"
  by (simp_all add: data_of_def trim_prefix_def has_prefix_def trim_space_def strip_def is_space_def)

lemma demo_tokens:
  "\<exists>s t c. ad_TranslateStream (OpenAIAdapter demo_adapter_env) d demo_openai_agent
     \<lparr>p_StatusCode = 200, p_Header = [], p_Body = ''data: x''\<rparr> () = ((), [s, t, c], None) \<and> of_type EventTaskStarted s"
  by (simp add: adapter_defs OpenAI_TranslateStream_def translate_stream_def demo_adapter_env_def demo_scan demo_line
      openai_line_def demo_gjson_def or_else_def of_type_def)

lemma run_stream_body: "\<exists>out. rp_Body (snd (run_stream G task g)) = B_events out"
  by (simp add: run_stream_def NewSSEResponseWriter_def Let_def split: prod.splits)

lemma demo_reliable: "reliable_emitter demo_adapter_env"
  by (simp add: reliable_emitter_def demo_adapter_env_def)

theorem streamed_reply_well_formed_witness:
  "\<exists>out. rp_Body (snd (DispatchTaskStream demo_stream_env demo_post demo_gate)) = B_events out \<and> well_formed_stream out"
proof -
  let ?t = "demo_task\<lparr>tr_ID := ''t1''\<rparr>"
  have rt: "read_task demo_stream_env demo_post demo_gate = (demo_gate, Inr ?t)"
    by (simp add: demo_post_def read_task_def readRequestBody_def demo_stream_env_def gate_eval)
  have rb: "task_rbac demo_stream_env demo_post ?t demo_gate = None"
    by (simp add: demo_post_def task_rbac_def Allows_def demo_stream_env_def gate_eval)
  have d: "DispatchTaskStream demo_stream_env demo_post demo_gate = run_stream demo_stream_env ?t demo_gate"
    by (simp add: DispatchTaskStream_def rt rb)
  obtain out where out: "rp_Body (snd (run_stream demo_stream_env ?t demo_gate)) = B_events out"
    using run_stream_body by blast
  have "d_reg (ge_disp demo_stream_env) = gateway_adapters demo_adapter_env" by (simp add: demo_stream_env_def)
  from streamed_reply_well_formed [OF this demo_reliable] show ?thesis
    using d out by (metis surjective_pairing)
qed

end
