(* ===== verification/Schema_Migrations.thy ===== *)
theory Schema_Migrations
  imports Go_Errors Job_Ledger "HOL-Library.AList"
begin

text \<open>
  The schema migrations, pkg/storage/migrations.go: the parsing and validation of the embedded
  SQL files (\<open>LoadMigrations\<close>) and their application in one transaction (\<open>runMigrations\<close>). The
  file system, SHA-256 and the effect of an SQL text on the schema are parameters, and so is
  every failure of the database; errors carry the text of the code.
\<close>

section \<open>Library functions\<close>

text \<open>
  \<open>strconv.Quote\<close>, which \<open>%q\<close> prints. \<open>unicode.IsPrint\<close> is a table. A byte that does not belong
  to valid UTF-8 decodes to the replacement rune with width one.
\<close>

definition hex_byte :: "nat \<Rightarrow> string" where
  "hex_byte n = [hex_digit (n div 16 mod 16), hex_digit (n mod 16)]"

definition quote_rune :: "(nat \<Rightarrow> bool) \<Rightarrow> nat \<times> string \<Rightarrow> string" where
  "quote_rune isPrint x =
     (let r = fst x; s = snd x in
      if r = rune_error \<and> length s = 1 then CHR 0x5C # ''x'' @ hex_byte (byte (hd s))
      else if r = 0x22 \<or> r = 0x5C then CHR 0x5C # s
      else if isPrint r then s
      else if r = 7 then CHR 0x5C # ''a'' else if r = 8 then CHR 0x5C # ''b''
      else if r = 12 then CHR 0x5C # ''f'' else if r = 10 then CHR 0x5C # ''n''
      else if r = 13 then CHR 0x5C # ''r'' else if r = 9 then CHR 0x5C # ''t''
      else if r = 11 then CHR 0x5C # ''v''
      else if r < 32 \<or> r = 127 then CHR 0x5C # ''x'' @ hex_byte r
      else if r < 65536 then CHR 0x5C # ''u'' @ hex_byte (r div 256) @ hex_byte r
      else CHR 0x5C # ''U'' @ hex_byte (r div 16777216) @ hex_byte (r div 65536) @ hex_byte (r div 256) @ hex_byte r)"

definition go_quote :: "(nat \<Rightarrow> bool) \<Rightarrow> string \<Rightarrow> string" where
  "go_quote isPrint s = CHR 0x22 # concat (map (quote_rune isPrint) (segs s)) @ [CHR 0x22]"

text \<open>
  \<open>strconv.Atoi\<close>: an optional sign and decimal digits, in the range of a 64-bit \<open>int\<close>. The digits
  are read as an unsigned number first, which reports the error it meets first.
\<close>

fun scan_uint :: "nat \<Rightarrow> string \<Rightarrow> string + nat" where
  "scan_uint n [] = Inr n"
| "scan_uint n (c # s) =
     (if \<not> (48 \<le> byte c \<and> byte c \<le> 57) then Inl ''invalid syntax''
      else if 10 * n + digit_val c \<ge> 2 ^ 64 then Inl ''value out of range''
      else scan_uint (10 * n + digit_val c) s)"

definition atoi_error :: "(nat \<Rightarrow> bool) \<Rightarrow> string \<Rightarrow> string \<Rightarrow> string" where
  "atoi_error isPrint s why = ''strconv.Atoi: parsing '' @ go_quote isPrint s @ '': '' @ why"

definition atoi :: "(nat \<Rightarrow> bool) \<Rightarrow> string \<Rightarrow> string + int" where
  "atoi isPrint s =
     (let neg = (s \<noteq> [] \<and> hd s = CHR ''-'');
          digits = (if s \<noteq> [] \<and> (hd s = CHR ''-'' \<or> hd s = CHR ''+'') then tl s else s) in
      if digits = [] then Inl (atoi_error isPrint s ''invalid syntax'')
      else case scan_uint 0 digits of
             Inl why \<Rightarrow> Inl (atoi_error isPrint s why)
           | Inr n \<Rightarrow>
               if \<not> neg \<and> n \<ge> 2 ^ 63 \<or> neg \<and> n > 2 ^ 63 then Inl (atoi_error isPrint s ''value out of range'')
               else Inr (if neg then - int n else int n))"

definition trim_suffix :: "string \<Rightarrow> string \<Rightarrow> string" where
  "trim_suffix s suf = (if has_suffix s suf then take (length s - length suf) s else s)"

text \<open>\<open>strings.SplitN(s, "_", 2)\<close>: the two parts, if there is a separator.\<close>

definition split_underscore :: "string \<Rightarrow> (string \<times> string) option" where
  "split_underscore s =
     (if CHR ''_'' \<in> set s
      then Some (takeWhile (\<lambda>c. c \<noteq> CHR ''_'') s, tl (dropWhile (\<lambda>c. c \<noteq> CHR ''_'') s))
      else None)"

section \<open>Migration files\<close>

definition ErrMigrationChecksumMismatch :: string where
  "ErrMigrationChecksumMismatch = ''migration checksum mismatch''"
definition ErrInvalidMigration :: string where
  "ErrInvalidMigration = ''invalid migration definition''"
definition ErrMigrationNameMismatch :: string where
  "ErrMigrationNameMismatch = ''migration name mismatch''"
definition ErrMigrationVersionTooNew :: string where
  "ErrMigrationVersionTooNew = ''database migration version is newer than this binary''"

record Migration =
  mig_Version :: int
  mig_Name :: string
  mig_Checksum :: string
  mig_SQL :: string

text \<open>The file system: a directory listing and the content of a file, or the text of an error.\<close>

record dir_entry =
  de_Name :: string
  de_IsDir :: bool

record mig_fs =
  fs_ReadDir :: "string \<Rightarrow> string + dir_entry list"
  fs_ReadFile :: "string \<Rightarrow> string + bytes"
  fs_sha256 :: "bytes \<Rightarrow> bytes"
  fs_isPrint :: "nat \<Rightarrow> bool"

definition invalid_migration :: "string \<Rightarrow> go_err" where
  "invalid_migration what = Err_wrap ErrInvalidMigration (Err_text what)"

text \<open>\<open>path.Join\<close> of the directory and the name of one of its entries.\<close>

definition join_base :: "string \<Rightarrow> string \<Rightarrow> string" where
  "join_base baseDir name = (if baseDir = ''.'' then name else baseDir @ ''/'' @ name)"

text \<open>The checks of one file name: its version.\<close>

definition parse_name :: "(nat \<Rightarrow> bool) \<Rightarrow> string \<Rightarrow> go_err + int" where
  "parse_name isPrint name =
     (let q = go_quote isPrint in
      case split_underscore name of
        None \<Rightarrow> Inl (invalid_migration (''migration filename '' @ q name @ '' must follow <version>_<name>.sql pattern''))
      | Some (v, rest) \<Rightarrow>
          if v = [] then
            Inl (invalid_migration (''migration filename '' @ q name @ '' must follow <version>_<name>.sql pattern''))
          else if trim_space (trim_suffix rest ''.sql'') = [] then
            Inl (invalid_migration (''migration filename '' @ q name @ '' has empty logical name before .sql''))
          else case atoi isPrint v of
            Inl err \<Rightarrow> Inl (invalid_migration (''migration filename '' @ q name @ '' has invalid version '' @ q v @ '': '' @ err))
          | Inr version \<Rightarrow>
              if version \<le> 0 then
                Inl (invalid_migration (''migration filename '' @ q name @ '' has invalid version '' @ q v @ '': <nil>''))
              else Inr version)"

text \<open>The loop over the directory, with \<open>seenVersions\<close> and the migrations collected so far.\<close>

fun load_entries :: "mig_fs \<Rightarrow> string \<Rightarrow> (int \<times> string) list \<Rightarrow> Migration list \<Rightarrow> dir_entry list \<Rightarrow> go_err + Migration list" where
  "load_entries F baseDir seen ms [] = Inr ms"
| "load_entries F baseDir seen ms (e # es) =
     (if de_IsDir e \<or> \<not> has_suffix (de_Name e) ''.sql'' then load_entries F baseDir seen ms es
      else case parse_name (fs_isPrint F) (de_Name e) of
        Inl err \<Rightarrow> Inl err
      | Inr version \<Rightarrow>
          (case map_of seen version of
             Some prevName \<Rightarrow> Inl (invalid_migration (''duplicate migration version '' @ show_int version @ '' in ''
               @ go_quote (fs_isPrint F) prevName @ '' and '' @ go_quote (fs_isPrint F) (de_Name e)))
           | None \<Rightarrow>
               (case fs_ReadFile F (join_base baseDir (de_Name e)) of
                  Inl err \<Rightarrow> Inl (invalid_migration (''failed to read migration file ''
                    @ go_quote (fs_isPrint F) (join_base baseDir (de_Name e)) @ '': '' @ err))
                | Inr content \<Rightarrow>
                    load_entries F baseDir ((version, de_Name e) # seen)
                      (ms @ [\<lparr>mig_Version = version, mig_Name = de_Name e,
                              mig_Checksum = hex_encode (fs_sha256 F content), mig_SQL = content\<rparr>]) es)))"

text \<open>The loop that compares the sorted versions with 1, 2, and so on.\<close>

fun check_versions :: "(nat \<Rightarrow> bool) \<Rightarrow> int \<Rightarrow> Migration list \<Rightarrow> go_err option" where
  "check_versions isPrint expected [] = None"
| "check_versions isPrint expected (m # ms) =
     (if mig_Version m \<noteq> expected then
        Some (invalid_migration (''non-monotonic migration version: expected '' @ show_int expected @ '', got ''
          @ show_int (mig_Version m) @ '' for '' @ go_quote isPrint (mig_Name m)))
      else check_versions isPrint (expected + 1) ms)"

definition LoadMigrations :: "mig_fs \<Rightarrow> go_err + Migration list" where
  "LoadMigrations F =
     (case (case fs_ReadDir F ''migrations'' of
              Inr entries \<Rightarrow> Inr (''migrations'', entries)
            | Inl _ \<Rightarrow>
                (case fs_ReadDir F ''.'' of
                   Inl rerr \<Rightarrow> Inl (invalid_migration (''failed to read migration directory: '' @ rerr))
                 | Inr entries \<Rightarrow> Inr (''.'', entries))) of
        Inl err \<Rightarrow> Inl err
      | Inr (baseDir, entries) \<Rightarrow>
          (case load_entries F baseDir [] [] entries of
             Inl err \<Rightarrow> Inl err
           | Inr ms \<Rightarrow>
               if ms = [] then Inl (invalid_migration ''no migration files found'')
               else
                 let sorted = sort_key mig_Version ms in
                 case check_versions (fs_isPrint F) 1 sorted of
                   Some err \<Rightarrow> Inl err
                 | None \<Rightarrow> Inr sorted))"

section \<open>Applying migrations\<close>

text \<open>
  The database as the migrations see it: the table \<open>schema_migrations\<close>, if it exists, and the
  rest of the schema. A row that is read back is a \<open>recordedMigration\<close>.
\<close>

record schema_row =
  sr_version :: int
  sr_name :: string
  sr_checksum :: string
  sr_applied_at :: go_time

record 'd mig_db =
  md_table :: "schema_row list option"
  md_schema :: 'd

record recordedMigration =
  rec_Name :: string
  rec_Checksum :: string

text \<open>
  The transaction: which of its statements fail and how, the effect of an SQL text, and the
  order in which Go ranges over a map. A commit may take effect although the client sees an
  error.
\<close>

record 'd tx_env =
  tx_Begin :: "db_raw option"
  tx_Lock :: "db_raw option"
  tx_Create :: "db_raw option"
  tx_Query :: "db_raw option"
  tx_Scan :: "int \<Rightarrow> db_raw option"
  tx_Iterate :: "db_raw option"
  tx_range :: "(int \<times> recordedMigration) list \<Rightarrow> (int \<times> recordedMigration) list"
  tx_Sql :: "string \<Rightarrow> 'd \<Rightarrow> db_raw + 'd"
  tx_Record :: "int \<Rightarrow> db_raw option"
  tx_Now :: go_time
  tx_Commit :: db_outcome

definition driver_err :: "string list \<Rightarrow> db_raw \<Rightarrow> go_err" where
  "driver_err tokens e = (case redactError tokens e of Raw_ctx c \<Rightarrow> Err_ctx c | Raw_msg m \<Rightarrow> Err_text m)"

text \<open>Reading the recorded rows into a map, the later row of a version winning.\<close>

fun scan_rows :: "'d tx_env \<Rightarrow> string list \<Rightarrow> (int \<times> recordedMigration) list \<Rightarrow> schema_row list
    \<Rightarrow> go_err + (int \<times> recordedMigration) list" where
  "scan_rows T tokens applied [] = Inr applied"
| "scan_rows T tokens applied (r # rs) =
     (case tx_Scan T (sr_version r) of
        Some e \<Rightarrow> Inl (Err_wrap ''scan schema_migrations'' (driver_err tokens e))
      | None \<Rightarrow> scan_rows T tokens
          (AList.update (sr_version r) \<lparr>rec_Name = sr_name r, rec_Checksum = sr_checksum r\<rparr> applied) rs)"

definition find_version :: "int \<Rightarrow> Migration list \<Rightarrow> Migration option" where
  "find_version v ms = find (\<lambda>m. mig_Version m = v) ms"

text \<open>The recorded migrations are known to the binary, under the recorded name.\<close>

fun check_known :: "Migration list \<Rightarrow> (int \<times> recordedMigration) list \<Rightarrow> go_err option" where
  "check_known ms [] = None"
| "check_known ms ((version, recorded) # rs) =
     (case find_version version ms of
        None \<Rightarrow> Some (Err_wrap ErrMigrationVersionTooNew
          (Err_text (''recorded version '' @ show_int version @ '' ('' @ rec_Name recorded @ '')'')))
      | Some m \<Rightarrow>
          if rec_Name recorded \<noteq> mig_Name m then
            Some (Err_wrap ErrMigrationNameMismatch (Err_text (''version '' @ show_int version @ '' recorded as ''
              @ rec_Name recorded @ '', expected '' @ mig_Name m)))
          else check_known ms rs)"

text \<open>The loop that verifies checksums and applies what is not recorded yet.\<close>

fun apply_migrations :: "'d tx_env \<Rightarrow> string list \<Rightarrow> (int \<times> recordedMigration) list \<Rightarrow> Migration list
    \<Rightarrow> schema_row list \<Rightarrow> 'd \<Rightarrow> go_err + schema_row list \<times> 'd" where
  "apply_migrations T tokens applied [] table d = Inr (table, d)"
| "apply_migrations T tokens applied (m # ms) table d =
     (case map_of applied (mig_Version m) of
        Some rec \<Rightarrow>
          if rec_Checksum rec \<noteq> mig_Checksum m then
            Inl (Err_wrap ErrMigrationChecksumMismatch (Err_text (''version '' @ show_int (mig_Version m) @ '' (''
              @ mig_Name m @ '') recorded checksum '' @ rec_Checksum rec @ '' does not match current '' @ mig_Checksum m)))
          else apply_migrations T tokens applied ms table d
      | None \<Rightarrow>
          (case tx_Sql T (mig_SQL m) d of
             Inl e \<Rightarrow> Inl (Err_wrap (''execute migration '' @ mig_Name m) (driver_err tokens e))
           | Inr d' \<Rightarrow>
               (case tx_Record T (mig_Version m) of
                  Some e \<Rightarrow> Inl (Err_wrap (''record migration '' @ mig_Name m) (driver_err tokens e))
                | None \<Rightarrow> apply_migrations T tokens applied ms
                    (table @ [\<lparr>sr_version = mig_Version m, sr_name = mig_Name m,
                               sr_checksum = mig_Checksum m, sr_applied_at = tx_Now T\<rparr>]) d')))"

text \<open>The statements between \<open>Begin\<close> and \<open>Commit\<close>; an error leads to the deferred \<open>Rollback\<close>.\<close>

definition migration_tx :: "'d tx_env \<Rightarrow> string list \<Rightarrow> Migration list \<Rightarrow> 'd mig_db \<Rightarrow> go_err + 'd mig_db" where
  "migration_tx T tokens ms db =
     (case tx_Lock T of Some e \<Rightarrow> Inl (Err_wrap ''acquire advisory lock'' (driver_err tokens e)) | None \<Rightarrow>
      case tx_Create T of Some e \<Rightarrow> Inl (Err_wrap ''create schema_migrations table'' (driver_err tokens e)) | None \<Rightarrow>
      case tx_Query T of Some e \<Rightarrow> Inl (Err_wrap ''query schema_migrations'' (driver_err tokens e)) | None \<Rightarrow>
      let table = (case md_table db of None \<Rightarrow> [] | Some t \<Rightarrow> t) in
      case scan_rows T tokens [] (sort_key sr_version table) of Inl err \<Rightarrow> Inl err | Inr applied \<Rightarrow>
      case tx_Iterate T of Some e \<Rightarrow> Inl (Err_wrap ''iterate schema_migrations'' (driver_err tokens e)) | None \<Rightarrow>
      case check_known ms (tx_range T applied) of Some err \<Rightarrow> Inl err | None \<Rightarrow>
      case apply_migrations T tokens applied ms table (md_schema db) of
        Inl err \<Rightarrow> Inl err
      | Inr (table', d') \<Rightarrow> Inr (db\<lparr>md_table := Some table', md_schema := d'\<rparr>))"

definition runMigrations ::
  "mig_fs \<Rightarrow> 'd tx_env \<Rightarrow> bool \<Rightarrow> string list \<Rightarrow> 'd mig_db \<Rightarrow> 'd mig_db \<times> go_err option" where
  "runMigrations F T has_pool tokens db =
     (if \<not> has_pool then (db, Some (Err_text ''cannot run migrations with nil pool''))
      else case LoadMigrations F of Inl err \<Rightarrow> (db, Some err) | Inr ms \<Rightarrow>
      case tx_Begin T of Some e \<Rightarrow> (db, Some (driver_err tokens e)) | None \<Rightarrow>
      case migration_tx T tokens ms db of Inl err \<Rightarrow> (db, Some err) | Inr db' \<Rightarrow>
      case tx_Commit T of
        Db_ok \<Rightarrow> (db', None)
      | Db_failed e \<Rightarrow> (db, Some (Err_wrap ''commit migrations'' (driver_err tokens e)))
      | Db_lost e \<Rightarrow> (db', Some (Err_wrap ''commit migrations'' (driver_err tokens e))))"

end
