(* ===== verification/Postgres_Store.thy ===== *)
theory Postgres_Store
  imports Memory_Store Schema_Migrations
begin

text \<open>
  The PostgreSQL task store, pkg/storage/postgres.go: the table \<open>task_results\<close> of migration 001
  as a list of rows, the upsert and the lookup as functions on it, and the operations of
  \<open>PostgresTaskStore\<close>, with the opening of a connection pool that the three constructors of
  the package share. The JSON coding of a response and what \<open>jsonb\<close> makes of a text are
  parameters, and so is the outcome of every statement.
\<close>

section \<open>Opening a pool\<close>

record PostgresOptions =
  po_MaxConns :: int
  po_MinConns :: int
  po_MaxConnLifetime :: go_duration
  po_MaxConnIdleTime :: go_duration
  po_HealthCheckPeriod :: go_duration

definition ErrBlankDSN :: go_err where
  "ErrBlankDSN = Err_text ''dsn cannot be blank''"
definition ErrInvalidPoolBounds :: go_err where
  "ErrInvalidPoolBounds = Err_text ''min conns cannot be greater than max conns''"
definition ErrPgStoreClosed :: go_err where
  "ErrPgStoreClosed = Err_text ''postgres task store is closed''"

text \<open>
  The driver: the configuration of a DSN (with the fields the options override), the creation
  of a pool, which may return a pool beside an error, a ping, and the user information of a
  DSN that parses as a URL.
\<close>

record pg_driver =
  pd_ParseConfig :: "string \<Rightarrow> db_raw + PostgresOptions"
  pd_NewWithConfig :: "ctx_error option \<Rightarrow> PostgresOptions \<Rightarrow> bool \<times> db_raw option"
  pd_Ping :: "ctx_error option \<Rightarrow> PostgresOptions \<Rightarrow> db_raw option"
  pd_userinfo :: "string \<Rightarrow> (string option \<times> string) option"

definition override :: "int \<Rightarrow> int \<Rightarrow> int" where
  "override opt x = (if opt > 0 then opt else x)"

definition apply_options :: "PostgresOptions \<Rightarrow> PostgresOptions \<Rightarrow> PostgresOptions" where
  "apply_options options cfg =
     \<lparr>po_MaxConns = override (po_MaxConns options) (po_MaxConns cfg),
      po_MinConns = override (po_MinConns options) (po_MinConns cfg),
      po_MaxConnLifetime = override (po_MaxConnLifetime options) (po_MaxConnLifetime cfg),
      po_MaxConnIdleTime = override (po_MaxConnIdleTime options) (po_MaxConnIdleTime cfg),
      po_HealthCheckPeriod = override (po_HealthCheckPeriod options) (po_HealthCheckPeriod cfg)\<rparr>"

text \<open>
  The common part of the constructors: the pool that was made (\<open>None\<close> if there is none,
  otherwise whether it is still open), and the error or the pool's configuration with the
  tokens to redact. \<open>what\<close> is the name in the messages.
\<close>

definition open_pool ::
  "pg_driver \<Rightarrow> string \<Rightarrow> ctx_error option \<Rightarrow> string \<Rightarrow> PostgresOptions
     \<Rightarrow> bool option \<times> (go_err + PostgresOptions \<times> string list)" where
  "open_pool D what ctx dsn options =
     (if trim_space dsn = [] then (None, Inl (Err_wrap (what @ '': connect'') ErrBlankDSN))
      else if po_MinConns options > 0 \<and> po_MaxConns options > 0 \<and> po_MinConns options > po_MaxConns options
      then (None, Inl (Err_wrap (what @ '': configure pool'') ErrInvalidPoolBounds))
      else case ctx of Some e \<Rightarrow> (None, Inl (Err_wrap (what @ '': connect'') (Err_ctx e))) | None \<Rightarrow>
      let tokens = extractRedactTokens (pd_userinfo D) dsn in
      case pd_ParseConfig D dsn of
        Inl e \<Rightarrow> (None, Inl (Err_wrap (what @ '': parse config'') (driver_err tokens e)))
      | Inr parsed \<Rightarrow>
          let cfg = apply_options options parsed in
          case pd_NewWithConfig D ctx cfg of
            (pool, Some e) \<Rightarrow>
              (if pool then Some False else None, Inl (Err_wrap (what @ '': create pool'') (driver_err tokens e)))
          | (pool, None) \<Rightarrow>
              (case pd_Ping D ctx cfg of
                 Some e \<Rightarrow> (Some False, Inl (Err_wrap (what @ '': ping'') (driver_err tokens e)))
               | None \<Rightarrow> (Some True, Inr (cfg, tokens))))"

section \<open>The store\<close>

record task_row =
  ro_lookup_id :: string
  ro_task_id :: string
  ro_agent_id :: string
  ro_status :: string
  ro_response :: bytes
  ro_created_at :: go_time
  ro_updated_at :: go_time

record PostgresTaskStore =
  ps_rows :: "task_row list"
  ps_pool :: "bool option"      \<comment> \<open>\<open>None\<close>: nil pool; otherwise whether it is open\<close>
  ps_closed :: bool
  ps_redactTokens :: "string list"
  ps_ownsPool :: bool

text \<open>JSON coding of responses, and the text of a \<open>jsonb\<close> value cast from a text.\<close>

record pg_codec =
  pc_Marshal :: "TaskResponse \<Rightarrow> string + bytes"
  pc_Unmarshal :: "bytes \<Rightarrow> string + TaskResponse"
  pc_jsonb :: "bytes \<Rightarrow> bytes option"

definition NewPostgresTaskStore ::
  "pg_driver \<Rightarrow> ctx_error option \<Rightarrow> string \<Rightarrow> PostgresOptions \<Rightarrow> task_row list
     \<Rightarrow> bool option \<times> (go_err + PostgresTaskStore)" where
  "NewPostgresTaskStore D ctx dsn options table =
     (case open_pool D ''postgres task store'' ctx dsn options of
        (pool, Inl e) \<Rightarrow> (pool, Inl e)
      | (pool, Inr (cfg, tokens)) \<Rightarrow>
          (pool, Inr \<lparr>ps_rows = table, ps_pool = pool, ps_closed = False, ps_redactTokens = tokens, ps_ownsPool = True\<rparr>))"

fun TaskStatus_to_string :: "TaskStatus \<Rightarrow> string" where
  "TaskStatus_to_string StatusPending = ''PENDING''"
| "TaskStatus_to_string StatusInProgress = ''IN_PROGRESS''"
| "TaskStatus_to_string StatusCompleted = ''COMPLETED''"
| "TaskStatus_to_string StatusFailed = ''FAILED''"
| "TaskStatus_to_string StatusCanceled = ''CANCELED''"
| "TaskStatus_to_string (OtherStatus s) = s"

text \<open>
  \<open>INSERT ... ON CONFLICT (lookup_id) DO UPDATE\<close> for one row: a row with the identifier gets the
  new columns but keeps \<open>created_at\<close>. One statement may not touch a row twice.
\<close>

definition upsert_row :: "task_row \<Rightarrow> task_row list \<Rightarrow> task_row list" where
  "upsert_row new rs =
     (if ro_lookup_id new \<in> ro_lookup_id ` set rs
      then map (\<lambda>r. if ro_lookup_id r = ro_lookup_id new then new\<lparr>ro_created_at := ro_created_at r\<rparr> else r) rs
      else rs @ [new])"

definition task_row_of :: "go_time \<Rightarrow> TaskResponse \<Rightarrow> bytes \<Rightarrow> string \<Rightarrow> task_row" where
  "task_row_of now resp doc k =
     \<lparr>ro_lookup_id = k, ro_task_id = resp_TaskID resp, ro_agent_id = resp_AgentID resp,
      ro_status = TaskStatus_to_string (resp_Status resp), ro_response = doc, ro_created_at = now, ro_updated_at = now\<rparr>"

definition upsertTaskResultsSQL ::
  "pg_codec \<Rightarrow> go_time \<Rightarrow> string list \<Rightarrow> TaskResponse \<Rightarrow> bytes \<Rightarrow> task_row list \<Rightarrow> db_raw + task_row list" where
  "upsertTaskResultsSQL J now keys resp respJSON rs =
     (case pc_jsonb J respJSON of
        None \<Rightarrow> Inl (Raw_msg ''invalid input syntax for type json'')
      | Some doc \<Rightarrow>
          if \<not> distinct keys then Inl (Raw_msg ''ON CONFLICT DO UPDATE command cannot affect row a second time'')
          else Inr (fold upsert_row (map (task_row_of now resp doc) keys) rs))"

definition run_upsert :: "db_outcome \<Rightarrow> (task_row list \<Rightarrow> db_raw + task_row list) \<Rightarrow> task_row list
    \<Rightarrow> task_row list \<times> db_raw option" where
  "run_upsert out stmt rs =
     (case out of
        Db_failed e \<Rightarrow> (rs, Some e)
      | Db_ok \<Rightarrow> (case stmt rs of Inl e \<Rightarrow> (rs, Some e) | Inr rs' \<Rightarrow> (rs', None))
      | Db_lost e \<Rightarrow> (case stmt rs of Inl _ \<Rightarrow> (rs, Some e) | Inr rs' \<Rightarrow> (rs', Some e)))"

definition pg_redactErr :: "PostgresTaskStore \<Rightarrow> db_raw \<Rightarrow> go_err" where
  "pg_redactErr s e = driver_err (ps_redactTokens s) e"

definition Pg_Save ::
  "pg_codec \<Rightarrow> db_outcome \<Rightarrow> go_time \<Rightarrow> ctx_error option \<Rightarrow> TaskResponse option \<Rightarrow> string list \<Rightarrow> PostgresTaskStore
     \<Rightarrow> PostgresTaskStore \<times> store_error option" where
  "Pg_Save J out now ctx resp aliases s =
     (case resp of None \<Rightarrow> (s, Some ErrNilTaskResponse) | Some r \<Rightarrow>
      if resp_TaskID r = [] then (s, Some ErrEmptyTaskID)
      else case ctx of Some e \<Rightarrow> (s, Some (Store_failed (Err_wrap ''postgres task store: save'' (Err_ctx e)))) | None \<Rightarrow>
      let keys = alias_keys [resp_TaskID r] aliases in
      case pc_Marshal J r of
        Inl e \<Rightarrow> (s, Some (Store_failed (Err_wrap ''postgres task store: save: marshal response'' (Err_text e))))
      | Inr respJSON \<Rightarrow>
          if ps_closed s then (s, Some (Store_failed (Err_wrap ''postgres task store: save'' ErrPgStoreClosed)))
          else if ps_pool s = None then (s, Some (Store_failed (Err_text ''postgres task store: save: pool is nil'')))
          else
            let res = run_upsert out (upsertTaskResultsSQL J now keys r respJSON) (ps_rows s);
                s' = s\<lparr>ps_rows := fst res\<rparr> in
            case snd res of
              Some e \<Rightarrow> (s', Some (Store_failed (Err_wrap ''postgres task store: save'' (pg_redactErr s e))))
            | None \<Rightarrow> (s', None))"

definition loadTaskResultSQL :: "string \<Rightarrow> task_row list \<Rightarrow> bytes option" where
  "loadTaskResultSQL i rs = map_option ro_response (find (\<lambda>r. ro_lookup_id r = i) rs)"

definition decode_response :: "pg_codec \<Rightarrow> bytes \<Rightarrow> store_error + TaskResponse" where
  "decode_response J b =
     (case pc_Unmarshal J b of
        Inl e \<Rightarrow> Inl (Store_failed (Err_wrap ''postgres task store: load: decode response'' (Err_text e)))
      | Inr r \<Rightarrow> Inr r)"

definition Pg_Load ::
  "pg_codec \<Rightarrow> db_outcome \<Rightarrow> ctx_error option \<Rightarrow> string \<Rightarrow> PostgresTaskStore \<Rightarrow> store_error + TaskResponse" where
  "Pg_Load J out ctx i s =
     (case ctx of Some e \<Rightarrow> Inl (Store_failed (Err_wrap ''postgres task store: load'' (Err_ctx e))) | None \<Rightarrow>
      if i = [] then Inl ErrTaskNotFound
      else if ps_closed s then Inl (Store_failed (Err_wrap ''postgres task store: load'' ErrPgStoreClosed))
      else if ps_pool s = None then Inl (Store_failed (Err_text ''postgres task store: load: pool is nil''))
      else case query_sql out (loadTaskResultSQL i (ps_rows s)) of
        Inl e \<Rightarrow> Inl (Store_failed (Err_wrap ''postgres task store: load'' (pg_redactErr s e)))
      | Inr None \<Rightarrow> Inl ErrTaskNotFound
      | Inr (Some respJSON) \<Rightarrow> decode_response J respJSON)"

definition Pg_Ping :: "db_outcome \<Rightarrow> PostgresTaskStore \<Rightarrow> go_err option" where
  "Pg_Ping out s =
     (if ps_closed s then Some (Err_wrap ''postgres task store: ping'' ErrPgStoreClosed)
      else if ps_pool s = None then Some (Err_text ''postgres task store: ping: pool is nil'')
      else case query_sql out () of
        Inl e \<Rightarrow> Some (Err_wrap ''postgres task store: ping'' (pg_redactErr s e)) | Inr _ \<Rightarrow> None)"

definition Pg_Close :: "PostgresTaskStore \<Rightarrow> PostgresTaskStore" where
  "Pg_Close s =
     (if ps_closed s then s
      else (let s' = s\<lparr>ps_closed := True\<rparr> in
            if ps_ownsPool s \<and> ps_pool s \<noteq> None then s'\<lparr>ps_pool := Some False\<rparr> else s'))"

definition Pg_Migrate ::
  "mig_fs \<Rightarrow> 'd tx_env \<Rightarrow> PostgresTaskStore \<Rightarrow> 'd mig_db \<Rightarrow> 'd mig_db \<times> go_err option" where
  "Pg_Migrate F T s db =
     (if ps_closed s then (db, Some (Err_wrap ''postgres task store: migrate'' ErrPgStoreClosed))
      else if ps_pool s = None then (db, Some (Err_text ''postgres task store: migrate: pool is nil''))
      else case runMigrations F T True (ps_redactTokens s) db of
        (db', Some e) \<Rightarrow> (db', Some (Err_wrap ''postgres task store: migrate'' e))
      | (db', None) \<Rightarrow> (db', None))"

section \<open>Facts\<close>

definition rows_ok :: "PostgresTaskStore \<Rightarrow> bool" where
  "rows_ok s \<longleftrightarrow> distinct (map ro_lookup_id (ps_rows s))"

definition row_at :: "string \<Rightarrow> task_row list \<Rightarrow> task_row option" where
  "row_at k rs = find (\<lambda>r. ro_lookup_id r = k) rs"

text \<open>A row as it was, or as it is after the upsert.\<close>

definition upserted :: "task_row \<Rightarrow> task_row option \<Rightarrow> task_row" where
  "upserted new old = (case old of None \<Rightarrow> new | Some r \<Rightarrow> new\<lparr>ro_created_at := ro_created_at r\<rparr>)"

lemma upsert_row_distinct: "distinct (map ro_lookup_id rs) \<Longrightarrow> distinct (map ro_lookup_id (upsert_row new rs))"
  by (auto simp: upsert_row_def comp_def if_distrib [of ro_lookup_id] cong: if_cong)

lemma row_at_simps [simp]:
  "row_at k [] = None" "row_at k (x # xs) = (if ro_lookup_id x = k then Some x else row_at k xs)"
  by (simp_all add: row_at_def)

lemma row_at_None: "row_at k rs = None \<longleftrightarrow> k \<notin> ro_lookup_id ` set rs"
  by (auto simp: row_at_def find_None_iff)

lemma row_at_append: "row_at k (rs @ [x]) = (case row_at k rs of None \<Rightarrow> if ro_lookup_id x = k then Some x else None | Some r \<Rightarrow> Some r)"
  by (induction rs) (auto simp: row_at_def)

lemma row_at_map:
  "row_at k (map (\<lambda>r. if ro_lookup_id r = i then f r else r) rs) =
     (if k = i then map_option f (row_at k rs) else row_at k rs)" if "\<And>r. ro_lookup_id r = i \<Longrightarrow> ro_lookup_id (f r) = i"
  using that by (induction rs) (auto simp: row_at_def)

lemma row_at_upsert:
  "row_at k (upsert_row new rs) = (if k = ro_lookup_id new then Some (upserted new (row_at k rs)) else row_at k rs)"
proof (cases "ro_lookup_id new \<in> ro_lookup_id ` set rs")
  case True
  then obtain r where "row_at (ro_lookup_id new) rs = Some r" using row_at_None by fastforce
  with True show ?thesis by (simp add: upsert_row_def row_at_map upserted_def)
next
  case False
  then show ?thesis
    using row_at_None [of "ro_lookup_id new" rs] by (auto simp: upsert_row_def row_at_append upserted_def split: option.splits)
qed

lemma row_at_upserts:
  "distinct (map ro_lookup_id news) \<Longrightarrow>
     row_at k (fold upsert_row news rs) =
       (case row_at k news of None \<Rightarrow> row_at k rs | Some new \<Rightarrow> Some (upserted new (row_at k rs)))"
proof (induction news arbitrary: rs)
  case (Cons n news)
  have "row_at k news = None" if "k = ro_lookup_id n" using Cons.prems that by (auto simp: row_at_None)
  with Cons show ?case by (cases "row_at k news") (auto simp: row_at_upsert)
qed simp

lemma upserts_distinct: "distinct (map ro_lookup_id rs) \<Longrightarrow> distinct (map ro_lookup_id (fold upsert_row news rs))"
  by (induction news arbitrary: rs) (simp_all add: upsert_row_distinct)

lemma row_at_rows_of: "row_at k (map (task_row_of now r doc) keys) = (if k \<in> set keys then Some (task_row_of now r doc k) else None)"
  by (induction keys) (auto simp: row_at_def task_row_of_def)

text \<open>The statement of \<open>Save\<close> as one change of the table, lookup by lookup.\<close>

lemma Pg_Save_cases:
  assumes "Pg_Save J out now ctx resp al s = (s', e)"
  obtains (kept) err where "s' = s" and "e = Some err"
  | (upsert) r b doc where "resp = Some r" and "resp_TaskID r \<noteq> []" and "ctx = None" and "\<not> ps_closed s"
      and "pc_Marshal J r = Inr b" and "pc_jsonb J b = Some doc" and "ps_pool s \<noteq> None"
      and "s' = s\<lparr>ps_rows := fold upsert_row (map (task_row_of now r doc) (alias_keys [resp_TaskID r] al)) (ps_rows s)\<rparr>"
      and "e = None \<or> (\<exists>x. out = Db_lost x)"
proof -
  show thesis
  proof (cases "\<exists>r b doc. resp = Some r \<and> resp_TaskID r \<noteq> [] \<and> ctx = None \<and> \<not> ps_closed s \<and> pc_Marshal J r = Inr b \<and>
      pc_jsonb J b = Some doc \<and> ps_pool s \<noteq> None \<and> (\<forall>x. out \<noteq> Db_failed x)")
    case True
    then obtain r b doc where h: "resp = Some r" "resp_TaskID r \<noteq> []" "ctx = None" "\<not> ps_closed s" "pc_Marshal J r = Inr b"
      "pc_jsonb J b = Some doc" "ps_pool s \<noteq> None" "\<forall>x. out \<noteq> Db_failed x" by blast
    have "upsertTaskResultsSQL J now (alias_keys [resp_TaskID r] al) r b (ps_rows s) =
        Inr (fold upsert_row (map (task_row_of now r doc) (alias_keys [resp_TaskID r] al)) (ps_rows s))"
      using h(6) alias_keys_distinct [OF h(2)] by (simp add: upsertTaskResultsSQL_def)
    with h assms upsert [OF h(1-7)] show thesis by (cases out) (auto simp: Pg_Save_def Let_def run_upsert_def)
  next
    case False
    have "\<exists>err. (s', e) = (s, Some err)"
    proof (cases "\<exists>r b. resp = Some r \<and> resp_TaskID r \<noteq> [] \<and> ctx = None \<and> \<not> ps_closed s \<and> pc_Marshal J r = Inr b \<and> ps_pool s \<noteq> None")
      case True
      then obtain r b where h: "resp = Some r" "resp_TaskID r \<noteq> []" "ctx = None" "\<not> ps_closed s" "pc_Marshal J r = Inr b"
        "ps_pool s \<noteq> None" by blast
      with False have "pc_jsonb J b = None \<or> (\<exists>x. out = Db_failed x)" by auto
      with h assms show ?thesis
        by (cases out) (auto simp: Pg_Save_def Let_def run_upsert_def upsertTaskResultsSQL_def split: sum.splits)
    next
      case False
      with assms show ?thesis by (auto simp: Pg_Save_def Let_def split: option.splits sum.splits if_splits)
    qed
    then show thesis using kept by auto
  qed
qed

text \<open>What the store serves for a response: the decoding of its stored form.\<close>

definition pg_view :: "pg_codec \<Rightarrow> TaskResponse \<Rightarrow> store_error + TaskResponse" where
  "pg_view J r =
     (case pc_Marshal J r of Inl e \<Rightarrow> Inl ErrTaskNotFound | Inr b \<Rightarrow>
      (case pc_jsonb J b of None \<Rightarrow> Inl ErrTaskNotFound | Some doc \<Rightarrow> decode_response J doc))"

lemma Pg_Load_row_at:
  "\<not> ps_closed s \<Longrightarrow> ps_pool s \<noteq> None \<Longrightarrow> k \<noteq> [] \<Longrightarrow>
     Pg_Load J Db_ok None k s =
       (case row_at k (ps_rows s) of None \<Rightarrow> Inl ErrTaskNotFound | Some r \<Rightarrow> decode_response J (ro_response r))"
  by (auto simp: Pg_Load_def query_sql_def loadTaskResultSQL_def row_at_def split: option.splits)

lemma saved_ids_nonempty: "resp_TaskID r \<noteq> [] \<Longrightarrow> k \<in> saved_ids r al \<Longrightarrow> k \<noteq> []"
  by (auto simp: saved_ids_def)

lemma upsert_lookup:
  assumes "resp_TaskID r \<noteq> []"
  shows "row_at k (fold upsert_row (map (task_row_of now r doc) (alias_keys [resp_TaskID r] al)) rs) =
    (if k \<in> saved_ids r al then Some (upserted (task_row_of now r doc k) (row_at k rs)) else row_at k rs)"
proof -
  have "map ro_lookup_id (map (task_row_of now r doc) ks) = ks" for ks by (simp add: task_row_of_def comp_def)
  then have "distinct (map ro_lookup_id (map (task_row_of now r doc) (alias_keys [resp_TaskID r] al)))"
    using alias_keys_distinct [OF assms] by metis
  then show ?thesis by (simp add: row_at_upserts row_at_rows_of alias_keys_saved [OF assms])
qed

lemma Pg_Load_after_upsert:
  assumes "Pg_Save J out now ctx (Some r) al s = (s', e)" and "s' \<noteq> s \<or> e = None"
  shows "Pg_Load J Db_ok None k s' = (if k \<in> saved_ids r al then pg_view J r else Pg_Load J Db_ok None k s)"
  using assms(1)
proof (cases rule: Pg_Save_cases)
  case (upsert r' b doc)
  then have r: "r' = r" by simp
  have resp: "ro_response (upserted (task_row_of now r doc k) x) = doc" for x
    by (cases x) (simp_all add: upserted_def task_row_of_def)
  have v: "pg_view J r = decode_response J doc" using upsert r by (simp add: pg_view_def)
  show ?thesis
  proof (cases "k = []")
    case True
    then show ?thesis using saved_ids_nonempty upsert(2) r by (auto simp: Pg_Load_def)
  next
    case False
    then show ?thesis
      using upsert r by (simp add: Pg_Load_row_at upsert_lookup resp v)
  qed
qed (use assms in auto)

interpretation postgres: task_store "Pg_Save J out now" "Pg_Load J Db_ok" "pg_view J" rows_ok for J out now
proof
  fix s s' :: PostgresTaskStore and ctx resp al e
  assume "rows_ok s" and "Pg_Save J out now ctx resp al s = (s', e)"
  from this(2,1) show "rows_ok s'"
    by (cases rule: Pg_Save_cases) (auto simp: rows_ok_def upserts_distinct)
next
  fix s s' :: PostgresTaskStore and ctx r al k
  assume "Pg_Save J out now ctx (Some r) al s = (s', None)" and "k \<in> saved_ids r al"
  then show "Pg_Load J Db_ok None k s' = pg_view J r" using Pg_Load_after_upsert by fastforce
next
  fix s s' :: PostgresTaskStore and ctx al e
  assume "Pg_Save J out now ctx None al s = (s', e)"
  then show "s' = s" by (simp add: Pg_Save_def)
next
  fix s s' :: PostgresTaskStore and ctx r al e k
  assume sv: "Pg_Save J out now ctx (Some r) al s = (s', e)"
  show "Pg_Load J Db_ok None k s' = Pg_Load J Db_ok None k s \<or> Pg_Load J Db_ok None k s' = Inl ErrTaskNotFound \<or>
      k \<in> saved_ids r al \<and> Pg_Load J Db_ok None k s' = pg_view J r"
    using Pg_Load_after_upsert [OF sv, of k] by (cases "s' = s") auto
qed

end
