(* ===== verification/Storage_Bundle.thy ===== *)
theory Storage_Bundle
  imports Postgres_Store Ledger_Invariant
begin

text \<open>
  The construction and migration of the job repository, pkg/storage/postgres_jobs.go, and the
  storage bundle, pkg/storage/bundle.go: one connection pool shared by a task store and a job
  repository that do not own it. The bundle and its views hold a pointer to one pool, so
  whoever closes it, the bundle or a view, changes the state of the pool in all three: every
  call through one of them is followed by \<open>share_pool\<close>.
\<close>

section \<open>The job repository\<close>

definition NewPostgresJobRepository ::
  "pg_driver \<Rightarrow> ctx_error option \<Rightarrow> string \<Rightarrow> PostgresOptions \<Rightarrow> durable_job list
     \<Rightarrow> bool option \<times> (go_err + JobRepo)" where
  "NewPostgresJobRepository D ctx dsn options table =
     (case open_pool D ''postgres job repository'' ctx dsn options of
        (pool, Inl e) \<Rightarrow> (pool, Inl e)
      | (pool, Inr (cfg, tokens)) \<Rightarrow>
          (pool, Inr \<lparr>rows = table, repo_pool = pool, repo_closed = False, repo_redactTokens = tokens, repo_ownsPool = True\<rparr>))"

definition Repo_Migrate ::
  "mig_fs \<Rightarrow> 'd tx_env \<Rightarrow> JobRepo \<Rightarrow> 'd mig_db \<Rightarrow> 'd mig_db \<times> go_err option" where
  "Repo_Migrate F T R db =
     (if repo_closed R then (db, Some (Err_wrap ''postgres job repository: migrate'' ErrPgStoreClosed))
      else if repo_pool R = None then (db, Some (Err_text ''postgres job repository: migrate: pool is nil''))
      else case runMigrations F T True (repo_redactTokens R) db of
        (db', Some e) \<Rightarrow> (db', Some (Err_wrap ''postgres job repository: migrate'' e))
      | (db', None) \<Rightarrow> (db', None))"

section \<open>The bundle\<close>

record PostgresBundle =
  b_pool :: "bool option"
  b_closed :: bool
  b_redactTokens :: "string list"
  b_taskStore :: "PostgresTaskStore option"
  b_jobRepo :: "JobRepo option"

definition NewPostgresBundle ::
  "pg_driver \<Rightarrow> ctx_error option \<Rightarrow> string \<Rightarrow> PostgresOptions \<Rightarrow> task_row list \<Rightarrow> durable_job list
     \<Rightarrow> bool option \<times> (go_err + PostgresBundle)" where
  "NewPostgresBundle D ctx dsn options results jobs =
     (case open_pool D ''postgres bundle'' ctx dsn options of
        (pool, Inl e) \<Rightarrow> (pool, Inl e)
      | (pool, Inr (cfg, tokens)) \<Rightarrow>
          (pool, Inr \<lparr>b_pool = pool, b_closed = False, b_redactTokens = tokens,
             b_taskStore = Some \<lparr>ps_rows = results, ps_pool = pool, ps_closed = False, ps_redactTokens = tokens, ps_ownsPool = False\<rparr>,
             b_jobRepo = Some \<lparr>rows = jobs, repo_pool = pool, repo_closed = False, repo_redactTokens = tokens, repo_ownsPool = False\<rparr>\<rparr>))"

text \<open>The getters: \<open>TaskStore()\<close> and \<open>JobRepository()\<close>.\<close>

definition Bundle_TaskStore :: "PostgresBundle \<Rightarrow> PostgresTaskStore option" where
  "Bundle_TaskStore b = b_taskStore b"

definition Bundle_JobRepository :: "PostgresBundle \<Rightarrow> JobRepo option" where
  "Bundle_JobRepository b = b_jobRepo b"

definition Bundle_Migrate ::
  "mig_fs \<Rightarrow> 'd tx_env \<Rightarrow> PostgresBundle \<Rightarrow> 'd mig_db \<Rightarrow> 'd mig_db \<times> go_err option" where
  "Bundle_Migrate F T b db =
     (if b_closed b then (db, Some (Err_wrap ''postgres bundle: migrate'' ErrPgStoreClosed))
      else if b_pool b = None then (db, Some (Err_text ''postgres bundle: migrate: pool is nil''))
      else case runMigrations F T True (b_redactTokens b) db of
        (db', Some e) \<Rightarrow> (db', Some (Err_wrap ''postgres bundle: migrate'' e))
      | (db', None) \<Rightarrow> (db', None))"

definition Bundle_Ping :: "db_outcome \<Rightarrow> PostgresBundle \<Rightarrow> go_err option" where
  "Bundle_Ping out b =
     (if b_closed b then Some (Err_wrap ''postgres bundle: ping'' ErrPgStoreClosed)
      else if b_pool b = None then Some (Err_text ''postgres bundle: ping: pool is nil'')
      else case query_sql out () of
        Inl e \<Rightarrow> Some (Err_wrap ''postgres bundle: ping'' (driver_err (b_redactTokens b) e)) | Inr _ \<Rightarrow> None)"

text \<open>
  The pool is one object behind the three pointers of the bundle and its views: a change of its
  state is seen through each of them.
\<close>

definition share_pool :: "bool option \<Rightarrow> PostgresBundle \<Rightarrow> PostgresBundle" where
  "share_pool p b =
     b\<lparr>b_pool := p, b_taskStore := map_option (ps_pool_update (\<lambda>_. p)) (b_taskStore b),
       b_jobRepo := map_option (repo_pool_update (\<lambda>_. p)) (b_jobRepo b)\<rparr>"

text \<open>\<open>pool.Close()\<close> on the shared pool.\<close>

definition close_shared_pool :: "PostgresBundle \<Rightarrow> PostgresBundle" where
  "close_shared_pool b = share_pool (Some False) b"

text \<open>A call on a view: the view after the call, and the pool as the call left it.\<close>

definition set_taskStore :: "PostgresTaskStore \<Rightarrow> PostgresBundle \<Rightarrow> PostgresBundle" where
  "set_taskStore s b = share_pool (ps_pool s) (b\<lparr>b_taskStore := Some s\<rparr>)"

definition set_jobRepo :: "JobRepo \<Rightarrow> PostgresBundle \<Rightarrow> PostgresBundle" where
  "set_jobRepo R b = share_pool (repo_pool R) (b\<lparr>b_jobRepo := Some R\<rparr>)"

definition Bundle_Close :: "PostgresBundle \<Rightarrow> PostgresBundle" where
  "Bundle_Close b =
     (if b_closed b then b
      else
        let b1 = b\<lparr>b_closed := True, b_taskStore := map_option (ps_closed_update (\<lambda>_. True)) (b_taskStore b),
                   b_jobRepo := map_option (repo_closed_update (\<lambda>_. True)) (b_jobRepo b)\<rparr> in
        if b_pool b1 \<noteq> None then close_shared_pool b1 else b1)"

section \<open>The repository behind a view\<close>

text \<open>An operation of the repository changes at most the table, and nothing once it is closed.\<close>

definition only_rows :: "JobRepo \<Rightarrow> JobRepo \<Rightarrow> bool" where
  "only_rows R R' \<longleftrightarrow> (\<exists>rs. R' = R\<lparr>rows := rs\<rparr>) \<and> (repo_closed R \<longrightarrow> R' = R)"

lemma only_rows_refl [simp]: "only_rows R R"
  unfolding only_rows_def by (metis (full_types) JobRepo.surjective JobRepo.update_convs(1))

lemma only_rows_upd: "\<not> repo_closed R \<Longrightarrow> only_rows R (R\<lparr>rows := rs\<rparr>)"
  by (auto simp: only_rows_def)

lemma only_rows_fenced: "\<not> repo_closed R \<Longrightarrow> only_rows R (fst (fenced_exec out1 out2 stmt t j c R))"
  by (simp add: fenced_exec_def Let_def only_rows_upd split: sum.splits)

lemma only_rows_fenced_ops:
  "only_rows R (fst (MarkRunning ctx now out1 out2 f R))"
  "only_rows R (fst (RenewLease ctx now out1 out2 f d R))"
  "only_rows R (fst (CompleteJob E ctx now out1 out2 f resp R))"
  "only_rows R (fst (FailJob ctx now out1 out2 x R))"
  "only_rows R (fst (AcknowledgeCancellation ctx now out1 out2 f R))"
  by (auto simp: MarkRunning_def RenewLease_def CompleteJob_def FailJob_def AcknowledgeCancellation_def only_rows_fenced
      split: option.splits sum.splits)

lemma only_rows_batch_ops:
  "only_rows R (fst (AcquireLeases ctx now locked tie out owner n d R))"
  "only_rows R (fst (ReclaimExpiredLeases ctx now locked tie out n d R))"
  "only_rows R (fst (CancelJob ctx now out t j R))"
  by (auto simp: AcquireLeases_def ReclaimExpiredLeases_def CancelJob_def Let_def only_rows_upd
      split: option.splits sum.splits)

lemma only_rows_create: "only_rows R (fst (CreateJob E ctx now out1 out2 c R))"
  by (auto simp: CreateJob_def Let_def only_rows_upd split: option.splits sum.splits if_splits)

lemma ledger_step_view:
  assumes "ledger_step E R R'" and "\<not> repo_ownsPool R"
  shows "repo_ownsPool R' = repo_ownsPool R \<and> repo_pool R' = repo_pool R \<and> (repo_closed R \<longrightarrow> R' = R)"
proof -
  have "only_rows R R' \<or> R' = Repo_Close R"
    using assms(1) by cases (simp_all add: only_rows_fenced_ops only_rows_batch_ops only_rows_create)
  then show ?thesis using assms(2) by (cases "repo_closed R") (auto simp: only_rows_def Repo_Close_def)
qed

lemma Pg_Save_view:
  "ps_ownsPool (fst (Pg_Save J out now ctx resp al s)) = ps_ownsPool s"
  "ps_pool (fst (Pg_Save J out now ctx resp al s)) = ps_pool s"
  "ps_closed (fst (Pg_Save J out now ctx resp al s)) = ps_closed s"
  "ps_closed s \<Longrightarrow> fst (Pg_Save J out now ctx resp al s) = s"
  by (cases rule: Pg_Save_cases [OF prod.collapse [symmetric], of J out now ctx resp al s], simp_all)+

section \<open>The life of a bundle\<close>

text \<open>
  Calls on the bundle and on its views, in any order and with any outcome. A view that closes
  its pool closes the pool of the bundle.
\<close>

inductive bundle_step :: "ledger_env \<Rightarrow> PostgresBundle \<Rightarrow> PostgresBundle \<Rightarrow> bool" for E where
  close: "bundle_step E b (Bundle_Close b)"
| store_close: "b_taskStore b = Some s \<Longrightarrow> bundle_step E b (set_taskStore (Pg_Close s) b)"
| store_save: "b_taskStore b = Some s \<Longrightarrow>
    bundle_step E b (set_taskStore (fst (Pg_Save J out now ctx resp al s)) b)"
| repo_call: "b_jobRepo b = Some R \<Longrightarrow> ledger_step E R R' \<Longrightarrow> bundle_step E b (set_jobRepo R' b)"

inductive_cases bundle_stepE: "bundle_step E b b'"

definition store_view :: "PostgresBundle \<Rightarrow> PostgresTaskStore \<Rightarrow> bool" where
  "store_view b s \<longleftrightarrow> \<not> ps_ownsPool s \<and> ps_pool s = b_pool b \<and> (b_closed b \<longrightarrow> ps_closed s)"

definition repo_view :: "PostgresBundle \<Rightarrow> JobRepo \<Rightarrow> bool" where
  "repo_view b R \<longleftrightarrow> \<not> repo_ownsPool R \<and> repo_pool R = b_pool b \<and> (b_closed b \<longrightarrow> repo_closed R)"

definition bundle_inv :: "PostgresBundle \<Rightarrow> bool" where
  "bundle_inv b \<longleftrightarrow> b_pool b = Some (\<not> b_closed b) \<and>
     (case b_taskStore b of None \<Rightarrow> False | Some s \<Rightarrow> store_view b s) \<and>
     (case b_jobRepo b of None \<Rightarrow> False | Some R \<Rightarrow> repo_view b R)"

lemma bundle_invE:
  assumes "bundle_inv b"
  obtains s R where "b_taskStore b = Some s" and "b_jobRepo b = Some R" and "store_view b s" and "repo_view b R"
    and "b_pool b = Some (\<not> b_closed b)"
  using assms by (auto simp: bundle_inv_def split: option.splits)

lemmas shared_defs = share_pool_def set_taskStore_def set_jobRepo_def close_shared_pool_def

lemma share_pool_id:
  "b_taskStore b = Some s \<Longrightarrow> b_jobRepo b = Some R \<Longrightarrow> ps_pool s = b_pool b \<Longrightarrow> repo_pool R = b_pool b \<Longrightarrow>
     share_pool (b_pool b) b = b"
  by (cases b, cases s, cases R) (simp add: share_pool_def)

lemma set_view_id:
  assumes "b_taskStore b = Some s" and "b_jobRepo b = Some R" and "ps_pool s = b_pool b" and "repo_pool R = b_pool b"
  shows "set_taskStore s b = b" and "set_jobRepo R b = b"
proof -
  have "b\<lparr>b_taskStore := Some s\<rparr> = b" "b\<lparr>b_jobRepo := Some R\<rparr> = b" using assms(1,2) by (cases b, simp)+
  then show "set_taskStore s b = b" "set_jobRepo R b = b"
    using share_pool_id [OF assms] assms(3,4) by (simp_all add: set_taskStore_def set_jobRepo_def)
qed

lemma bundle_step_inv: "bundle_step E b b' \<Longrightarrow> bundle_inv b \<Longrightarrow> bundle_inv b'"
proof (erule bundle_invE)
  fix s R
  assume st: "bundle_step E b b'" and v: "b_taskStore b = Some s" "b_jobRepo b = Some R" "store_view b s" "repo_view b R"
    "b_pool b = Some (\<not> b_closed b)"
  from st show "bundle_inv b'"
  proof cases
    case close
    with v show ?thesis
      by (auto simp: bundle_inv_def store_view_def repo_view_def Bundle_Close_def shared_defs Let_def)
  next
    case (store_close s1)
    with v show ?thesis
      by (auto simp: bundle_inv_def store_view_def repo_view_def Pg_Close_def shared_defs Let_def)
  next
    case (store_save s1 J out now ctx resp al)
    with v show ?thesis by (simp add: bundle_inv_def store_view_def repo_view_def Pg_Save_view shared_defs)
  next
    case (repo_call R1 R')
    with v ledger_step_view [of E R R'] show ?thesis by (auto simp: bundle_inv_def store_view_def repo_view_def shared_defs)
  qed
qed

lemma bundle_step_closed: "bundle_step E b b' \<Longrightarrow> bundle_inv b \<Longrightarrow> b_closed b \<Longrightarrow> b' = b"
proof (erule bundle_invE)
  fix s R
  assume st: "bundle_step E b b'" and cl: "b_closed b" and v: "b_taskStore b = Some s" "b_jobRepo b = Some R"
    "store_view b s" "repo_view b R"
  then have c: "ps_closed s" "repo_closed R" "\<not> repo_ownsPool R" "ps_pool s = b_pool b" "repo_pool R = b_pool b"
    by (simp_all add: store_view_def repo_view_def)
  note same = set_view_id [OF v(1,2) c(4,5)]
  from st show "b' = b"
  proof cases
    case close
    with cl show ?thesis by (simp add: Bundle_Close_def)
  next
    case (store_close s1)
    with v c same show ?thesis by (simp add: Pg_Close_def)
  next
    case (store_save s1 J out now ctx resp al)
    with v c same show ?thesis by (simp add: Pg_Save_view)
  next
    case (repo_call R1 R')
    with v c same ledger_step_view [of E R R'] show ?thesis by auto
  qed
qed

interpretation shared_pool: preserved "bundle_step E" bundle_inv for E
  by unfold_locales (rule bundle_step_inv)

interpretation closed_bundle: preserved "bundle_step E" "\<lambda>b. bundle_inv b \<and> b = b0 \<and> b_closed b0" for E b0
  by unfold_locales (use bundle_step_inv bundle_step_closed in blast)

lemma NewPostgresBundle_inv:
  "NewPostgresBundle D ctx dsn options results jobs = (pool, Inr b) \<Longrightarrow> bundle_inv b \<and> \<not> b_closed b"
  by (auto simp: NewPostgresBundle_def open_pool_def Let_def bundle_inv_def store_view_def repo_view_def
      split: prod.splits sum.splits option.splits if_splits)

section \<open>After the end\<close>

text \<open>A store or a repository that refuses every operation and changes nothing.\<close>

definition store_refuses :: "PostgresTaskStore \<Rightarrow> bool" where
  "store_refuses s \<longleftrightarrow>
     (\<forall>J out c i r. Pg_Load J out c i s \<noteq> Inr r) \<and>
     (\<forall>J out now c resp al. fst (Pg_Save J out now c resp al s) = s \<and> snd (Pg_Save J out now c resp al s) \<noteq> None) \<and>
     (\<forall>out. Pg_Ping out s \<noteq> None)"

definition repo_refuses :: "ledger_env \<Rightarrow> JobRepo \<Rightarrow> bool" where
  "repo_refuses E R \<longleftrightarrow>
     (\<forall>c out t j. GetJob c out t j R = Inl ErrStoreClosed) \<and>
     (\<forall>c now o1 o2 i. CreateJob E c now o1 o2 i R = (R, Inl ErrStoreClosed)) \<and>
     (\<forall>c now locked tie out w n d. AcquireLeases c now locked tie out w n d R = (R, Inl ErrStoreClosed)) \<and>
     (\<forall>c now o1 o2 f. MarkRunning c now o1 o2 f R = (R, Some ErrStoreClosed)) \<and>
     (\<forall>c now o1 o2 f d. RenewLease c now o1 o2 f d R = (R, Some ErrStoreClosed)) \<and>
     (\<forall>c now o1 o2 f r. CompleteJob E c now o1 o2 f r R = (R, Some ErrStoreClosed)) \<and>
     (\<forall>c now o1 o2 x. FailJob c now o1 o2 x R = (R, Some ErrStoreClosed)) \<and>
     (\<forall>c now o1 o2 f. AcknowledgeCancellation c now o1 o2 f R = (R, Some ErrStoreClosed)) \<and>
     (\<forall>c now out t j. CancelJob c now out t j R = (R, Some ErrStoreClosed)) \<and>
     (\<forall>c now locked tie out n d. ReclaimExpiredLeases c now locked tie out n d R = (R, Inl ErrStoreClosed)) \<and>
     (\<forall>out. Repo_Ping out R = Some ErrStoreClosed)"

lemma closed_store_refuses: "ps_closed s \<Longrightarrow> store_refuses s"
  by (auto simp: store_refuses_def Pg_Load_def Pg_Save_def Pg_Ping_def Let_def split: option.splits sum.splits)

lemma closed_repo_refuses: "repo_closed R \<Longrightarrow> repo_refuses E R"
  by (simp add: repo_refuses_def GetJob_def CreateJob_def AcquireLeases_def MarkRunning_def RenewLease_def CompleteJob_def
      FailJob_def AcknowledgeCancellation_def CancelJob_def ReclaimExpiredLeases_def Repo_Ping_def)

lemma closed_migrate_refuses:
  "ps_closed s \<Longrightarrow> Pg_Migrate F T s db = (db, Some (Err_wrap ''postgres task store: migrate'' ErrPgStoreClosed))"
  "repo_closed R \<Longrightarrow> Repo_Migrate F T R db = (db, Some (Err_wrap ''postgres job repository: migrate'' ErrPgStoreClosed))"
  "b_closed b \<Longrightarrow> Bundle_Migrate F T b db = (db, Some (Err_wrap ''postgres bundle: migrate'' ErrPgStoreClosed))"
  by (simp_all add: Pg_Migrate_def Repo_Migrate_def Bundle_Migrate_def)

end
