(* ===== verification/Redaction_Facts.thy ===== *)
theory Redaction_Facts
  imports Redaction "HOL-Library.Sublist"
begin

text \<open>
  What redaction leaves of a message. A redacted message is followed byte by byte: a byte is
  either copied from the message or written by a replacement. The copied bytes never spell a
  token, whatever the tokens are, whether they overlap each other or the placeholder, and in
  whatever order they are replaced.
\<close>

section \<open>Copied bytes\<close>

text \<open>A byte with a mark that says whether it is copied.\<close>

definition marked :: "string \<Rightarrow> (char \<times> bool) list" where
  "marked s = map (\<lambda>c. (c, True)) s"

definition placeholder :: "(char \<times> bool) list" where
  "placeholder = map (\<lambda>c. (c, False)) ''[REDACTED]''"

text \<open>\<open>strings.ReplaceAll\<close> with the marks kept.\<close>

fun marked_replace :: "string \<Rightarrow> (char \<times> bool) list \<Rightarrow> (char \<times> bool) list" where
  "marked_replace old [] = []"
| "marked_replace old (x # xs) =
     (if old \<noteq> [] \<and> has_prefix (map fst (x # xs)) old
      then placeholder @ marked_replace old (drop (length old - 1) xs)
      else x # marked_replace old xs)"

definition marked_redact :: "string list \<Rightarrow> string \<Rightarrow> (char \<times> bool) list" where
  "marked_redact tokens m = fold (\<lambda>t xs. if t \<noteq> [] then marked_replace t xs else xs) tokens (marked m)"

text \<open>Without the marks this is the redaction of the code.\<close>

lemma erase_marked [simp]: "map fst (marked s) = s" "map fst placeholder = ''[REDACTED]''"
  by (simp_all add: marked_def placeholder_def comp_def)

lemma erase_marked_replace: "map fst (marked_replace old xs) = replace_all old ''[REDACTED]'' (map fst xs)"
  by (induction old xs rule: marked_replace.induct) (auto simp: drop_map)

lemma erase_marked_redact: "map fst (marked_redact tokens m) = redactString m tokens"
proof -
  have "map fst (fold (\<lambda>t xs. if t \<noteq> [] then marked_replace t xs else xs) tokens xs) =
      fold (\<lambda>t s. if t \<noteq> [] then replace_all t ''[REDACTED]'' s else s) tokens (map fst xs)" for xs
    by (induction tokens arbitrary: xs) (simp_all add: erase_marked_replace)
  then show ?thesis by (simp add: marked_redact_def redactString_def)
qed

section \<open>Tokens are not spelled by copied bytes\<close>

lemma marked_simps: "marked [] = []" "marked (c # s) = (c, True) # marked s"
  by (simp_all add: marked_def)

lemma prefix_marked_replace: "prefix (marked p) (marked_replace u xs) \<Longrightarrow> prefix (marked p) xs"
proof (induction u xs arbitrary: p rule: marked_replace.induct)
  case (2 u x xs)
  show ?case
  proof (cases p)
    case (Cons c q)
    then have "\<not> (u \<noteq> [] \<and> has_prefix (map fst (x # xs)) u)"
      using "2.prems" by (auto simp: marked_simps placeholder_def)
    then show ?thesis using 2 Cons by (auto simp: marked_simps)
  qed (simp add: marked_simps)
qed simp

lemma sublist_after_placeholder:
  assumes "p \<noteq> []" and "sublist (marked p) (placeholder @ ys)"
  shows "sublist (marked p) ys"
proof -
  have "sublist (marked p) ys" if "sublist (marked p) (zs @ ys)" "\<forall>z\<in>set zs. \<not> snd z" for zs
    using that
  proof (induction zs)
    case (Cons z zs)
    have "\<not> prefix (marked p) (z # zs @ ys)" using assms(1) Cons.prems(2) by (cases p) (auto simp: marked_simps)
    with Cons show ?case by (simp add: sublist_Cons_right)
  qed simp
  from this [OF assms(2)] show ?thesis by (simp add: placeholder_def)
qed

lemma sublist_drop: "sublist p (drop n xs) \<Longrightarrow> sublist p xs"
  by (metis append_assoc append_take_drop_id sublist_def)

lemma marked_replace_hit:
  "u \<noteq> [] \<Longrightarrow> has_prefix (map fst (x # xs)) u \<Longrightarrow>
     marked_replace u (x # xs) = placeholder @ marked_replace u (drop (length u - 1) xs)"
  by simp

text \<open>A replacement removes the token from the copied bytes, and brings no other token back.\<close>

lemma marked_replace_keeps_out:
  "p \<noteq> [] \<Longrightarrow> sublist (marked p) (marked_replace u xs) \<Longrightarrow> sublist (marked p) xs"
proof (induction u xs rule: marked_replace.induct)
  case (2 u x xs)
  show ?case
  proof (cases "u \<noteq> [] \<and> has_prefix (map fst (x # xs)) u")
    case True
    have "sublist (marked p) (placeholder @ marked_replace u (drop (length u - 1) xs))"
      using "2.prems"(2) True marked_replace_hit by metis
    from sublist_after_placeholder [OF "2.prems"(1) this]
    have "sublist (marked p) (drop (length u - 1) xs)" using "2.IH"(1) True "2.prems"(1) by blast
    then have "sublist (marked p) xs" by (rule sublist_drop)
    then show ?thesis by (simp add: sublist_Cons_right)
  next
    case False
    with 2 consider "prefix (marked p) (x # marked_replace u xs)" | "sublist (marked p) xs"
      by (auto simp: sublist_Cons_right)
    then show ?thesis
    proof cases
      case 1
      have "prefix (marked p) (x # xs)"
        using 1 "2.prems"(1) prefix_marked_replace [of _ u xs] by (cases p) (auto simp: marked_simps)
      then show ?thesis by (rule prefix_imp_sublist)
    qed (simp add: sublist_Cons_right)
  qed
qed simp

lemma marked_replace_removes: "u \<noteq> [] \<Longrightarrow> \<not> sublist (marked u) (marked_replace u xs)"
proof (induction u xs rule: marked_replace.induct)
  case (1 u)
  then show ?case by (cases u) (simp_all add: marked_simps)
next
  case (2 u x xs)
  show ?case
  proof (cases "has_prefix (map fst (x # xs)) u")
    case True
    then have "\<not> sublist (marked u) (marked_replace u (drop (length u - 1) xs))" using 2 by blast
    then show ?thesis
      using sublist_after_placeholder [OF "2.prems"] marked_replace_hit [OF "2.prems" True] by metis
  next
    case False
    have "\<not> prefix (marked u) (x # marked_replace u xs)"
    proof
      assume "prefix (marked u) (x # marked_replace u xs)"
      then have "prefix (marked u) (x # xs)"
        using "2.prems" prefix_marked_replace [of _ u xs] by (cases u) (auto simp: marked_simps)
      then have "prefix (map fst (marked u)) (map fst (x # xs))" by (rule map_mono_prefix)
      with False show False by (auto simp: has_prefix_iff prefix_def)
    qed
    with 2 False show ?thesis by (simp add: sublist_Cons_right)
  qed
qed

lemma marked_redact_hides:
  assumes "t \<in> set tokens" and "t \<noteq> []"
  shows "\<not> sublist (marked t) (marked_redact tokens m)"
proof -
  let ?f = "\<lambda>t xs. if t \<noteq> [] then marked_replace t xs else xs"
  have keep: "\<not> sublist (marked t) (fold ?f us xs)" if "\<not> sublist (marked t) xs" for us xs
    using that by (induction us arbitrary: xs) (use marked_replace_keeps_out [OF assms(2)] in auto)
  obtain us vs where "tokens = us @ t # vs" using assms(1) split_list by metis
  then show ?thesis
    using assms(2) keep marked_replace_removes [OF assms(2)] by (simp add: marked_redact_def)
qed

section \<open>The secrets of a DSN\<close>

text \<open>
  What must not be told of a DSN, independently of how the code looks for it: the DSN itself,
  the password and the user information of a URL, and the value of a field \<open>password=\<close> of a DSN
  of keywords, with or without quotes. Fields are separated by blanks, so this is not the
  password of a DSN with blanks around the equals sign or in a quoted password.
\<close>

definition is_dsn_quote :: "char \<Rightarrow> bool" where
  "is_dsn_quote c \<longleftrightarrow> c = CHR 0x27 \<or> c = CHR 0x22"

definition dsn_secret :: "(string \<Rightarrow> (string option \<times> string) option) \<Rightarrow> string \<Rightarrow> string \<Rightarrow> bool" where
  "dsn_secret userinfo dsn t \<longleftrightarrow> t \<noteq> [] \<and>
     (t = dsn \<or> t = trim_space dsn \<or> (\<exists>info. userinfo dsn = Some (Some t, info)) \<or> (\<exists>pass. userinfo dsn = Some (pass, t)) \<or>
      (\<exists>q q'. list_all is_dsn_quote q \<and> list_all is_dsn_quote q' \<and> \<not> is_dsn_quote (hd t) \<and> \<not> is_dsn_quote (last t) \<and>
         ''password='' @ q @ t @ q' \<in> set (str_fields dsn)))"

lemma strip_quotes:
  assumes "list_all P q" and "list_all P q'" and "t \<noteq> []" and "\<not> P (hd t)" and "\<not> P (last t)"
  shows "strip P (q @ t @ q') = t"
proof -
  have "dropWhile P (q @ t @ q') = t @ q'"
    using assms by (cases t) (simp_all add: dropWhile_append2 list_all_iff)
  moreover have "dropWhile P (rev q' @ rev t) = rev t"
    using assms by (subst dropWhile_append2) (auto simp: list_all_iff hd_rev [symmetric] dropWhile_eq_self_iff)
  ultimately show ?thesis by (simp add: strip_def)
qed

lemma in_concat_map: "x \<in> set xs \<Longrightarrow> y \<in> set (f x) \<Longrightarrow> y \<in> set (concat (map f xs))"
  by auto

lemma dsn_secret_token:
  assumes "dsn_secret userinfo dsn t" and "trim_space dsn \<noteq> []"
  shows "t \<in> set (extractRedactTokens userinfo dsn)"
proof -
  let ?P = "\<lambda>c. c = CHR 0x27 \<or> c = CHR 0x22"
  have P: "?P = is_dsn_quote" by (simp add: fun_eq_iff is_dsn_quote_def)
  have ne: "t \<noteq> []" using assms(1) by (simp add: dsn_secret_def)
  consider "t = dsn" | "t = trim_space dsn" | info where "userinfo dsn = Some (Some t, info)" | pass where "userinfo dsn = Some (pass, t)"
    | q q' where "list_all is_dsn_quote q" "list_all is_dsn_quote q'" "\<not> is_dsn_quote (hd t)" "\<not> is_dsn_quote (last t)"
      "''password='' @ q @ t @ q' \<in> set (str_fields dsn)"
    using assms(1) by (auto simp: dsn_secret_def)
  then show ?thesis
  proof cases
    case 1
    then show ?thesis using extractRedactTokens_covers_dsn(2) ne assms(2) by blast
  next
    case 2
    then show ?thesis using extractRedactTokens_covers_dsn(1) ne by blast
  next
    case 3
    then show ?thesis using ne by (simp add: extractRedactTokens_def Let_def)
  next
    case 4
    then show ?thesis using ne by (simp add: extractRedactTokens_def Let_def)
  next
    case (5 q q')
    let ?part = "''password='' @ q @ t @ q'"
    have "strip ?P (trim_prefix ?part ''password='') = t"
      using strip_quotes [OF 5(1,2) ne 5(3,4)] unfolding P by (simp add: trim_prefix_def has_prefix_def)
    moreover have "has_prefix ?part ''password=''" by (simp add: has_prefix_def)
    ultimately have "t \<in> set (concat (map (\<lambda>part. if has_prefix part ''password=''
        then (if strip ?P (trim_prefix part ''password='') \<noteq> [] then [strip ?P (trim_prefix part ''password='')] else []) else [])
        (str_fields dsn)))"
      using ne by (intro in_concat_map [OF 5(5)]) (simp only: if_True list.set insert_iff simp_thms)
    then show ?thesis unfolding extractRedactTokens_def Let_def by (simp only: set_append Un_iff simp_thms)
  qed
qed

end
