(* ===== verification/Storage_Claims.thy ===== *)
theory Storage_Claims
  imports Storage_Bundle Redaction_Facts Gateway_Claims
begin

text \<open>
  What the PostgreSQL storage promises: a save is one atomic upsert under all its identifiers,
  the gateway can read back the tasks it has answered, a constructor that fails leaves no pool
  open and redacts the secrets of the DSN, and a bundle owns its pool.
\<close>

section \<open>The task store\<close>

text \<open>
  C32. \<open>PostgresTaskStore.Save\<close> is one atomic upsert. If it returns nil, the response is served (as
  its JSON coding reads back) under its task identifier and every non-empty alias, the rows of
  these identifiers carry it with \<open>updated_at\<close> now and the \<open>created_at\<close> they had, and every
  other row is unchanged. If it returns an error, nothing is changed, unless the database
  committed the statement and the answer was lost.
\<close>

theorem postgres_save_upserts:
  assumes "Pg_Save J out now ctx (Some r) al s = (s', e)"
  shows "case e of
      None \<Rightarrow> (\<forall>k. if k = resp_TaskID r \<or> k \<in> set al \<and> k \<noteq> []
          then Pg_Load J Db_ok None k s' = pg_view J r \<and>
            (\<exists>row. row_at k (ps_rows s') = Some row \<and> ro_task_id row = resp_TaskID r \<and>
               ro_agent_id row = resp_AgentID r \<and> ro_updated_at row = now \<and>
               ro_created_at row = (case row_at k (ps_rows s) of None \<Rightarrow> now | Some old \<Rightarrow> ro_created_at old))
          else row_at k (ps_rows s') = row_at k (ps_rows s))
    | Some _ \<Rightarrow> s' = s \<or> (\<exists>x. out = Db_lost x)"
proof (cases e)
  case None
  from assms have "row_at k (ps_rows s') = (if k \<in> saved_ids r al then Some (upserted (task_row_of now r doc k) (row_at k (ps_rows s)))
      else row_at k (ps_rows s))" if "pc_Marshal J r = Inr b" "pc_jsonb J b = Some doc" for k b doc
    by (cases rule: Pg_Save_cases) (use None that upsert_lookup in auto)
  moreover obtain b doc where "pc_Marshal J r = Inr b" "pc_jsonb J b = Some doc"
    using assms by (cases rule: Pg_Save_cases) (use None in auto)
  ultimately have row: "row_at k (ps_rows s') = (if k \<in> saved_ids r al then Some (upserted (task_row_of now r doc k) (row_at k (ps_rows s)))
      else row_at k (ps_rows s))" for k by blast
  have "Pg_Load J Db_ok None k s' = pg_view J r" if "k \<in> saved_ids r al" for k
    using Pg_Load_after_upsert [OF assms, of k] None that by simp
  moreover have "k \<in> saved_ids r al \<longleftrightarrow> k = resp_TaskID r \<or> k \<in> set al \<and> k \<noteq> []" for k by (auto simp: saved_ids_def)
  ultimately show ?thesis
    using None row by (auto simp: upserted_def task_row_of_def split: option.splits)
next
  case (Some err)
  from assms show ?thesis by (cases rule: Pg_Save_cases) (use Some in auto)
qed

text \<open>A store without rows, and a codec that keeps the task identifier only.\<close>

definition demo_codec :: pg_codec where
  "demo_codec = \<lparr>pc_Marshal = (\<lambda>r. Inr (resp_TaskID r)), pc_Unmarshal = (\<lambda>b. Inr (demo_resp b)), pc_jsonb = Some\<rparr>"

definition demo_pg_store :: PostgresTaskStore where
  "demo_pg_store = \<lparr>ps_rows = [], ps_pool = Some True, ps_closed = False, ps_redactTokens = [], ps_ownsPool = True\<rparr>"

theorem postgres_save_upserts_witness:
  "\<exists>s'. Pg_Save demo_codec Db_ok 5 None (Some (demo_resp ''x'')) [''y'', ''x''] demo_pg_store = (s', None) \<and>
     Pg_Load demo_codec Db_ok None ''y'' s' = Inr (demo_resp ''x'')"
proof -
  let ?c = "Pg_Save demo_codec Db_ok 5 None (Some (demo_resp ''x'')) [''y'', ''x''] demo_pg_store"
  have "snd ?c = None"
    by (simp add: Pg_Save_def demo_codec_def demo_pg_store_def demo_resp_def Let_def run_upsert_def upsertTaskResultsSQL_def)
  then obtain s' where c: "?c = (s', None)" by (metis prod.collapse)
  from postgres_save_upserts [OF c] have "Pg_Load demo_codec Db_ok None ''y'' s' = pg_view demo_codec (demo_resp ''x'')" by auto
  then show ?thesis using c by (simp add: pg_view_def demo_codec_def decode_response_def demo_resp_def)
qed

section \<open>The gateway on the task store\<close>

text \<open>
  Read your task from PostgreSQL: once a handler has answered with a task, and the stored form
  of the response decodes, \<open>GET /a2a/v1/tasks/{task_id}\<close> returns the decoded response to every
  client that may use its agent.
\<close>

lemma answered_task_can_be_read_from_postgres:
  assumes "ge_tasks G = \<lparr>ts_Save = Pg_Save J out now, ts_Load = Pg_Load J Db_ok\<rparr>" and "rows_ok (gw_store g)"
    and "DispatchTask G r g = (g', p) \<or> InvokeAgent G r g = (g', p)" and "rp_Body p = B_task resp"
    and "in_PathValue r' ''task_id'' = resp_TaskID resp" and "permitted r' (resp_AgentID resp')" and "g_ctx G g' = None"
    and "pg_view J resp = Inr resp'"
  shows "GetTask G r' g' = (g', json_reply 200 (B_task resp'))"
  by (rule task_store.answered_task_readable [OF postgres.task_store_axioms assms])

section \<open>Constructors\<close>

text \<open>A message of the driver during the construction.\<close>

definition driver_said :: "pg_driver \<Rightarrow> string \<Rightarrow> PostgresOptions \<Rightarrow> string \<Rightarrow> bool" where
  "driver_said D dsn options m \<longleftrightarrow> pd_ParseConfig D dsn = Inl (Raw_msg m) \<or>
     (\<exists>parsed. pd_ParseConfig D dsn = Inr parsed \<and>
        (snd (pd_NewWithConfig D None (apply_options options parsed)) = Some (Raw_msg m) \<or>
         pd_Ping D None (apply_options options parsed) = Some (Raw_msg m)))"

text \<open>
  The text \<open>s\<close> is the message \<open>m\<close> redacted: it is \<open>m\<close> with parts replaced by the placeholder, and
  its copied bytes spell no secret of the DSN. A secret that shares no byte with the placeholder
  does not occur in \<open>s\<close> at all.
\<close>

definition told_without_secrets :: "pg_driver \<Rightarrow> string \<Rightarrow> string \<Rightarrow> string \<Rightarrow> bool" where
  "told_without_secrets D dsn m s \<longleftrightarrow>
     (let x = marked_redact (extractRedactTokens (pd_userinfo D) dsn) m in
        s = map fst x \<and>
        (\<forall>t. dsn_secret (pd_userinfo D) dsn t \<longrightarrow>
           \<not> sublist (marked t) x \<and> (set t \<inter> set ''[REDACTED]'' = {} \<longrightarrow> \<not> contains s t)))"

lemma redacted_without_secrets:
  assumes "trim_space dsn \<noteq> []"
  shows "told_without_secrets D dsn m (redactString m (extractRedactTokens (pd_userinfo D) dsn))"
proof -
  have "t \<in> set (extractRedactTokens (pd_userinfo D) dsn) \<and> t \<noteq> []" if "dsn_secret (pd_userinfo D) dsn t" for t
    using dsn_secret_token [OF that assms] that by (simp add: dsn_secret_def)
  then show ?thesis
    using marked_redact_hides redactString_removes
    unfolding told_without_secrets_def Let_def erase_marked_redact by blast
qed

text \<open>The causes an error of a constructor may have.\<close>

definition constructor_cause :: "pg_driver \<Rightarrow> string \<Rightarrow> PostgresOptions \<Rightarrow> go_err \<Rightarrow> bool" where
  "constructor_cause D dsn options cause \<longleftrightarrow> cause = ErrBlankDSN \<or> cause = ErrInvalidPoolBounds \<or> (\<exists>c. cause = Err_ctx c) \<or>
     (\<exists>m s. driver_said D dsn options m \<and> cause = Err_text s \<and> told_without_secrets D dsn m s)"

lemma driver_err_cause:
  assumes "trim_space dsn \<noteq> []" and "\<And>m. e = Raw_msg m \<Longrightarrow> driver_said D dsn options m"
  shows "constructor_cause D dsn options (driver_err (extractRedactTokens (pd_userinfo D) dsn) e)"
  using assms redacted_without_secrets [OF assms(1)]
  by (cases e) (auto simp: constructor_cause_def driver_err_def redactError_def)

lemma open_pool_error:
  assumes "open_pool D what ctx dsn options = (pool, Inl e)"
  shows "pool \<noteq> Some True \<and> (\<exists>label cause. e = Err_wrap label cause \<and> constructor_cause D dsn options cause)"
proof -
  have plain: "constructor_cause D dsn options ErrBlankDSN" "constructor_cause D dsn options ErrInvalidPoolBounds"
    "constructor_cause D dsn options (Err_ctx c)" for c by (auto simp: constructor_cause_def)
  have said: "driver_said D dsn options m" if "pd_ParseConfig D dsn = Inl (Raw_msg m) \<or>
      (\<exists>parsed. pd_ParseConfig D dsn = Inr parsed \<and> (snd (pd_NewWithConfig D None (apply_options options parsed)) = Some (Raw_msg m) \<or>
         pd_Ping D None (apply_options options parsed) = Some (Raw_msg m)))" for m
    using that by (simp add: driver_said_def)
  show ?thesis
    using assms by (auto simp: open_pool_def Let_def intro!: plain driver_err_cause said
        split: if_splits option.splits sum.splits prod.splits)
qed

lemma constructor_errors:
  "NewPostgresTaskStore D ctx dsn options rs = (pool, Inl e) \<Longrightarrow> \<exists>what. open_pool D what ctx dsn options = (pool, Inl e)"
  "NewPostgresJobRepository D ctx dsn options js = (pool, Inl e) \<Longrightarrow> \<exists>what. open_pool D what ctx dsn options = (pool, Inl e)"
  "NewPostgresBundle D ctx dsn options rs js = (pool, Inl e) \<Longrightarrow> \<exists>what. open_pool D what ctx dsn options = (pool, Inl e)"
  by (auto simp: NewPostgresTaskStore_def NewPostgresJobRepository_def NewPostgresBundle_def split: prod.splits sum.splits)

text \<open>
  C34. A constructor of the storage layer that fails releases its pool and hides the credentials:
  no pool is left open, and the cause of the error is a blank DSN, wrong pool bounds, a context
  error, or a message of the driver redacted so that what is copied from the message spells no
  secret of the DSN: not the DSN, not the password or the user information of a URL, and not the
  value of a field \<open>password=\<close> of a DSN of keywords, quoted or not. (The password of a DSN with
  blanks around the equals sign, or in the quotes, is not claimed: see \<open>spaced_password_told\<close>.)
\<close>

theorem constructors_release_and_redact:
  assumes "NewPostgresTaskStore D ctx dsn options rs = (pool, Inl e) \<or>
    NewPostgresJobRepository D ctx dsn options js = (pool, Inl e) \<or> NewPostgresBundle D ctx dsn options rs js = (pool, Inl e)"
  shows "pool \<noteq> Some True \<and> (\<exists>label cause. e = Err_wrap label cause \<and>
    (cause = ErrBlankDSN \<or> cause = ErrInvalidPoolBounds \<or> (\<exists>c. cause = Err_ctx c) \<or>
     (\<exists>m s. driver_said D dsn options m \<and> cause = Err_text s \<and> told_without_secrets D dsn m s)))"
  using assms constructor_errors open_pool_error unfolding constructor_cause_def [symmetric] by metis

text \<open>A driver whose ping fails with a message, and DSNs with a password.\<close>

definition demo_driver :: "db_raw option \<Rightarrow> pg_driver" where
  "demo_driver ping = \<lparr>pd_ParseConfig = (\<lambda>_. Inr \<lparr>po_MaxConns = 4, po_MinConns = 0, po_MaxConnLifetime = 0, po_MaxConnIdleTime = 0,
     po_HealthCheckPeriod = 0\<rparr>), pd_NewWithConfig = (\<lambda>_ _. (True, None)), pd_Ping = (\<lambda>_ _. ping), pd_userinfo = (\<lambda>_. None)\<rparr>"

definition demo_options :: PostgresOptions where
  "demo_options = \<lparr>po_MaxConns = 2, po_MinConns = 1, po_MaxConnLifetime = 0, po_MaxConnIdleTime = 0, po_HealthCheckPeriod = 0\<rparr>"

lemma demo_trim_dsn: "trim_space ''dsn'' = ''dsn''"
  by (simp add: trim_space_def strip_def is_space_def)

lemmas dsn_eval = trim_space_def strip_def is_space_def extractRedactTokens_def str_fields_def has_prefix_def trim_prefix_def

lemma demo_password: "dsn_secret (\<lambda>_. None) ''password=s3'' ''s3''"
proof -
  have "''password='' @ [] @ ''s3'' @ [] \<in> set (str_fields ''password=s3'')" by (simp add: dsn_eval)
  then show ?thesis unfolding dsn_secret_def by (intro conjI disjI2 exI [of _ "[]"]) (simp_all add: is_dsn_quote_def)
qed

theorem constructors_release_and_redact_witness:
  "\<exists>pool label s. NewPostgresTaskStore (demo_driver (Some (Raw_msg ''bad s3''))) None ''password=s3'' demo_options [] =
     (pool, Inl (Err_wrap label (Err_text s))) \<and> pool \<noteq> Some True \<and> \<not> contains s ''s3''"
proof -
  let ?D = "demo_driver (Some (Raw_msg ''bad s3''))"
  have "trim_space ''password=s3'' = ''password=s3''" by (simp add: dsn_eval)
  then obtain pool label s where n: "NewPostgresTaskStore ?D None ''password=s3'' demo_options [] = (pool, Inl (Err_wrap label (Err_text s)))"
    by (simp add: NewPostgresTaskStore_def open_pool_def demo_driver_def demo_options_def Let_def driver_err_def redactError_def)
  from n have "NewPostgresTaskStore ?D None ''password=s3'' demo_options [] = (pool, Inl (Err_wrap label (Err_text s))) \<or>
    NewPostgresJobRepository ?D None ''password=s3'' demo_options [] = (pool, Inl (Err_wrap label (Err_text s))) \<or>
    NewPostgresBundle ?D None ''password=s3'' demo_options [] [] = (pool, Inl (Err_wrap label (Err_text s)))" ..
  from constructors_release_and_redact [OF this]
  have "pool \<noteq> Some True" "Err_text s = ErrBlankDSN \<or> Err_text s = ErrInvalidPoolBounds \<or> (\<exists>m. told_without_secrets ?D ''password=s3'' m s)"
    by auto
  moreover have "\<not> contains s ''s3''" if "told_without_secrets ?D ''password=s3'' m s" for m
  proof -
    have "set ''s3'' \<inter> set ''[REDACTED]'' = {}" by simp
    moreover have "dsn_secret (pd_userinfo ?D) ''password=s3'' ''s3''" using demo_password by (simp add: demo_driver_def)
    ultimately show ?thesis using that unfolding told_without_secrets_def Let_def by blast
  qed
  moreover have "\<not> contains s ''s3''" if "Err_text s = ErrBlankDSN \<or> Err_text s = ErrInvalidPoolBounds"
    using that by (auto simp: ErrBlankDSN_def ErrInvalidPoolBounds_def has_prefix_def)
  ultimately show ?thesis using n by blast
qed

text \<open>
  PostgreSQL also accepts blanks around the equals sign of a keyword, and blanks in a quoted
  value. The fields of such a DSN contain no field \<open>password=\<close> with the password, and an error
  that names the password tells it.
\<close>

lemma spaced_password_told:
  "\<exists>pool label. NewPostgresTaskStore (demo_driver (Some (Raw_msg ''bad s3''))) None ''password = s3'' demo_options [] =
     (pool, Inl (Err_wrap label (Err_text ''bad s3'')))"
proof -
  have "trim_space ''password = s3'' = ''password = s3''" "extractRedactTokens (\<lambda>_. None) ''password = s3'' = [''password = s3'']"
    by (simp_all add: dsn_eval Let_def)
  then show ?thesis
    by (simp add: NewPostgresTaskStore_def open_pool_def demo_driver_def demo_options_def Let_def driver_err_def redactError_def
        redactString_def has_prefix_def)
qed

section \<open>The bundle\<close>

text \<open>
  C33. The pool of a bundle lives exactly as long as the bundle: whatever is called on the bundle,
  on its task store and on its job repository, in any order, the shared pool is open until
  \<open>bundle.Close\<close> and closed afterwards; closing a view closes the view and not the pool. Once
  the bundle is closed, no further call changes anything, and the bundle and both views
  refuse every operation: reads, writes, pings and migrations.
\<close>

theorem bundle_pool_lifetime:
  fixes db :: "'d mig_db"
  assumes "NewPostgresBundle D ctx dsn options results jobs = (pool, Inr b0)" and "(bundle_step E)\<^sup>*\<^sup>* b0 b"
  shows "b_pool b = Some (\<not> b_closed b) \<and>
    (\<exists>s R. Bundle_TaskStore b = Some s \<and> Bundle_JobRepository b = Some R \<and>
      ps_pool s = b_pool b \<and> repo_pool R = b_pool b \<and>
      (b_closed b \<longrightarrow>
        (\<forall>b'. (bundle_step E)\<^sup>*\<^sup>* b b' \<longrightarrow> b' = b) \<and> store_refuses s \<and> repo_refuses E R \<and> Bundle_Ping out b \<noteq> None \<and>
        (\<exists>e1 e2 e3. Bundle_Migrate F T b db = (db, Some e1) \<and> Pg_Migrate F T s db = (db, Some e2) \<and>
           Repo_Migrate F T R db = (db, Some e3))))"
proof -
  have inv: "bundle_inv b" by (rule shared_pool.inv_star [OF assms(2)]) (use NewPostgresBundle_inv [OF assms(1)] in simp)
  then obtain s R where v: "b_taskStore b = Some s" "b_jobRepo b = Some R" "store_view b s" "repo_view b R"
    "b_pool b = Some (\<not> b_closed b)" by (rule bundle_invE)
  have "b' = b" if "b_closed b" "(bundle_step E)\<^sup>*\<^sup>* b b'" for b'
    using closed_bundle.inv_star [OF that(2), of b] that(1) inv by simp
  moreover have "Bundle_Ping out b \<noteq> None" if "b_closed b" using that by (simp add: Bundle_Ping_def)
  ultimately show ?thesis
    using v closed_store_refuses [of s] closed_repo_refuses [of R E]
    by (simp add: closed_migrate_refuses Bundle_TaskStore_def Bundle_JobRepository_def store_view_def repo_view_def)
qed

theorem bundle_pool_lifetime_witness:
  "\<exists>b0 s. NewPostgresBundle (demo_driver None) None ''dsn'' demo_options [] [] = (Some True, Inr b0) \<and> b_taskStore b0 = Some s \<and>
     b_pool (set_taskStore (Pg_Close s) b0) = Some True \<and> b_pool (Bundle_Close (set_taskStore (Pg_Close s) b0)) = Some False"
proof -
  obtain b0 where b0: "NewPostgresBundle (demo_driver None) None ''dsn'' demo_options [] [] = (Some True, Inr b0)"
    by (simp add: NewPostgresBundle_def open_pool_def demo_driver_def demo_options_def demo_trim_dsn Let_def)
  obtain s R where v: "b_taskStore b0 = Some s" "b_jobRepo b0 = Some R" "store_view b0 s" "repo_view b0 R"
      "b_pool b0 = Some (\<not> b_closed b0)" and opn: "\<not> b_closed b0"
    using NewPostgresBundle_inv [OF b0] by (metis bundle_invE)
  let ?b1 = "set_taskStore (Pg_Close s) b0"
  have 1: "(bundle_step E)\<^sup>*\<^sup>* b0 ?b1" for E using store_close [OF v(1)] by blast
  have 2: "(bundle_step E)\<^sup>*\<^sup>* b0 (Bundle_Close ?b1)" for E
    using 1 close by (metis rtranclp.rtrancl_into_rtrancl)
  have "\<not> b_closed ?b1" "b_closed (Bundle_Close ?b1)" using opn by (simp_all add: Bundle_Close_def shared_defs Let_def)
  then show ?thesis using b0 v(1) bundle_pool_lifetime [OF b0 1, THEN conjunct1] bundle_pool_lifetime [OF b0 2, THEN conjunct1] by simp
qed

end
