(* ===== verification/Migration_Claims.thy ===== *)
theory Migration_Claims
  imports Schema_Migrations
begin

text \<open>
  What the migrations promise: the files that load form the versions 1 to n and carry the
  checksum of their content, a successful run leaves exactly these versions recorded and has
  executed the missing ones in order, every failure rolls back, and a further run changes
  nothing.
\<close>

section \<open>Loading\<close>

definition sql_file :: "dir_entry \<Rightarrow> bool" where
  "sql_file e \<longleftrightarrow> \<not> de_IsDir e \<and> has_suffix (de_Name e) ''.sql''"

definition migration_of :: "mig_fs \<Rightarrow> string \<Rightarrow> Migration \<Rightarrow> bool" where
  "migration_of F baseDir m \<longleftrightarrow>
     parse_name (fs_isPrint F) (mig_Name m) = Inr (mig_Version m) \<and>
     fs_ReadFile F (join_base baseDir (mig_Name m)) = Inr (mig_SQL m) \<and>
     mig_Checksum m = hex_encode (fs_sha256 F (mig_SQL m))"

definition loaded :: "mig_fs \<Rightarrow> string \<Rightarrow> (int \<times> string) list \<Rightarrow> Migration list \<Rightarrow> bool" where
  "loaded F baseDir seen ms \<longleftrightarrow> distinct (map mig_Version ms) \<and> set (map mig_Version ms) = fst ` set seen \<and>
     (\<forall>m\<in>set ms. migration_of F baseDir m)"

lemma load_entries_step:
  assumes "load_entries F b seen ms (e # es) = Inr ms'" and "sql_file e" and "loaded F b seen ms"
  obtains seen1 m where "load_entries F b seen1 (ms @ [m]) es = Inr ms'" and "mig_Name m = de_Name e"
    and "loaded F b seen1 (ms @ [m])"
proof -
  obtain v where v: "parse_name (fs_isPrint F) (de_Name e) = Inr v"
    using assms(1,2) by (auto simp: sql_file_def split: sum.splits)
  have new: "map_of seen v = None"
    using assms(1,2) v by (auto simp: sql_file_def split: option.splits)
  obtain content where c: "fs_ReadFile F (join_base b (de_Name e)) = Inr content"
    using assms(1,2) v new by (auto simp: sql_file_def split: sum.splits)
  define m where "m = \<lparr>mig_Version = v, mig_Name = de_Name e,
    mig_Checksum = hex_encode (fs_sha256 F content), mig_SQL = content\<rparr>"
  have "load_entries F b ((v, de_Name e) # seen) (ms @ [m]) es = Inr ms'"
    using assms(1,2) v new c by (simp add: sql_file_def m_def)
  moreover have "loaded F b ((v, de_Name e) # seen) (ms @ [m])"
    using assms(3) v new c by (auto simp: loaded_def migration_of_def m_def map_of_eq_None_iff)
  ultimately show thesis using that [of "(v, de_Name e) # seen" m] by (simp add: m_def)
qed

lemma load_entries_sound:
  "load_entries F b seen ms es = Inr ms' \<Longrightarrow> loaded F b seen ms \<Longrightarrow>
     (\<exists>seen'. loaded F b seen' ms') \<and> map mig_Name ms' = map mig_Name ms @ map de_Name (filter sql_file es)"
proof (induction es arbitrary: seen ms)
  case (Cons e es)
  show ?case
  proof (cases "sql_file e")
    case True
    from load_entries_step [OF Cons.prems(1) True Cons.prems(2)] obtain seen1 m where
      "load_entries F b seen1 (ms @ [m]) es = Inr ms'" "mig_Name m = de_Name e" "loaded F b seen1 (ms @ [m])" .
    with Cons.IH [of seen1 "ms @ [m]"] True show ?thesis by simp
  next
    case False
    with Cons.prems(1) have "load_entries F b seen ms es = Inr ms'" by (auto simp: sql_file_def)
    with Cons.IH Cons.prems(2) False show ?thesis by simp
  qed
qed auto

lemma check_versions_range:
  "check_versions p v ms = None \<Longrightarrow> map mig_Version ms = map (\<lambda>i. v + int i) [0..<length ms]"
proof (induction ms arbitrary: v)
  case (Cons m ms)
  then have "map mig_Version ms = map (\<lambda>i. (v + 1) + int i) [0..<length ms]" "mig_Version m = v"
    by (auto split: if_splits)
  then show ?case by (simp add: upt_conv_Cons map_Suc_upt [symmetric] del: upt_Suc)
qed simp

text \<open>The directory that is read.\<close>

definition migration_dir :: "mig_fs \<Rightarrow> (string \<times> dir_entry list) option" where
  "migration_dir F =
     (case fs_ReadDir F ''migrations'' of
        Inr es \<Rightarrow> Some (''migrations'', es)
      | Inl _ \<Rightarrow> (case fs_ReadDir F ''.'' of Inr es \<Rightarrow> Some (''.'', es) | Inl _ \<Rightarrow> None))"

lemma LoadMigrations_cases:
  assumes "LoadMigrations F = Inr ms"
  obtains b es ms0 where "migration_dir F = Some (b, es)" and "load_entries F b [] [] es = Inr ms0"
    and "ms0 \<noteq> []" and "ms = sort_key mig_Version ms0" and "check_versions (fs_isPrint F) 1 ms = None"
proof -
  obtain b es where d: "migration_dir F = Some (b, es)"
    using assms by (auto simp: LoadMigrations_def migration_dir_def split: sum.splits)
  then have e: "LoadMigrations F = (case load_entries F b [] [] es of Inl err \<Rightarrow> Inl err | Inr ms \<Rightarrow>
      if ms = [] then Inl (invalid_migration ''no migration files found'')
      else let sorted = sort_key mig_Version ms in
        case check_versions (fs_isPrint F) 1 sorted of Some err \<Rightarrow> Inl err | None \<Rightarrow> Inr sorted)"
    by (auto simp: LoadMigrations_def migration_dir_def split: sum.splits)
  obtain ms0 where m: "load_entries F b [] [] es = Inr ms0"
    using assms unfolding e by (auto split: sum.splits)
  then have "ms0 \<noteq> []" "check_versions (fs_isPrint F) 1 (sort_key mig_Version ms0) = None" "ms = sort_key mig_Version ms0"
    using assms unfolding e by (auto simp: Let_def split: if_splits option.splits)
  then show thesis using that d m by blast
qed

text \<open>
  C35. What \<open>LoadMigrations\<close> accepts: the versions are exactly 1 to n in this order, there is one
  migration for each SQL file of the directory and no other, and each has the version of its
  file name, the content of its file and the SHA-256 checksum of that content.
\<close>

theorem loaded_migrations_numbered:
  assumes "LoadMigrations F = Inr ms"
  shows "ms \<noteq> [] \<and> map mig_Version ms = map int [1..<length ms + 1] \<and>
    (\<exists>b es. migration_dir F = Some (b, es) \<and> mset (map mig_Name ms) = mset (map de_Name (filter sql_file es)) \<and>
      (\<forall>m\<in>set ms. migration_of F b m))"
proof -
  from assms obtain b es ms0 where d: "migration_dir F = Some (b, es)"
    and l: "load_entries F b [] [] es = Inr ms0" and ne: "ms0 \<noteq> []"
    and s: "ms = sort_key mig_Version ms0" and c: "check_versions (fs_isPrint F) 1 ms = None"
    by (rule LoadMigrations_cases)
  have "loaded F b [] []" by (simp add: loaded_def)
  from load_entries_sound [OF l this]
  have o: "\<forall>m\<in>set ms0. migration_of F b m" and n: "map mig_Name ms0 = map de_Name (filter sql_file es)"
    by (auto simp: loaded_def)
  have "map mig_Version ms = map int [1..<length ms + 1]"
    using check_versions_range [OF c] by (simp add: map_Suc_upt [symmetric] comp_def del: upt_Suc)
  moreover have "mset (map mig_Name ms) = mset (map de_Name (filter sql_file es))"
    unfolding s n [symmetric] by simp
  moreover have "ms \<noteq> []" using ne s by (metis length_0_conv length_sort)
  ultimately show ?thesis using d o s by auto
qed

text \<open>Two files: a directory with two migrations, a note and a subdirectory.\<close>

definition demo_mig_fs :: mig_fs where
  "demo_mig_fs = \<lparr>fs_ReadDir = (\<lambda>d. if d = ''migrations'' then Inr
       [\<lparr>de_Name = ''2_b.sql'', de_IsDir = False\<rparr>, \<lparr>de_Name = ''notes'', de_IsDir = False\<rparr>,
        \<lparr>de_Name = ''old.sql'', de_IsDir = True\<rparr>, \<lparr>de_Name = ''1_a.sql'', de_IsDir = False\<rparr>] else Inl ''no such directory''),
     fs_ReadFile = (\<lambda>f. Inr (if f = ''migrations/1_a.sql'' then ''A'' else ''B'')), fs_sha256 = (\<lambda>b. b), fs_isPrint = (\<lambda>_. True)\<rparr>"

definition demo_migrations :: "Migration list" where
  "demo_migrations = [\<lparr>mig_Version = 1, mig_Name = ''1_a.sql'', mig_Checksum = ''41'', mig_SQL = ''A''\<rparr>,
     \<lparr>mig_Version = 2, mig_Name = ''2_b.sql'', mig_Checksum = ''42'', mig_SQL = ''B''\<rparr>]"

lemma demo_parse_name: "parse_name p ''1_a.sql'' = Inr 1" "parse_name p ''2_b.sql'' = Inr 2"
  by (simp_all add: parse_name_def split_underscore_def atoi_def digit_val_def trim_suffix_def has_suffix_def
      trim_space_def strip_def is_space_def)

lemma demo_load: "LoadMigrations demo_mig_fs = Inr demo_migrations"
  by (simp add: LoadMigrations_def demo_mig_fs_def demo_migrations_def demo_parse_name has_suffix_def join_base_def
      hex_encode_def hex_digit_def char_of_def bit_Suc_0_iff)

theorem loaded_migrations_numbered_witness:
  "LoadMigrations demo_mig_fs = Inr demo_migrations \<and> map mig_Version demo_migrations = map int [1..<3]"
  using loaded_migrations_numbered [OF demo_load] demo_load by (simp add: demo_migrations_def numeral_eq_Suc)

section \<open>Applying\<close>

definition recorded :: "schema_row \<Rightarrow> int \<times> recordedMigration" where
  "recorded r = (sr_version r, \<lparr>rec_Name = sr_name r, rec_Checksum = sr_checksum r\<rparr>)"

lemma scan_rows_map:
  "scan_rows T tok al rs = Inr applied \<Longrightarrow> distinct (map sr_version rs) \<Longrightarrow>
     map_of applied = map_of al ++ map_of (map recorded rs)"
proof (induction rs arbitrary: al)
  case (Cons r rs)
  have "scan_rows T tok (AList.update (sr_version r) (snd (recorded r)) al) rs = Inr applied"
    using Cons.prems(1) by (auto simp: recorded_def split: option.splits)
  from Cons.IH [OF this] Cons.prems(2)
  have "map_of applied = (map_of al)(sr_version r \<mapsto> snd (recorded r)) ++ map_of (map recorded rs)"
    by (auto simp: update_conv' fun_upd_def)
  also have "\<dots> = (map_of al ++ map_of (map recorded rs))(sr_version r \<mapsto> snd (recorded r))"
    using Cons.prems(2) by (intro map_add_upd_left) (auto simp: dom_map_of_conv_image_fst recorded_def)
  also have "\<dots> = map_of al ++ map_of (map recorded (r # rs))" by (simp add: recorded_def [of r])
  finally show ?case .
qed simp

lemma scan_sorted:
  assumes "scan_rows T tok [] (sort_key sr_version table) = Inr applied" and "distinct (map sr_version table)"
  shows "map_of applied = map_of (map recorded table)"
proof -
  have k: "map fst (map recorded rs) = map sr_version rs" for rs by (simp add: recorded_def)
  have d: "distinct (map sr_version (sort_key sr_version table))"
    using assms(2) by (metis distinct_map distinct_sort set_sort)
  from scan_rows_map [OF assms(1) this] have "map_of applied = map_of (map recorded (sort_key sr_version table))" by simp
  also have "\<dots> = map_of (map recorded table)"
    using assms(2) d by (subst map_of_inject_set) (simp_all only: k, simp)
  finally show ?thesis .
qed

lemma check_known_None:
  "check_known ms rs = None \<longleftrightarrow> (\<forall>(v, rec)\<in>set rs. \<exists>m. find_version v ms = Some m \<and> rec_Name rec = mig_Name m)"
  by (induction ms rs rule: check_known.induct) (auto split: option.splits)

text \<open>Executing the SQL of a list of migrations.\<close>

primrec exec_all :: "(string \<Rightarrow> 'd \<Rightarrow> db_raw + 'd) \<Rightarrow> Migration list \<Rightarrow> 'd \<Rightarrow> db_raw + 'd" where
  "exec_all f [] d = Inr d"
| "exec_all f (m # ms) d = (case f (mig_SQL m) d of Inl e \<Rightarrow> Inl e | Inr d' \<Rightarrow> exec_all f ms d')"

definition row_of :: "go_time \<Rightarrow> Migration \<Rightarrow> schema_row" where
  "row_of now m = \<lparr>sr_version = mig_Version m, sr_name = mig_Name m, sr_checksum = mig_Checksum m, sr_applied_at = now\<rparr>"

lemma apply_migrations_ok:
  "apply_migrations T tok applied ms table d = Inr (table', d') \<Longrightarrow>
     table' = table @ map (row_of (tx_Now T)) (filter (\<lambda>m. map_of applied (mig_Version m) = None) ms) \<and>
     exec_all (tx_Sql T) (filter (\<lambda>m. map_of applied (mig_Version m) = None) ms) d = Inr d' \<and>
     (\<forall>m\<in>set ms. \<forall>rec. map_of applied (mig_Version m) = Some rec \<longrightarrow> rec_Checksum rec = mig_Checksum m)"
proof (induction ms arbitrary: table d)
  case (Cons m ms)
  show ?case
  proof (cases "map_of applied (mig_Version m)")
    case None
    then obtain d1 where s: "tx_Sql T (mig_SQL m) d = Inr d1" using Cons.prems by (auto split: sum.splits)
    then have "apply_migrations T tok applied ms (table @ [row_of (tx_Now T) m]) d1 = Inr (table', d')"
      using Cons.prems None by (auto simp: row_of_def split: option.splits)
    from Cons.IH [OF this] None s show ?thesis by simp
  next
    case (Some rec)
    with Cons.prems have "rec_Checksum rec = mig_Checksum m"
      "apply_migrations T tok applied ms table d = Inr (table', d')" by (auto split: if_splits)
    with Cons.IH Some show ?thesis by fastforce
  qed
qed simp

definition mig_key :: "Migration \<Rightarrow> int \<times> string \<times> string" where
  "mig_key m = (mig_Version m, mig_Name m, mig_Checksum m)"

definition sr_key :: "schema_row \<Rightarrow> int \<times> string \<times> string" where
  "sr_key r = (sr_version r, sr_name r, sr_checksum r)"

text \<open>The table records exactly the migrations of the binary, each once.\<close>

definition migrated :: "Migration list \<Rightarrow> 'd mig_db \<Rightarrow> bool" where
  "migrated ms db \<longleftrightarrow> (\<exists>t. md_table db = Some t \<and> distinct (map sr_version t) \<and> sr_key ` set t = mig_key ` set ms)"

definition table_of :: "'d mig_db \<Rightarrow> schema_row list" where
  "table_of db = (case md_table db of None \<Rightarrow> [] | Some t \<Rightarrow> t)"

definition missing :: "Migration list \<Rightarrow> 'd mig_db \<Rightarrow> Migration list" where
  "missing ms db = filter (\<lambda>m. mig_Version m \<notin> sr_version ` set (table_of db)) ms"

lemma map_of_recorded_None: "map_of (map recorded t) v = None \<longleftrightarrow> v \<notin> sr_version ` set t"
  by (force simp: map_of_eq_None_iff recorded_def)

lemma migration_tx_ok:
  assumes "migration_tx T tok ms db = Inr db'"
    and "distinct (map sr_version (table_of db))" and "\<And>xs. set (tx_range T xs) = set xs"
  shows "md_table db' = Some (table_of db @ map (row_of (tx_Now T)) (missing ms db)) \<and>
    exec_all (tx_Sql T) (missing ms db) (md_schema db) = Inr (md_schema db') \<and>
    (\<forall>r\<in>set (table_of db). \<exists>m\<in>set ms. sr_key r = mig_key m)"
proof -
  note pre = assms(1)[unfolded migration_tx_def Let_def table_of_def [symmetric]]
  have n: "tx_Lock T = None" "tx_Create T = None" "tx_Query T = None"
    using pre by (auto split: option.splits)
  obtain applied where sc: "scan_rows T tok [] (sort_key sr_version (table_of db)) = Inr applied"
    using pre n by (auto split: sum.splits)
  have it: "tx_Iterate T = None" and k: "check_known ms (tx_range T applied) = None"
    using pre n sc by (auto split: option.splits)
  obtain t' d' where ap: "apply_migrations T tok applied ms (table_of db) (md_schema db) = Inr (t', d')"
    and db': "db' = db\<lparr>md_table := Some t', md_schema := d'\<rparr>"
    using pre n sc it k by (auto split: sum.splits)
  have m: "map_of applied = map_of (map recorded (table_of db))" by (rule scan_sorted [OF sc assms(2)])
  have f: "filter (\<lambda>m. map_of applied (mig_Version m) = None) ms = missing ms db"
    by (simp add: missing_def m map_of_recorded_None)
  have key: "\<exists>m\<in>set ms. sr_key r = mig_key m" if "r \<in> set (table_of db)" for r
  proof -
    have "map_of applied (sr_version r) = Some (snd (recorded r))"
      unfolding m using that assms(2) by (intro map_of_is_SomeI) (auto simp: recorded_def comp_def)
    moreover from this have "(sr_version r, snd (recorded r)) \<in> set (tx_range T applied)"
      using assms(3) by (simp add: map_of_SomeD)
    with k obtain m where "find_version (sr_version r) ms = Some m" "sr_name r = mig_Name m"
      unfolding check_known_None by (fastforce simp: recorded_def)
    moreover from this have "m \<in> set ms" "mig_Version m = sr_version r"
      by (auto simp: find_version_def dest: find_SomeD)
    ultimately show ?thesis
      using apply_migrations_ok [OF ap] by (intro bexI [of _ m]) (auto simp: sr_key_def mig_key_def recorded_def)
  qed
  then show ?thesis using apply_migrations_ok [OF ap] f db' by simp
qed

lemma migration_tx_migrated:
  assumes "migration_tx T tok ms db = Inr db'" and "distinct (map mig_Version ms)"
    and "distinct (map sr_version (table_of db))" and "\<And>xs. set (tx_range T xs) = set xs"
  shows "migrated ms db'"
proof -
  let ?t = "table_of db" and ?new = "map (row_of (tx_Now T)) (missing ms db)"
  from migration_tx_ok [OF assms(1,3,4)] have t: "md_table db' = Some (?t @ ?new)"
    and old: "\<forall>r\<in>set ?t. \<exists>m\<in>set ms. sr_key r = mig_key m" by auto
  have v: "map sr_version ?new = map mig_Version (missing ms db)" and k: "map sr_key ?new = map mig_key (missing ms db)"
    by (simp_all add: row_of_def sr_key_def mig_key_def)
  have "distinct (map sr_version (?t @ ?new))"
  proof -
    have "distinct (map mig_Version (missing ms db))" using assms(2) by (simp add: missing_def distinct_map_filter)
    moreover have "set (map mig_Version (missing ms db)) \<inter> set (map sr_version ?t) = {}" by (auto simp: missing_def)
    ultimately show ?thesis unfolding map_append distinct_append v using assms(3) by blast
  qed
  moreover have "sr_key ` set (?t @ ?new) = mig_key ` set ms"
  proof -
    have inj: "m = m'" if "m \<in> set ms" "m' \<in> set ms" "mig_Version m = mig_Version m'" for m m'
      using assms(2) that by (auto simp: distinct_map inj_on_def)
    have "mig_key m \<in> sr_key ` set ?t" if "m \<in> set ms" "mig_Version m \<in> sr_version ` set ?t" for m
    proof -
      from that(2) obtain r where r: "r \<in> set ?t" "mig_Version m = sr_version r" by auto
      with old obtain m' where "m' \<in> set ms" "sr_key r = mig_key m'" by blast
      moreover from this have "m = m'" by (intro inj) (use r that(1) in \<open>simp_all add: sr_key_def mig_key_def\<close>)
      ultimately show ?thesis using r(1) by (metis imageI)
    qed
    then have sup: "mig_key ` set ms \<subseteq> sr_key ` set ?t \<union> mig_key ` set (missing ms db)" by (auto simp: missing_def)
    have sub: "sr_key ` set ?t \<subseteq> mig_key ` set ms" "mig_key ` set (missing ms db) \<subseteq> mig_key ` set ms"
      using old by (auto simp: missing_def)
    have new: "sr_key ` set ?new = mig_key ` set (missing ms db)" by (metis k list.set_map)
    show ?thesis unfolding set_append image_Un new by (intro equalityI Un_least sub sup)
  qed
  ultimately show ?thesis unfolding migrated_def using t by blast
qed

lemma loaded_distinct: "LoadMigrations F = Inr ms \<Longrightarrow> distinct (map mig_Version ms)"
  by (erule LoadMigrations_cases) (simp add: check_versions_range distinct_map inj_on_def)

lemma runMigrations_cases:
  assumes "runMigrations F T p tok db = (db', e)"
  obtains (unchanged) err where "db' = db" and "e = Some err"
  | (committed) ms where "LoadMigrations F = Inr ms" and "migration_tx T tok ms db = Inr db'"
      and "e = None \<and> tx_Commit T = Db_ok \<or> e \<noteq> None \<and> (\<exists>x. tx_Commit T = Db_lost x)"
proof -
  show thesis
  proof (cases "\<exists>ms. p \<and> LoadMigrations F = Inr ms \<and> tx_Begin T = None \<and>
      (\<exists>db1. migration_tx T tok ms db = Inr db1) \<and> (\<forall>x. tx_Commit T \<noteq> Db_failed x)")
    case True
    then obtain ms db1 where "p" "LoadMigrations F = Inr ms" "tx_Begin T = None" "migration_tx T tok ms db = Inr db1"
      "\<forall>x. tx_Commit T \<noteq> Db_failed x" by blast
    with assms committed [of ms] show thesis by (cases "tx_Commit T") (auto simp: runMigrations_def)
  next
    case False
    then have "\<exists>err. (db', e) = (db, Some err)"
      unfolding assms [symmetric]
      by (cases p; cases "LoadMigrations F"; cases "tx_Begin T"; cases "tx_Commit T")
        (auto simp: runMigrations_def split: sum.splits)
    then show thesis using unchanged by auto
  qed
qed

lemma missing_none: "migrated ms db \<Longrightarrow> missing ms db = []"
  by (force simp: migrated_def missing_def table_of_def filter_empty_conv sr_key_def mig_key_def)

lemma migrated_rerun:
  assumes "migrated ms db" and "LoadMigrations F = Inr ms" and "\<And>xs. set (tx_range T xs) = set xs"
  shows "fst (runMigrations F T p tok db) = db"
proof -
  obtain db' e where r: "runMigrations F T p tok db = (db', e)" by fastforce
  obtain t where t: "md_table db = Some t" "distinct (map sr_version (table_of db))" "table_of db = t"
    using assms(1) by (auto simp: migrated_def table_of_def)
  from r have "db' = db"
  proof (cases rule: runMigrations_cases)
    case (committed ms')
    then have "migration_tx T tok ms db = Inr db'" using assms(2) by simp
    from migration_tx_ok [OF this t(2) assms(3)] missing_none [OF assms(1)] t
    have "md_table db' = md_table db" "md_schema db' = md_schema db" by simp_all
    then show ?thesis by simp
  qed
  with r show ?thesis by simp
qed

text \<open>
  C36. \<open>runMigrations\<close> is atomic, complete and idempotent. If it returns nil, the table records
  exactly the migrations of the binary, each once with its name and checksum; the rows that
  were there are kept, the missing migrations were executed in the order of their versions, on
  top of the schema found, and a further run, whatever it meets, changes nothing. If it returns
  an error, the database is unchanged, unless the error is that of a commit that took effect.
\<close>

theorem migrations_atomic_idempotent:
  assumes "runMigrations F T p tok db = (db', e)"
    and "distinct (map sr_version (table_of db))" and "\<And>xs. set (tx_range T xs) = set xs"
  shows "case e of
      None \<Rightarrow> (\<exists>ms. LoadMigrations F = Inr ms \<and> migrated ms db' \<and>
        md_table db' = Some (table_of db @ map (row_of (tx_Now T)) (missing ms db)) \<and>
        exec_all (tx_Sql T) (missing ms db) (md_schema db) = Inr (md_schema db')) \<and>
        (\<forall>T' p' tok'. (\<forall>xs. set (tx_range T' xs) = set xs) \<longrightarrow> fst (runMigrations F T' p' tok' db') = db')
    | Some _ \<Rightarrow> db' = db \<or> (\<exists>x. tx_Commit T = Db_lost x)"
  using assms(1)
proof (cases rule: runMigrations_cases)
  case (committed ms)
  have m: "migrated ms db'"
    by (rule migration_tx_migrated [OF committed(2) loaded_distinct [OF committed(1)] assms(2,3)])
  show ?thesis
  proof (cases e)
    case None
    then show ?thesis
      using committed(1) m migration_tx_ok [OF committed(2) assms(2,3)] migrated_rerun [OF m committed(1)] by auto
  next
    case (Some err)
    then show ?thesis using committed(3) by auto
  qed
qed simp

definition demo_tx :: "db_outcome \<Rightarrow> string tx_env" where
  "demo_tx out = \<lparr>tx_Begin = None, tx_Lock = None, tx_Create = None, tx_Query = None, tx_Scan = (\<lambda>_. None),
     tx_Iterate = None, tx_range = (\<lambda>xs. xs), tx_Sql = (\<lambda>sql d. Inr (d @ sql)), tx_Record = (\<lambda>_. None),
     tx_Now = 7, tx_Commit = out\<rparr>"

definition demo_mig_db :: "string mig_db" where
  "demo_mig_db = \<lparr>md_table = Some [row_of 5 (hd demo_migrations)], md_schema = ''A''\<rparr>"

theorem migrations_atomic_idempotent_witness:
  "runMigrations demo_mig_fs (demo_tx Db_ok) True [] demo_mig_db =
     (\<lparr>md_table = Some [row_of 5 (hd demo_migrations), row_of 7 (hd (tl demo_migrations))], md_schema = ''AB''\<rparr>, None) \<and>
   migrated demo_migrations (fst (runMigrations demo_mig_fs (demo_tx Db_ok) True [] demo_mig_db))"
proof -
  have r: "runMigrations demo_mig_fs (demo_tx Db_ok) True [] demo_mig_db =
     (\<lparr>md_table = Some [row_of 5 (hd demo_migrations), row_of 7 (hd (tl demo_migrations))], md_schema = ''AB''\<rparr>, None)"
    by (simp add: runMigrations_def demo_load migration_tx_def demo_tx_def demo_mig_db_def demo_migrations_def
        row_of_def find_version_def)
  have "distinct (map sr_version (table_of demo_mig_db))" "\<And>xs. set (tx_range (demo_tx Db_ok) xs) = set xs"
    by (simp_all add: table_of_def demo_mig_db_def demo_tx_def)
  from migrations_atomic_idempotent [OF r this] demo_load r show ?thesis by auto
qed

end
