(* ===== verification/Runtime.thy ===== *)
theory Runtime
  imports Config_Claims Storage_Bundle
begin

text \<open>
  The process, cmd/proxy/main.go, and the HTTP server it starts, pkg/server/server.go: the
  overrides of the command line, the choice of the role, the construction of the storage of
  each role, and the supervision of the server and the worker engine. The parsing of the flags
  and the server and the engine themselves are parameters; what the supervisor sees of them is
  the moment and the value of their exit.
\<close>

section \<open>Configuration\<close>

datatype log_level = LevelDebug | LevelInfo | LevelWarn | LevelError

definition parseLogLevel :: "unicode_tables \<Rightarrow> string \<Rightarrow> log_level" where
  "parseLogLevel U levelStr =
     (let s = to_lower U levelStr in
      if s = ''debug'' then LevelDebug
      else if s = ''warn'' \<or> s = ''warning'' then LevelWarn
      else if s = ''error'' then LevelError
      else LevelInfo)"

text \<open>The parsed flags that matter for the configuration.\<close>

record cli_flags =
  fl_config :: string
  fl_host :: string
  fl_port :: int
  fl_role :: string

definition apply_overrides :: "cli_flags \<Rightarrow> Config \<Rightarrow> Config" where
  "apply_overrides f cfg =
     (let c1 = (if fl_host f \<noteq> [] then cfg\<lparr>cfg_Server := (cfg_Server cfg)\<lparr>sv_Host := fl_host f\<rparr>\<rparr> else cfg);
          c2 = (if fl_port f > 0 then c1\<lparr>cfg_Server := (cfg_Server c1)\<lparr>sv_Port := fl_port f\<rparr>\<rparr> else c1)
      in if fl_role f \<noteq> [] then c2\<lparr>cfg_Role := fl_role f\<rparr> else c2)"

datatype run_error =
    Load_failed load_error | Overrides_invalid config_error | Unsupported_role string

datatype runtime = Run_api Config | Run_worker Config | Run_all Config

definition main_run ::
  "unicode_tables \<Rightarrow> (string \<Rightarrow> url option) \<Rightarrow> (string \<Rightarrow> bytes option) \<Rightarrow> (string \<Rightarrow> string)
     \<Rightarrow> (bytes \<Rightarrow> Config option) \<Rightarrow> cli_flags \<Rightarrow> run_error + runtime" where
  "main_run U parse_url read_file getenv unmarshal f =
     (case Load U parse_url read_file getenv unmarshal (fl_config f) of
        Inl e \<Rightarrow> Inl (Load_failed e)
      | Inr loaded \<Rightarrow>
          let cfg = apply_overrides f loaded in
          case Validate U parse_url cfg of
            Some e \<Rightarrow> Inl (Overrides_invalid e)
          | None \<Rightarrow>
              if cfg_Role cfg = ''api'' then Inr (Run_api cfg)
              else if cfg_Role cfg = ''worker'' then Inr (Run_worker cfg)
              else if cfg_Role cfg = ''all'' then Inr (Run_all cfg)
              else Inl (Unsupported_role (cfg_Role cfg)))"

text \<open>\<open>NewServer\<close>: the address and the timeouts of the \<open>http.Server\<close>; its handler is \<open>SetupRouter\<close>.\<close>

record http_server =
  hs_Addr :: string
  hs_ReadTimeout :: go_duration
  hs_WriteTimeout :: go_duration
  hs_IdleTimeout :: go_duration

definition timeout_of :: "int \<Rightarrow> go_duration" where
  "timeout_of secs = (if secs > 0 then wrap64 (secs * second) else 0)"

definition NewServer :: "Config option \<Rightarrow> http_server" where
  "NewServer cfg =
     (case cfg of
        None \<Rightarrow> \<lparr>hs_Addr = [], hs_ReadTimeout = 0, hs_WriteTimeout = 0, hs_IdleTimeout = 0\<rparr>
      | Some c \<Rightarrow>
          \<lparr>hs_Addr = sv_Host (cfg_Server c) @ '':'' @ show_int (sv_Port (cfg_Server c)),
           hs_ReadTimeout = timeout_of (sv_ReadTimeoutSeconds (cfg_Server c)),
           hs_WriteTimeout = timeout_of (sv_WriteTimeoutSeconds (cfg_Server c)),
           hs_IdleTimeout = timeout_of (sv_IdleTimeoutSeconds (cfg_Server c))\<rparr>)"

definition Server_Addr :: "http_server \<Rightarrow> string" where
  "Server_Addr s = hs_Addr s"

section \<open>Storage\<close>

text \<open>Conversion to a 32-bit integer.\<close>

definition wrap32 :: "int \<Rightarrow> int" where
  "wrap32 x = (x + 2 ^ 31) mod 2 ^ 32 - 2 ^ 31"

definition postgres_options :: "PostgresStorageConfig \<Rightarrow> PostgresOptions" where
  "postgres_options p =
     \<lparr>po_MaxConns = wrap32 (pg_MaxConnections p), po_MinConns = wrap32 (pg_MinConnections p),
      po_MaxConnLifetime = wrap64 (pg_MaxConnectionLifetimeSeconds p * second),
      po_MaxConnIdleTime = wrap64 (pg_MaxConnectionIdleTimeSeconds p * second),
      po_HealthCheckPeriod = wrap64 (pg_HealthCheckPeriodSeconds p * second)\<rparr>"

definition connect_timeout :: "PostgresStorageConfig \<Rightarrow> go_duration" where
  "connect_timeout p =
     (let timeout = wrap64 (pg_ConnectTimeoutSeconds p * second) in if timeout \<le> 0 then 5 * second else timeout)"

definition sanitizeStorageError :: "go_err \<Rightarrow> string \<Rightarrow> go_err" where
  "sanitizeStorageError err dsn =
     (let trimmed = trim_space dsn; msg = err_string err;
          hasDSN = (trimmed \<noteq> [] \<and> contains msg trimmed) \<or> (dsn \<noteq> [] \<and> contains msg dsn) in
      if \<not> hasDSN then err
      else
        let msg1 = (if trimmed \<noteq> [] then replace_all trimmed ''[REDACTED]'' msg else msg);
            msg2 = (if dsn \<noteq> [] then replace_all dsn ''[REDACTED]'' msg1 else msg1)
        in Err_text msg2)"

text \<open>
  What the storage is built from: the driver, the context error after a timeout, the file
  system of the migrations, their transaction, and the printable characters.
\<close>

record 'd storage_env =
  se_driver :: pg_driver
  se_ctx :: "go_duration \<Rightarrow> ctx_error option"
  se_fs :: mig_fs
  se_tx :: "'d tx_env"
  se_isPrint :: "nat \<Rightarrow> bool"

datatype task_backend = Memory_backend MemoryTaskStore | Postgres_backend PostgresTaskStore

text \<open>
  The three constructions return the database, the pool that was made and an error or the
  storage; the function that closes it is \<open>Pg_Close\<close>, \<open>Repo_Close\<close> or \<open>Bundle_Close\<close>, run once.
\<close>

definition buildTaskStore ::
  "'d storage_env \<Rightarrow> task_row list \<Rightarrow> 'd mig_db \<Rightarrow> Config option
     \<Rightarrow> 'd mig_db \<times> bool option \<times> (go_err + task_backend)" where
  "buildTaskStore S results db cfg =
     (case cfg of None \<Rightarrow> (db, None, Inl (Err_text ''config cannot be nil'')) | Some c \<Rightarrow>
      let backend = effective_backend c in
      if backend = ''memory'' then
        (let maxTasks = mem_MaxTasks (st_Memory (cfg_Storage c)) in
         (db, None, Inr (Memory_backend (NewMemoryTaskStore (if maxTasks \<le> 0 then DefaultMaxTasks else maxTasks)))))
      else if backend = ''postgres'' then
        (let pgCfg = st_Postgres (cfg_Storage c) in
         case NewPostgresTaskStore (se_driver S) (se_ctx S (connect_timeout pgCfg)) (pg_DSN pgCfg) (postgres_options pgCfg) results of
           (pool, Inl e) \<Rightarrow>
             (db, pool, Inl (Err_wrap ''failed to initialize postgres task store'' (sanitizeStorageError e (pg_DSN pgCfg))))
         | (pool, Inr store) \<Rightarrow>
             if pg_MigrateOnStart pgCfg then
               (case Pg_Migrate (se_fs S) (se_tx S) store db of
                  (db', Some e) \<Rightarrow>
                    (db', ps_pool (Pg_Close store),
                     Inl (Err_wrap ''failed to run postgres migrations'' (sanitizeStorageError e (pg_DSN pgCfg))))
                | (db', None) \<Rightarrow> (db', pool, Inr (Postgres_backend store)))
             else (db, pool, Inr (Postgres_backend store)))
      else (db, None, Inl (Err_text (''unsupported storage backend: '' @ go_quote (se_isPrint S) (st_Backend (cfg_Storage c))))))"

definition buildJobRepository ::
  "'d storage_env \<Rightarrow> durable_job list \<Rightarrow> 'd mig_db \<Rightarrow> Config option
     \<Rightarrow> 'd mig_db \<times> bool option \<times> (go_err + JobRepo)" where
  "buildJobRepository S jobs db cfg =
     (case cfg of None \<Rightarrow> (db, None, Inl (Err_text ''config cannot be nil'')) | Some c \<Rightarrow>
      let pgCfg = st_Postgres (cfg_Storage c) in
      case NewPostgresJobRepository (se_driver S) (se_ctx S (connect_timeout pgCfg)) (pg_DSN pgCfg) (postgres_options pgCfg) jobs of
        (pool, Inl e) \<Rightarrow>
          (db, pool, Inl (Err_wrap ''failed to initialize postgres job repository'' (sanitizeStorageError e (pg_DSN pgCfg))))
      | (pool, Inr repo) \<Rightarrow>
          if pg_MigrateOnStart pgCfg then
            (case Repo_Migrate (se_fs S) (se_tx S) repo db of
               (db', Some e) \<Rightarrow>
                 (db', repo_pool (Repo_Close repo),
                  Inl (Err_wrap ''failed to run postgres migrations'' (sanitizeStorageError e (pg_DSN pgCfg))))
             | (db', None) \<Rightarrow> (db', pool, Inr repo))
          else (db, pool, Inr repo))"

definition buildStorageBundle ::
  "'d storage_env \<Rightarrow> task_row list \<Rightarrow> durable_job list \<Rightarrow> 'd mig_db \<Rightarrow> Config option
     \<Rightarrow> 'd mig_db \<times> bool option \<times> (go_err + PostgresBundle)" where
  "buildStorageBundle S results jobs db cfg =
     (case cfg of None \<Rightarrow> (db, None, Inl (Err_text ''config cannot be nil'')) | Some c \<Rightarrow>
      let pgCfg = st_Postgres (cfg_Storage c) in
      case NewPostgresBundle (se_driver S) (se_ctx S (connect_timeout pgCfg)) (pg_DSN pgCfg) (postgres_options pgCfg) results jobs of
        (pool, Inl e) \<Rightarrow>
          (db, pool, Inl (Err_wrap ''failed to initialize postgres storage bundle'' (sanitizeStorageError e (pg_DSN pgCfg))))
      | (pool, Inr b) \<Rightarrow>
          if pg_MigrateOnStart pgCfg then
            (case Bundle_Migrate (se_fs S) (se_tx S) b db of
               (db', Some e) \<Rightarrow>
                 (db', b_pool (Bundle_Close b),
                  Inl (Err_wrap ''failed to run postgres migrations'' (sanitizeStorageError e (pg_DSN pgCfg))))
             | (db', None) \<Rightarrow> (db', pool, Inr b))
          else (db, pool, Inr b))"

section \<open>Supervising the server\<close>

text \<open>\<open>errors.Is(err, http.ErrServerClosed)\<close>; the regular end of \<open>Start\<close> counts as nil.\<close>

definition ErrServerClosed :: go_err where
  "ErrServerClosed = Err_text ''http: Server closed''"

fun is_server_closed :: "go_err \<Rightarrow> bool" where
  "is_server_closed (Err_wrap s e) = is_server_closed e"
| "is_server_closed e = (e = ErrServerClosed)"

definition start_result :: "go_err option \<Rightarrow> go_err option" where
  "start_result err = (case err of Some e \<Rightarrow> if is_server_closed e then None else Some e | None \<Rightarrow> None)"

text \<open>
  \<open>runAPI\<close> after the server has been started: what the first \<open>select\<close> receives (the server's
  exit, or the signal), what \<open>Shutdown\<close> returns, and what the second \<open>select\<close> receives (the
  server's exit, or the deadline of 15 seconds).
\<close>

datatype api_event = Server_exit "go_err option" | Signal

definition runAPI_wait :: "api_event \<Rightarrow> go_err option \<Rightarrow> go_err option option \<Rightarrow> go_err option" where
  "runAPI_wait first shutdownErr second_event =
     (case first of
        Server_exit err \<Rightarrow>
          (case start_result err of
             None \<Rightarrow> Some (Err_text ''server exited unexpectedly with nil error'')
           | Some e \<Rightarrow> Some (Err_wrap ''server error'' e))
      | Signal \<Rightarrow>
          (case second_event of
             Some err \<Rightarrow>
               (case shutdownErr of
                  Some e \<Rightarrow> Some (Err_wrap ''server forced to shutdown'' e)
                | None \<Rightarrow>
                    (case start_result err of
                       Some e \<Rightarrow> Some (Err_wrap ''server error during shutdown'' e)
                     | None \<Rightarrow> None))
           | None \<Rightarrow>
               (case shutdownErr of
                  Some e \<Rightarrow> Some (Err_wrap ''server forced to shutdown'' e)
                | None \<Rightarrow> Some (Err_text ''timed out waiting for server to stop''))))"

section \<open>Supervising server and worker\<close>

text \<open>
  A component runs, has put its exit value into its channel, or its value has been received.
\<close>

datatype component = Running | Exited "go_err option" | Received "go_err option"

text \<open>The points of \<open>runAllComponents\<close> between its channel operations.\<close>

datatype all_phase =
    A_select                        \<comment> \<open>the first \<open>select\<close>\<close>
  | A_shutdown                      \<comment> \<open>before the shutdown of the server\<close>
  | A_server                        \<comment> \<open>waiting for the server\<close>
  | A_worker                        \<comment> \<open>waiting for the worker\<close>
  | A_return "go_err list"          \<comment> \<open>\<open>errors.Join\<close> of these errors; nil if there are none\<close>

record supervisor =
  v_phase :: all_phase
  v_ctx :: bool                     \<comment> \<open>the context of the process is done\<close>
  v_run :: bool                     \<comment> \<open>\<open>runCtx\<close> has been canceled\<close>
  v_server :: component
  v_worker :: component
  v_serverExited :: bool
  v_workerExited :: bool
  v_early :: "go_err option"
  v_serverErr :: "go_err option"
  v_workerErr :: "go_err option"

definition start_supervisor :: supervisor where
  "start_supervisor = \<lparr>v_phase = A_select, v_ctx = False, v_run = False, v_server = Running, v_worker = Running,
     v_serverExited = False, v_workerExited = False, v_early = None, v_serverErr = None, v_workerErr = None\<rparr>"

text \<open>An exit before the shutdown: nil is expected only when the signal raced with it.\<close>

definition early_error :: "string \<Rightarrow> bool \<Rightarrow> go_err option \<Rightarrow> go_err option" where
  "early_error what ctxDone err =
     (if ctxDone \<and> err = None then None
      else case err of
        Some e \<Rightarrow> Some (Err_wrap (what @ '' exited unexpectedly'') e)
      | None \<Rightarrow> Some (Err_text (what @ '' exited unexpectedly with nil error'')))"

definition shutdown_error :: "go_err option \<Rightarrow> go_err option" where
  "shutdown_error err =
     (case err of
        None \<Rightarrow> None
      | Some e \<Rightarrow> if is_server_closed e then None else Some (Err_wrap ''server shutdown error'' e))"

definition join_errors :: "go_err option list \<Rightarrow> go_err list" where
  "join_errors errs = map the (filter (\<lambda>e. e \<noteq> None) errs)"

definition return_joined :: "supervisor \<Rightarrow> supervisor" where
  "return_joined v = v\<lparr>v_phase := A_return (join_errors [v_early v, v_serverErr v, v_workerErr v])\<rparr>"

text \<open>The steps of the supervising goroutine.\<close>

inductive supervise :: "supervisor \<Rightarrow> supervisor \<Rightarrow> bool" where
  select_server: "v_phase v = A_select \<Longrightarrow> v_server v = Exited e \<Longrightarrow>
    supervise v (v\<lparr>v_server := Received e, v_serverExited := True, v_early := early_error ''server'' (v_ctx v) e,
      v_run := True, v_phase := A_shutdown\<rparr>)"
| select_worker: "v_phase v = A_select \<Longrightarrow> v_worker v = Exited e \<Longrightarrow>
    supervise v (v\<lparr>v_worker := Received e, v_workerExited := True, v_early := early_error ''worker'' (v_ctx v) e,
      v_run := True, v_phase := A_shutdown\<rparr>)"
| select_ctx: "v_phase v = A_select \<Longrightarrow> v_ctx v \<Longrightarrow> supervise v (v\<lparr>v_run := True, v_phase := A_shutdown\<rparr>)"
| server_gone: "v_phase v = A_shutdown \<Longrightarrow> v_serverExited v \<Longrightarrow> supervise v (v\<lparr>v_phase := A_worker\<rparr>)"
| server_shutdown: "v_phase v = A_shutdown \<Longrightarrow> \<not> v_serverExited v \<Longrightarrow>
    supervise v (v\<lparr>v_serverErr := shutdown_error err, v_phase := A_server\<rparr>)"
| server_stopped: "v_phase v = A_server \<Longrightarrow> v_server v = Exited e \<Longrightarrow>
    supervise v (v\<lparr>v_server := Received e, v_serverErr := (if e \<noteq> None \<and> v_serverErr v = None then e else v_serverErr v),
      v_phase := A_worker\<rparr>)"
| server_timeout: "v_phase v = A_server \<Longrightarrow>
    supervise v (v\<lparr>v_serverErr := (if v_serverErr v = None then Some (Err_text ''timed out waiting for server to stop'') else v_serverErr v),
      v_phase := A_worker\<rparr>)"
| worker_gone: "v_phase v = A_worker \<Longrightarrow> v_workerExited v \<Longrightarrow> supervise v (return_joined v)"
| worker_drained: "v_phase v = A_worker \<Longrightarrow> \<not> v_workerExited v \<Longrightarrow> v_worker v = Exited e \<Longrightarrow>
    supervise v (return_joined (v\<lparr>v_worker := Received e, v_workerErr := e\<rparr>))"
| worker_timeout: "v_phase v = A_worker \<Longrightarrow> \<not> v_workerExited v \<Longrightarrow>
    supervise v (return_joined (v\<lparr>v_workerErr := Some (Err_text ''worker drain deadline exceeded'')\<rparr>))"

inductive_cases superviseE: "supervise v v'"

text \<open>The steps of the others: the signal, and the two goroutines that end with any value.\<close>

inductive environment :: "supervisor \<Rightarrow> supervisor \<Rightarrow> bool" where
  signal: "environment v (v\<lparr>v_ctx := True\<rparr>)"
| server_exits: "v_server v = Running \<Longrightarrow> environment v (v\<lparr>v_server := Exited (start_result err)\<rparr>)"
| worker_exits: "v_worker v = Running \<Longrightarrow> environment v (v\<lparr>v_worker := Exited err\<rparr>)"

inductive_cases environmentE: "environment v v'"

definition runAllComponents :: "supervisor \<Rightarrow> supervisor \<Rightarrow> bool" where
  "runAllComponents v v' \<longleftrightarrow> supervise v v' \<or> environment v v'"

section \<open>The roles\<close>

text \<open>
  A role builds its storage, uses it until its components have ended, and closes it on return.
  \<open>use\<close> is the time in between: the storage it leaves behind and the error it returns. The
  result is the database, the pool and the error.
\<close>

definition close_backend :: "task_backend \<Rightarrow> bool option" where
  "close_backend b = (case b of Memory_backend _ \<Rightarrow> None | Postgres_backend s \<Rightarrow> ps_pool (Pg_Close s))"

definition runAPI ::
  "'d storage_env \<Rightarrow> task_row list \<Rightarrow> 'd mig_db \<Rightarrow> (task_backend \<Rightarrow> task_backend \<times> go_err option) \<Rightarrow> Config
     \<Rightarrow> 'd mig_db \<times> bool option \<times> go_err option" where
  "runAPI S results db serve cfg =
     (case buildTaskStore S results db (Some cfg) of
        (db', pool, Inl e) \<Rightarrow> (db', pool, Some (Err_wrap ''failed to initialize task store'' e))
      | (db', pool, Inr store) \<Rightarrow> (case serve store of (store', err) \<Rightarrow> (db', close_backend store', err)))"

definition runWorker ::
  "'d storage_env \<Rightarrow> durable_job list \<Rightarrow> 'd mig_db \<Rightarrow> (JobRepo \<Rightarrow> JobRepo \<times> go_err option) \<Rightarrow> Config
     \<Rightarrow> 'd mig_db \<times> bool option \<times> go_err option" where
  "runWorker S jobs db engine cfg =
     (case buildJobRepository S jobs db (Some cfg) of
        (db', pool, Inl e) \<Rightarrow> (db', pool, Some (Err_wrap ''failed to initialize job repository'' e))
      | (db', pool, Inr repo) \<Rightarrow> (case engine repo of (repo', err) \<Rightarrow> (db', repo_pool (Repo_Close repo'), err)))"

definition runAll ::
  "'d storage_env \<Rightarrow> task_row list \<Rightarrow> durable_job list \<Rightarrow> 'd mig_db \<Rightarrow> (PostgresBundle \<Rightarrow> PostgresBundle \<times> go_err list) \<Rightarrow> Config
     \<Rightarrow> 'd mig_db \<times> bool option \<times> go_err list" where
  "runAll S results jobs db components cfg =
     (case buildStorageBundle S results jobs db (Some cfg) of
        (db', pool, Inl e) \<Rightarrow> (db', pool, [Err_wrap ''failed to initialize storage bundle'' e])
      | (db', pool, Inr b) \<Rightarrow> (case components b of (b', errs) \<Rightarrow> (db', b_pool (Bundle_Close b'), errs)))"

end
