(* ===== verification/Runtime_Claims.thy ===== *)
theory Runtime_Claims
  imports Runtime Storage_Claims Migration_Claims
begin

text \<open>
  What the process promises: the settings of a started role do not stand in the way of its storage, a
  role that ends leaves no connection pool open and no DSN in its error, and the supervisor of
  the role \<open>all\<close> ends after a signal and reports every irregular end of a component.
\<close>

section \<open>Starting\<close>

text \<open>The configuration a role runs with.\<close>

fun runtime_config :: "runtime \<Rightarrow> Config" where
  "runtime_config (Run_api c) = c"
| "runtime_config (Run_worker c) = c"
| "runtime_config (Run_all c) = c"

lemma main_run_ok:
  assumes "main_run U parse_url rf env um f = Inr rt"
  shows "Validate U parse_url (runtime_config rt) = None \<and>
    (\<exists>c. Load U parse_url rf env um (fl_config f) = Inr c \<and> runtime_config rt = apply_overrides f c) \<and>
    cfg_Role (runtime_config rt) = (case rt of Run_api _ \<Rightarrow> ''api'' | Run_worker _ \<Rightarrow> ''worker'' | Run_all _ \<Rightarrow> ''all'')"
  using assms by (auto simp: main_run_def Let_def split: sum.splits option.splits if_splits)

lemma overrides_worker: "cfg_Worker (apply_overrides f c) = cfg_Worker c"
  by (simp add: apply_overrides_def Let_def)

lemma overrides_role: "cfg_Role (apply_overrides f c) = (if fl_role f \<noteq> [] then fl_role f else cfg_Role c)"
  by (simp add: apply_overrides_def Let_def)

lemma loaded_worker_ok: "Load U parse_url rf env um path = Inr c \<Longrightarrow> worker_ok (cfg_Worker c)"
  by (rule loaded_worker_settings_accepted)

lemma wrap32_id: "- (2 ^ 31) \<le> x \<Longrightarrow> x < 2 ^ 31 \<Longrightarrow> wrap32 x = x"
  by (simp add: wrap32_def)

lemma validated_postgres:
  assumes "Validate U parse_url c = None" and "effective_backend c = ''postgres''"
  shows "validate_postgres (st_Postgres (cfg_Storage c)) = None"
  using assms by (auto simp: Validate_None validate_storage_def Let_def split: if_splits)

text \<open>
  What the storage of a role needs of its surroundings: a context that is not done, a driver
  that parses the DSN, creates a pool with the options of the configuration and reaches the
  database, and migrations, when they are asked for, that succeed.
\<close>

definition driver_accepts :: "'d storage_env \<Rightarrow> PostgresStorageConfig \<Rightarrow> bool" where
  "driver_accepts S p \<longleftrightarrow> se_ctx S (connect_timeout p) = None \<and>
     (case pd_ParseConfig (se_driver S) (pg_DSN p) of
        Inl _ \<Rightarrow> False
      | Inr parsed \<Rightarrow> (let cfg = apply_options (postgres_options p) parsed in
          snd (pd_NewWithConfig (se_driver S) None cfg) = None \<and> pd_Ping (se_driver S) None cfg = None))"

definition migrations_accepted :: "'d storage_env \<Rightarrow> PostgresStorageConfig \<Rightarrow> 'd mig_db \<Rightarrow> bool" where
  "migrations_accepted S p db \<longleftrightarrow> (pg_MigrateOnStart p \<longrightarrow>
     snd (runMigrations (se_fs S) (se_tx S) True (extractRedactTokens (pd_userinfo (se_driver S)) (pg_DSN p)) db) = None)"

text \<open>Whether the storage of the role is built: the task store, the job repository, or the bundle of both.\<close>

fun storage_built :: "'d storage_env \<Rightarrow> task_row list \<Rightarrow> durable_job list \<Rightarrow> 'd mig_db \<Rightarrow> runtime \<Rightarrow> bool" where
  "storage_built S rs js db (Run_api c) = (\<not> isl (snd (snd (buildTaskStore S rs db (Some c)))))"
| "storage_built S rs js db (Run_worker c) = (\<not> isl (snd (snd (buildJobRepository S js db (Some c)))))"
| "storage_built S rs js db (Run_all c) = (\<not> isl (snd (snd (buildStorageBundle S rs js db (Some c)))))"

text \<open>Settings on which a constructor does not fail by itself.\<close>

definition pool_settings_ok :: "PostgresStorageConfig \<Rightarrow> bool" where
  "pool_settings_ok p \<longleftrightarrow> trim_space (pg_DSN p) \<noteq> [] \<and> po_MinConns (postgres_options p) \<le> po_MaxConns (postgres_options p)"

lemma open_pool_accepts:
  assumes "pool_settings_ok p" and "D = se_driver S"
  shows "driver_accepts S p \<Longrightarrow> \<exists>cfg. open_pool D what (se_ctx S (connect_timeout p)) (pg_DSN p) (postgres_options p) =
      (Some True, Inr (cfg, extractRedactTokens (pd_userinfo D) (pg_DSN p)))"
    and "\<not> driver_accepts S p \<Longrightarrow> \<exists>pool e. open_pool D what (se_ctx S (connect_timeout p)) (pg_DSN p) (postgres_options p) = (pool, Inl e)"
proof -
  let ?o = "open_pool D what (se_ctx S (connect_timeout p)) (pg_DSN p) (postgres_options p)"
  have ok: "trim_space (pg_DSN p) \<noteq> []" "\<not> po_MaxConns (postgres_options p) < po_MinConns (postgres_options p)"
    using assms(1) by (simp_all add: pool_settings_ok_def)
  show "\<exists>cfg. ?o = (Some True, Inr (cfg, extractRedactTokens (pd_userinfo D) (pg_DSN p)))" if acc: "driver_accepts S p"
  proof -
    obtain parsed where x: "se_ctx S (connect_timeout p) = None" "pd_ParseConfig D (pg_DSN p) = Inr parsed"
      "snd (pd_NewWithConfig D None (apply_options (postgres_options p) parsed)) = None"
      "pd_Ping D None (apply_options (postgres_options p) parsed) = None"
      using acc assms(2) by (auto simp: driver_accepts_def Let_def split: sum.splits)
    then obtain pool where "pd_NewWithConfig D None (apply_options (postgres_options p) parsed) = (pool, None)"
      by (metis prod.collapse)
    with x ok show ?thesis by (simp add: open_pool_def Let_def)
  qed
  show "\<exists>pool e. ?o = (pool, Inl e)" if "\<not> driver_accepts S p"
  proof (cases "snd ?o")
    case (Inr x)
    then have "driver_accepts S p"
      using ok assms(2) by (auto simp: open_pool_def driver_accepts_def Let_def split: sum.splits option.splits prod.splits)
    with that show ?thesis ..
  qed (metis prod.collapse)
qed

lemmas constructions = buildTaskStore_def buildJobRepository_def buildStorageBundle_def NewPostgresTaskStore_def
  NewPostgresJobRepository_def NewPostgresBundle_def Pg_Migrate_def Repo_Migrate_def Bundle_Migrate_def

lemma built_iff:
  fixes S :: "'d storage_env" and db :: "'d mig_db"
  assumes "pool_settings_ok (st_Postgres (cfg_Storage c))"
  defines "ok \<equiv> driver_accepts S (st_Postgres (cfg_Storage c)) \<and> migrations_accepted S (st_Postgres (cfg_Storage c)) db"
  shows "effective_backend c = ''postgres'' \<Longrightarrow> storage_built S rs js db (Run_api c) \<longleftrightarrow> ok"
    and "storage_built S rs js db (Run_worker c) \<longleftrightarrow> ok" and "storage_built S rs js db (Run_all c) \<longleftrightarrow> ok"
proof -
  let ?p = "st_Postgres (cfg_Storage c)"
  note acc = open_pool_accepts [OF assms(1) refl, of S]
  have mig: "ok \<longleftrightarrow> (pg_MigrateOnStart ?p \<longrightarrow> snd (runMigrations (se_fs S) (se_tx S) True (extractRedactTokens (pd_userinfo (se_driver S)) (pg_DSN ?p)) db) = None)"
    if "driver_accepts S ?p" using that by (simp add: ok_def migrations_accepted_def)
  have no: "\<not> ok" if "\<not> driver_accepts S ?p" using that by (simp add: ok_def)
  show "storage_built S rs js db (Run_api c) \<longleftrightarrow> ok" if "effective_backend c = ''postgres''"
    using acc [of "''postgres task store''"] mig no that
    by (cases "driver_accepts S ?p") (auto simp: constructions Let_def split: prod.splits option.splits if_splits)
  show "storage_built S rs js db (Run_worker c) \<longleftrightarrow> ok"
    using acc [of "''postgres job repository''"] mig no
    by (cases "driver_accepts S ?p") (auto simp: constructions Let_def split: prod.splits option.splits if_splits)
  show "storage_built S rs js db (Run_all c) \<longleftrightarrow> ok"
    using acc [of "''postgres bundle''"] mig no
    by (cases "driver_accepts S ?p") (auto simp: constructions Let_def split: prod.splits option.splits if_splits)
qed

text \<open>
  C37. Once a role starts, its settings do not stand in the way of its storage. The role is the
  one of the flag or of the file, a worker has sound worker settings, and only the role \<open>api\<close>
  runs with the memory backend, which is always built. With the PostgreSQL backend, which every
  other role has, the pool sizes are those of the configuration, without wrap-around, and the
  storage of the role is built exactly if the driver accepts the DSN and reaches the database
  within the timeout and the migrations, if asked for, succeed: the checks of the constructors
  (blank DSN, pool bounds), an unknown role or backend never stop it. Whether a DSN that is not
  blank is well formed is known only to the driver.
\<close>

theorem started_role_has_storage:
  assumes "main_run U parse_url rf env um f = Inr rt"
  shows "worker_ok (cfg_Worker (runtime_config rt)) \<and>
    (effective_backend (runtime_config rt) = ''memory'' \<and> (\<exists>c. rt = Run_api c) \<and> storage_built S rs js db rt \<or>
     effective_backend (runtime_config rt) = ''postgres'' \<and>
     (let p = st_Postgres (cfg_Storage (runtime_config rt)); q = postgres_options p in
        trim_space (pg_DSN p) \<noteq> [] \<and> po_MaxConns q = pg_MaxConnections p \<and> po_MinConns q = pg_MinConnections p \<and>
        0 \<le> po_MinConns q \<and> po_MinConns q \<le> po_MaxConns q \<and> po_MaxConns q \<le> 1000 \<and> 0 < connect_timeout p \<and>
        (storage_built S rs js db rt \<longleftrightarrow> driver_accepts S p \<and> migrations_accepted S p db)))"
proof -
  let ?c = "runtime_config rt" and ?p = "st_Postgres (cfg_Storage (runtime_config rt))"
  obtain c0 where v: "Validate U parse_url ?c = None" and l: "Load U parse_url rf env um (fl_config f) = Inr c0"
    and c: "?c = apply_overrides f c0"
    and role: "cfg_Role ?c = (case rt of Run_api _ \<Rightarrow> ''api'' | Run_worker _ \<Rightarrow> ''worker'' | Run_all _ \<Rightarrow> ''all'')"
    using main_run_ok [OF assms] by blast
  have w: "worker_ok (cfg_Worker ?c)" using loaded_worker_ok [OF l] by (simp add: c overrides_worker)
  have b: "effective_backend ?c = ''memory'' \<or> effective_backend ?c = ''postgres''"
    using v by (auto simp: Validate_None validate_storage_def Let_def split: if_splits)
  have api: "(\<exists>c. rt = Run_api c) \<and> storage_built S rs js db rt" if "effective_backend ?c = ''memory''"
    using v role that
    by (cases rt) (auto simp: Validate_None validate_worker_def effective_role_def buildTaskStore_def Let_def split: if_splits)
  have p: "trim_space (pg_DSN ?p) \<noteq> []" "1 \<le> pg_MaxConnections ?p" "pg_MaxConnections ?p \<le> 1000" "0 \<le> pg_MinConnections ?p"
    "pg_MinConnections ?p \<le> pg_MaxConnections ?p" if "effective_backend ?c = ''postgres''"
    using validated_postgres [OF v that] by (auto simp: validate_postgres_def split: if_splits)
  then have q: "po_MaxConns (postgres_options ?p) = pg_MaxConnections ?p" "po_MinConns (postgres_options ?p) = pg_MinConnections ?p"
    if "effective_backend ?c = ''postgres''"
    using that by (auto simp: postgres_options_def wrap32_id)
  have "pool_settings_ok ?p" if "effective_backend ?c = ''postgres''" using p q that by (simp add: pool_settings_ok_def)
  then have "storage_built S rs js db rt \<longleftrightarrow> driver_accepts S ?p \<and> migrations_accepted S ?p db"
    if "effective_backend ?c = ''postgres''"
    using that built_iff [where c = ?c and S = S and db = db] by (cases rt) auto
  moreover have "0 < connect_timeout ?p" by (simp add: connect_timeout_def Let_def second_def)
  ultimately show ?thesis using w b api p q by (auto simp: Let_def)
qed

definition demo_flags :: cli_flags where
  "demo_flags = \<lparr>fl_config = [], fl_host = [], fl_port = 0, fl_role = ''worker''\<rparr>"

definition demo_storage :: "string storage_env" where
  "demo_storage = \<lparr>se_driver = demo_driver None, se_ctx = (\<lambda>_. None), se_fs = demo_mig_fs, se_tx = demo_tx Db_ok,
     se_isPrint = (\<lambda>_. True)\<rparr>"

text \<open>A configuration with the PostgreSQL backend, started as a worker by the flag.\<close>

definition demo_pg_config :: Config where
  "demo_pg_config = empty_config\<lparr>cfg_Storage := \<lparr>st_Backend = ''postgres'', st_Memory = \<lparr>mem_MaxTasks = 0\<rparr>,
     st_Postgres = default_postgres (zero_postgres\<lparr>pg_DSN := ''dsn''\<rparr>)\<rparr>\<rparr>"

lemmas config_eval = Validate_None validate_role_def validate_security_def validate_fallbacks_def validate_storage_def
  validate_postgres_def validate_worker_def validate_worker_fields_def effective_role_def effective_backend_def agent_ids_def
  applyDefaults_def default_worker_def default_server_def default_storage_def default_postgres_def dflt_def empty_config_def
  zero_worker_def zero_postgres_def MaxJobBatchSize_def MaxWorkerPollIntervalMilliseconds_def
  MaxJobLeaseDuration_def MaxRetryBackoff_def MaxWorkerDrainTimeoutSeconds_def hour_def second_def go_div_nonneg
  demo_pg_config_def demo_trim_dsn Let_def

lemma demo_main_run:
  "main_run ascii_tables (\<lambda>_. None) (\<lambda>_. Some []) (\<lambda>_. []) (\<lambda>_. Some demo_pg_config) demo_flags =
     Inr (Run_worker ((applyDefaults demo_pg_config)\<lparr>cfg_Role := ''worker''\<rparr>))"
proof -
  have 1: "Validate ascii_tables (\<lambda>_. None) (applyDefaults demo_pg_config) = None" by (simp add: config_eval)
  have 2: "Validate ascii_tables (\<lambda>_. None) ((applyDefaults demo_pg_config)\<lparr>cfg_Role := ''worker''\<rparr>) = None"
    by (simp add: config_eval)
  have "Load ascii_tables (\<lambda>_. None) (\<lambda>_. Some []) (\<lambda>_. []) (\<lambda>_. Some demo_pg_config) [] = Inr (applyDefaults demo_pg_config)"
    using 1 by (simp add: Load_def Let_def)
  moreover have "apply_overrides demo_flags (applyDefaults demo_pg_config) = (applyDefaults demo_pg_config)\<lparr>cfg_Role := ''worker''\<rparr>"
    "fl_config demo_flags = []"
    by (simp_all add: apply_overrides_def demo_flags_def)
  ultimately show ?thesis using 2 by (simp add: main_run_def)
qed

theorem started_role_has_storage_witness:
  "\<exists>R. snd (snd (buildJobRepository demo_storage [] demo_mig_db (Some ((applyDefaults demo_pg_config)\<lparr>cfg_Role := ''worker''\<rparr>)))) = Inr R"
proof -
  let ?c = "(applyDefaults demo_pg_config)\<lparr>cfg_Role := ''worker''\<rparr>"
  let ?p = "st_Postgres (cfg_Storage ?c)"
  have b: "effective_backend ?c = ''postgres''" by (simp add: config_eval)
  have "driver_accepts demo_storage ?p" by (simp add: driver_accepts_def demo_storage_def demo_driver_def Let_def)
  moreover have "migrations_accepted demo_storage ?p demo_mig_db"
    by (simp add: migrations_accepted_def config_eval)
  ultimately have "storage_built demo_storage [] [] demo_mig_db (Run_worker ?c)"
    using started_role_has_storage [OF demo_main_run, of demo_storage "[]" "[]" demo_mig_db] b by (simp add: Let_def)
  then show ?thesis by (cases "snd (snd (buildJobRepository demo_storage [] demo_mig_db (Some ?c)))") simp_all
qed

text \<open>
  The durations of the pool are not bounded by the validation: a lifetime of more than about 292
  years in seconds is accepted, wraps around to a negative duration, and leaves the lifetime of
  the parsed DSN as it was.
\<close>

lemma huge_lifetime_ignored:
  assumes "pg_MaxConnectionLifetimeSeconds p = 9223372037"
  shows "po_MaxConnLifetime (postgres_options p) < 0 \<and>
    po_MaxConnLifetime (apply_options (postgres_options p) cfg) = po_MaxConnLifetime cfg"
  by (simp add: postgres_options_def apply_options_def override_def wrap64_def second_def assms)

section \<open>Building and closing the storage\<close>

text \<open>The tail of a message after \<open>sanitizeStorageError\<close> does not contain the DSN.\<close>

lemma sanitize_hides:
  assumes "trim_space dsn \<noteq> []" and "set (trim_space dsn) \<inter> set ''[REDACTED]'' = {}"
  shows "\<not> contains (err_string (sanitizeStorageError e dsn)) (trim_space dsn)"
proof -
  let ?t = "trim_space dsn" and ?n = "''[REDACTED]''"
  have "\<not> contains (replace_all ?t ?n m) ?t" for m using assms by (intro not_contains_replace_all) auto
  moreover from this have "\<not> contains (replace_all dsn ?n (replace_all ?t ?n m)) ?t" for m
    using contains_replace_all [of ?n ?t dsn] assms by blast
  moreover have "dsn \<noteq> []" using assms(1) by (auto simp: trim_space_def strip_def)
  ultimately show ?thesis using assms(1) by (simp add: sanitizeStorageError_def Let_def)
qed

definition built_safely :: "PostgresStorageConfig \<Rightarrow> bool option \<Rightarrow> go_err \<Rightarrow> bool" where
  "built_safely p pool e \<longleftrightarrow> pool \<noteq> Some True \<and>
     (set (trim_space (pg_DSN p)) \<inter> set ''[REDACTED]'' = {} \<longrightarrow> trim_space (pg_DSN p) \<noteq> [] \<longrightarrow>
       (\<exists>label cause. e = Err_wrap label cause \<and> \<not> contains (err_string cause) (trim_space (pg_DSN p))))"

lemma built_safely_wrap: "pool \<noteq> Some True \<Longrightarrow> built_safely p pool (Err_wrap l (sanitizeStorageError e (pg_DSN p)))"
  using sanitize_hides by (auto simp: built_safely_def)

lemma constructor_pools:
  "NewPostgresTaskStore D ctx dsn opts rs = (pool, Inl e) \<Longrightarrow> pool \<noteq> Some True"
  "NewPostgresJobRepository D ctx dsn opts js = (pool, Inl e) \<Longrightarrow> pool \<noteq> Some True"
  "NewPostgresBundle D ctx dsn opts rs js = (pool, Inl e) \<Longrightarrow> pool \<noteq> Some True"
  using constructor_errors open_pool_error by metis+

lemma open_pool_pool: "open_pool D what ctx dsn opts = (pool, Inr x) \<Longrightarrow> pool = Some True"
  by (auto simp: open_pool_def Let_def split: if_splits option.splits sum.splits prod.splits)

lemma constructed_pools:
  "NewPostgresTaskStore D ctx dsn opts rs = (pool, Inr s) \<Longrightarrow> ps_pool s = Some True \<and> ps_ownsPool s \<and> \<not> ps_closed s"
  "NewPostgresJobRepository D ctx dsn opts js = (pool, Inr R) \<Longrightarrow> repo_pool R = Some True \<and> repo_ownsPool R \<and> \<not> repo_closed R"
  by (auto simp: NewPostgresTaskStore_def NewPostgresJobRepository_def dest: open_pool_pool split: prod.splits sum.splits)

lemma closed_pools:
  "NewPostgresTaskStore D ctx dsn opts rs = (pool, Inr s) \<Longrightarrow> ps_pool (Pg_Close s) = Some False"
  "NewPostgresJobRepository D ctx dsn opts js = (pool, Inr R) \<Longrightarrow> repo_pool (Repo_Close R) = Some False"
  "NewPostgresBundle D ctx dsn opts rs js = (pool, Inr b) \<Longrightarrow> b_pool (Bundle_Close b) = Some False"
proof -
  assume "NewPostgresTaskStore D ctx dsn opts rs = (pool, Inr s)"
  from constructed_pools(1) [OF this] show "ps_pool (Pg_Close s) = Some False" by (simp add: Pg_Close_def)
next
  assume "NewPostgresJobRepository D ctx dsn opts js = (pool, Inr R)"
  from constructed_pools(2) [OF this] show "repo_pool (Repo_Close R) = Some False" by (simp add: Repo_Close_def)
next
  assume "NewPostgresBundle D ctx dsn opts rs js = (pool, Inr b)"
  from NewPostgresBundle_inv [OF this] show "b_pool (Bundle_Close b) = Some False"
    by (auto simp: bundle_inv_def Bundle_Close_def shared_defs Let_def)
qed

text \<open>
  A construction of the storage that fails leaves no pool open and its error, below the outer
  label, does not contain the DSN, also when the migrations fail.
\<close>

lemma failed_storage_redacted:
  "buildTaskStore S rs db (Some c) = (db', pool, Inl e) \<Longrightarrow> effective_backend c = ''postgres'' \<Longrightarrow>
     built_safely (st_Postgres (cfg_Storage c)) pool e"
  "buildJobRepository S js db (Some c) = (db', pool, Inl e) \<Longrightarrow> built_safely (st_Postgres (cfg_Storage c)) pool e"
  "buildStorageBundle S rs js db (Some c) = (db', pool, Inl e) \<Longrightarrow> built_safely (st_Postgres (cfg_Storage c)) pool e"
  by (auto simp: buildTaskStore_def buildJobRepository_def buildStorageBundle_def Let_def closed_pools
      intro!: built_safely_wrap dest: constructor_pools split: prod.splits sum.splits option.splits if_splits)

text \<open>What the handlers do with a task store, and the states of storage that owns its pool.\<close>

inductive store_step :: "PostgresTaskStore \<Rightarrow> PostgresTaskStore \<Rightarrow> bool" where
  save: "store_step s (fst (Pg_Save J out now ctx resp al s))"
| close_store: "store_step s (Pg_Close s)"

definition store_owns :: "PostgresTaskStore \<Rightarrow> bool" where
  "store_owns s \<longleftrightarrow> ps_ownsPool s \<and> ps_pool s = Some (\<not> ps_closed s)"

definition repo_owns :: "JobRepo \<Rightarrow> bool" where
  "repo_owns R \<longleftrightarrow> repo_ownsPool R \<and> repo_pool R = Some (\<not> repo_closed R)"

interpretation owned_store: preserved store_step store_owns
  by unfold_locales (auto simp: store_owns_def Pg_Save_view Pg_Close_def elim!: store_step.cases)

lemma ledger_step_cases: "ledger_step E R R' \<Longrightarrow> only_rows R R' \<or> R' = Repo_Close R"
  by (erule ledger_step.cases) (simp_all add: only_rows_fenced_ops only_rows_batch_ops only_rows_create)

interpretation owned_repo: preserved "ledger_step E" repo_owns for E
proof
  fix R R' :: JobRepo
  assume "ledger_step E R R'" and "repo_owns R"
  then show "repo_owns R'"
    using ledger_step_cases [of E R R'] by (auto simp: repo_owns_def only_rows_def Repo_Close_def)
qed

lemma built_storage:
  "buildTaskStore S rs db (Some c) = (db', pool, Inr (Postgres_backend s)) \<Longrightarrow> store_owns s"
  "buildJobRepository S js db (Some c) = (db', pool, Inr R) \<Longrightarrow> repo_owns R"
  "buildStorageBundle S rs js db (Some c) = (db', pool, Inr b) \<Longrightarrow> bundle_inv b"
  by (auto simp: buildTaskStore_def buildJobRepository_def buildStorageBundle_def Let_def store_owns_def repo_owns_def
      dest: constructed_pools NewPostgresBundle_inv split: prod.splits sum.splits option.splits if_splits)

lemma owned_closed:
  "store_owns s \<Longrightarrow> ps_pool (Pg_Close s) = Some False" "repo_owns R \<Longrightarrow> repo_pool (Repo_Close R) = Some False"
  "bundle_inv b \<Longrightarrow> b_pool (Bundle_Close b) = Some False"
  by (auto simp: store_owns_def Pg_Close_def repo_owns_def Repo_Close_def bundle_inv_def Bundle_Close_def shared_defs Let_def)

lemma built_memory_pool: "buildTaskStore S rs db (Some c) = (db', pool, Inl e) \<Longrightarrow> pool \<noteq> Some True"
  using failed_storage_redacted(1) [of S rs db c db' pool e]
  by (cases "effective_backend c = ''postgres''") (auto simp: built_safely_def buildTaskStore_def Let_def split: if_splits)

text \<open>
  C38. Every role ends with its connection pool closed, whether its storage could not be built, a
  migration failed, or its components ended: with the handlers, the engine or both doing
  whatever they can do to the storage, in any order, before the role returns.
\<close>

theorem roles_close_pool:
  assumes "runAPI S rs db serve c = (db', pool, err) \<or> runWorker S js db engine c = (db', pool, err) \<or>
      runAll S rs js db components c = (db', pool, errs)"
    and "\<And>s. \<exists>s'. fst (serve (Postgres_backend s)) = Postgres_backend s' \<and> store_step\<^sup>*\<^sup>* s s'"
    and "\<And>m. \<exists>m'. fst (serve (Memory_backend m)) = Memory_backend m'"
    and "\<And>R. (ledger_step E)\<^sup>*\<^sup>* R (fst (engine R))" and "\<And>b. (bundle_step E)\<^sup>*\<^sup>* b (fst (components b))"
  shows "pool \<noteq> Some True"
  using assms(1)
proof (elim disjE)
  assume r: "runAPI S rs db serve c = (db', pool, err)"
  obtain db1 pool1 res where b: "buildTaskStore S rs db (Some c) = (db1, pool1, res)" by (metis prod_cases3)
  show ?thesis
  proof (cases res)
    case (Inl e)
    with r b built_memory_pool [of S rs db c db1 pool1 e] show ?thesis by (auto simp: runAPI_def)
  next
    case (Inr store)
    with r b have p: "pool = close_backend (fst (serve store))" by (auto simp: runAPI_def split: prod.splits)
    show ?thesis
    proof (cases store)
      case (Memory_backend m)
      then show ?thesis using p assms(3) [of m] by (auto simp: close_backend_def)
    next
      case (Postgres_backend st)
      with Inr b have "store_owns st" by (simp add: built_storage(1))
      moreover obtain st' where "fst (serve store) = Postgres_backend st'" "store_step\<^sup>*\<^sup>* st st'"
        using assms(2) [of st] Postgres_backend by auto
      ultimately have "store_owns st'" using owned_store.inv_star by blast
      then show ?thesis using p \<open>fst (serve store) = Postgres_backend st'\<close> owned_closed(1) by (simp add: close_backend_def)
    qed
  qed
next
  assume r: "runWorker S js db engine c = (db', pool, err)"
  obtain db1 pool1 res where b: "buildJobRepository S js db (Some c) = (db1, pool1, res)" by (metis prod_cases3)
  show ?thesis
  proof (cases res)
    case (Inl e)
    with r b failed_storage_redacted(2) [of S js db c db1 pool1 e] show ?thesis by (auto simp: runWorker_def built_safely_def)
  next
    case (Inr R)
    with r b have p: "pool = repo_pool (Repo_Close (fst (engine R)))" by (auto simp: runWorker_def split: prod.splits)
    have "repo_owns (fst (engine R))" using owned_repo.inv_star [OF assms(4)] built_storage(2) [OF b [unfolded Inr]] .
    then show ?thesis using p owned_closed(2) by simp
  qed
next
  assume r: "runAll S rs js db components c = (db', pool, errs)"
  obtain db1 pool1 res where b: "buildStorageBundle S rs js db (Some c) = (db1, pool1, res)" by (metis prod_cases3)
  show ?thesis
  proof (cases res)
    case (Inl e)
    with r b failed_storage_redacted(3) [of S rs js db c db1 pool1 e] show ?thesis by (auto simp: runAll_def built_safely_def)
  next
    case (Inr bd)
    with r b have p: "pool = b_pool (Bundle_Close (fst (components bd)))" by (auto simp: runAll_def split: prod.splits)
    have "bundle_inv (fst (components bd))" using shared_pool.inv_star [OF assms(5)] built_storage(3) [OF b [unfolded Inr]] .
    then show ?thesis using p owned_closed(3) by simp
  qed
qed

text \<open>A server that closes its task store.\<close>

definition demo_use :: "PostgresBundle \<Rightarrow> PostgresBundle \<times> go_err list" where
  "demo_use b = (case b_taskStore b of None \<Rightarrow> b | Some s \<Rightarrow> set_taskStore (Pg_Close s) b, [])"

theorem roles_close_pool_witness:
  "fst (snd (runAll demo_storage [] [] demo_mig_db demo_use demo_pg_config))
     \<noteq> Some True"
proof -
  obtain db' pool errs where r: "runAll demo_storage [] [] demo_mig_db demo_use demo_pg_config = (db', pool, errs)"
    by (rule prod_cases3)
  have h: "(bundle_step E)\<^sup>*\<^sup>* b (fst (demo_use b))" for E b
    using store_close [of b] by (cases "b_taskStore b") (auto simp: demo_use_def)
  from r have "runAPI demo_storage [] demo_mig_db (\<lambda>b. (b, None)) demo_pg_config = (db', pool, None) \<or>
      runWorker demo_storage [] demo_mig_db (\<lambda>R. (R, None)) demo_pg_config = (db', pool, None) \<or>
      runAll demo_storage [] [] demo_mig_db demo_use demo_pg_config = (db', pool, errs)" by blast
  moreover have "\<exists>s'. fst (Postgres_backend s, None :: go_err option) = Postgres_backend s' \<and> store_step\<^sup>*\<^sup>* s s'" for s by auto
  moreover have "\<exists>m'. fst (Memory_backend m, None :: go_err option) = Memory_backend m'" for m by simp
  moreover have "(ledger_step E)\<^sup>*\<^sup>* R (fst (R, None :: go_err option))" for E R by simp
  ultimately have "pool \<noteq> Some True" using h by (rule roles_close_pool)
  then show ?thesis using r by (simp only: fst_conv snd_conv not_False_eq_True)
qed

section \<open>The supervisor of server and worker\<close>

text \<open>
  What the supervisor knows at each point: the errors collected so far account for everything
  that has gone wrong.
\<close>

definition past_select :: "supervisor \<Rightarrow> bool" where
  "past_select v \<longleftrightarrow> v_phase v \<noteq> A_select"

definition past_server :: "supervisor \<Rightarrow> bool" where
  "past_server v \<longleftrightarrow> v_phase v \<notin> {A_select, A_shutdown, A_server}"

definition supervised :: "supervisor \<Rightarrow> bool" where
  "supervised v \<longleftrightarrow>
     (v_phase v = A_select \<longrightarrow> \<not> v_serverExited v \<and> \<not> v_workerExited v) \<and>
     (past_select v \<longrightarrow> v_run v \<and> (v_early v = None \<longrightarrow> v_ctx v)) \<and>
     (v_phase v = A_server \<longrightarrow> \<not> v_serverExited v) \<and>
     (v_serverExited v \<longrightarrow> v_early v \<noteq> None \<or> v_server v = Received None) \<and>
     (v_workerExited v \<longrightarrow> v_early v \<noteq> None \<or> v_worker v = Received None) \<and>
     (past_server v \<longrightarrow> v_early v \<noteq> None \<or> v_serverErr v \<noteq> None \<or> v_server v = Received None) \<and>
     (\<forall>errs. v_phase v = A_return errs \<longrightarrow> errs = join_errors [v_early v, v_serverErr v, v_workerErr v] \<and>
        (v_early v \<noteq> None \<or> v_workerErr v \<noteq> None \<or> v_worker v = Received None))"

lemmas supervised_defs = supervised_def past_select_def past_server_def return_joined_def

lemma early_error_None: "early_error what d e = None \<longleftrightarrow> d \<and> e = None"
  by (auto simp: early_error_def split: option.splits)

lemma start_supervised: "supervised start_supervisor"
  by (simp add: supervised_defs start_supervisor_def)

lemma supervise_supervised: "supervise v v' \<Longrightarrow> supervised v \<Longrightarrow> supervised v'"
  by (erule superviseE) (auto simp: supervised_defs early_error_None)

lemma environment_supervised: "environment v v' \<Longrightarrow> supervised v \<Longrightarrow> supervised v'"
  by (erule environmentE) (auto simp: supervised_defs)

interpretation supervisor: preserved runAllComponents supervised
  by unfold_locales (auto simp: runAllComponents_def intro: supervise_supervised environment_supervised)

text \<open>
  C39. \<open>runAllComponents\<close> hides nothing: when it returns, the components have been told to stop,
  and it returns nil only if the process was asked to stop and both the server and the worker
  have ended, each with nil. In every other case, an early exit, a failed or late shutdown, a
  late drain or an error of a component, it returns an error.
\<close>

theorem all_role_reports_failures:
  assumes "runAllComponents\<^sup>*\<^sup>* start_supervisor v" and "v_phase v = A_return errs"
  shows "v_run v \<and> (errs = [] \<longrightarrow> v_ctx v \<and> v_server v = Received None \<and> v_worker v = Received None)"
proof -
  have "supervised v" using supervisor.inv_star [OF assms(1) start_supervised] .
  then have s: "errs = join_errors [v_early v, v_serverErr v, v_workerErr v]" "v_run v" "v_early v = None \<longrightarrow> v_ctx v"
    "v_early v \<noteq> None \<or> v_serverErr v \<noteq> None \<or> v_server v = Received None"
    "v_early v \<noteq> None \<or> v_workerErr v \<noteq> None \<or> v_worker v = Received None"
    using assms(2) by (simp_all add: supervised_defs)
  have "v_early v = None" "v_serverErr v = None" "v_workerErr v = None" if "errs = []"
    using s(1) that by (auto simp: join_errors_def split: if_splits)
  with s show ?thesis by blast
qed

text \<open>Steps left of the supervising goroutine.\<close>

fun steps_left :: "all_phase \<Rightarrow> nat" where
  "steps_left A_select = 4"
| "steps_left A_shutdown = 3"
| "steps_left A_server = 2"
| "steps_left A_worker = 1"
| "steps_left (A_return _) = 0"

text \<open>
  C40. \<open>runAllComponents\<close> ends after a signal: once the context is done, or a component has
  ended, the supervisor can always take its next step, whatever the components do, and every
  step brings it closer to its return, at most four steps away, while nothing that the
  components do sets it back.
\<close>

theorem all_role_ends_after_signal:
  assumes "v_ctx v \<or> v_phase v \<noteq> A_select \<or> (\<exists>e. v_server v = Exited e \<or> v_worker v = Exited e)"
  shows "((\<exists>errs. v_phase v = A_return errs) \<or> (\<exists>v'. supervise v v')) \<and> steps_left (v_phase v) \<le> 4 \<and>
    (\<forall>v'. supervise v v' \<longrightarrow> steps_left (v_phase v') < steps_left (v_phase v)) \<and>
    (\<forall>v'. environment v v' \<longrightarrow> v_phase v' = v_phase v)"
proof (intro conjI allI impI)
  show "(\<exists>errs. v_phase v = A_return errs) \<or> (\<exists>v'. supervise v v')"
  proof (cases "v_phase v")
    case A_select
    then show ?thesis using assms select_ctx select_server select_worker by (metis (no_types, lifting))
  next
    case A_shutdown
    then show ?thesis using server_gone server_shutdown by (cases "v_serverExited v") blast+
  next
    case A_server
    then show ?thesis using server_timeout by blast
  next
    case A_worker
    then show ?thesis using worker_gone worker_timeout by (cases "v_workerExited v") blast+
  qed simp
  show "steps_left (v_phase v) \<le> 4" by (cases "v_phase v") simp_all
  show "steps_left (v_phase v') < steps_left (v_phase v)" if "supervise v v'" for v'
    using that by (elim superviseE) (auto simp: return_joined_def)
  show "v_phase v' = v_phase v" if "environment v v'" for v'
    using that by (elim environmentE) auto
qed

theorem all_role_ends_after_signal_witness:
  "\<exists>v'. supervise (start_supervisor\<lparr>v_ctx := True\<rparr>) v'"
  using all_role_ends_after_signal [of "start_supervisor\<lparr>v_ctx := True\<rparr>"] by (simp add: start_supervisor_def)

text \<open>A regular end: the signal, the shutdown of the server, the end of the worker.\<close>

definition demo_end :: supervisor where
  "demo_end = \<lparr>v_phase = A_return [], v_ctx = True, v_run = True, v_server = Received None, v_worker = Received None,
     v_serverExited = False, v_workerExited = False, v_early = None, v_serverErr = None, v_workerErr = None\<rparr>"

lemma demo_supervision: "runAllComponents\<^sup>*\<^sup>* start_supervisor demo_end"
proof -
  let ?s = "start_supervisor"
  define v1 where "v1 = ?s\<lparr>v_ctx := True\<rparr>"
  define v2 where "v2 = v1\<lparr>v_run := True, v_phase := A_shutdown\<rparr>"
  define v3 where "v3 = v2\<lparr>v_serverErr := shutdown_error None, v_phase := A_server\<rparr>"
  define v4 where "v4 = v3\<lparr>v_server := Exited (start_result (Some ErrServerClosed))\<rparr>"
  define v5 where "v5 = v4\<lparr>v_server := Received None, v_phase := A_worker\<rparr>"
  define v6 where "v6 = v5\<lparr>v_worker := Exited None\<rparr>"
  define v7 where "v7 = return_joined (v6\<lparr>v_worker := Received None, v_workerErr := None\<rparr>)"
  note d = v1_def v2_def v3_def v4_def v5_def v6_def start_supervisor_def
  have "runAllComponents ?s v1" unfolding runAllComponents_def v1_def by (intro disjI2 signal)
  moreover have "runAllComponents v1 v2" unfolding runAllComponents_def v2_def by (intro disjI1 select_ctx) (simp_all add: d)
  moreover have "runAllComponents v2 v3" unfolding runAllComponents_def v3_def by (intro disjI1 server_shutdown) (simp_all add: d)
  moreover have "runAllComponents v3 v4" unfolding runAllComponents_def v4_def by (intro disjI2 server_exits) (simp add: d)
  moreover have "runAllComponents v4 v5"
    using server_stopped [of v4 None] by (simp add: runAllComponents_def d start_result_def ErrServerClosed_def shutdown_error_def)
  moreover have "runAllComponents v5 v6" unfolding runAllComponents_def v6_def by (intro disjI2 worker_exits) (simp add: d)
  moreover have "runAllComponents v6 v7" unfolding runAllComponents_def v7_def by (intro disjI1 worker_drained) (simp_all add: d)
  moreover have "v7 = demo_end" by (simp add: v7_def d return_joined_def join_errors_def shutdown_error_def demo_end_def)
  ultimately show ?thesis by (meson rtranclp.rtrancl_into_rtrancl rtranclp.rtrancl_refl)
qed

theorem all_role_reports_failures_witness: "v_server demo_end = Received None \<and> v_worker demo_end = Received None"
  using all_role_reports_failures [OF demo_supervision, of "[]"] by (simp add: demo_end_def)

end
