(* ===== verification/Panic_Recovery.thy ===== *)
theory Panic_Recovery
  imports Access_Control
begin

text \<open>
  The two middlewares of pkg/server/middleware.go around a handler that may panic: the recovery
  and the request log. Handlers act on a response writer and on the log; a panic is a value
  they return beside what they have written so far. The model of the router (Gateway) has
  handlers that do not panic, for which both middlewares are transparent.
\<close>

section \<open>Handlers that may panic\<close>

datatype panic = ErrAbortHandler | Panic_value string

record log_line =
  lg_message :: string
  lg_error :: string
  lg_trace_id :: string
  lg_method :: string
  lg_path :: string
  lg_status :: int
  lg_duration_ms :: int

type_synonym panicky = "http_in \<Rightarrow> response_writer \<times> log_line list \<Rightarrow> (response_writer \<times> log_line list) \<times> panic option"

text \<open>The writer below \<open>responseWriterWrapper\<close> receives its \<open>WriteHeader\<close> calls and its body.\<close>

definition pass_through :: "response_writer \<Rightarrow> response_writer \<Rightarrow> response_writer" where
  "pass_through wrapped w =
     (let w1 = fold WriteHeader (rw_sent wrapped) w in w1\<lparr>rw_body := rw_body w1 @ rw_body wrapped\<rparr>)"

definition LoggingMiddlewareWithLogger :: "go_duration \<Rightarrow> panicky \<Rightarrow> panicky" where
  "LoggingMiddlewareWithLogger duration next_handler r st =
     (let ((wrapped, lg), p) = next_handler r (new_writer, snd st);
          w = pass_through wrapped (fst st);
          traceID = (if in_RequestID r = [] then in_Header r ''X-Request-ID'' else in_RequestID r)
      in case p of
           Some x \<Rightarrow> ((w, lg), Some x)
         | None \<Rightarrow> ((w, lg @ [\<lparr>lg_message = ''http request'', lg_error = [], lg_trace_id = traceID, lg_method = in_Method r,
             lg_path = url_path r, lg_status = rw_statusCode wrapped, lg_duration_ms = duration_ms duration\<rparr>]), None))"

text \<open>\<open>body\<close> is the JSON text of the error; a status after the first one has no effect.\<close>

definition RecoveryMiddleware :: "bytes \<Rightarrow> panicky \<Rightarrow> panicky" where
  "RecoveryMiddleware error_body next_handler r st =
     (let ((w, lg), p) = next_handler r st in
      case p of
        None \<Rightarrow> ((w, lg), None)
      | Some ErrAbortHandler \<Rightarrow> ((w, lg), Some ErrAbortHandler)
      | Some (Panic_value v) \<Rightarrow>
          ((Write error_body (WriteHeader 500 w),
            lg @ [\<lparr>lg_message = ''panic recovered'', lg_error = v, lg_trace_id = in_RequestID r, lg_method = [], lg_path = [],
                   lg_status = 0, lg_duration_ms = 0\<rparr>]), None))"

section \<open>What a client and the log see\<close>

text \<open>What handlers do to a writer: they write statuses and bytes.\<close>

definition wrote :: "response_writer \<Rightarrow> bool" where
  "wrote w \<longleftrightarrow> (if rw_written w then rw_sent w = [rw_statusCode w] else rw_sent w = [] \<and> rw_statusCode w = 200 \<and> rw_body w = [])"

lemma wrote_new: "wrote new_writer"
  by (simp add: wrote_def new_writer_def)

lemma wrote_WriteHeader: "wrote w \<Longrightarrow> wrote (WriteHeader c w)"
  by (auto simp: wrote_def WriteHeader_def)

lemma wrote_Write: "wrote w \<Longrightarrow> wrote (Write b w)"
  by (auto simp: wrote_def Write_def WriteHeader_def Let_def)

lemma pass_through_new: "wrote wrapped \<Longrightarrow> pass_through wrapped new_writer = wrapped"
  by (cases "rw_written wrapped")
    (auto simp: pass_through_def wrote_def new_writer_def WriteHeader_def Let_def)

text \<open>
  Behind both middlewares no panic but \<open>ErrAbortHandler\<close> reaches the server. A handler that
  panics before it has written gives status 500; one that has written keeps its status. A
  request that ends regularly is logged once with the status that was sent, a panic is logged
  once, under the identifier of the outer request, and is not logged as a request.
\<close>

lemma panics_contained:
  assumes "next_handler r (new_writer, lg) = ((w, lg), p)" and "wrote w"
    and "RecoveryMiddleware body (LoggingMiddlewareWithLogger d next_handler) r (new_writer, lg) = ((w', lg'), p')"
  shows "(case p of
      None \<Rightarrow> p' = None \<and> w' = w \<and> (\<exists>line. lg' = lg @ [line] \<and> lg_status line = rw_statusCode w)
    | Some ErrAbortHandler \<Rightarrow> p' = Some ErrAbortHandler \<and> lg' = lg
    | Some (Panic_value v) \<Rightarrow> p' = None \<and> rw_statusCode w' = (if rw_written w then rw_statusCode w else 500) \<and>
        rw_sent w' = [rw_statusCode w'] \<and> (\<exists>line. lg' = lg @ [line] \<and> lg_error line = v \<and> lg_trace_id line = in_RequestID r))"
  using assms
  by (auto simp: RecoveryMiddleware_def LoggingMiddlewareWithLogger_def Let_def pass_through_new WriteHeader_def Write_def wrote_def
      split: option.splits panic.splits)

end
