(* ===== verification/Spec2Isabelle.thy ===== *)
theory Spec2Isabelle
  imports Ledger_Claims Memory_Store Metrics_Registry Config_Claims Dispatcher_Claims Worker_Claims Worker_Outcome Gateway_Claims
    Adapter_Claims Storage_Claims Migration_Claims Runtime_Claims Panic_Recovery
begin

text \<open>
  A verification library for progo-a2a, a gateway that speaks the Agent-to-Agent protocol and
  passes tasks on to agents of several frameworks. Paths below are relative to src/pkg, but for
  cmd/proxy/main.go, which is under src.

  \<^bold>\<open>The program.\<close> An HTTP request passes the middleware (server/middleware.go), is routed
  (server/router.go) to a handler (server/a2a_handler.go, server/rest_handler.go,
  server/health_handler.go), which asks the dispatcher (dispatcher/dispatcher.go) to call an
  agent through its adapter (adapter), with retries and fallback agents, and keeps the response
  in a task store (storage/memory.go or storage/postgres.go). Durable jobs are rows of a PostgreSQL table
  (storage/postgres_jobs.go) which workers lease, execute and finish (worker/worker.go,
  worker/executor.go). The configuration (config) fixes agents, keys, storage and worker;
  a registry (metrics/metrics.go) counts requests, retries, fallbacks and streams. The process
  (cmd/proxy/main.go) runs the server, a worker or both on storage that it builds and closes.

  \<^bold>\<open>Foundations.\<close> Prelude holds the collections of rewrite rules, the lemmas on lists and
  association lists and the locale \<open>preserved\<close> (a predicate kept by every step holds along a
  history), which the ledger, the pool, the shutdown, the storage and the supervisor interpret.
  Go_Strings models Go
  strings as bytes with their reading as runes, trimming and case folding. Go_Errors models
  error values with \<open>errors.Is\<close> and \<open>errors.As\<close>. A2A_Model has the protocol types of model/a2a.go
  and model/error.go. Redaction models how storage/postgres.go removes credentials from
  messages; Redaction_Facts follows the bytes of a redacted message and shows that the bytes
  copied from the message spell no secret of the DSN.

  \<^bold>\<open>Durable jobs.\<close> Job_Model is model/job.go. Job_Ledger is storage/postgres_jobs.go: the
  table of migration 002 is a list of rows, every SQL statement a function on it, every
  operation of \<open>PostgresJobRepository\<close> a definition with its checks, its statement and the
  diagnosis of a miss. The clock, the rows locked by other transactions and the outcome of a
  statement (executed, failed without effect, committed but reported as failed) are
  arguments. Ledger_Spec states the abstract life cycle of a job and the refinement of each
  operation to it; Ledger_Invariant makes the repository a transition system, with one rule
  per operation and arbitrary arguments, and proves its invariant; Ledger_History draws the
  consequences for histories (dead lease tokens stay dead); Ledger_Schema shows that no executed
  statement violates a constraint of the table; Ledger_Behaviour has what an operation does
  to one job; Ledger_Example is a concrete ledger for the witnesses; Ledger_Claims has the
  properties: stale workers are refused, leases are exclusive, finished rows are final,
  creation is idempotent, cancellation is never lost, counters are bounded.

  \<^bold>\<open>Workers.\<close> Job_Executor is worker/executor.go. Worker_Engine is the engine of
  worker/worker.go: one job with its lease renewal, reclamation, and the checks of \<open>Run\<close>.
  Worker_Pool is the polling loop of \<open>Run\<close> with its semaphore and its shutdown, as an inductive
  step relation in which goroutines end and the context is canceled at any moment.
  Worker_Facts shows the protocol that a job follows. Worker_Contract states what a worker
  relies on as the locales \<open>job_repository\<close> and \<open>worker_host\<close>, and proves inside them that a lease
  is executed at most once; Worker_Ledger interprets them on the model of the ledger and of
  the dispatcher. Worker_Claims has the properties. Worker_Outcome follows one leased job through
  the engine, the ledger and the dispatcher to the outcome that its row records. One job is one
  step of an engine: its renewal ticks run one after another, other clients of the database act
  before each call, and what the executor does comes after the last tick.

  \<^bold>\<open>Configuration.\<close> Config_Model is config/config.go and config/loader.go, Config_Validate is
  config/validator.go. Config_Cycles proves that the depth-first search of the validator
  decides acyclicity of the fallback graph. Config_Claims has the properties, among them
  what an accepted configuration promises to the dispatcher and to the worker.

  \<^bold>\<open>Dispatcher.\<close> Dispatcher is dispatcher/dispatcher.go and dispatcher/retry.go with the registry
  of adapter/registry.go. Everything outside (HTTP client, clock, randomness, contexts) is a
  record of operations on a state of the world; an adapter is the record of its methods. A
  trace records calls and events. Dispatcher_Facts and Dispatcher_Claims show that the work
  of a dispatch is bounded, that it ends with a response or a documented error, and that it
  has tried every fallback agent when it fails.

  \<^bold>\<open>Adapters.\<close> Adapter_Base has what the adapters share (requests, credentials, the scanner of
  a streamed response), Agent_Adapters is adapter/openai.go, langgraph.go, crewai.go and
  autogen.go, Custom_Adapter is adapter/custom.go with its JSON paths and its cache of templates.
  Adapter_Facts proves what a stream is once, for a reader given by the meaning of a line
  (locale \<open>stream_reader\<close>, interpreted for the five adapters), and carries it through the
  dispatcher (locale \<open>streaming\<close>). Adapter_Claims has the properties: a streamed reply is one
  error or a start, progress and one end; requests go to the configured endpoint with exactly
  the configured credential; failures of agents become failed tasks with a text.

  \<^bold>\<open>HTTP surface.\<close> Access_Control is server/middleware.go, Gateway the handlers, the router and
  the server-sent events of stream/sse.go. Gateway_Claims has the properties: requests
  without a key are rejected, clients reach and read only what their key allows, and an
  answered task can be read back. The last one is proved for every store with the laws of
  the locale \<open>task_store\<close> of Memory_Store, which both stores interpret. Memory_Store also
  shows that \<open>Save\<close> refines a bounded first-in first-out store. Metrics_Registry is
  metrics/metrics.go, with the text exposition. Panic_Recovery has the two middlewares around
  handlers that panic, the recovery and the request log.

  \<^bold>\<open>PostgreSQL storage.\<close> Postgres_Store is storage/postgres.go: the opening of a pool, the table
  of migration 001 as a list of rows, and the operations of the store, which interprets
  \<open>task_store\<close> with the JSON coding as its view of a response. Storage_Bundle is
  storage/bundle.go and the constructor of the job repository; calls on the bundle and its two
  views, which share one pool, are a step relation. Storage_Claims has the properties: a save is one atomic upsert, a
  failing constructor leaves no pool open and redacts the secrets of the DSN, the shared pool
  lives as long as the bundle. Schema_Migrations is storage/migrations.go, from the names of the files to the
  transaction; Migration_Claims shows that a run is atomic, complete and idempotent.

  \<^bold>\<open>Process.\<close> Runtime is cmd/proxy/main.go and server/server.go: the overrides of the command
  line, the roles with their storage, and the supervision of server and worker as two step
  relations, one of the supervising goroutine and one of everything else. Runtime_Claims has
  the properties: the storage of a started role fails only for reasons of the driver, the
  context or the migrations, and a role returns with its pool closed; the role \<open>all\<close> ends after a signal and hides no failure of a component.

  \<^bold>\<open>Fuel.\<close> Two recursions carry fuel for their depth: the cycle check of the validator and the
  failover of the dispatcher. Both start with the number of configured agents;
  the searches never visit an agent twice, and the properties show that the fuel never runs
  out. The loops over retries and renewal ticks recurse over their bound.

  \<^bold>\<open>Parameters.\<close> SHA-256, JSON and YAML coding, \<open>url.Parse\<close>, the Unicode tables beyond the
  ranges that the code names, float64 arithmetic with its format, the HTTP client, the
  clock, randomness, gjson, the execution of templates, the database driver, the effect of an
  SQL text of a migration and the outcome of every statement are arguments of the definitions
  that use them.

  \<^bold>\<open>Not modelled.\<close> The parsing of flags and signals by the operating system, the listener of
  net/http, redirects of paths that are not in canonical form, and the text of log lines outside
  the request log. The mock agents under src/tests are test support. Mutexes are not modelled:
  a method under a lock is one step, and so is a run of the migrations, which the advisory
  lock of the database serialises.
\<close>

end
